(* ===== verification/Naim_Prelude.thy ===== *)
theory Naim_Prelude
  imports
    Main
    "HOL-Library.Char_ord"
    "HOL-Library.List_Lexorder"
    "HOL-Library.Product_Lexorder"
    "HOL-Library.Multiset"
    "HOL-Library.Code_Target_Nat"
begin

text \<open>
  Shared material of the development: the C++ standard-library behaviour the planning
  code relies on, as executable HOL functions with their laws.

  \<^item> exceptions as values: \<open>cpp_error\<close> (the JSON library's exceptions by their number) and the sum type \<open>'a res\<close>;
  \<^item> \<open>std::string\<close> is \<open>string\<close>, ordered lexicographically by unsigned byte
    (theories \<open>Char_ord\<close> and \<open>List_Lexorder\<close>), with \<open>std::to_string\<close>, prefix and
    substring tests;
  \<^item> \<open>std::map\<close> is an association list kept strictly ascending in its keys, so that
    iteration order is list order; \<open>ordered_map\<close> is its interface;
  \<^item> \<open>std::sort\<close> with a comparator is \<open>std_sort\<close>, and \<open>strict_weak_order\<close> is the
    precondition the C++ standard puts on the comparator.
\<close>

section \<open>Exceptions as values\<close>

datatype cpp_error =
    RuntimeError string
  | InvalidArgument string
  | OutOfRange string
  | JsonError nat

type_synonym 'a res = "cpp_error + 'a"

definition res_bind :: "'a res \<Rightarrow> ('a \<Rightarrow> 'b res) \<Rightarrow> 'b res" where
  "res_bind r f = (case r of Inl e \<Rightarrow> Inl e | Inr x \<Rightarrow> f x)"

fun res_map_list :: "('a \<Rightarrow> 'b res) \<Rightarrow> 'a list \<Rightarrow> 'b list res" where
  "res_map_list f [] = Inr []"
| "res_map_list f (x # xs) =
     res_bind (f x) (\<lambda>y. res_bind (res_map_list f xs) (\<lambda>ys. Inr (y # ys)))"

lemma res_bind_simps [simp]:
  "res_bind (Inl e) f = Inl e"
  "res_bind (Inr x) f = f x"
  by (simp_all add: res_bind_def)

lemma res_bind_Inr_iff: "res_bind r f = Inr y \<longleftrightarrow> (\<exists>x. r = Inr x \<and> f x = Inr y)"
  by (cases r) auto

lemma res_bind_Inl_iff:
  "res_bind r f = Inl e \<longleftrightarrow> r = Inl e \<or> (\<exists>x. r = Inr x \<and> f x = Inl e)"
  by (cases r) auto

lemma res_map_list_Inr_iff:
  "res_map_list f xs = Inr ys \<longleftrightarrow> list_all2 (\<lambda>x y. f x = Inr y) xs ys"
proof (induction xs arbitrary: ys)
  case Nil
  then show ?case by auto
next
  case (Cons x xs)
  then show ?case
    by (cases ys) (auto simp: res_bind_Inr_iff)
qed

lemma res_map_list_total:
  "(\<And>x. x \<in> set xs \<Longrightarrow> \<exists>y. f x = Inr y) \<Longrightarrow> \<exists>ys. res_map_list f xs = Inr ys"
proof (induction xs)
  case (Cons x xs)
  then obtain y ys where "f x = Inr y" "res_map_list f xs = Inr ys"
    by (metis list.set_intros)
  then show ?case by simp
qed simp

section \<open>Optional values\<close>

text \<open>\<open>std::optional\<close>: \<open>value_or\<close> and \<open>has_value\<close>.\<close>

definition value_or :: "'a option \<Rightarrow> 'a \<Rightarrow> 'a" where
  "value_or v d = (case v of None \<Rightarrow> d | Some x \<Rightarrow> x)"

definition has_value :: "'a option \<Rightarrow> bool" where
  "has_value v \<longleftrightarrow> v \<noteq> None"

section \<open>Strings\<close>

definition digit_char :: "nat \<Rightarrow> char" where
  "digit_char d = ''0123456789'' ! d"

fun show_nat :: "nat \<Rightarrow> string" where
  "show_nat n = (if n < 10 then [digit_char n] else show_nat (n div 10) @ [digit_char (n mod 10)])"

declare show_nat.simps [simp del]

text \<open>\<open>std::to_string\<close> on \<open>int\<close>, \<open>long long\<close> and \<open>size_t\<close>.\<close>

definition to_string :: "int \<Rightarrow> string" where
  "to_string i = (if i < 0 then CHR ''-'' # show_nat (nat (- i)) else show_nat (nat i))"

text \<open>\<open>s.rfind(p, 0) == 0\<close> and \<open>s.find(needle) != npos\<close>.\<close>

definition starts_with :: "string \<Rightarrow> string \<Rightarrow> bool" where
  "starts_with p s \<longleftrightarrow> take (length p) s = p"

fun contains_substring :: "string \<Rightarrow> string \<Rightarrow> bool" where
  "contains_substring needle [] = (needle = [])"
| "contains_substring needle (c # cs) =
     (starts_with needle (c # cs) \<or> contains_substring needle cs)"

fun JoinStrings :: "string list \<Rightarrow> string \<Rightarrow> string" where
  "JoinStrings [] delimiter = []"
| "JoinStrings [v] delimiter = v"
| "JoinStrings (v # w # values) delimiter = v @ delimiter @ JoinStrings (w # values) delimiter"

text \<open>A string between single quotes, as the error messages print names.\<close>

definition quoted :: "string \<Rightarrow> string" where
  "quoted s = CHR 0x27 # s @ [CHR 0x27]"

text \<open>Lines of rendered output end in a newline.\<close>

definition newline :: string where
  "newline = [CHR 0x0A]"

lemma starts_with_iff: "starts_with p s \<longleftrightarrow> (\<exists>t. s = p @ t)"
  by (metis append_eq_conv_conj append_take_drop_id starts_with_def)

lemma contains_substring_iff: "contains_substring n s \<longleftrightarrow> (\<exists>a b. s = a @ n @ b)"
proof (induction s)
  case Nil
  then show ?case by simp
next
  case (Cons c cs)
  have "(\<exists>a b. c # cs = a @ n @ b) \<longleftrightarrow>
      (\<exists>b. c # cs = n @ b) \<or> (\<exists>a b. cs = a @ n @ b)" (is "?l \<longleftrightarrow> ?r")
  proof
    assume ?l
    then obtain a b where "c # cs = a @ n @ b" by blast
    then show ?r by (cases a) auto
  next
    assume ?r
    then show ?l by (metis append_Cons append_Nil)
  qed
  then show ?case
    using Cons.IH by (simp add: starts_with_iff)
qed

lemma of_char_digit_char:
  assumes "d < 10"
  shows "of_char (digit_char d) = (48 + d :: nat)"
proof -
  from assms have "d \<in> {0, 1, 2, 3, 4, 5, 6, 7, 8, 9}" by auto
  then show ?thesis by (auto simp: digit_char_def)
qed

lemma digit_char_inject: "d < 10 \<Longrightarrow> e < 10 \<Longrightarrow> digit_char d = digit_char e \<longleftrightarrow> d = e"
  by (metis add_left_cancel of_char_digit_char)

lemma digit_char_range: "d < 10 \<Longrightarrow> digit_char d \<in> set ''0123456789''"
  unfolding digit_char_def by (rule nth_mem) simp

lemma show_nat_digits: "set (show_nat n) \<subseteq> set ''0123456789''"
proof (induction n rule: show_nat.induct)
  case (1 n)
  show ?case
  proof (cases "n < 10")
    case True
    then show ?thesis
      using digit_char_range[of n] by (subst show_nat.simps) simp
  next
    case False
    have "digit_char (n mod 10) \<in> set ''0123456789''"
      by (rule digit_char_range) simp
    with False "1.IH" show ?thesis
      by (subst show_nat.simps) auto
  qed
qed

lemma show_nat_nonempty [simp]: "show_nat n \<noteq> []"
  by (subst show_nat.simps) simp

text \<open>The decimal value of a digit string: a left inverse of \<open>show_nat\<close>.\<close>

definition digits_value :: "string \<Rightarrow> nat" where
  "digits_value s = foldl (\<lambda>acc c. 10 * acc + (of_char c - 48)) 0 s"

lemma digits_value_show_nat: "digits_value (show_nat n) = n"
proof (induction n rule: show_nat.induct)
  case (1 n)
  show ?case
  proof (cases "n < 10")
    case True
    then show ?thesis
      by (subst show_nat.simps) (simp add: digits_value_def of_char_digit_char)
  next
    case False
    have "digits_value (show_nat n)
        = 10 * digits_value (show_nat (n div 10)) + (of_char (digit_char (n mod 10)) - 48)"
      using False by (subst show_nat.simps) (simp add: digits_value_def)
    also have "\<dots> = 10 * (n div 10) + n mod 10"
      using False "1.IH" by (simp add: of_char_digit_char)
    finally show ?thesis by simp
  qed
qed

lemma show_nat_inject [simp]: "show_nat m = show_nat n \<longleftrightarrow> m = n"
  by (metis digits_value_show_nat)

lemma show_nat_no_minus: "CHR ''-'' \<notin> set (show_nat n)"
  using show_nat_digits[of n] by auto

lemma to_string_inject [simp]: "to_string i = to_string j \<longleftrightarrow> i = j"
proof
  assume eq: "to_string i = to_string j"
  have minus: "\<And>m t. show_nat m \<noteq> CHR ''-'' # t"
    by (metis list.set_intros(1) show_nat_no_minus)
  show "i = j"
    using eq minus minus[symmetric]
    by (auto simp: to_string_def split: if_splits)
qed simp

section \<open>Ordered maps\<close>

text \<open>
  \<open>std::map<K, V>\<close>: \<open>omap_put\<close> is \<open>m[k] = v\<close>, \<open>omap_emplace\<close> is \<open>m.emplace(k, v)\<close>
  (no effect on a present key), \<open>omap_erase\<close> is \<open>m.erase(k)\<close> and \<open>omap_modify\<close> updates the reference \<open>m[k]\<close>, which is
  value-initialised when the key is absent.
\<close>

type_synonym ('k, 'v) omap = "('k \<times> 'v) list"

fun omap_put :: "'k::linorder \<Rightarrow> 'v \<Rightarrow> ('k, 'v) omap \<Rightarrow> ('k, 'v) omap" where
  "omap_put k v [] = [(k, v)]"
| "omap_put k v (e # m) =
     (if fst e = k then (k, v) # m
      else if k < fst e then (k, v) # e # m
      else e # omap_put k v m)"

abbreviation omap_get :: "('k, 'v) omap \<Rightarrow> 'k \<Rightarrow> 'v option" where
  "omap_get \<equiv> map_of"

definition omap_emplace :: "'k::linorder \<Rightarrow> 'v \<Rightarrow> ('k, 'v) omap \<Rightarrow> ('k, 'v) omap" where
  "omap_emplace k v m = (case omap_get m k of None \<Rightarrow> omap_put k v m | Some _ \<Rightarrow> m)"

definition omap_modify :: "'k::linorder \<Rightarrow> 'v \<Rightarrow> ('v \<Rightarrow> 'v) \<Rightarrow> ('k, 'v) omap \<Rightarrow> ('k, 'v) omap" where
  "omap_modify k init f m =
     omap_put k (f (case omap_get m k of None \<Rightarrow> init | Some v \<Rightarrow> v)) m"

definition omap_erase :: "'k \<Rightarrow> ('k, 'v) omap \<Rightarrow> ('k, 'v) omap" where
  "omap_erase k m = filter (\<lambda>e. fst e \<noteq> k) m"

definition omap_ok :: "('k::linorder, 'v) omap \<Rightarrow> bool" where
  "omap_ok m \<longleftrightarrow> sorted_wrt (<) (map fst m)"

lemma omap_ok_Nil [simp]: "omap_ok []"
  by (simp add: omap_ok_def)

lemma omap_get_put [simp]: "omap_get (omap_put k v m) = (omap_get m)(k \<mapsto> v)"
  by (induction m) (auto simp: fun_eq_iff)

lemma keys_omap_put: "fst ` set (omap_put k v m) = insert k (fst ` set m)"
  by (induction m) auto

lemma omap_ok_put [simp]: "omap_ok m \<Longrightarrow> omap_ok (omap_put k v m)"
proof (induction m)
  case (Cons e m)
  then have "\<forall>x \<in> fst ` set (omap_put k v m). x = k \<or> fst e < x"
    by (auto simp: keys_omap_put omap_ok_def)
  with Cons show ?case
    by (auto simp: omap_ok_def)
qed (simp add: omap_ok_def)

lemma omap_get_erase [simp]: "omap_get (omap_erase k m) = (omap_get m)(k := None)"
  by (induction m) (auto simp: omap_erase_def fun_eq_iff)

lemma omap_ok_erase [simp]: "omap_ok m \<Longrightarrow> omap_ok (omap_erase k m)"
  by (induction m) (auto simp: omap_ok_def omap_erase_def)

lemma omap_ok_distinct: "omap_ok m \<Longrightarrow> distinct (map fst m)"
  unfolding omap_ok_def by (simp add: strict_sorted_iff)

lemma omap_ok_sorted: "omap_ok m \<Longrightarrow> sorted (map fst m)"
  unfolding omap_ok_def by (rule strict_sorted_imp_sorted)

lemma omap_get_eq_Some: "omap_ok m \<Longrightarrow> omap_get m k = Some v \<longleftrightarrow> (k, v) \<in> set m"
  by (rule map_of_eq_Some_iff) (rule omap_ok_distinct)

lemma omap_get_eq_None: "omap_get m k = None \<longleftrightarrow> k \<notin> fst ` set m"
  by (rule map_of_eq_None_iff)

text \<open>Two ordered maps with the same lookups are the same list.\<close>

lemma omap_eqI:
  assumes "omap_ok m" "omap_ok n" "omap_get m = omap_get n"
  shows "m = n"
proof -
  have "set m = set n"
    using assms omap_get_eq_Some[OF assms(1)] omap_get_eq_Some[OF assms(2)]
    by (metis subrelI subset_antisym)
  then have "map fst m = map fst n"
    using assms(1,2) unfolding omap_ok_def
    by (metis set_map strict_sorted_equal)
  moreover have "inj_on fst (set m \<union> set n)"
    using \<open>set m = set n\<close> omap_ok_distinct[OF assms(1)] by (simp add: distinct_map)
  ultimately show ?thesis by (rule map_inj_on)
qed

lemma omap_get_modify [simp]:
  "omap_get (omap_modify k i f m) = (omap_get m)(k \<mapsto> f (value_or (omap_get m k) i))"
  by (simp add: omap_modify_def value_or_def)

lemma omap_ok_modify [simp]: "omap_ok m \<Longrightarrow> omap_ok (omap_modify k i f m)"
  by (simp add: omap_modify_def)

lemma omap_ok_fold_modify:
  "omap_ok m \<Longrightarrow> omap_ok (fold (\<lambda>x. omap_modify (key x) i (f x)) xs m)"
  by (induction xs arbitrary: m) simp_all

text \<open>A loop that updates \<open>m[key(x)]\<close> per item folds the items of each key in order.\<close>

lemma omap_get_fold_modify:
  "omap_get (fold (\<lambda>x. omap_modify (key x) i (f x)) xs m) k =
     (if \<exists>x \<in> set xs. key x = k
      then Some (fold f (filter (\<lambda>x. key x = k) xs) (value_or (omap_get m k) i))
      else omap_get m k)"
proof (induction xs rule: rev_induct)
  case (snoc x xs)
  then show ?case by (auto simp: value_or_def)
qed simp

lemma omap_get_fold_emplace:
  "omap_get (fold (\<lambda>x. omap_emplace (key x) (val x)) xs m) k =
     (case omap_get m k of Some v \<Rightarrow> Some v | None \<Rightarrow> map_option val (find (\<lambda>x. key x = k) xs))"
  by (induction xs arbitrary: m) (auto simp: omap_emplace_def split: option.splits)

text \<open>
  The interface the clients of \<open>std::map\<close> rely on: lookup after insertion, and iteration
  in ascending key order over exactly the stored pairs.
\<close>

locale ordered_map =
  fixes empty_map :: "'m"
    and put :: "'k::linorder \<Rightarrow> 'v \<Rightarrow> 'm \<Rightarrow> 'm"
    and get :: "'m \<Rightarrow> 'k \<Rightarrow> 'v option"
    and entries :: "'m \<Rightarrow> ('k \<times> 'v) list"
    and ok :: "'m \<Rightarrow> bool"
  assumes ok_empty: "ok empty_map"
    and get_empty: "get empty_map k = None"
    and ok_put: "ok m \<Longrightarrow> ok (put k v m)"
    and get_put: "ok m \<Longrightarrow> get (put k v m) = (get m)(k \<mapsto> v)"
    and entries_ascending: "ok m \<Longrightarrow> sorted_wrt (<) (map fst (entries m))"
    and entries_get: "ok m \<Longrightarrow> (k, v) \<in> set (entries m) \<longleftrightarrow> get m k = Some v"
begin

lemma ok_build: "ok m \<Longrightarrow> ok (fold (\<lambda>x. put (key x) (val x)) xs m)"
  by (induction xs arbitrary: m) (simp_all add: ok_put)

text \<open>A map built by a loop of assignments holds, per key, the last item written.\<close>

lemma get_build:
  "ok m \<Longrightarrow> get (fold (\<lambda>x. put (key x) (val x)) xs m) k =
     (case find (\<lambda>x. key x = k) (rev xs) of None \<Rightarrow> get m k | Some x \<Rightarrow> Some (val x))"
proof (induction xs rule: rev_induct)
  case (snoc x xs)
  then show ?case
    by (simp add: ok_build get_put)
qed simp

lemma keys_build:
  assumes "ok m"
  shows "get (fold (\<lambda>x. put (key x) (val x)) xs m) k = None
    \<longleftrightarrow> get m k = None \<and> k \<notin> key ` set xs"
  using assms by (induction xs rule: rev_induct) (auto simp: ok_build get_put)

lemma entries_distinct: "ok m \<Longrightarrow> distinct (map fst (entries m))"
  using entries_ascending[of m] by (simp add: strict_sorted_iff)

end

interpretation om: ordered_map "[] :: ('k::linorder, 'v) omap" omap_put omap_get "\<lambda>m. m" omap_ok
  by unfold_locales (simp_all add: omap_get_eq_Some, simp add: omap_ok_def)

section \<open>Sorting with a comparator\<close>

text \<open>
  \<open>std::sort\<close> takes a strict weak order and leaves the order of equivalent elements
  unspecified. \<open>std_sort\<close> is one implementation, the stable one; what the clients may
  use of it is in \<open>strict_weak_order\<close>: the result is a permutation of the input in
  which no element precedes one that the comparator puts before it.
\<close>

fun sort_insert :: "('a \<Rightarrow> 'a \<Rightarrow> bool) \<Rightarrow> 'a \<Rightarrow> 'a list \<Rightarrow> 'a list" where
  "sort_insert lt x [] = [x]"
| "sort_insert lt x (y # ys) = (if lt y x then y # sort_insert lt x ys else x # y # ys)"

definition std_sort :: "('a \<Rightarrow> 'a \<Rightarrow> bool) \<Rightarrow> 'a list \<Rightarrow> 'a list" where
  "std_sort lt xs = foldr (sort_insert lt) xs []"

lemma mset_sort_insert: "mset (sort_insert lt x ys) = add_mset x (mset ys)"
  by (induction ys) auto

lemma mset_std_sort [simp]: "mset (std_sort lt xs) = mset xs"
  by (induction xs) (simp_all add: std_sort_def mset_sort_insert)

lemma set_std_sort [simp]: "set (std_sort lt xs) = set xs"
  by (rule mset_eq_setD) simp

lemma length_std_sort [simp]: "length (std_sort lt xs) = length xs"
  by (rule mset_eq_length) simp

lemma std_sort_Nil_iff [simp]: "std_sort lt xs = [] \<longleftrightarrow> xs = []"
  by (metis length_0_conv length_std_sort)

lemma distinct_map_std_sort [simp]: "distinct (map f (std_sort lt xs)) \<longleftrightarrow> distinct (map f xs)"
  by (rule mset_eq_imp_distinct_iff) simp

lemma sort_insert_cong:
  "(\<And>y. y \<in> set ys \<Longrightarrow> lt y x = lt' y x) \<Longrightarrow> sort_insert lt x ys = sort_insert lt' x ys"
  by (induction ys) auto

lemma std_sort_cong:
  "(\<And>x y. x \<in> set xs \<Longrightarrow> y \<in> set xs \<Longrightarrow> lt x y = lt' x y) \<Longrightarrow> std_sort lt xs = std_sort lt' xs"
proof (induction xs)
  case (Cons x xs)
  then have "std_sort lt xs = std_sort lt' xs" by simp
  moreover have "sort_insert lt x (std_sort lt' xs) = sort_insert lt' x (std_sort lt' xs)"
    by (rule sort_insert_cong) (simp add: Cons.prems)
  ultimately show ?case by (simp add: std_sort_def)
qed (simp add: std_sort_def)

locale strict_weak_order =
  fixes lt :: "'a \<Rightarrow> 'a \<Rightarrow> bool"
  assumes lt_irrefl: "\<not> lt x x"
    and lt_trans: "lt x y \<Longrightarrow> lt y z \<Longrightarrow> lt x z"
    and lt_cotrans: "lt x z \<Longrightarrow> lt x y \<or> lt y z"
begin

lemma lt_asym: "lt x y \<Longrightarrow> \<not> lt y x"
  using lt_irrefl lt_trans by blast

lemma sort_insert_ordered:
  "sorted_wrt (\<lambda>a b. \<not> lt b a) ys \<Longrightarrow> sorted_wrt (\<lambda>a b. \<not> lt b a) (sort_insert lt x ys)"
proof (induction ys)
  case (Cons y ys)
  have set_ins: "set (sort_insert lt x ys) = insert x (set ys)"
    by (metis mset_sort_insert set_mset_add_mset_insert set_mset_mset)
  show ?case
  proof (cases "lt y x")
    case True
    with Cons set_ins show ?thesis by (auto dest: lt_asym)
  next
    case False
    have "\<not> lt b x" if "b \<in> set ys" for b
      using that False Cons.prems lt_cotrans[of b x y] by auto
    with False Cons.prems show ?thesis by simp
  qed
qed simp

lemma std_sort_ordered: "sorted_wrt (\<lambda>a b. \<not> lt b a) (std_sort lt xs)"
  by (induction xs) (simp_all add: std_sort_def sort_insert_ordered)

lemma std_sort_head:
  assumes "std_sort lt xs = y # ys" and "x \<in> set xs"
  shows "\<not> lt x y"
proof -
  have "x \<in> set (y # ys)"
    using assms by (metis set_std_sort)
  then show ?thesis
    using std_sort_ordered[of xs] assms(1) lt_irrefl by auto
qed

end

text \<open>Comparators that compare one key of the elements.\<close>

locale key_comparator =
  fixes key :: "'a \<Rightarrow> 'b::linorder" and lt :: "'a \<Rightarrow> 'a \<Rightarrow> bool"
  assumes lt_key: "lt x y \<longleftrightarrow> key x < key y"

sublocale key_comparator \<subseteq> strict_weak_order lt
  by unfold_locales (auto simp: lt_key)

context key_comparator
begin

lemma std_sort_by_key: "sorted (map key (std_sort lt xs))"
proof -
  have "sorted_wrt (\<lambda>a b. key a \<le> key b) (std_sort lt xs)"
    using std_sort_ordered[of xs] by (simp add: lt_key not_less)
  then show ?thesis by (simp add: sorted_wrt_map)
qed

end

end
