(* ===== verification/Naim_Double.thy ===== *)
theory Naim_Double
  imports
    Complex_Main
    "HOL-Library.Log_Nat"
    Naim_Prelude
begin

text \<open>
  C++ \<open>double\<close> values and the operations the planning code applies to them.

  A finite \<open>double\<close> is modelled by the rational number it denotes, and each arithmetic
  operation of the code is the exact rational operation followed by \<open>fl\<close>, rounding to the
  nearest number with a 53-bit significand, ties to even (IEEE 754 binary64, the default
  rounding mode). The exponent range is not bounded here: the planning code adds and
  subtracts GPU fractions, and sums and differences of doubles are exact in the subnormal
  range, so the only values on which the model departs from binary64 are overflows beyond
  \<open>2^1024\<close> and NaN, neither of which a fraction that passed validation can reach.
\<close>

type_synonym double = rat

section \<open>Rounding\<close>

text \<open>The binary exponent \<open>e\<close> of \<open>x > 0\<close>: \<open>2^e \<le> x < 2^(e+1)\<close>.\<close>

definition bin_exponent :: "rat \<Rightarrow> int" where
  "bin_exponent x =
     (let n = nat (fst (quotient_of x)); d = nat (snd (quotient_of x));
          k = int (floorlog 2 n) - int (floorlog 2 d)
      in if (2::rat) powi k \<le> x then k else k - 1)"

definition round_half_even :: "rat \<Rightarrow> int" where
  "round_half_even x =
     (let f = \<lfloor>x\<rfloor>; r = x - of_int f
      in if r < 1 / 2 then f
         else if r > 1 / 2 then f + 1
         else if even f then f else f + 1)"

definition fl :: "rat \<Rightarrow> double" where
  "fl x =
     (if x = 0 then 0
      else let u = (2::rat) powi (bin_exponent \<bar>x\<bar> - 52)
           in of_int (round_half_even (x / u)) * u)"

definition dadd :: "double \<Rightarrow> double \<Rightarrow> double" where "dadd x y = fl (x + y)"
definition dsub :: "double \<Rightarrow> double \<Rightarrow> double" where "dsub x y = fl (x - y)"
definition dmul :: "double \<Rightarrow> double \<Rightarrow> double" where "dmul x y = fl (x * y)"

text \<open>\<open>static_cast<int>(double)\<close> truncates towards zero.\<close>

definition double_to_int :: "double \<Rightarrow> int" where
  "double_to_int x = (if x < 0 then \<lceil>x\<rceil> else \<lfloor>x\<rfloor>)"

lemma pow2_le_iff: "(2::rat) powi i \<le> 2 powi j \<longleftrightarrow> i \<le> j"
  by (meson linorder_le_less_linear not_less one_less_numeral_iff power_int_increasing
      power_int_strict_increasing one_le_numeral semiring_norm(76))

lemma pow2_less_iff: "(2::rat) powi i < 2 powi j \<longleftrightarrow> i < j"
  by (simp add: pow2_le_iff flip: not_le)

lemma floorlog2_powi_bounds:
  assumes "n > 0"
  shows "(2::rat) powi (int (floorlog 2 n) - 1) \<le> of_nat n"
    and "(of_nat n :: rat) < 2 powi int (floorlog 2 n)"
proof -
  have bounds: "2 ^ (floorlog 2 n - 1) \<le> n" "n < 2 ^ floorlog 2 n"
    using floorlog_bounds[of n 2] assms by auto
  have pos: "floorlog 2 n > 0"
    using floorlog_eq_zero_iff[of 2 n] assms by auto
  have "(2::rat) powi (int (floorlog 2 n) - 1) = 2 ^ (floorlog 2 n - 1)"
    using pos by (simp add: power_int_def nat_diff_distrib)
  also have "\<dots> \<le> of_nat n"
    using bounds(1) by (metis of_nat_le_iff of_nat_numeral of_nat_power)
  finally show "(2::rat) powi (int (floorlog 2 n) - 1) \<le> of_nat n" .
  show "(of_nat n :: rat) < 2 powi int (floorlog 2 n)"
    using bounds(2) by (metis of_nat_less_iff of_nat_numeral of_nat_power power_int_of_nat)
qed

lemma bin_exponent_bounds:
  assumes "x > 0"
  shows "(2::rat) powi bin_exponent x \<le> x" and "x < 2 powi (bin_exponent x + 1)"
proof -
  define n where "n = nat (fst (quotient_of x))"
  define d where "d = nat (snd (quotient_of x))"
  define k where "k = int (floorlog 2 n) - int (floorlog 2 d)"
  obtain a b where q: "quotient_of x = (a, b)" by force
  have b: "b > 0" using q by (rule quotient_of_denom_pos)
  have x: "x = of_int a / of_int b" using q by (rule quotient_of_div)
  have a: "a > 0" using x b assms by (simp add: zero_less_divide_iff)
  have n: "n > 0" "of_nat n = (of_int a :: rat)" and d: "d > 0" "of_nat d = (of_int b :: rat)"
    using a b q by (simp_all add: n_def d_def)
  have xnd: "x = of_nat n / of_nat d" using x n d by simp
  note fn = floorlog2_powi_bounds[OF n(1)] and fd = floorlog2_powi_bounds[OF d(1)]
  have lo: "(2::rat) powi (k - 1) \<le> x"
  proof -
    have "(2::rat) powi (k - 1) = 2 powi (int (floorlog 2 n) - 1) / 2 powi int (floorlog 2 d)"
      by (subst power_int_diff[symmetric]) (simp_all add: k_def algebra_simps)
    also have "\<dots> \<le> of_nat n / of_nat d"
      using fn(1) fd(2) d(1) by (intro frac_le) auto
    finally show ?thesis using xnd by simp
  qed
  have hi: "x < 2 powi (k + 1)"
  proof -
    have "x < 2 powi int (floorlog 2 n) / 2 powi (int (floorlog 2 d) - 1)"
      unfolding xnd using fn(2) fd(1) by (intro frac_less) auto
    also have "\<dots> = 2 powi (k + 1)"
      by (subst power_int_diff[symmetric]) (simp_all add: k_def algebra_simps)
    finally show ?thesis .
  qed
  have be: "bin_exponent x = (if (2::rat) powi k \<le> x then k else k - 1)"
    by (simp add: bin_exponent_def Let_def n_def d_def k_def)
  show "(2::rat) powi bin_exponent x \<le> x" and "x < 2 powi (bin_exponent x + 1)"
    using lo hi by (auto simp: be not_le)
qed

lemma bin_exponent_unique:
  assumes "(2::rat) powi e \<le> x" "x < 2 powi (e + 1)"
  shows "bin_exponent x = e"
proof -
  have "x > 0" using assms(1) by (rule less_le_trans[rotated]) simp
  note b = bin_exponent_bounds[OF this]
  have "(2::rat) powi e < 2 powi (bin_exponent x + 1)" "(2::rat) powi bin_exponent x < 2 powi (e + 1)"
    using assms b by linarith+
  then have "e < bin_exponent x + 1" "bin_exponent x < e + 1"
    by (simp_all add: pow2_less_iff)
  then show ?thesis by simp
qed

lemma bin_exponent_mono:
  assumes "0 < x" "x \<le> y"
  shows "bin_exponent x \<le> bin_exponent y"
proof -
  have "(2::rat) powi bin_exponent x < 2 powi (bin_exponent y + 1)"
    using bin_exponent_bounds(1)[of x] bin_exponent_bounds(2)[of y] assms by linarith
  then show ?thesis by (simp add: pow2_less_iff)
qed

lemma round_half_even_of_int [simp]: "round_half_even (of_int i) = i"
  by (simp add: round_half_even_def)

lemma round_half_even_mono: "x \<le> y \<Longrightarrow> round_half_even x \<le> round_half_even y"
proof -
  assume le: "x \<le> y"
  then have f: "\<lfloor>x\<rfloor> \<le> \<lfloor>y\<rfloor>" by (rule floor_mono)
  show ?thesis
  proof (cases "\<lfloor>x\<rfloor> = \<lfloor>y\<rfloor>")
    case True
    with le show ?thesis by (auto simp: round_half_even_def Let_def)
  next
    case False
    with f have "\<lfloor>x\<rfloor> + 1 \<le> \<lfloor>y\<rfloor>" by simp
    then show ?thesis by (auto simp: round_half_even_def Let_def)
  qed
qed

lemma round_half_even_minus: "round_half_even (- x) = - round_half_even x"
proof (cases "x = of_int \<lfloor>x\<rfloor>")
  case True
  then have "round_half_even x = \<lfloor>x\<rfloor>" "round_half_even (- x) = - \<lfloor>x\<rfloor>"
    by (metis round_half_even_of_int, metis of_int_minus round_half_even_of_int)
  then show ?thesis by simp
next
  case False
  then have "\<lfloor>- x\<rfloor> = - \<lfloor>x\<rfloor> - 1"
    by (auto simp: floor_minus ceiling_altdef)
  then show ?thesis
    by (auto simp: round_half_even_def Let_def)
qed

lemma round_half_even_error: "\<bar>of_int (round_half_even x) - x\<bar> \<le> 1 / 2"
proof -
  have "of_int \<lfloor>x\<rfloor> \<le> x" "x < of_int \<lfloor>x\<rfloor> + 1" by linarith+
  then show ?thesis
    unfolding round_half_even_def Let_def abs_if by (auto simp: field_simps; linarith)
qed

section \<open>Laws of rounding\<close>

lemma fl_0 [simp]: "fl 0 = 0"
  by (simp add: fl_def)

lemma fl_minus: "fl (- x) = - fl x"
  by (simp add: fl_def Let_def round_half_even_minus)

text \<open>Rounding stays inside the binade of its argument.\<close>

lemma fl_binade:
  assumes "x > 0"
  shows "2 powi bin_exponent x \<le> fl x" and "fl x \<le> 2 powi (bin_exponent x + 1)"
proof -
  define e where "e = bin_exponent x"
  define u where "u = (2::rat) powi (e - 52)"
  have u: "u > 0" by (simp add: u_def)
  have flx: "fl x = of_int (round_half_even (x / u)) * u"
    using assms by (simp add: fl_def Let_def e_def u_def)
  have p52: "(2::rat) powi e = of_int (2 ^ 52) * u" and p53: "(2::rat) powi (e + 1) = of_int (2 ^ 53) * u"
    by (simp_all add: u_def power_int_diff power_int_add)
  have "of_int (2 ^ 52) \<le> x / u" "x / u \<le> of_int (2 ^ 53)"
    using bin_exponent_bounds[OF assms] u p52 p53 unfolding e_def[symmetric]
    by (simp_all add: pos_le_divide_eq pos_divide_le_eq less_imp_le)
  then have "2 ^ 52 \<le> round_half_even (x / u)" "round_half_even (x / u) \<le> 2 ^ 53"
    by (metis round_half_even_mono round_half_even_of_int)+
  then have "of_int (2 ^ 52) \<le> (of_int (round_half_even (x / u)) :: rat)"
      "(of_int (round_half_even (x / u)) :: rat) \<le> of_int (2 ^ 53)"
    by (simp_all only: of_int_le_iff)
  then show "2 powi bin_exponent x \<le> fl x" "fl x \<le> 2 powi (bin_exponent x + 1)"
    unfolding e_def[symmetric] flx p52 p53 using u by (simp_all only: mult_right_mono less_imp_le)
qed

lemma fl_pos: "x > 0 \<Longrightarrow> fl x > 0"
  using fl_binade(1)[of x] by (rule less_le_trans[rotated]) simp_all

lemma fl_nonneg: "x \<ge> 0 \<Longrightarrow> fl x \<ge> 0"
  using fl_pos[of x] by (cases "x = 0") auto

lemma fl_mono_pos:
  assumes "0 < x" "x \<le> y"
  shows "fl x \<le> fl y"
proof (cases "bin_exponent x = bin_exponent y")
  case True
  define u where "u = (2::rat) powi (bin_exponent y - 52)"
  have "x / u \<le> y / u"
    using assms by (simp add: u_def divide_right_mono)
  then have "round_half_even (x / u) \<le> round_half_even (y / u)"
    by (rule round_half_even_mono)
  with assms True show ?thesis
    by (simp add: fl_def Let_def u_def mult_right_mono)
next
  case False
  with bin_exponent_mono[OF assms] have "bin_exponent x + 1 \<le> bin_exponent y" by simp
  then have "(2::rat) powi (bin_exponent x + 1) \<le> 2 powi bin_exponent y"
    by (simp add: pow2_le_iff)
  with fl_binade(2)[of x] fl_binade(1)[of y] assms show ?thesis by linarith
qed

lemma fl_mono: "x \<le> y \<Longrightarrow> fl x \<le> fl y"
proof -
  assume le: "x \<le> y"
  consider "0 < x" | "x \<le> 0" "0 \<le> y" | "y < 0" by linarith
  then show ?thesis
  proof cases
    case 1
    then show ?thesis using le by (rule fl_mono_pos)
  next
    case 2
    then have "0 \<le> fl (- x)" "0 \<le> fl y" by (simp_all add: fl_nonneg)
    then show ?thesis by (simp add: fl_minus)
  next
    case 3
    with le have "fl (- y) \<le> fl (- x)" by (intro fl_mono_pos) simp_all
    then show ?thesis by (simp add: fl_minus)
  qed
qed

text \<open>The numbers a \<open>double\<close> can hold; rounding is the identity on them.\<close>

definition is_double :: "rat \<Rightarrow> bool" where
  "is_double x \<longleftrightarrow> (\<exists>m k. x = of_int m * 2 powi k \<and> \<bar>m\<bar> < 2 ^ 53)"

lemma is_doubleI: "x = of_int m * 2 powi k \<Longrightarrow> \<bar>m\<bar> < 2 ^ 53 \<Longrightarrow> is_double x"
  unfolding is_double_def by blast

lemma is_double_minus: "is_double x \<Longrightarrow> is_double (- x)"
  unfolding is_double_def by (metis abs_minus_cancel mult_minus_left of_int_minus)

lemma fl_exact_pos:
  assumes "x > 0" "is_double x"
  shows "fl x = x"
proof -
  obtain m k where x: "x = of_int m * 2 powi k" and m: "\<bar>m\<bar> < 2 ^ 53"
    using assms(2) unfolding is_double_def by blast
  define e where "e = bin_exponent x"
  have "(of_int m :: rat) < of_int (2 ^ 53)" using m by (simp only: of_int_less_iff)
  then have "x < of_int (2 ^ 53) * 2 powi k" unfolding x by (intro mult_strict_right_mono) simp_all
  also have "\<dots> = 2 powi (k + 53)" by (simp add: power_int_add)
  finally have "(2::rat) powi e < 2 powi (k + 53)"
    using bin_exponent_bounds(1)[OF assms(1)] by (simp add: e_def)
  then have k: "e - 52 \<le> k" by (simp add: pow2_less_iff)
  define u where "u = (2::rat) powi (e - 52)"
  define n where "n = m * 2 ^ nat (k - (e - 52))"
  have u: "u \<noteq> 0" by (simp add: u_def)
  have "x = of_int m * (2 powi (k - (e - 52)) * u)"
    unfolding x u_def by (simp flip: power_int_add)
  then have xn: "x = of_int n * u"
    using k by (simp add: n_def power_int_def)
  have "fl x = of_int (round_half_even (x / u)) * u"
    using assms(1) unfolding u_def e_def by (simp add: fl_def Let_def)
  also have "x / u = of_int n" using xn u by simp
  finally show ?thesis using xn by simp
qed

lemma fl_exact: "is_double x \<Longrightarrow> fl x = x"
  by (metis fl_0 fl_exact_pos fl_minus is_double_minus linorder_neqE_linordered_idom minus_minus
      neg_0_less_iff_less)

lemma is_double_of_int: "\<bar>m\<bar> < 2 ^ 53 \<Longrightarrow> is_double (of_int m)"
  by (rule is_doubleI[of _ m 0]) simp_all

lemma fl_1 [simp]: "fl 1 = 1"
  using fl_exact[OF is_double_of_int[of 1]] by simp

lemma is_double_fl: "is_double (fl x)"
proof -
  have pos: "is_double (fl y)" if y: "y > 0" for y
  proof -
    define u where "u = (2::rat) powi (bin_exponent y - 52)"
    define m where "m = round_half_even (y / u)"
    have fly: "fl y = of_int m * u" using y by (simp add: fl_def Let_def u_def m_def)
    have u: "u > 0" by (simp add: u_def)
    have "of_int m * u \<le> of_int (2 ^ 53) * u"
      using fl_binade(2)[OF y] unfolding fly by (simp add: u_def power_int_diff power_int_add)
    then have "m \<le> 2 ^ 53" using u by (metis mult_le_cancel_right_pos of_int_le_iff)
    moreover have "m > 0" using fl_pos[OF y] u by (simp add: fly zero_less_mult_iff)
    ultimately consider "\<bar>m\<bar> < 2 ^ 53" | "m = 2 ^ 53" by linarith
    then show ?thesis
    proof cases
      case 1
      then show ?thesis using fly unfolding u_def by (rule is_doubleI[rotated])
    next
      case 2
      then have "fl y = of_int (2 ^ 52) * 2 powi (bin_exponent y - 51)"
        unfolding fly u_def by (simp add: power_int_diff)
      then show ?thesis by (rule is_doubleI) simp
    qed
  qed
  consider "x > 0" | "x = 0" | "- x > 0" by linarith
  then show ?thesis
  proof cases
    case 2
    then show ?thesis using is_double_of_int[of 0] by simp
  next
    case 3
    from is_double_minus[OF pos[OF this]] show ?thesis by (simp add: fl_minus)
  qed (rule pos)
qed

lemma fl_fl [simp]: "fl (fl x) = fl x"
  by (rule fl_exact) (rule is_double_fl)

text \<open>The rounding error of one operation is at most half a unit in the last place.\<close>

lemma fl_error:
  assumes "x \<ge> 0"
  shows "\<bar>fl x - x\<bar> \<le> x / 2 ^ 53"
proof (cases "x = 0")
  case False
  with assms have x: "x > 0" by simp
  define u where "u = (2::rat) powi (bin_exponent x - 52)"
  have u: "u > 0" by (simp add: u_def)
  have "fl x - x = (of_int (round_half_even (x / u)) - x / u) * u"
    using x u by (simp add: fl_def Let_def u_def algebra_simps)
  also have "\<bar>\<dots>\<bar> \<le> 1 / 2 * u"
    using round_half_even_error[of "x / u"] u by (simp add: abs_mult)
  also have "\<dots> = 2 powi bin_exponent x / 2 ^ 53"
    by (simp add: u_def power_int_diff)
  also have "\<dots> \<le> x / 2 ^ 53"
    by (rule divide_right_mono) (use bin_exponent_bounds(1)[OF x] in simp_all)
  finally show ?thesis .
qed simp

text \<open>Rules to evaluate \<open>fl\<close> on closed terms.\<close>

lemma fl_eqI:
  assumes "(2::rat) powi e \<le> x" "x < 2 powi (e + 1)" "\<bar>of_int m - x / 2 powi (e - 52)\<bar> < 1 / 2"
  shows "fl x = of_int m * 2 powi (e - 52)"
proof -
  have "x > 0" using assms(1) by (rule less_le_trans[rotated]) simp
  moreover have "round_half_even (x / 2 powi (e - 52)) = m"
  proof -
    let ?y = "x / 2 powi (e - 52)"
    have "\<bar>of_int (round_half_even ?y) - of_int m\<bar> < (1::rat)"
      using round_half_even_error[of ?y] assms(3) by linarith
    then show ?thesis by (metis of_int_abs of_int_diff of_int_less_1_iff abs_less_iff zabs_less_one_iff right_minus_eq)
  qed
  ultimately show ?thesis
    using bin_exponent_unique[OF assms(1,2)] by (simp add: fl_def Let_def)
qed

lemma fl_dyadic:
  assumes "x * 2 ^ k = of_int m" "\<bar>m\<bar> < 2 ^ 53"
  shows "fl x = x"
proof (rule fl_exact, rule is_doubleI)
  show "x = of_int m * 2 powi (- int k)"
    using assms(1) by (simp add: power_int_minus divide_simps flip: assms(1))
qed (rule assms)

section \<open>Text form\<close>

text \<open>
  \<open>std::to_string(double)\<close> prints with \<open>%f\<close>: six decimals, correctly rounded.
  \<open>std::ostream << double\<close> prints with \<open>%g\<close> at precision six: six significant digits,
  trailing zeros removed, scientific notation outside the exponents -4 to 5.
\<close>

definition pad_zeros :: "nat \<Rightarrow> string \<Rightarrow> string" where
  "pad_zeros w s = replicate (w - length s) (CHR ''0'') @ s"

definition double_to_string :: "double \<Rightarrow> string" where
  "double_to_string x =
     (let n = nat (round_half_even (\<bar>x\<bar> * 10 ^ 6))
      in (if x < 0 then ''-'' else '''') @ show_nat (n div 10 ^ 6) @ ''.'' @
         pad_zeros 6 (show_nat (n mod 10 ^ 6)))"

definition strip_zeros :: "string \<Rightarrow> string" where
  "strip_zeros s = rev (dropWhile (\<lambda>c. c = CHR ''0'') (rev s))"

definition with_fraction :: "string \<Rightarrow> string \<Rightarrow> string" where
  "with_fraction whole decimals =
     (let f = strip_zeros decimals in if f = [] then whole else whole @ ''.'' @ f)"

definition dec_exponent :: "rat \<Rightarrow> int" where
  "dec_exponent x =
     (let n = nat (fst (quotient_of x)); d = nat (snd (quotient_of x));
          k = int (floorlog 10 n) - int (floorlog 10 d)
      in if (10::rat) powi k \<le> x then k else k - 1)"

definition stream_double :: "double \<Rightarrow> string" where
  "stream_double x =
     (if x = 0 then ''0''
      else let d0 = dec_exponent \<bar>x\<bar>;
               q0 = nat (round_half_even (\<bar>x\<bar> / 10 powi (d0 - 5)));
               d = (if q0 = 10 ^ 6 then d0 + 1 else d0);
               q = (if q0 = 10 ^ 6 then 10 ^ 5 else q0);
               sign = (if x < 0 then ''-'' else '''');
               digits = show_nat q
           in sign @
              (if d < -4 \<or> d \<ge> 6
               then with_fraction (take 1 digits) (drop 1 digits) @ ''e'' @
                    (if d < 0 then ''-'' else ''+'') @ pad_zeros 2 (show_nat (nat \<bar>d\<bar>))
               else if d \<ge> 0
               then with_fraction (take (nat d + 1) digits) (drop (nat d + 1) digits)
               else with_fraction ''0'' (replicate (nat (- d) - 1) (CHR ''0'') @ digits)))"

end
