(* ===== verification/Naim_Models.thy ===== *)
theory Naim_Models
  imports Naim_Double
begin

text \<open>
  The shared state model of \<open>common/include/naim/state/models.h\<close>: every enum is a
  datatype, every struct a record with its fields in declaration order. Field names carry
  a prefix for their struct, since several structs share names such as \<open>name\<close> and
  \<open>node_name\<close>. \<open>std::optional\<close> is \<open>option\<close>, \<open>std::vector\<close> is \<open>list\<close>,
  \<open>std::map\<close> is \<open>omap\<close> and \<open>double\<close> is the type of theory \<open>Naim_Double\<close>. C++ \<open>int\<close>
  is \<open>int\<close>: signed overflow is undefined in C++, so the model describes the executions
  without it.
\<close>

section \<open>Enumerations\<close>

datatype InstanceRole =
  Infer | Worker | App | Skills | Browsing | Interaction | VoiceModule | VoiceMaker

datatype DiskKind =
    PlaneShared | InferPrivate | WorkerPrivate | AppPrivate | SkillsPrivate | BrowsingPrivate
  | InteractionPrivate | VoiceModulePrivate | VoiceMakerPrivate

definition IsPrivateDiskKind :: "DiskKind \<Rightarrow> bool" where
  "IsPrivateDiskKind kind \<longleftrightarrow>
     kind = InferPrivate \<or> kind = WorkerPrivate \<or> kind = AppPrivate \<or> kind = SkillsPrivate \<or>
     kind = BrowsingPrivate \<or> kind = InteractionPrivate \<or> kind = VoiceModulePrivate \<or>
     kind = VoiceMakerPrivate"

definition IsNodeLocalDiskKind :: "DiskKind \<Rightarrow> bool" where
  "IsNodeLocalDiskKind kind = IsPrivateDiskKind kind"

definition InstanceNeedsSharedDiskMount :: "InstanceRole \<Rightarrow> bool" where
  "InstanceNeedsSharedDiskMount role \<longleftrightarrow>
     role = Infer \<or> role = Worker \<or> role = App \<or> role = Skills \<or> role = Browsing \<or>
     role = Interaction \<or> role = VoiceModule \<or> role = VoiceMaker"

definition InstanceNeedsPrivateDisk :: "InstanceRole \<Rightarrow> bool" where
  "InstanceNeedsPrivateDisk role \<longleftrightarrow>
     role = Worker \<or> role = App \<or> role = Skills \<or> role = Browsing \<or>
     role = Interaction \<or> role = VoiceModule \<or> role = VoiceMaker"

datatype GpuShareMode = Exclusive | Shared | BestEffort
datatype PlacementMode = Manual | Auto | Movable
datatype PlaneMode = Compute | Llm
datatype HostExecutionMode = InferOnly | WorkerOnly | Mixed

section \<open>Structs\<close>

record PublishedPort =
  port_host_ip :: string
  port_host_port :: int
  port_container_port :: int

record DiskSpec =
  disk_name :: string
  disk_kind :: DiskKind
  disk_plane_name :: string
  disk_owner_name :: string
  disk_node_name :: string
  disk_host_path :: string
  disk_container_path :: string
  disk_size_gb :: int

record AppModelMountSpec =
  mount_name :: string
  mount_source_path :: string
  mount_source_node_name :: string
  mount_source_paths :: "string list"
  mount_host_path :: string
  mount_mount_path :: string
  mount_env_var :: string
  mount_required :: bool

record InstanceSpec =
  inst_name :: string
  inst_role :: InstanceRole
  inst_plane_name :: string
  inst_node_name :: string
  inst_image :: string
  inst_command :: string
  inst_private_disk_name :: string
  inst_shared_disk_name :: string
  inst_depends_on :: "string list"
  inst_environment :: "(string, string) omap"
  inst_labels :: "(string, string) omap"
  inst_published_ports :: "PublishedPort list"
  inst_gpu_device :: "string option"
  inst_placement_mode :: PlacementMode
  inst_share_mode :: GpuShareMode
  inst_gpu_fraction :: double
  inst_priority :: int
  inst_preemptible :: bool
  inst_memory_cap_mb :: "int option"
  inst_private_disk_size_gb :: int
  inst_app_model_mounts :: "AppModelMountSpec list"

record NodeInventory =
  node_name :: string
  node_platform :: string
  node_execution_mode :: HostExecutionMode
  node_gpu_devices :: "string list"
  node_gpu_memory_mb :: "(string, int) omap"

text \<open>
  \<open>EffectiveNodeGpuDevices\<close>: the keys of the memory map, then the listed devices not yet
  present, sorted.
\<close>

definition append_if_absent :: "'a list \<Rightarrow> 'a \<Rightarrow> 'a list" where
  "append_if_absent devices d = (if d \<in> set devices then devices else devices @ [d])"

definition EffectiveNodeGpuDevices :: "NodeInventory \<Rightarrow> string list" where
  "EffectiveNodeGpuDevices node =
     sort (foldl append_if_absent (map fst (node_gpu_memory_mb node)) (node_gpu_devices node))"

definition NodeHasConfiguredGpuDevices :: "NodeInventory \<Rightarrow> bool" where
  "NodeHasConfiguredGpuDevices node \<longleftrightarrow> EffectiveNodeGpuDevices node \<noteq> []"

record RuntimeGpuNode =
  gpu_name :: string
  gpu_node_name :: string
  gpu_gpu_device :: string
  gpu_placement_mode :: PlacementMode
  gpu_share_mode :: GpuShareMode
  gpu_gpu_fraction :: double
  gpu_priority :: int
  gpu_preemptible :: bool
  gpu_memory_cap_mb :: "int option"
  gpu_enabled :: bool

record InferenceRuntimeSettings =
  inf_primary_infer_node :: string
  inf_runtime_engine :: string
  inf_data_parallel_mode :: string
  inf_data_parallel_lb_mode :: string
  inf_api_server_count :: int
  inf_worker_group_id :: string
  inf_distributed_backend :: string
  inf_worker_selection_policy :: string
  inf_net_if :: string
  inf_models_root :: string
  inf_model_cache_dir :: string
  inf_runtime_log_dir :: string
  inf_api_port :: int
  inf_max_model_len :: int
  inf_tensor_parallel_size :: int
  inf_pipeline_parallel_size :: int
  inf_max_num_seqs :: int
  inf_gpu_memory_utilization :: double
  inf_enforce_eager :: bool
  inf_gguf_cache_dir :: string
  inf_infer_log_dir :: string
  inf_llama_port :: int
  inf_llama_ctx_size :: int
  inf_llama_threads :: int
  inf_llama_gpu_layers :: int
  inf_inference_healthcheck_retries :: int
  inf_inference_healthcheck_interval_sec :: int
  inf_rendezvous_port :: int

record WorkerGroupMemberSpec =
  mem_name :: string
  mem_infer_instance_name :: string
  mem_node_name :: string
  mem_gpu_device :: string
  mem_rpc_port :: int
  mem_rank :: int
  mem_replica_group_id :: string
  mem_replica_index :: int
  mem_replica_size :: int
  mem_replica_leader :: bool
  mem_data_parallel_rank :: int
  mem_data_parallel_size :: int
  mem_data_parallel_size_local :: int
  mem_data_parallel_start_rank :: int
  mem_data_parallel_api_endpoint :: bool
  mem_data_parallel_head_address :: string
  mem_data_parallel_rpc_port :: int
  mem_gpu_fraction :: double
  mem_share_mode :: GpuShareMode
  mem_priority :: int
  mem_preemptible :: bool
  mem_memory_cap_mb :: "int option"
  mem_enabled :: bool
  mem_leader :: bool

record WorkerGroupSpec =
  wg_group_id :: string
  wg_infer_instance_name :: string
  wg_distributed_backend :: string
  wg_rendezvous_host :: string
  wg_rendezvous_port :: int
  wg_expected_workers :: int
  wg_worker_selection_policy :: string
  wg_members :: "WorkerGroupMemberSpec list"

record GatewaySettings =
  gw_listen_host :: string
  gw_listen_port :: int
  gw_server_name :: string

record BootstrapModelSpec =
  bm_model_id :: string
  bm_served_model_name :: "string option"
  bm_materialization_mode :: string
  bm_local_path :: "string option"
  bm_source_node_name :: "string option"
  bm_source_paths :: "string list"
  bm_source_format :: "string option"
  bm_source_quantization :: "string option"
  bm_desired_output_format :: "string option"
  bm_quantization :: "string option"
  bm_keep_source :: bool
  bm_writeback_enabled :: bool
  bm_writeback_if_missing :: bool
  bm_writeback_target_node_name :: "string option"
  bm_source_url :: "string option"
  bm_source_urls :: "string list"
  bm_target_filename :: "string option"
  bm_sha256 :: "string option"

record CompletionPolicy =
  cp_response_mode :: string
  cp_max_tokens :: int
  cp_target_completion_tokens :: "int option"
  cp_max_continuations :: int
  cp_max_total_completion_tokens :: int
  cp_max_elapsed_time_ms :: int
  cp_semantic_goal :: "string option"

record InteractionSettings =
  is_image :: "string option"
  is_system_prompt :: "string option"
  is_analysis_system_prompt :: "string option"
  is_thinking_enabled :: bool
  is_default_temperature :: "double option"
  is_default_top_p :: "double option"
  is_default_response_language :: string
  is_supported_response_languages :: "string list"
  is_follow_user_language :: bool
  is_completion_policy :: "CompletionPolicy option"
  is_long_completion_policy :: "CompletionPolicy option"
  is_analysis_completion_policy :: "CompletionPolicy option"
  is_analysis_long_completion_policy :: "CompletionPolicy option"

record SkillsSettings =
  sk_enabled :: bool
  sk_factory_skill_ids :: "string list"

record BrowsingPolicySettings =
  bp_cef_enabled :: bool
  bp_browser_session_enabled :: bool
  bp_rendered_browser_enabled :: bool
  bp_login_enabled :: bool
  bp_allowed_domains :: "string list"
  bp_blocked_domains :: "string list"
  bp_blocked_targets :: "string list"
  bp_response_review_enabled :: bool
  bp_policy_version :: string
  bp_max_search_results :: int
  bp_max_fetch_bytes :: int

record BrowsingSettings =
  bs_enabled :: bool
  bs_policy :: "BrowsingPolicySettings option"

record KnowledgeContextPolicySettings =
  kc_include_graph :: bool
  kc_max_graph_depth :: int
  kc_token_budget :: int

record KnowledgeSettings =
  ks_enabled :: bool
  ks_service_id :: string
  ks_selection_mode :: string
  ks_selected_knowledge_ids :: "string list"
  ks_context_policy :: KnowledgeContextPolicySettings

record TurboQuantFeatureSpec =
  tq_enabled :: bool
  tq_cache_type_k :: "string option"
  tq_cache_type_v :: "string option"

record ContextCompressionFeatureSpec =
  cc_enabled :: bool
  cc_mode :: string
  cc_target :: string
  cc_memory_priority :: string

record VoiceListenerFeatureSpec =
  vl_enabled :: bool
  vl_wake_phrase :: string
  vl_language :: string
  vl_model :: AppModelMountSpec
  vl_image :: "string option"

record VoiceMakerFeatureSpec =
  vm_enabled :: bool
  vm_language :: string
  vm_voice_mode :: string
  vm_instruct :: string
  vm_output_format :: string
  vm_model :: AppModelMountSpec
  vm_image :: "string option"

record SecuredConnectionFeatureSpec =
  sc_enabled :: bool
  sc_user_ids :: "string list"

record ExternalAppHostConfig =
  ah_address :: string
  ah_ssh_key_path :: "string option"
  ah_username :: "string option"
  ah_password :: "string option"

record DesiredState =
  st_plane_name :: string
  st_plane_shared_disk_name :: string
  st_control_root :: string
  st_plane_mode :: PlaneMode
  st_protected_plane :: bool
  st_post_deploy_script :: "string option"
  st_placement_target :: "string option"
  st_bootstrap_model :: "BootstrapModelSpec option"
  st_interaction :: "InteractionSettings option"
  st_skills :: "SkillsSettings option"
  st_browsing :: "BrowsingSettings option"
  st_knowledge :: "KnowledgeSettings option"
  st_turboquant :: "TurboQuantFeatureSpec option"
  st_context_compression :: "ContextCompressionFeatureSpec option"
  st_voice_listener :: "VoiceListenerFeatureSpec option"
  st_voice_maker :: "VoiceMakerFeatureSpec option"
  st_secured_connection :: "SecuredConnectionFeatureSpec option"
  st_app_host :: "ExternalAppHostConfig option"
  st_inference :: InferenceRuntimeSettings
  st_worker_group :: WorkerGroupSpec
  st_gateway :: GatewaySettings
  st_runtime_gpu_nodes :: "RuntimeGpuNode list"
  st_nodes :: "NodeInventory list"
  st_disks :: "DiskSpec list"
  st_instances :: "InstanceSpec list"

record ComposeVolume =
  vol_source :: string
  vol_target :: string
  vol_read_only :: bool

record ComposeService =
  svc_name :: string
  svc_image :: string
  svc_command :: string
  svc_depends_on :: "string list"
  svc_environment :: "(string, string) omap"
  svc_labels :: "(string, string) omap"
  svc_volumes :: "ComposeVolume list"
  svc_published_ports :: "PublishedPort list"
  svc_extra_hosts :: "string list"
  svc_security_opts :: "string list"
  svc_privileged :: bool
  svc_use_nvidia_runtime :: bool
  svc_gpu_device :: "string option"
  svc_gpu_devices :: "string list"
  svc_shm_size :: "string option"
  svc_healthcheck :: string

record NodeComposePlan =
  ncp_plane_name :: string
  ncp_node_name :: string
  ncp_disks :: "DiskSpec list"
  ncp_services :: "ComposeService list"

section \<open>Value-initialised structs\<close>

text \<open>The default member initialisers, for the structs the code value-initialises.\<close>

definition default_InstanceSpec :: "InstanceRole \<Rightarrow> InstanceSpec" where
  "default_InstanceSpec role =
     \<lparr> inst_name = '''', inst_role = role, inst_plane_name = '''', inst_node_name = '''',
       inst_image = '''', inst_command = '''', inst_private_disk_name = '''',
       inst_shared_disk_name = '''', inst_depends_on = [], inst_environment = [],
       inst_labels = [], inst_published_ports = [], inst_gpu_device = None,
       inst_placement_mode = Manual, inst_share_mode = Exclusive, inst_gpu_fraction = 0,
       inst_priority = 100, inst_preemptible = False, inst_memory_cap_mb = None,
       inst_private_disk_size_gb = 0, inst_app_model_mounts = [] \<rparr>"

definition default_NodeInventory :: NodeInventory where
  "default_NodeInventory =
     \<lparr> node_name = '''', node_platform = '''', node_execution_mode = Mixed,
       node_gpu_devices = [], node_gpu_memory_mb = [] \<rparr>"

definition default_InferenceRuntimeSettings :: InferenceRuntimeSettings where
  "default_InferenceRuntimeSettings =
     \<lparr> inf_primary_infer_node = '''', inf_runtime_engine = ''llama.cpp'',
       inf_data_parallel_mode = ''off'', inf_data_parallel_lb_mode = ''external'',
       inf_api_server_count = 0, inf_worker_group_id = '''',
       inf_distributed_backend = ''llama_rpc'',
       inf_worker_selection_policy = ''prefer-free-then-share'', inf_net_if = ''eth0'',
       inf_models_root = ''/naim/shared/models'',
       inf_model_cache_dir = ''/naim/shared/models/cache'',
       inf_runtime_log_dir = ''/naim/shared/logs/infer'', inf_api_port = 8000,
       inf_max_model_len = 8192, inf_tensor_parallel_size = 1, inf_pipeline_parallel_size = 1,
       inf_max_num_seqs = 16, inf_gpu_memory_utilization = fl (9 / 10),
       inf_enforce_eager = False, inf_gguf_cache_dir = ''/naim/shared/models/gguf'',
       inf_infer_log_dir = ''/naim/shared/logs/infer'', inf_llama_port = 8000,
       inf_llama_ctx_size = 8192, inf_llama_threads = 8, inf_llama_gpu_layers = 99,
       inf_inference_healthcheck_retries = 300, inf_inference_healthcheck_interval_sec = 5,
       inf_rendezvous_port = 29500 \<rparr>"

definition default_WorkerGroupMemberSpec :: WorkerGroupMemberSpec where
  "default_WorkerGroupMemberSpec =
     \<lparr> mem_name = '''', mem_infer_instance_name = '''', mem_node_name = '''',
       mem_gpu_device = '''', mem_rpc_port = 0, mem_rank = 0, mem_replica_group_id = '''',
       mem_replica_index = 0, mem_replica_size = 1, mem_replica_leader = False,
       mem_data_parallel_rank = 0, mem_data_parallel_size = 1,
       mem_data_parallel_size_local = 1, mem_data_parallel_start_rank = 0,
       mem_data_parallel_api_endpoint = False, mem_data_parallel_head_address = '''',
       mem_data_parallel_rpc_port = 0, mem_gpu_fraction = 0, mem_share_mode = Exclusive,
       mem_priority = 100, mem_preemptible = False, mem_memory_cap_mb = None,
       mem_enabled = True, mem_leader = False \<rparr>"

definition default_WorkerGroupSpec :: WorkerGroupSpec where
  "default_WorkerGroupSpec =
     \<lparr> wg_group_id = '''', wg_infer_instance_name = '''',
       wg_distributed_backend = ''llama_rpc'', wg_rendezvous_host = '''',
       wg_rendezvous_port = 29500, wg_expected_workers = 0,
       wg_worker_selection_policy = ''prefer-free-then-share'', wg_members = [] \<rparr>"

definition default_GatewaySettings :: GatewaySettings where
  "default_GatewaySettings =
     \<lparr> gw_listen_host = ''0.0.0.0'', gw_listen_port = 80, gw_server_name = ''_'' \<rparr>"

definition default_DesiredState :: DesiredState where
  "default_DesiredState =
     \<lparr> st_plane_name = '''', st_plane_shared_disk_name = '''', st_control_root = '''',
       st_plane_mode = Compute, st_protected_plane = False, st_post_deploy_script = None,
       st_placement_target = None, st_bootstrap_model = None, st_interaction = None,
       st_skills = None, st_browsing = None, st_knowledge = None, st_turboquant = None,
       st_context_compression = None, st_voice_listener = None, st_voice_maker = None,
       st_secured_connection = None, st_app_host = None,
       st_inference = default_InferenceRuntimeSettings,
       st_worker_group = default_WorkerGroupSpec, st_gateway = default_GatewaySettings,
       st_runtime_gpu_nodes = [], st_nodes = [], st_disks = [], st_instances = [] \<rparr>"

section \<open>Names of the enumerators\<close>

text \<open>The overloads of \<open>ToString\<close> and the parsers at the end of \<open>planner.cpp\<close>.\<close>

fun ToString_InstanceRole :: "InstanceRole \<Rightarrow> string" where
  "ToString_InstanceRole Infer = ''infer''"
| "ToString_InstanceRole Worker = ''worker''"
| "ToString_InstanceRole App = ''app''"
| "ToString_InstanceRole Skills = ''skills''"
| "ToString_InstanceRole Browsing = ''webgateway''"
| "ToString_InstanceRole Interaction = ''interaction''"
| "ToString_InstanceRole VoiceModule = ''voice-module''"
| "ToString_InstanceRole VoiceMaker = ''voice-maker''"

fun ToString_DiskKind :: "DiskKind \<Rightarrow> string" where
  "ToString_DiskKind PlaneShared = ''plane-shared''"
| "ToString_DiskKind InferPrivate = ''infer-private''"
| "ToString_DiskKind WorkerPrivate = ''worker-private''"
| "ToString_DiskKind AppPrivate = ''app-private''"
| "ToString_DiskKind SkillsPrivate = ''skills-private''"
| "ToString_DiskKind BrowsingPrivate = ''webgateway-private''"
| "ToString_DiskKind InteractionPrivate = ''interaction-private''"
| "ToString_DiskKind VoiceModulePrivate = ''voice-module-private''"
| "ToString_DiskKind VoiceMakerPrivate = ''voice-maker-private''"

fun ToString_GpuShareMode :: "GpuShareMode \<Rightarrow> string" where
  "ToString_GpuShareMode Exclusive = ''exclusive''"
| "ToString_GpuShareMode Shared = ''shared''"
| "ToString_GpuShareMode BestEffort = ''best-effort''"

definition ParseGpuShareMode :: "string \<Rightarrow> GpuShareMode res" where
  "ParseGpuShareMode value =
     (if value = ''exclusive'' then Inr Exclusive
      else if value = ''shared'' then Inr Shared
      else if value = ''best-effort'' then Inr BestEffort
      else Inl (RuntimeError (''unknown gpu share mode '' @ quoted value)))"

fun ToString_PlacementMode :: "PlacementMode \<Rightarrow> string" where
  "ToString_PlacementMode Manual = ''manual''"
| "ToString_PlacementMode Auto = ''auto''"
| "ToString_PlacementMode Movable = ''movable''"

definition ParsePlacementMode :: "string \<Rightarrow> PlacementMode res" where
  "ParsePlacementMode value =
     (if value = ''manual'' then Inr Manual
      else if value = ''auto'' then Inr Auto
      else if value = ''movable'' then Inr Movable
      else Inl (RuntimeError (''unknown placement mode '' @ quoted value)))"

fun ToString_PlaneMode :: "PlaneMode \<Rightarrow> string" where
  "ToString_PlaneMode Compute = ''compute''"
| "ToString_PlaneMode Llm = ''llm''"

definition ParsePlaneMode :: "string \<Rightarrow> PlaneMode res" where
  "ParsePlaneMode value =
     (if value = ''compute'' \<or> value = [] then Inr Compute
      else if value = ''llm'' then Inr Llm
      else Inl (RuntimeError (''unknown plane mode '' @ quoted value)))"

fun ToString_HostExecutionMode :: "HostExecutionMode \<Rightarrow> string" where
  "ToString_HostExecutionMode InferOnly = ''infer-only''"
| "ToString_HostExecutionMode WorkerOnly = ''worker-only''"
| "ToString_HostExecutionMode Mixed = ''mixed''"

definition ParseHostExecutionMode :: "string \<Rightarrow> HostExecutionMode res" where
  "ParseHostExecutionMode value =
     (if value = ''infer-only'' then Inr InferOnly
      else if value = ''worker-only'' then Inr WorkerOnly
      else if value = ''mixed'' \<or> value = [] then Inr Mixed
      else Inl (RuntimeError (''unknown host execution mode '' @ quoted value)))"

section \<open>Lemmas\<close>

lemma set_foldl_append_if_absent:
  "set (foldl append_if_absent ds es) = set ds \<union> set es"
  by (induction es arbitrary: ds) (auto simp: append_if_absent_def)

lemma distinct_foldl_append_if_absent:
  "distinct ds \<Longrightarrow> distinct (foldl append_if_absent ds es)"
  by (induction es arbitrary: ds) (simp_all add: append_if_absent_def)

lemma set_EffectiveNodeGpuDevices [simp]:
  "set (EffectiveNodeGpuDevices node) =
     fst ` set (node_gpu_memory_mb node) \<union> set (node_gpu_devices node)"
  by (simp add: EffectiveNodeGpuDevices_def set_foldl_append_if_absent)

lemma distinct_EffectiveNodeGpuDevices:
  "omap_ok (node_gpu_memory_mb node) \<Longrightarrow> distinct (EffectiveNodeGpuDevices node)"
  by (simp add: EffectiveNodeGpuDevices_def distinct_foldl_append_if_absent omap_ok_distinct)

text \<open>
  The GPU devices of a node are the keys of its memory map together with the
  listed devices, each once and in ascending order.
\<close>

lemma EffectiveNodeGpuDevices_sorted_set:
  assumes "omap_ok (node_gpu_memory_mb node)"
  shows "EffectiveNodeGpuDevices node =
    sorted_list_of_set (fst ` set (node_gpu_memory_mb node) \<union> set (node_gpu_devices node))"
proof -
  have "sorted (EffectiveNodeGpuDevices node)"
    by (simp add: EffectiveNodeGpuDevices_def)
  then show ?thesis
    using distinct_EffectiveNodeGpuDevices[OF assms]
    by (metis set_EffectiveNodeGpuDevices sorted_list_of_set.idem_if_sorted_distinct)
qed

lemma ParseGpuShareMode_iff: "ParseGpuShareMode v = Inr g \<longleftrightarrow> v = ToString_GpuShareMode g"
  by (cases g) (auto simp: ParseGpuShareMode_def)

lemma ParsePlacementMode_iff: "ParsePlacementMode v = Inr p \<longleftrightarrow> v = ToString_PlacementMode p"
  by (cases p) (auto simp: ParsePlacementMode_def)

lemma ParsePlaneMode_iff:
  "ParsePlaneMode v = Inr q \<longleftrightarrow> v = ToString_PlaneMode q \<or> v = [] \<and> q = Compute"
  by (cases q) (auto simp: ParsePlaneMode_def)

lemma ParseHostExecutionMode_iff:
  "ParseHostExecutionMode v = Inr h \<longleftrightarrow> v = ToString_HostExecutionMode h \<or> v = [] \<and> h = Mixed"
  by (cases h) (auto simp: ParseHostExecutionMode_def)

text \<open>
  The parsers accept exactly the printed names (and the empty string, as the
  default mode, for plane and execution modes), and parsing what was printed gives the
  value back.
\<close>

lemma Parse_ToString_roundtrip:
  "(ParseGpuShareMode v = Inr g \<longleftrightarrow> v = ToString_GpuShareMode g) \<and>
   (ParsePlacementMode v = Inr p \<longleftrightarrow> v = ToString_PlacementMode p) \<and>
   (ParsePlaneMode v = Inr q \<longleftrightarrow> v = ToString_PlaneMode q \<or> v = [] \<and> q = Compute) \<and>
   (ParseHostExecutionMode v = Inr h \<longleftrightarrow> v = ToString_HostExecutionMode h \<or> v = [] \<and> h = Mixed)"
  by (intro conjI ParseGpuShareMode_iff ParsePlacementMode_iff ParsePlaneMode_iff
      ParseHostExecutionMode_iff)

end
