(* ===== verification/Naim_Scheduling_Policy.thy ===== *)
theory Naim_Scheduling_Policy
  imports Naim_Models
begin

text \<open>
  The GPU scheduling policy of \<open>common/src/planning/scheduling_policy.cpp\<close>:
  \<open>EvaluateSchedulingPolicy\<close> admits the workers of a desired state to the GPUs of its
  nodes, reports the violations, summarises the capacity of each GPU, ranks the GPUs each
  worker could move to, selects the best-effort workers a move would preempt, and lists the
  resulting rollout actions. The function is one loop nest in the source; here each of its
  phases is a definition, and \<open>EvaluateSchedulingPolicy\<close> composes them.
\<close>

section \<open>Data\<close>

definition kFractionEpsilon :: double where
  "kFractionEpsilon = fl (1 / 10 ^ 9)"

record GpuAllocationGroup =
  ag_node_name :: string
  ag_gpu_device :: string
  ag_worker_names :: "string list"
  ag_exclusive_worker_names :: "string list"
  ag_shared_worker_names :: "string list"
  ag_best_effort_worker_names :: "string list"
  ag_preemptible_worker_names :: "string list"
  ag_total_fraction :: double
  ag_remaining_fraction :: double
  ag_highest_priority :: int
  ag_lowest_priority :: int
  ag_total_memory_cap_mb :: int
  ag_memory_capacity_mb :: "int option"
  ag_remaining_memory_mb :: "int option"

record GpuCapacitySummary =
  cs_node_name :: string
  cs_gpu_device :: string
  cs_worker_count :: int
  cs_guaranteed_worker_count :: int
  cs_best_effort_worker_count :: int
  cs_allocated_fraction :: double
  cs_free_fraction :: double
  cs_releasable_best_effort_fraction :: double
  cs_memory_capacity_mb :: "int option"
  cs_allocated_memory_cap_mb :: int
  cs_releasable_best_effort_memory_cap_mb :: int
  cs_free_memory_mb :: "int option"
  cs_preemptible_best_effort_workers :: "string list"
  cs_has_soft_share :: bool
  cs_is_idle :: bool

record PlacementCandidate =
  pc_node_name :: string
  pc_gpu_device :: string
  pc_score :: int
  pc_same_node :: bool
  pc_idle :: bool
  pc_fits_current_fraction :: bool
  pc_fits_current_with_preemption :: bool
  pc_fits_exclusive_fraction :: bool
  pc_fits_exclusive_with_preemption :: bool
  pc_fits_memory_cap :: bool
  pc_fits_memory_with_preemption :: bool
  pc_preemption_required :: bool
  pc_free_fraction :: double
  pc_free_memory_mb :: "int option"
  pc_preemption_victims :: "string list"
  pc_action :: string

record WorkerPlacementRecommendation =
  wpr_worker_name :: string
  wpr_current_node_name :: string
  wpr_current_gpu_device :: string
  wpr_current_share_mode :: GpuShareMode
  wpr_current_fraction :: double
  wpr_current_memory_cap_mb :: "int option"
  wpr_candidates :: "PlacementCandidate list"

record PreemptionHint =
  ph_node_name :: string
  ph_gpu_device :: string
  ph_victim_worker_names :: "string list"
  ph_reason :: string

record SchedulerRolloutAction =
  ra_step :: int
  ra_worker_name :: string
  ra_action :: string
  ra_target_node_name :: string
  ra_target_gpu_device :: string
  ra_victim_worker_names :: "string list"
  ra_reason :: string

record SchedulingPolicyReport =
  rep_allocations :: "GpuAllocationGroup list"
  rep_capacities :: "GpuCapacitySummary list"
  rep_placement_recommendations :: "WorkerPlacementRecommendation list"
  rep_preemption_hints :: "PreemptionHint list"
  rep_rollout_actions :: "SchedulerRolloutAction list"
  rep_rebalance_hints :: "string list"
  rep_warnings :: "string list"
  rep_errors :: "string list"

text \<open>The records private to \<open>scheduling_policy.cpp\<close>.\<close>

record AllocationAccumulator =
  acc_worker_names :: "string list"
  acc_exclusive_worker_names :: "string list"
  acc_shared_worker_names :: "string list"
  acc_best_effort_worker_names :: "string list"
  acc_preemptible_worker_names :: "string list"
  acc_total_fraction :: double
  acc_best_effort_fraction :: double
  acc_highest_priority :: int
  acc_lowest_priority :: int
  acc_total_memory_cap_mb :: int
  acc_best_effort_memory_cap_mb :: int
  acc_any_memory_cap :: bool
  acc_missing_memory_cap :: bool
  acc_memory_capacity_mb :: "int option"
  acc_highest_guaranteed_priority :: int
  acc_highest_best_effort_priority :: int

definition INT_MIN :: int where "INT_MIN = - (2 ^ 31)"
definition INT_MAX :: int where "INT_MAX = 2 ^ 31 - 1"

definition empty_accumulator :: AllocationAccumulator where
  "empty_accumulator =
     \<lparr> acc_worker_names = [], acc_exclusive_worker_names = [], acc_shared_worker_names = [],
       acc_best_effort_worker_names = [], acc_preemptible_worker_names = [],
       acc_total_fraction = 0, acc_best_effort_fraction = 0,
       acc_highest_priority = INT_MIN, acc_lowest_priority = INT_MAX,
       acc_total_memory_cap_mb = 0, acc_best_effort_memory_cap_mb = 0,
       acc_any_memory_cap = False, acc_missing_memory_cap = False,
       acc_memory_capacity_mb = None, acc_highest_guaranteed_priority = INT_MIN,
       acc_highest_best_effort_priority = INT_MIN \<rparr>"

record WorkerAllocationRecord =
  wr_worker_name :: string
  wr_node_name :: string
  wr_gpu_device :: string
  wr_share_mode :: GpuShareMode
  wr_gpu_fraction :: double
  wr_priority :: int
  wr_preemptible :: bool
  wr_memory_cap_mb :: "int option"
  wr_currently_soft_shared :: bool

record VictimSelection =
  vs_worker_names :: "string list"
  vs_released_fraction :: double
  vs_released_memory_cap_mb :: int
  vs_satisfies :: bool

type_synonym gpu_key = "string \<times> string"

section \<open>Helpers\<close>

definition NodeSupportsWorkerExecutionMode :: "NodeInventory \<Rightarrow> bool" where
  "NodeSupportsWorkerExecutionMode node \<longleftrightarrow> node_execution_mode node \<noteq> InferOnly"

definition EffectiveWorkerSelectionPolicy :: "DesiredState \<Rightarrow> string" where
  "EffectiveWorkerSelectionPolicy state =
     (if wg_worker_selection_policy (st_worker_group state) \<noteq> []
      then wg_worker_selection_policy (st_worker_group state)
      else if inf_worker_selection_policy (st_inference state) \<noteq> []
      then inf_worker_selection_policy (st_inference state)
      else ''prefer-free-then-share'')"

definition PreemptionReason :: "AllocationAccumulator \<Rightarrow> string" where
  "PreemptionReason allocation =
     (if acc_best_effort_worker_names allocation \<noteq> [] \<and>
         (acc_exclusive_worker_names allocation \<noteq> [] \<or> acc_shared_worker_names allocation \<noteq> [])
      then ''protect guaranteed workers before best-effort workers on the same GPU''
      else if length (acc_worker_names allocation) > 1
      then ''reduce soft-share pressure by evicting the lowest-priority best-effort workers first''
      else ''free capacity for higher-priority or guaranteed work'')"

definition ScorePlacementCandidate ::
  "WorkerAllocationRecord \<Rightarrow> GpuCapacitySummary \<Rightarrow> bool \<Rightarrow> bool \<Rightarrow> bool \<Rightarrow> bool \<Rightarrow> bool \<Rightarrow> bool
   \<Rightarrow> bool \<Rightarrow> int" where
  "ScorePlacementCandidate worker capacity fits_current_fraction fits_current_with_preemption
     fits_exclusive_fraction fits_exclusive_with_preemption fits_memory_cap
     fits_memory_with_preemption preemption_required =
     (if cs_node_name capacity = wr_node_name worker then 40 else 0)
     + (if cs_is_idle capacity then 60 else 0)
     + (if fits_current_fraction then 20 else if fits_current_with_preemption then 8 else 0)
     + (if fits_exclusive_fraction then 40 else if fits_exclusive_with_preemption then 15 else 0)
     + (if fits_memory_cap then 15 else if fits_memory_with_preemption then 5 else -50)
     + (if preemption_required then -20 else 0)
     + double_to_int (dmul (cs_free_fraction capacity) 10)
     - cs_worker_count capacity * 10"

definition PlacementCandidatePolicyRank :: "string \<Rightarrow> PlacementCandidate \<Rightarrow> int" where
  "PlacementCandidatePolicyRank policy candidate =
     (if policy = ''prefer-free-then-share''
      then if pc_idle candidate \<and> \<not> pc_preemption_required candidate then 0
           else if \<not> pc_idle candidate \<and> \<not> pc_preemption_required candidate \<and>
             (pc_fits_exclusive_fraction candidate \<or> pc_fits_current_fraction candidate) then 1
           else if pc_preemption_required candidate then 2
           else 3
      else if pc_preemption_required candidate then 1 else 0)"

definition below_whole_gpu :: "double \<Rightarrow> bool" where
  "below_whole_gpu f \<longleftrightarrow> f < dsub 1 kFractionEpsilon"

definition PlacementAction ::
  "WorkerAllocationRecord \<Rightarrow> bool \<Rightarrow> bool \<Rightarrow> bool \<Rightarrow> bool \<Rightarrow> bool \<Rightarrow> string" where
  "PlacementAction worker fits_current_with_preemption fits_exclusive_fraction
     fits_exclusive_with_preemption fits_current_fraction fits_memory_with_preemption =
     (if \<not> fits_memory_with_preemption then ''insufficient-memory''
      else if fits_exclusive_fraction
      then if wr_currently_soft_shared worker \<or> below_whole_gpu (wr_gpu_fraction worker) \<or>
              wr_share_mode worker \<noteq> Exclusive
           then ''upgrade-to-exclusive'' else ''move-equivalent''
      else if fits_exclusive_with_preemption then ''preempt-best-effort-to-exclusive''
      else if fits_current_fraction then ''move-with-current-fraction''
      else if fits_current_with_preemption then ''preempt-best-effort-and-move''
      else ''insufficient-fraction'')"

definition FindAllocationAccumulator ::
  "(gpu_key, AllocationAccumulator) omap \<Rightarrow> string \<Rightarrow> string \<Rightarrow> AllocationAccumulator option" where
  "FindAllocationAccumulator allocations node gpu = omap_get allocations (node, gpu)"

text \<open>The comparator of \<open>BuildBestEffortVictimOrder\<close>.\<close>

definition victim_less :: "WorkerAllocationRecord \<Rightarrow> WorkerAllocationRecord \<Rightarrow> bool" where
  "victim_less left right =
     (if wr_priority left \<noteq> wr_priority right then wr_priority left < wr_priority right
      else if \<bar>dsub (wr_gpu_fraction left) (wr_gpu_fraction right)\<bar> > kFractionEpsilon
      then wr_gpu_fraction left > wr_gpu_fraction right
      else if value_or (wr_memory_cap_mb left) 0 \<noteq> value_or (wr_memory_cap_mb right) 0
      then value_or (wr_memory_cap_mb left) 0 > value_or (wr_memory_cap_mb right) 0
      else wr_worker_name left < wr_worker_name right)"

definition is_victim :: "string \<Rightarrow> string \<Rightarrow> WorkerAllocationRecord \<Rightarrow> bool" where
  "is_victim node gpu r \<longleftrightarrow>
     wr_node_name r = node \<and> wr_gpu_device r = gpu \<and>
     wr_share_mode r = BestEffort \<and> wr_preemptible r"

definition BuildBestEffortVictimOrder ::
  "WorkerAllocationRecord list \<Rightarrow> string \<Rightarrow> string \<Rightarrow> WorkerAllocationRecord list" where
  "BuildBestEffortVictimOrder worker_records node gpu =
     std_sort victim_less (filter (is_victim node gpu) worker_records)"

text \<open>The victim loop of \<open>SelectMinimalVictims\<close>, left at the first victim that suffices.\<close>

fun select_victims_loop ::
  "double \<Rightarrow> int \<Rightarrow> WorkerAllocationRecord list \<Rightarrow> VictimSelection \<Rightarrow> VictimSelection" where
  "select_victims_loop needed_fraction needed_memory_mb [] selection = selection"
| "select_victims_loop needed_fraction needed_memory_mb (victim # victims) selection =
     (let selection' = selection\<lparr>
            vs_worker_names := vs_worker_names selection @ [wr_worker_name victim],
            vs_released_fraction := dadd (vs_released_fraction selection) (wr_gpu_fraction victim),
            vs_released_memory_cap_mb :=
              vs_released_memory_cap_mb selection + value_or (wr_memory_cap_mb victim) 0\<rparr>
      in if dadd (vs_released_fraction selection') kFractionEpsilon \<ge> needed_fraction \<and>
            vs_released_memory_cap_mb selection' \<ge> needed_memory_mb
         then selection'\<lparr>vs_satisfies := True\<rparr>
         else select_victims_loop needed_fraction needed_memory_mb victims selection')"

definition needed_fraction_for :: "GpuCapacitySummary \<Rightarrow> double \<Rightarrow> double" where
  "needed_fraction_for capacity required = max 0 (dsub required (cs_free_fraction capacity))"

definition needed_memory_for :: "WorkerAllocationRecord \<Rightarrow> GpuCapacitySummary \<Rightarrow> int" where
  "needed_memory_for worker capacity =
     (case (wr_memory_cap_mb worker, cs_free_memory_mb capacity) of
        (Some cap, Some free) \<Rightarrow> max 0 (cap - free)
      | _ \<Rightarrow> 0)"

definition SelectMinimalVictims ::
  "WorkerAllocationRecord \<Rightarrow> GpuCapacitySummary \<Rightarrow> WorkerAllocationRecord list \<Rightarrow> double
   \<Rightarrow> VictimSelection" where
  "SelectMinimalVictims worker capacity victim_order required_fraction =
     (let selection = \<lparr>vs_worker_names = [], vs_released_fraction = 0,
            vs_released_memory_cap_mb = 0, vs_satisfies = False\<rparr>;
          needed_fraction = needed_fraction_for capacity required_fraction;
          needed_memory_mb = needed_memory_for worker capacity
      in if needed_fraction \<le> kFractionEpsilon \<and> needed_memory_mb \<le> 0
         then selection\<lparr>vs_satisfies := True\<rparr>
         else select_victims_loop needed_fraction needed_memory_mb victim_order selection)"

section \<open>Admission of the workers\<close>

text \<open>
  The first loop of \<open>EvaluateSchedulingPolicy\<close>. \<open>check_worker\<close> is the chain of checks
  that each report one error and leave the iteration; \<open>accumulate_worker\<close> is the rest of
  the iteration's effect on the accumulator of the worker's GPU.
\<close>

type_synonym node_map = "(string, NodeInventory) omap"

definition nodes_by_name :: "DesiredState \<Rightarrow> node_map" where
  "nodes_by_name state = fold (\<lambda>node. omap_emplace (node_name node) node) (st_nodes state) []"

definition valid_fraction :: "double \<Rightarrow> bool" where
  "valid_fraction f \<longleftrightarrow> \<not> (f \<le> 0 \<or> f > dadd 1 kFractionEpsilon)"

definition whole_gpu :: "double \<Rightarrow> bool" where
  "whole_gpu f \<longleftrightarrow> \<not> \<bar>dsub f 1\<bar> > kFractionEpsilon"

definition check_worker :: "node_map \<Rightarrow> InstanceSpec \<Rightarrow> string option" where
  "check_worker nodes instance =
     (let worker = ''worker '' @ quoted (inst_name instance) in
      if inst_gpu_device instance = None \<or> inst_gpu_device instance = Some []
      then Some (worker @
        '' must pin gpu_device explicitly; implicit scheduler defaults are not allowed'')
      else if inst_priority instance < 0
      then Some (worker @ '' has invalid priority='' @ to_string (inst_priority instance) @
        ''; allowed range is >= 0'')
      else if \<not> valid_fraction (inst_gpu_fraction instance)
      then Some (worker @ '' has invalid gpu_fraction='' @
        stream_double (inst_gpu_fraction instance) @ ''; allowed range is (0, 1]'')
      else if (case inst_memory_cap_mb instance of None \<Rightarrow> False | Some cap \<Rightarrow> cap \<le> 0)
      then Some (worker @ '' has invalid memory_cap_mb; allowed range is > 0'')
      else if inst_share_mode instance = Exclusive \<and> \<not> whole_gpu (inst_gpu_fraction instance)
      then Some (worker @ '' uses share_mode=exclusive but gpu_fraction='' @
        stream_double (inst_gpu_fraction instance) @
        ''; exclusive workers must reserve the whole GPU'')
      else if inst_share_mode instance = BestEffort \<and> \<not> inst_preemptible instance
      then Some (worker @ '' uses share_mode=best-effort but preemptible=false; '' @
        ''best-effort workers must be preemptible'')
      else case omap_get nodes (inst_node_name instance) of
        None \<Rightarrow> Some (worker @ '' references unknown node '' @ quoted (inst_node_name instance))
      | Some node \<Rightarrow>
          if \<not> NodeSupportsWorkerExecutionMode node
          then Some (worker @ '' targets node '' @ quoted (inst_node_name instance) @
            '' which is not worker-capable'')
          else if the (inst_gpu_device instance) \<notin> set (EffectiveNodeGpuDevices node)
          then Some (worker @ '' pins missing gpu '' @ quoted (the (inst_gpu_device instance)) @
            '' on node '' @ quoted (inst_node_name instance))
          else None)"

definition accumulate_share_mode ::
  "InstanceSpec \<Rightarrow> AllocationAccumulator \<Rightarrow> AllocationAccumulator" where
  "accumulate_share_mode instance allocation =
     (case inst_share_mode instance of
        Exclusive \<Rightarrow> allocation\<lparr>
          acc_exclusive_worker_names := acc_exclusive_worker_names allocation @ [inst_name instance],
          acc_highest_guaranteed_priority :=
            max (acc_highest_guaranteed_priority allocation) (inst_priority instance)\<rparr>
      | Shared \<Rightarrow> allocation\<lparr>
          acc_shared_worker_names := acc_shared_worker_names allocation @ [inst_name instance],
          acc_highest_guaranteed_priority :=
            max (acc_highest_guaranteed_priority allocation) (inst_priority instance)\<rparr>
      | BestEffort \<Rightarrow> allocation\<lparr>
          acc_best_effort_worker_names :=
            acc_best_effort_worker_names allocation @ [inst_name instance],
          acc_best_effort_fraction :=
            dadd (acc_best_effort_fraction allocation) (inst_gpu_fraction instance),
          acc_best_effort_memory_cap_mb :=
            acc_best_effort_memory_cap_mb allocation + value_or (inst_memory_cap_mb instance) 0,
          acc_highest_best_effort_priority :=
            max (acc_highest_best_effort_priority allocation) (inst_priority instance)\<rparr>)"

definition accumulate_memory ::
  "NodeInventory \<Rightarrow> InstanceSpec \<Rightarrow> AllocationAccumulator \<Rightarrow> AllocationAccumulator" where
  "accumulate_memory node instance allocation =
     (let allocation' = (case inst_memory_cap_mb instance of
            Some cap \<Rightarrow> allocation\<lparr>acc_any_memory_cap := True,
              acc_total_memory_cap_mb := acc_total_memory_cap_mb allocation + cap\<rparr>
          | None \<Rightarrow> allocation\<lparr>acc_missing_memory_cap := True\<rparr>)
      in case omap_get (node_gpu_memory_mb node) (the (inst_gpu_device instance)) of
           Some capacity \<Rightarrow> allocation'\<lparr>acc_memory_capacity_mb := Some capacity\<rparr>
         | None \<Rightarrow> allocation')"

definition accumulate_worker ::
  "NodeInventory \<Rightarrow> InstanceSpec \<Rightarrow> AllocationAccumulator \<Rightarrow> AllocationAccumulator" where
  "accumulate_worker node instance allocation =
     (let a1 = allocation\<lparr>acc_worker_names := acc_worker_names allocation @ [inst_name instance]\<rparr>;
          a2 = accumulate_share_mode instance a1;
          a3 = (if inst_preemptible instance
                then a2\<lparr>acc_preemptible_worker_names :=
                  acc_preemptible_worker_names a2 @ [inst_name instance]\<rparr>
                else a2);
          a4 = a3\<lparr>
            acc_total_fraction := dadd (acc_total_fraction a3) (inst_gpu_fraction instance),
            acc_highest_priority := max (acc_highest_priority a3) (inst_priority instance),
            acc_lowest_priority := min (acc_lowest_priority a3) (inst_priority instance)\<rparr>
      in accumulate_memory node instance a4)"

definition worker_record :: "InstanceSpec \<Rightarrow> WorkerAllocationRecord" where
  "worker_record instance =
     \<lparr> wr_worker_name = inst_name instance, wr_node_name = inst_node_name instance,
       wr_gpu_device = the (inst_gpu_device instance), wr_share_mode = inst_share_mode instance,
       wr_gpu_fraction = inst_gpu_fraction instance, wr_priority = inst_priority instance,
       wr_preemptible = inst_preemptible instance, wr_memory_cap_mb = inst_memory_cap_mb instance,
       wr_currently_soft_shared = False \<rparr>"

record admission =
  adm_errors :: "string list"
  adm_allocations :: "(gpu_key, AllocationAccumulator) omap"
  adm_worker_records :: "WorkerAllocationRecord list"

definition gpu_of :: "InstanceSpec \<Rightarrow> gpu_key" where
  "gpu_of instance = (inst_node_name instance, the (inst_gpu_device instance))"

definition node_of :: "node_map \<Rightarrow> InstanceSpec \<Rightarrow> NodeInventory" where
  "node_of nodes instance = the (omap_get nodes (inst_node_name instance))"

definition admission_step :: "node_map \<Rightarrow> InstanceSpec \<Rightarrow> admission \<Rightarrow> admission" where
  "admission_step nodes instance adm =
     (if inst_role instance \<noteq> Worker then adm
      else case check_worker nodes instance of
        Some err \<Rightarrow> adm\<lparr>adm_errors := adm_errors adm @ [err]\<rparr>
      | None \<Rightarrow> adm\<lparr>
          adm_allocations := omap_modify (gpu_of instance) empty_accumulator
            (accumulate_worker (node_of nodes instance) instance) (adm_allocations adm),
          adm_worker_records := adm_worker_records adm @ [worker_record instance]\<rparr>)"

definition admit_workers :: "DesiredState \<Rightarrow> admission" where
  "admit_workers state =
     fold (admission_step (nodes_by_name state)) (st_instances state)
       \<lparr>adm_errors = [], adm_allocations = [], adm_worker_records = []\<rparr>"

section \<open>Allocation groups\<close>

text \<open>
  The second loop: per GPU with admitted workers, the names are sorted in place, the
  allocation group is reported, and the group is checked.
\<close>

definition sort_names :: "AllocationAccumulator \<Rightarrow> AllocationAccumulator" where
  "sort_names allocation = allocation\<lparr>
     acc_worker_names := sort (acc_worker_names allocation),
     acc_exclusive_worker_names := sort (acc_exclusive_worker_names allocation),
     acc_shared_worker_names := sort (acc_shared_worker_names allocation),
     acc_best_effort_worker_names := sort (acc_best_effort_worker_names allocation),
     acc_preemptible_worker_names := sort (acc_preemptible_worker_names allocation)\<rparr>"

definition allocation_group :: "gpu_key \<times> AllocationAccumulator \<Rightarrow> GpuAllocationGroup" where
  "allocation_group entry =
     (let key = fst entry; allocation = snd entry in
      \<lparr> ag_node_name = fst key, ag_gpu_device = snd key,
        ag_worker_names = acc_worker_names allocation,
        ag_exclusive_worker_names = acc_exclusive_worker_names allocation,
        ag_shared_worker_names = acc_shared_worker_names allocation,
        ag_best_effort_worker_names = acc_best_effort_worker_names allocation,
        ag_preemptible_worker_names = acc_preemptible_worker_names allocation,
        ag_total_fraction = acc_total_fraction allocation,
        ag_remaining_fraction = max 0 (dsub 1 (acc_total_fraction allocation)),
        ag_highest_priority = (if acc_highest_priority allocation = INT_MIN then 0
          else acc_highest_priority allocation),
        ag_lowest_priority = (if acc_lowest_priority allocation = INT_MAX then 0
          else acc_lowest_priority allocation),
        ag_total_memory_cap_mb = acc_total_memory_cap_mb allocation,
        ag_memory_capacity_mb = acc_memory_capacity_mb allocation,
        ag_remaining_memory_mb = map_option
          (\<lambda>capacity. max 0 (capacity - acc_total_memory_cap_mb allocation))
          (acc_memory_capacity_mb allocation) \<rparr>)"

definition memory_oversubscribed :: "AllocationAccumulator \<Rightarrow> bool" where
  "memory_oversubscribed allocation \<longleftrightarrow>
     (case acc_memory_capacity_mb allocation of None \<Rightarrow> False
      | Some capacity \<Rightarrow> acc_total_memory_cap_mb allocation > capacity)"

definition allocation_errors :: "gpu_key \<times> AllocationAccumulator \<Rightarrow> string list" where
  "allocation_errors entry =
     (let key = fst entry; allocation = snd entry;
          workers = JoinStrings (acc_worker_names allocation) '','' in
      (if acc_exclusive_worker_names allocation \<noteq> [] \<and> length (acc_worker_names allocation) > 1
       then [''gpu '' @ quoted (snd key) @ '' on node '' @ quoted (fst key) @
         '' mixes share_mode=exclusive with other workers: '' @ workers]
       else []) @
      (if acc_total_fraction allocation > dadd 1 kFractionEpsilon
       then [''gpu oversubscription on node '' @ quoted (fst key) @ '' gpu '' @ quoted (snd key) @
         '': total requested fraction='' @ stream_double (acc_total_fraction allocation) @
         '' by workers '' @ workers]
       else []) @
      (if memory_oversubscribed allocation
       then [''gpu memory oversubscription on node '' @ quoted (fst key) @ '' gpu '' @
         quoted (snd key) @ '': total requested memory_cap_mb='' @
         to_string (acc_total_memory_cap_mb allocation) @ '' exceeds capacity_mb='' @
         to_string (the (acc_memory_capacity_mb allocation)) @ '' by workers '' @ workers]
       else []))"

definition soft_share_warning :: "gpu_key \<Rightarrow> AllocationAccumulator \<Rightarrow> string" where
  "soft_share_warning key allocation =
     ''soft-share group on node '' @ quoted (fst key) @ '' gpu '' @ quoted (snd key) @
     '': workers='' @ JoinStrings (acc_worker_names allocation) '','' @
     '' total_fraction='' @ stream_double (acc_total_fraction allocation) @
     '' shared='' @ to_string (int (length (acc_shared_worker_names allocation))) @
     '' best_effort='' @ to_string (int (length (acc_best_effort_worker_names allocation))) @
     '' preemptible='' @ to_string (int (length (acc_preemptible_worker_names allocation))) @
     (case acc_memory_capacity_mb allocation of None \<Rightarrow> []
      | Some capacity \<Rightarrow> '' memory_cap_mb='' @ to_string (acc_total_memory_cap_mb allocation) @
          ''/'' @ to_string capacity)"

definition allocation_warnings :: "gpu_key \<times> AllocationAccumulator \<Rightarrow> string list" where
  "allocation_warnings entry =
     (let key = fst entry; allocation = snd entry in
      (if acc_memory_capacity_mb allocation = None \<and> acc_any_memory_cap allocation
       then [''gpu '' @ quoted (snd key) @ '' on node '' @ quoted (fst key) @
         '' has memory_cap_mb requests but node inventory does not expose gpu_memory_mb'']
       else []) @
      (if length (acc_worker_names allocation) > 1 then [soft_share_warning key allocation] else []) @
      (if acc_missing_memory_cap allocation \<and> length (acc_worker_names allocation) > 1
       then [''soft-share group on node '' @ quoted (fst key) @ '' gpu '' @ quoted (snd key) @
         '' is missing memory_cap_mb on one or more workers; '' @
         ''memory-aware admission will be incomplete'']
       else []) @
      (if acc_best_effort_worker_names allocation \<noteq> [] \<and>
          acc_highest_guaranteed_priority allocation \<noteq> INT_MIN \<and>
          acc_highest_best_effort_priority allocation \<ge> acc_highest_guaranteed_priority allocation
       then [''best-effort workers on node '' @ quoted (fst key) @ '' gpu '' @ quoted (snd key) @
         '' do not have lower priority than the rest of the group'']
       else []))"

definition allocation_hints ::
  "WorkerAllocationRecord list \<Rightarrow> gpu_key \<times> AllocationAccumulator \<Rightarrow> PreemptionHint list" where
  "allocation_hints worker_records entry =
     (let key = fst entry; allocation = snd entry in
      if acc_best_effort_worker_names allocation \<noteq> []
      then [\<lparr>ph_node_name = fst key, ph_gpu_device = snd key,
              ph_victim_worker_names = map wr_worker_name
                (BuildBestEffortVictimOrder worker_records (fst key) (snd key)),
              ph_reason = PreemptionReason allocation\<rparr>]
      else [])"

definition mark_soft_shared ::
  "gpu_key \<times> AllocationAccumulator \<Rightarrow> WorkerAllocationRecord list \<Rightarrow> WorkerAllocationRecord list" where
  "mark_soft_shared entry worker_records =
     (if length (acc_worker_names (snd entry)) > 1
      then map (\<lambda>r. if wr_node_name r = fst (fst entry) \<and> wr_gpu_device r = snd (fst entry)
                    then r\<lparr>wr_currently_soft_shared := True\<rparr> else r) worker_records
      else worker_records)"

section \<open>Capacity of the GPUs\<close>

definition capacity_summary ::
  "(gpu_key, AllocationAccumulator) omap \<Rightarrow> NodeInventory \<Rightarrow> string \<Rightarrow> GpuCapacitySummary" where
  "capacity_summary allocations node gpu =
     (let base = \<lparr> cs_node_name = node_name node, cs_gpu_device = gpu, cs_worker_count = 0,
            cs_guaranteed_worker_count = 0, cs_best_effort_worker_count = 0,
            cs_allocated_fraction = 0, cs_free_fraction = 1,
            cs_releasable_best_effort_fraction = 0, cs_memory_capacity_mb = None,
            cs_allocated_memory_cap_mb = 0, cs_releasable_best_effort_memory_cap_mb = 0,
            cs_free_memory_mb = None, cs_preemptible_best_effort_workers = [],
            cs_has_soft_share = False, cs_is_idle = True \<rparr>;
          summary = (case FindAllocationAccumulator allocations (node_name node) gpu of
            None \<Rightarrow> base
          | Some allocation \<Rightarrow> base\<lparr>
              cs_worker_count := int (length (acc_worker_names allocation)),
              cs_guaranteed_worker_count :=
                int (length (acc_exclusive_worker_names allocation) +
                     length (acc_shared_worker_names allocation)),
              cs_best_effort_worker_count := int (length (acc_best_effort_worker_names allocation)),
              cs_allocated_fraction := acc_total_fraction allocation,
              cs_free_fraction := max 0 (dsub 1 (acc_total_fraction allocation)),
              cs_releasable_best_effort_fraction := acc_best_effort_fraction allocation,
              cs_allocated_memory_cap_mb := acc_total_memory_cap_mb allocation,
              cs_releasable_best_effort_memory_cap_mb := acc_best_effort_memory_cap_mb allocation,
              cs_preemptible_best_effort_workers := acc_best_effort_worker_names allocation,
              cs_has_soft_share := length (acc_worker_names allocation) > 1,
              cs_is_idle := acc_worker_names allocation = []\<rparr>)
      in case omap_get (node_gpu_memory_mb node) gpu of
           None \<Rightarrow> summary
         | Some memory \<Rightarrow> summary\<lparr>
             cs_memory_capacity_mb := Some memory,
             cs_free_memory_mb := Some (max 0 (memory - cs_allocated_memory_cap_mb summary))\<rparr>)"

definition node_capacities ::
  "(gpu_key, AllocationAccumulator) omap \<Rightarrow> NodeInventory \<Rightarrow> GpuCapacitySummary list" where
  "node_capacities allocations node =
     (if \<not> NodeSupportsWorkerExecutionMode node then []
      else map (capacity_summary allocations node) (EffectiveNodeGpuDevices node))"

definition build_capacities ::
  "DesiredState \<Rightarrow> (gpu_key, AllocationAccumulator) omap \<Rightarrow> GpuCapacitySummary list" where
  "build_capacities state allocations = concat (map (node_capacities allocations) (st_nodes state))"

definition capacity_less :: "GpuCapacitySummary \<Rightarrow> GpuCapacitySummary \<Rightarrow> bool" where
  "capacity_less left right =
     (if cs_node_name left \<noteq> cs_node_name right then cs_node_name left < cs_node_name right
      else cs_gpu_device left < cs_gpu_device right)"

definition idle_gpus :: "GpuCapacitySummary list \<Rightarrow> string list" where
  "idle_gpus capacities =
     map (\<lambda>c. cs_node_name c @ '':'' @ cs_gpu_device c) (filter cs_is_idle capacities)"

definition idle_warning :: "GpuCapacitySummary list \<Rightarrow> string list" where
  "idle_warning capacities =
     (if list_ex cs_has_soft_share capacities \<and> idle_gpus capacities \<noteq> []
      then [''idle gpu capacity exists while soft-share groups are active; '' @
        ''consider rebalancing to '' @ JoinStrings (idle_gpus capacities) '','']
      else [])"

section \<open>Rebalance hints\<close>

definition needs_recommendation :: "WorkerAllocationRecord \<Rightarrow> bool" where
  "needs_recommendation worker \<longleftrightarrow>
     wr_currently_soft_shared worker \<or> below_whole_gpu (wr_gpu_fraction worker) \<or>
     wr_share_mode worker \<noteq> Exclusive"

definition own_gpu :: "WorkerAllocationRecord \<Rightarrow> GpuCapacitySummary \<Rightarrow> bool" where
  "own_gpu worker capacity \<longleftrightarrow>
     cs_node_name capacity = wr_node_name worker \<and> cs_gpu_device capacity = wr_gpu_device worker"

definition fits_memory_after_preemption ::
  "WorkerAllocationRecord \<Rightarrow> GpuCapacitySummary \<Rightarrow> bool" where
  "fits_memory_after_preemption worker capacity \<longleftrightarrow>
     wr_memory_cap_mb worker = None \<or> cs_memory_capacity_mb capacity = None \<or>
     cs_free_memory_mb capacity = None \<or>
     the (wr_memory_cap_mb worker) \<le>
       the (cs_free_memory_mb capacity) + cs_releasable_best_effort_memory_cap_mb capacity"

definition fraction_after_preemption :: "GpuCapacitySummary \<Rightarrow> double" where
  "fraction_after_preemption capacity =
     dadd (dadd (cs_free_fraction capacity) (cs_releasable_best_effort_fraction capacity))
       kFractionEpsilon"

record rebalance_search =
  rs_preferred :: "GpuCapacitySummary option"
  rs_fallback :: "GpuCapacitySummary option"
  rs_preferred_preemption :: "GpuCapacitySummary option"
  rs_fallback_preemption :: "GpuCapacitySummary option"

definition or_else :: "'a option \<Rightarrow> 'a option \<Rightarrow> 'a option" where
  "or_else a b = (case a of None \<Rightarrow> b | Some _ \<Rightarrow> a)"

text \<open>The scan over the capacities; an idle GPU on the worker's own node ends it.\<close>

fun rebalance_scan ::
  "WorkerAllocationRecord \<Rightarrow> GpuCapacitySummary list \<Rightarrow> rebalance_search \<Rightarrow> rebalance_search" where
  "rebalance_scan worker [] rs = rs"
| "rebalance_scan worker (capacity # capacities) rs =
     (if own_gpu worker capacity then rebalance_scan worker capacities rs
      else if \<not> fits_memory_after_preemption worker capacity
      then rebalance_scan worker capacities rs
      else if cs_is_idle capacity
      then if wr_node_name worker = cs_node_name capacity
           then rs\<lparr>rs_preferred := Some capacity\<rparr>
           else rebalance_scan worker capacities
             (rs\<lparr>rs_fallback := or_else (rs_fallback rs) (Some capacity)\<rparr>)
      else if cs_best_effort_worker_count capacity = 0 \<or>
              cs_guaranteed_worker_count capacity \<noteq> 0 \<or>
              cs_preemptible_best_effort_workers capacity = []
      then rebalance_scan worker capacities rs
      else if \<not> fraction_after_preemption capacity \<ge> 1 \<and>
              \<not> fraction_after_preemption capacity \<ge> wr_gpu_fraction worker
      then rebalance_scan worker capacities rs
      else if wr_node_name worker = cs_node_name capacity
      then rebalance_scan worker capacities (rs\<lparr>rs_preferred_preemption := Some capacity\<rparr>)
      else rebalance_scan worker capacities
        (rs\<lparr>rs_fallback_preemption := or_else (rs_fallback_preemption rs) (Some capacity)\<rparr>))"

definition rebalance_candidate ::
  "WorkerAllocationRecord \<Rightarrow> GpuCapacitySummary list \<Rightarrow> GpuCapacitySummary option" where
  "rebalance_candidate worker capacities =
     (let rs = rebalance_scan worker capacities
            \<lparr>rs_preferred = None, rs_fallback = None,
             rs_preferred_preemption = None, rs_fallback_preemption = None\<rparr>
      in or_else (rs_preferred rs)
           (or_else (rs_fallback rs)
             (or_else (rs_preferred_preemption rs) (rs_fallback_preemption rs))))"

definition rebalance_hint :: "WorkerAllocationRecord \<Rightarrow> GpuCapacitySummary \<Rightarrow> string" where
  "rebalance_hint worker candidate =
     ''worker '' @ quoted (wr_worker_name worker) @ '' can be rebalanced from '' @
     wr_node_name worker @ '':'' @ wr_gpu_device worker @
     (if cs_is_idle candidate
      then '' to idle gpu '' @ cs_node_name candidate @ '':'' @ cs_gpu_device candidate @
        '' and upgraded to share_mode=exclusive fraction=1'' @
        (if wr_currently_soft_shared worker then '' to dissolve a soft-share group''
         else if below_whole_gpu (wr_gpu_fraction worker) then '' to avoid partial GPU reservation''
         else [])
      else '' to gpu '' @ cs_node_name candidate @ '':'' @ cs_gpu_device candidate @
        '' after preempting best-effort workers '' @
        JoinStrings (cs_preemptible_best_effort_workers candidate) '','') @
     (case (wr_memory_cap_mb worker, cs_memory_capacity_mb candidate) of
        (Some cap, Some capacity) \<Rightarrow>
          '' (memory_cap_mb='' @ to_string cap @ '', target_capacity_mb='' @
          to_string capacity @ '')''
      | _ \<Rightarrow> [])"

definition rebalance_hints ::
  "WorkerAllocationRecord list \<Rightarrow> GpuCapacitySummary list \<Rightarrow> string list" where
  "rebalance_hints worker_records capacities =
     concat (map (\<lambda>worker.
       if \<not> needs_recommendation worker then []
       else case rebalance_candidate worker capacities of
         None \<Rightarrow> []
       | Some candidate \<Rightarrow> [rebalance_hint worker candidate]) worker_records)"

section \<open>Placement recommendations\<close>

definition placement_candidate ::
  "WorkerAllocationRecord list \<Rightarrow> WorkerAllocationRecord \<Rightarrow> GpuCapacitySummary
   \<Rightarrow> PlacementCandidate" where
  "placement_candidate worker_records worker capacity =
     (let victim_order = BuildBestEffortVictimOrder worker_records
            (cs_node_name capacity) (cs_gpu_device capacity);
          fits_current_fraction =
            dadd (cs_free_fraction capacity) kFractionEpsilon \<ge> wr_gpu_fraction worker;
          current_selection =
            SelectMinimalVictims worker capacity victim_order (wr_gpu_fraction worker);
          fits_current_with_preemption = vs_satisfies current_selection;
          fits_exclusive_fraction =
            (cs_is_idle capacity \<and> dadd (cs_free_fraction capacity) kFractionEpsilon \<ge> 1);
          exclusive_selection = SelectMinimalVictims worker capacity victim_order 1;
          fits_exclusive_with_preemption =
            (cs_guaranteed_worker_count capacity = 0 \<and> vs_satisfies exclusive_selection);
          fits_memory_cap =
            (wr_memory_cap_mb worker = None \<or> cs_free_memory_mb capacity = None \<or>
             the (cs_free_memory_mb capacity) \<ge> the (wr_memory_cap_mb worker));
          fits_memory_with_preemption =
            (fits_current_with_preemption \<or> fits_exclusive_with_preemption);
          preemption_required =
            (\<not> cs_is_idle capacity \<and>
             (fits_exclusive_with_preemption \<and> \<not> fits_exclusive_fraction \<or>
              fits_current_with_preemption \<and> \<not> fits_current_fraction));
          preemption_victims =
            (if fits_exclusive_with_preemption \<and> \<not> fits_exclusive_fraction
             then vs_worker_names exclusive_selection
             else vs_worker_names current_selection)
      in \<lparr> pc_node_name = cs_node_name capacity, pc_gpu_device = cs_gpu_device capacity,
           pc_score =
             ScorePlacementCandidate worker capacity fits_current_fraction
               fits_current_with_preemption fits_exclusive_fraction fits_exclusive_with_preemption
               fits_memory_cap fits_memory_with_preemption preemption_required
             - int (length preemption_victims) * 5,
           pc_same_node = (cs_node_name capacity = wr_node_name worker),
           pc_idle = cs_is_idle capacity,
           pc_fits_current_fraction = fits_current_fraction,
           pc_fits_current_with_preemption = fits_current_with_preemption,
           pc_fits_exclusive_fraction = fits_exclusive_fraction,
           pc_fits_exclusive_with_preemption = fits_exclusive_with_preemption,
           pc_fits_memory_cap = fits_memory_cap,
           pc_fits_memory_with_preemption = fits_memory_with_preemption,
           pc_preemption_required = preemption_required,
           pc_free_fraction = cs_free_fraction capacity,
           pc_free_memory_mb = cs_free_memory_mb capacity,
           pc_preemption_victims = preemption_victims,
           pc_action = PlacementAction worker fits_current_with_preemption fits_exclusive_fraction
             fits_exclusive_with_preemption fits_current_fraction fits_memory_with_preemption \<rparr>)"

definition candidate_less :: "string \<Rightarrow> PlacementCandidate \<Rightarrow> PlacementCandidate \<Rightarrow> bool" where
  "candidate_less selection_policy left right =
     (let left_rank = PlacementCandidatePolicyRank selection_policy left;
          right_rank = PlacementCandidatePolicyRank selection_policy right
      in if left_rank \<noteq> right_rank then left_rank < right_rank
         else if pc_score left \<noteq> pc_score right then pc_score left > pc_score right
         else if pc_same_node left \<noteq> pc_same_node right then pc_same_node left
         else if pc_preemption_required left \<noteq> pc_preemption_required right
         then \<not> pc_preemption_required left
         else if pc_idle left \<noteq> pc_idle right then pc_idle left
         else if \<bar>dsub (pc_free_fraction left) (pc_free_fraction right)\<bar> > kFractionEpsilon
         then pc_free_fraction left > pc_free_fraction right
         else if pc_node_name left \<noteq> pc_node_name right then pc_node_name left < pc_node_name right
         else pc_gpu_device left < pc_gpu_device right)"

definition recommendation_for ::
  "DesiredState \<Rightarrow> WorkerAllocationRecord list \<Rightarrow> GpuCapacitySummary list
   \<Rightarrow> WorkerAllocationRecord \<Rightarrow> WorkerPlacementRecommendation" where
  "recommendation_for state worker_records capacities worker =
     \<lparr> wpr_worker_name = wr_worker_name worker, wpr_current_node_name = wr_node_name worker,
       wpr_current_gpu_device = wr_gpu_device worker,
       wpr_current_share_mode = wr_share_mode worker,
       wpr_current_fraction = wr_gpu_fraction worker,
       wpr_current_memory_cap_mb = wr_memory_cap_mb worker,
       wpr_candidates = std_sort (candidate_less (EffectiveWorkerSelectionPolicy state))
         (map (placement_candidate worker_records worker)
           (filter (\<lambda>c. \<not> own_gpu worker c) capacities)) \<rparr>"

definition placement_recommendations ::
  "DesiredState \<Rightarrow> WorkerAllocationRecord list \<Rightarrow> GpuCapacitySummary list
   \<Rightarrow> WorkerPlacementRecommendation list" where
  "placement_recommendations state worker_records capacities =
     filter (\<lambda>r. wpr_candidates r \<noteq> [])
       (map (recommendation_for state worker_records capacities)
         (filter needs_recommendation worker_records))"

definition recommendation_less ::
  "WorkerPlacementRecommendation \<Rightarrow> WorkerPlacementRecommendation \<Rightarrow> bool" where
  "recommendation_less left right \<longleftrightarrow> wpr_worker_name left < wpr_worker_name right"

section \<open>Rollout actions\<close>

definition evict_action ::
  "int \<Rightarrow> string \<Rightarrow> PlacementCandidate \<Rightarrow> SchedulerRolloutAction" where
  "evict_action step worker candidate =
     \<lparr> ra_step = step, ra_worker_name = worker, ra_action = ''evict-best-effort'',
       ra_target_node_name = pc_node_name candidate,
       ra_target_gpu_device = pc_gpu_device candidate,
       ra_victim_worker_names = pc_preemption_victims candidate,
       ra_reason = ''free target capacity before retrying placement for worker '' @ quoted worker \<rparr>"

definition retry_action ::
  "int \<Rightarrow> string \<Rightarrow> PlacementCandidate \<Rightarrow> SchedulerRolloutAction" where
  "retry_action step worker candidate =
     \<lparr> ra_step = step, ra_worker_name = worker, ra_action = ''retry-placement'',
       ra_target_node_name = pc_node_name candidate,
       ra_target_gpu_device = pc_gpu_device candidate, ra_victim_worker_names = [],
       ra_reason = ''apply deferred scheduler decision after eviction completes'' \<rparr>"

fun rollout_actions_from ::
  "int \<Rightarrow> WorkerPlacementRecommendation list \<Rightarrow> SchedulerRolloutAction list" where
  "rollout_actions_from rollout_step [] = []"
| "rollout_actions_from rollout_step (recommendation # recommendations) =
     (case wpr_candidates recommendation of
        [] \<Rightarrow> rollout_actions_from rollout_step recommendations
      | candidate # _ \<Rightarrow>
          if \<not> pc_preemption_required candidate \<or> pc_preemption_victims candidate = []
          then rollout_actions_from rollout_step recommendations
          else evict_action rollout_step (wpr_worker_name recommendation) candidate #
               retry_action (rollout_step + 1) (wpr_worker_name recommendation) candidate #
               rollout_actions_from (rollout_step + 2) recommendations)"

definition hint_less :: "PreemptionHint \<Rightarrow> PreemptionHint \<Rightarrow> bool" where
  "hint_less left right =
     (if ph_node_name left \<noteq> ph_node_name right then ph_node_name left < ph_node_name right
      else ph_gpu_device left < ph_gpu_device right)"

definition group_less :: "GpuAllocationGroup \<Rightarrow> GpuAllocationGroup \<Rightarrow> bool" where
  "group_less left right =
     (if ag_node_name left \<noteq> ag_node_name right then ag_node_name left < ag_node_name right
      else ag_gpu_device left < ag_gpu_device right)"

section \<open>The whole policy\<close>

definition EvaluateSchedulingPolicy :: "DesiredState \<Rightarrow> SchedulingPolicyReport" where
  "EvaluateSchedulingPolicy state =
     (let adm = admit_workers state;
          allocations = map (\<lambda>(key, allocation). (key, sort_names allocation)) (adm_allocations adm);
          worker_records = fold mark_soft_shared allocations (adm_worker_records adm);
          unsorted_capacities = build_capacities state allocations;
          capacities = std_sort capacity_less unsorted_capacities;
          recommendations = std_sort recommendation_less
            (placement_recommendations state worker_records capacities)
      in \<lparr> rep_allocations = std_sort group_less (map allocation_group allocations),
           rep_capacities = capacities,
           rep_placement_recommendations = recommendations,
           rep_preemption_hints = std_sort hint_less
             (concat (map (allocation_hints (adm_worker_records adm)) allocations)),
           rep_rollout_actions = rollout_actions_from 1 recommendations,
           rep_rebalance_hints = rebalance_hints worker_records capacities,
           rep_warnings = concat (map allocation_warnings allocations) @
             idle_warning unsorted_capacities,
           rep_errors = adm_errors adm @ concat (map allocation_errors allocations) \<rparr>)"

definition RequireSchedulingPolicy :: "DesiredState \<Rightarrow> unit res" where
  "RequireSchedulingPolicy state =
     (let report = EvaluateSchedulingPolicy state in
      if rep_errors report = [] then Inr ()
      else Inl (RuntimeError (''desired state violates scheduling policy:'' @
        concat (map (\<lambda>err. newline @ ''- '' @ err) (rep_errors report)))))"

end
