(* ===== verification/Naim_Scheduling_Props.thy ===== *)
theory Naim_Scheduling_Props
  imports Naim_Scheduling_Policy
begin

text \<open>
  What the scheduling policy guarantees. The abstract specification
  \<open>scheduling_admissible\<close> speaks about the desired state only: each worker is well formed
  and pinned to an existing GPU of a worker-capable node, and no GPU is shared with an
  exclusive worker or oversubscribed. \<open>RequireSchedulingPolicy\<close> accepts exactly the
  admissible states. Further sections cover victim selection, the recommendations and the
  rollout actions.
\<close>

section \<open>Abstract specification of admission\<close>

definition workers_of :: "DesiredState \<Rightarrow> InstanceSpec list" where
  "workers_of state = filter (\<lambda>i. inst_role i = Worker) (st_instances state)"

definition find_node :: "DesiredState \<Rightarrow> string \<Rightarrow> NodeInventory option" where
  "find_node state name = find (\<lambda>node. node_name node = name) (st_nodes state)"

definition worker_admissible :: "DesiredState \<Rightarrow> InstanceSpec \<Rightarrow> bool" where
  "worker_admissible state i \<longleftrightarrow>
     inst_priority i \<ge> 0 \<and>
     0 < inst_gpu_fraction i \<and> inst_gpu_fraction i \<le> dadd 1 kFractionEpsilon \<and>
     (case inst_memory_cap_mb i of None \<Rightarrow> True | Some cap \<Rightarrow> cap > 0) \<and>
     (inst_share_mode i = Exclusive \<longrightarrow> \<bar>dsub (inst_gpu_fraction i) 1\<bar> \<le> kFractionEpsilon) \<and>
     (inst_share_mode i = BestEffort \<longrightarrow> inst_preemptible i) \<and>
     (case (inst_gpu_device i, find_node state (inst_node_name i)) of
        (Some gpu, Some node) \<Rightarrow>
          gpu \<noteq> [] \<and> node_execution_mode node \<noteq> InferOnly \<and>
          gpu \<in> fst ` set (node_gpu_memory_mb node) \<union> set (node_gpu_devices node)
      | _ \<Rightarrow> False)"

definition gpu_tenants :: "DesiredState \<Rightarrow> gpu_key \<Rightarrow> InstanceSpec list" where
  "gpu_tenants state key =
     filter (\<lambda>i. inst_node_name i = fst key \<and> inst_gpu_device i = Some (snd key))
       (workers_of state)"

definition gpu_memory_capacity :: "DesiredState \<Rightarrow> gpu_key \<Rightarrow> int option" where
  "gpu_memory_capacity state key =
     Option.bind (find_node state (fst key)) (\<lambda>node. omap_get (node_gpu_memory_mb node) (snd key))"

definition memory_cap :: "InstanceSpec \<Rightarrow> int" where
  "memory_cap i = value_or (inst_memory_cap_mb i) 0"

definition gpu_admissible :: "DesiredState \<Rightarrow> gpu_key \<Rightarrow> bool" where
  "gpu_admissible state key \<longleftrightarrow>
     (let tenants = gpu_tenants state key in
      (list_ex (\<lambda>i. inst_share_mode i = Exclusive) tenants \<longrightarrow> length tenants \<le> 1) \<and>
      foldl dadd 0 (map inst_gpu_fraction tenants) \<le> dadd 1 kFractionEpsilon \<and>
      (case gpu_memory_capacity state key of None \<Rightarrow> True
       | Some capacity \<Rightarrow> sum_list (map memory_cap tenants) \<le> capacity))"

definition scheduling_admissible :: "DesiredState \<Rightarrow> bool" where
  "scheduling_admissible state \<longleftrightarrow>
     list_all (\<lambda>i. worker_admissible state i \<and> gpu_admissible state (gpu_of i)) (workers_of state)"

section \<open>Admission loop\<close>

lemma get_nodes_by_name: "omap_get (nodes_by_name state) name = find_node state name"
  by (simp add: nodes_by_name_def find_node_def omap_get_fold_emplace option.map_ident)

lemma check_worker_None_iff:
  "check_worker (nodes_by_name state) i = None \<longleftrightarrow> worker_admissible state i"
proof (cases "inst_gpu_device i")
  case None
  then show ?thesis by (simp add: check_worker_def worker_admissible_def)
next
  case (Some gpu)
  show ?thesis
    unfolding check_worker_def worker_admissible_def get_nodes_by_name Let_def
      valid_fraction_def whole_gpu_def NodeSupportsWorkerExecutionMode_def
    by (cases "find_node state (inst_node_name i)"; cases "inst_memory_cap_mb i")
      (simp_all add: Some not_le not_less conj_commute)
qed

definition admitted :: "node_map \<Rightarrow> InstanceSpec list \<Rightarrow> InstanceSpec list" where
  "admitted nodes xs = filter (\<lambda>i. inst_role i = Worker \<and> check_worker nodes i = None) xs"

definition rejections :: "node_map \<Rightarrow> InstanceSpec list \<Rightarrow> string list" where
  "rejections nodes xs =
     List.map_filter (\<lambda>i. if inst_role i = Worker then check_worker nodes i else None) xs"

lemma admission_fold:
  "fold (admission_step nodes) xs adm =
     \<lparr>adm_errors = adm_errors adm @ rejections nodes xs,
      adm_allocations = fold (\<lambda>i. omap_modify (gpu_of i) empty_accumulator
        (accumulate_worker (node_of nodes i) i)) (admitted nodes xs) (adm_allocations adm),
      adm_worker_records = adm_worker_records adm @ map worker_record (admitted nodes xs)\<rparr>"
  by (induction xs arbitrary: adm)
    (auto simp: admission_step_def admitted_def rejections_def map_filter_simps split: option.splits)

lemma rejections_Nil_iff:
  "rejections (nodes_by_name state) (st_instances state) = [] \<longleftrightarrow>
     list_all (worker_admissible state) (workers_of state)"
  by (induction "st_instances state" arbitrary: state)
    (auto simp: rejections_def map_filter_def workers_of_def list_all_iff filter_empty_conv
      simp flip: check_worker_None_iff)

text \<open>The fields of an accumulator after a sequence of workers.\<close>


lemma accumulate_worker_fields:
  "acc_worker_names (accumulate_worker node i a) = acc_worker_names a @ [inst_name i]"
  "acc_exclusive_worker_names (accumulate_worker node i a) =
     acc_exclusive_worker_names a @ (if inst_share_mode i = Exclusive then [inst_name i] else [])"
  "acc_shared_worker_names (accumulate_worker node i a) =
     acc_shared_worker_names a @ (if inst_share_mode i = Shared then [inst_name i] else [])"
  "acc_best_effort_worker_names (accumulate_worker node i a) =
     acc_best_effort_worker_names a @ (if inst_share_mode i = BestEffort then [inst_name i] else [])"
  "acc_total_fraction (accumulate_worker node i a) =
     dadd (acc_total_fraction a) (inst_gpu_fraction i)"
  "acc_best_effort_fraction (accumulate_worker node i a) =
     (if inst_share_mode i = BestEffort
      then dadd (acc_best_effort_fraction a) (inst_gpu_fraction i) else acc_best_effort_fraction a)"
  "acc_total_memory_cap_mb (accumulate_worker node i a) =
     acc_total_memory_cap_mb a + memory_cap i"
  "acc_memory_capacity_mb (accumulate_worker node i a) =
     or_else (omap_get (node_gpu_memory_mb node) (the (inst_gpu_device i)))
       (acc_memory_capacity_mb a)"
  by (simp_all add: accumulate_worker_def accumulate_share_mode_def accumulate_memory_def Let_def
      memory_cap_def value_or_def or_else_def split: GpuShareMode.splits option.splits)

text \<open>The accumulator of one GPU after the workers \<open>xs\<close>, all on nodes given by \<open>g\<close>.\<close>

definition accumulate_all ::
  "(InstanceSpec \<Rightarrow> NodeInventory) \<Rightarrow> InstanceSpec list \<Rightarrow> AllocationAccumulator" where
  "accumulate_all g xs = fold (\<lambda>i. accumulate_worker (g i) i) xs empty_accumulator"

lemma accumulate_all_fields:
  "acc_worker_names (accumulate_all g xs) = map inst_name xs"
  "acc_exclusive_worker_names (accumulate_all g xs) =
     map inst_name (filter (\<lambda>i. inst_share_mode i = Exclusive) xs)"
  "acc_shared_worker_names (accumulate_all g xs) =
     map inst_name (filter (\<lambda>i. inst_share_mode i = Shared) xs)"
  "acc_best_effort_worker_names (accumulate_all g xs) =
     map inst_name (filter (\<lambda>i. inst_share_mode i = BestEffort) xs)"
  "acc_total_fraction (accumulate_all g xs) = foldl dadd 0 (map inst_gpu_fraction xs)"
  "acc_best_effort_fraction (accumulate_all g xs) =
     foldl dadd 0 (map inst_gpu_fraction (filter (\<lambda>i. inst_share_mode i = BestEffort) xs))"
  "acc_total_memory_cap_mb (accumulate_all g xs) = sum_list (map memory_cap xs)"
  by (induction xs rule: rev_induct)
    (simp_all add: accumulate_all_def accumulate_worker_fields empty_accumulator_def)

lemma accumulate_all_capacity:
  assumes "\<forall>i \<in> set xs. omap_get (node_gpu_memory_mb (g i)) (the (inst_gpu_device i)) = c"
    and "xs \<noteq> []"
  shows "acc_memory_capacity_mb (accumulate_all g xs) = c"
  using assms
proof (induction xs rule: rev_induct)
  case (snoc i xs)
  show ?case
  proof (cases "xs = []")
    case True
    with snoc show ?thesis
      by (cases c) (simp_all add: accumulate_all_def accumulate_worker_fields
          empty_accumulator_def or_else_def)
  next
    case False
    with snoc show ?thesis
      by (cases c) (simp_all add: accumulate_all_def accumulate_worker_fields or_else_def)
  qed
qed simp

lemma sort_names_fields [simp]:
  "acc_worker_names (sort_names a) = sort (acc_worker_names a)"
  "acc_exclusive_worker_names (sort_names a) = sort (acc_exclusive_worker_names a)"
  "acc_shared_worker_names (sort_names a) = sort (acc_shared_worker_names a)"
  "acc_best_effort_worker_names (sort_names a) = sort (acc_best_effort_worker_names a)"
  "acc_total_fraction (sort_names a) = acc_total_fraction a"
  "acc_best_effort_fraction (sort_names a) = acc_best_effort_fraction a"
  "acc_total_memory_cap_mb (sort_names a) = acc_total_memory_cap_mb a"
  "acc_memory_capacity_mb (sort_names a) = acc_memory_capacity_mb a"
  by (simp_all add: sort_names_def)

section \<open>The allocations of a report\<close>

definition allocations_of :: "DesiredState \<Rightarrow> (gpu_key, AllocationAccumulator) omap" where
  "allocations_of state = adm_allocations (admit_workers state)"

abbreviation admitted_of :: "DesiredState \<Rightarrow> InstanceSpec list" where
  "admitted_of state \<equiv> admitted (nodes_by_name state) (st_instances state)"

definition admitted_on :: "DesiredState \<Rightarrow> gpu_key \<Rightarrow> InstanceSpec list" where
  "admitted_on state key = filter (\<lambda>i. gpu_of i = key) (admitted_of state)"

lemma admit_workers_eq:
  "admit_workers state =
     \<lparr>adm_errors = rejections (nodes_by_name state) (st_instances state),
      adm_allocations = fold (\<lambda>i. omap_modify (gpu_of i) empty_accumulator
        (accumulate_worker (node_of (nodes_by_name state) i) i)) (admitted_of state) [],
      adm_worker_records = map worker_record (admitted_of state)\<rparr>"
  by (simp add: admit_workers_def admission_fold)

lemma omap_ok_allocations_of: "omap_ok (allocations_of state)"
  by (simp add: allocations_of_def admit_workers_eq omap_ok_fold_modify)

lemma get_allocations_of:
  "omap_get (allocations_of state) key =
     (if admitted_on state key = [] then None
      else Some (accumulate_all (node_of (nodes_by_name state)) (admitted_on state key)))"
  by (auto simp: allocations_of_def admit_workers_eq omap_get_fold_modify accumulate_all_def
      admitted_on_def value_or_def filter_empty_conv)

lemma allocations_of_entry:
  "(key, a) \<in> set (allocations_of state) \<longleftrightarrow>
     admitted_on state key \<noteq> [] \<and>
     a = accumulate_all (node_of (nodes_by_name state)) (admitted_on state key)"
  by (auto simp: omap_get_eq_Some[OF omap_ok_allocations_of, symmetric] get_allocations_of)

lemma rep_errors_eq:
  "rep_errors (EvaluateSchedulingPolicy state) =
     rejections (nodes_by_name state) (st_instances state) @
     concat (map (\<lambda>(key, a). allocation_errors (key, sort_names a)) (allocations_of state))"
  by (simp add: EvaluateSchedulingPolicy_def Let_def admit_workers_eq allocations_of_def comp_def
      case_prod_beta')

section \<open>Admission is decided by the specification\<close>

lemma admitted_of_iff:
  "i \<in> set (admitted_of state) \<longleftrightarrow> i \<in> set (workers_of state) \<and> worker_admissible state i"
  by (auto simp: admitted_def workers_of_def check_worker_None_iff)

lemma worker_admissible_gpu:
  assumes "worker_admissible state i"
  obtains gpu node where "inst_gpu_device i = Some gpu" "gpu \<noteq> []"
    "find_node state (inst_node_name i) = Some node" "node_execution_mode node \<noteq> InferOnly"
    "gpu \<in> set (EffectiveNodeGpuDevices node)"
  using assms by (auto simp: worker_admissible_def split: option.splits)

lemma admitted_on_eq_tenants:
  assumes "list_all (worker_admissible state) (workers_of state)"
  shows "admitted_on state key = gpu_tenants state key"
proof -
  have "admitted_of state = workers_of state"
    using assms by (auto simp: admitted_def workers_of_def check_worker_None_iff list_all_iff
        intro: filter_cong)
  moreover have "gpu_of i = key \<longleftrightarrow> inst_node_name i = fst key \<and> inst_gpu_device i = Some (snd key)"
    if "i \<in> set (workers_of state)" for i
  proof -
    have "worker_admissible state i" using assms that by (simp add: list_all_iff)
    then show ?thesis by (rule worker_admissible_gpu) (auto simp: gpu_of_def)
  qed
  ultimately show ?thesis
    by (simp add: admitted_on_def gpu_tenants_def cong: filter_cong)
qed

lemma admitted_on_capacity:
  assumes "admitted_on state key \<noteq> []"
  shows "acc_memory_capacity_mb (accumulate_all (node_of (nodes_by_name state)) (admitted_on state key))
    = gpu_memory_capacity state key"
proof (rule accumulate_all_capacity[OF _ assms], rule ballI)
  fix i assume "i \<in> set (admitted_on state key)"
  then have "gpu_of i = key" "worker_admissible state i"
    by (auto simp: admitted_on_def admitted_of_iff)
  then show "omap_get (node_gpu_memory_mb (node_of (nodes_by_name state) i)) (the (inst_gpu_device i))
      = gpu_memory_capacity state key"
    by (auto elim!: worker_admissible_gpu
        simp: gpu_of_def node_of_def gpu_memory_capacity_def get_nodes_by_name)
qed

lemma sort_eq_Nil: "sort xs = [] \<longleftrightarrow> xs = []"
  by (metis length_0_conv length_sort)

lemma allocation_errors_Nil_iff:
  "allocation_errors (key, sort_names a) = [] \<longleftrightarrow>
     (acc_exclusive_worker_names a = [] \<or> length (acc_worker_names a) \<le> 1) \<and>
     acc_total_fraction a \<le> dadd 1 kFractionEpsilon \<and>
     (case acc_memory_capacity_mb a of None \<Rightarrow> True
      | Some capacity \<Rightarrow> acc_total_memory_cap_mb a \<le> capacity)"
  by (auto simp: allocation_errors_def Let_def memory_oversubscribed_def sort_eq_Nil
      split: option.splits)

lemma group_errors_Nil_iff:
  assumes "admitted_on state key = gpu_tenants state key" "gpu_tenants state key \<noteq> []"
  shows "allocation_errors
      (key, sort_names (accumulate_all (node_of (nodes_by_name state)) (admitted_on state key))) = []
    \<longleftrightarrow> gpu_admissible state key"
  using admitted_on_capacity[of state key] assms
  by (cases "gpu_memory_capacity state key")
    (auto simp: allocation_errors_Nil_iff accumulate_all_fields gpu_admissible_def Let_def
      list_ex_iff filter_empty_conv)

lemma RequireSchedulingPolicy_errors:
  "RequireSchedulingPolicy state = Inr () \<longleftrightarrow> rep_errors (EvaluateSchedulingPolicy state) = []"
  by (simp add: RequireSchedulingPolicy_def Let_def)

lemma gpu_tenants_gpu_of:
  assumes "list_all (worker_admissible state) (workers_of state)" "i \<in> set (workers_of state)"
  shows "i \<in> set (gpu_tenants state (gpu_of i))"
proof -
  have "worker_admissible state i" using assms by (simp add: list_all_iff)
  then show ?thesis
    by (rule worker_admissible_gpu) (use assms in \<open>auto simp: gpu_of_def gpu_tenants_def\<close>)
qed

lemma group_errors_all_iff:
  assumes "list_all (worker_admissible state) (workers_of state)"
  shows "concat (map (\<lambda>(key, a). allocation_errors (key, sort_names a)) (allocations_of state)) = []
    \<longleftrightarrow> (\<forall>i \<in> set (workers_of state). gpu_admissible state (gpu_of i))" (is "?l \<longleftrightarrow> ?r")
proof -
  note on = admitted_on_eq_tenants[OF assms]
  have "?l \<longleftrightarrow> (\<forall>key a. (key, a) \<in> set (allocations_of state) \<longrightarrow>
      allocation_errors (key, sort_names a) = [])"
    by (auto simp: concat_eq_Nil_conv)
  also have "\<dots> \<longleftrightarrow> (\<forall>key. gpu_tenants state key \<noteq> [] \<longrightarrow> gpu_admissible state key)"
    by (simp only: allocations_of_entry on group_errors_Nil_iff[OF on, unfolded on] simp_thms
        imp_conjL all_simps) (metis group_errors_Nil_iff[OF on, unfolded on])
  also have "\<dots> \<longleftrightarrow> ?r"
  proof
    assume "\<forall>key. gpu_tenants state key \<noteq> [] \<longrightarrow> gpu_admissible state key"
    then show ?r
      using gpu_tenants_gpu_of[OF assms] by (metis list.set(1) empty_iff)
  next
    assume r: ?r
    show "\<forall>key. gpu_tenants state key \<noteq> [] \<longrightarrow> gpu_admissible state key"
    proof (intro allI impI)
      fix key assume "gpu_tenants state key \<noteq> []"
      then obtain i where i: "i \<in> set (gpu_tenants state key)" by (meson list.set_sel(1))
      then have "i \<in> set (workers_of state)" "gpu_of i = key"
        by (auto simp: gpu_tenants_def gpu_of_def)
      with r show "gpu_admissible state key" by blast
    qed
  qed
  finally show ?thesis .
qed

lemma RequireSchedulingPolicy_admissible:
  "RequireSchedulingPolicy state = Inr () \<longleftrightarrow> scheduling_admissible state"
proof (cases "list_all (worker_admissible state) (workers_of state)")
  case True
  then show ?thesis
    using group_errors_all_iff[OF True]
    by (simp add: RequireSchedulingPolicy_errors rep_errors_eq rejections_Nil_iff
        scheduling_admissible_def list_all_iff)
next
  case False
  then show ?thesis
    by (auto simp: RequireSchedulingPolicy_errors rep_errors_eq rejections_Nil_iff
        scheduling_admissible_def list_all_iff)
qed

text \<open>
  \<^bold>\<open>C1.\<close> Admission decides its specification. \<open>RequireSchedulingPolicy\<close> returns normally
  exactly for the admissible desired states: every worker is well formed and pinned to an
  existing GPU of a worker-capable node, an exclusive worker has its GPU to itself, the
  fractions of each GPU add up to at most one (within the tolerance), and the memory caps
  stay within the known capacity. Every other state raises the policy error.
\<close>

theorem RequireSchedulingPolicy_iff_admissible:
  "RequireSchedulingPolicy state = Inr () \<longleftrightarrow> scheduling_admissible state"
  by (rule RequireSchedulingPolicy_admissible)

section \<open>Victim selection\<close>

text \<open>What the first \<open>k\<close> victims release, and whether that is enough.\<close>

definition released_fraction :: "WorkerAllocationRecord list \<Rightarrow> nat \<Rightarrow> double" where
  "released_fraction order k = foldl dadd 0 (map wr_gpu_fraction (take k order))"

definition released_memory :: "WorkerAllocationRecord list \<Rightarrow> nat \<Rightarrow> int" where
  "released_memory order k = sum_list (map (\<lambda>r. value_or (wr_memory_cap_mb r) 0) (take k order))"

definition victims_suffice ::
  "WorkerAllocationRecord \<Rightarrow> GpuCapacitySummary \<Rightarrow> WorkerAllocationRecord list \<Rightarrow> double \<Rightarrow> nat
   \<Rightarrow> bool" where
  "victims_suffice worker capacity order required k \<longleftrightarrow>
     dadd (released_fraction order k) kFractionEpsilon \<ge> needed_fraction_for capacity required \<and>
     released_memory order k \<ge> needed_memory_for worker capacity"

definition selection_of :: "WorkerAllocationRecord list \<Rightarrow> nat \<Rightarrow> bool \<Rightarrow> VictimSelection" where
  "selection_of order k satisfied =
     \<lparr>vs_worker_names = map wr_worker_name (take k order),
      vs_released_fraction = released_fraction order k,
      vs_released_memory_cap_mb = released_memory order k, vs_satisfies = satisfied\<rparr>"

lemma dadd_0_kFractionEpsilon: "dadd 0 kFractionEpsilon = kFractionEpsilon"
  by (simp add: dadd_def kFractionEpsilon_def)

lemma upt_Cons: "j < n \<Longrightarrow> [j..<n] = j # [Suc j..<n]"
  by (simp add: upt_conv_Cons)

lemma select_victims_loop_step:
  assumes "order = pre @ victim # victims"
  shows "select_victims_loop (needed_fraction_for capacity required)
      (needed_memory_for worker capacity) (victim # victims) (selection_of order (length pre) False) =
    (if victims_suffice worker capacity order required (Suc (length pre))
     then selection_of order (Suc (length pre)) True
     else select_victims_loop (needed_fraction_for capacity required)
       (needed_memory_for worker capacity) victims (selection_of order (Suc (length pre)) False))"
  using assms
  by (simp add: Let_def selection_of_def released_fraction_def released_memory_def
      victims_suffice_def)

lemma select_victims_loop_find:
  assumes "order = pre @ victims"
  shows "select_victims_loop (needed_fraction_for capacity required)
      (needed_memory_for worker capacity) victims (selection_of order (length pre) False) =
    (case find (victims_suffice worker capacity order required) [Suc (length pre)..<Suc (length order)]
     of Some k \<Rightarrow> selection_of order k True | None \<Rightarrow> selection_of order (length order) False)"
  using assms
proof (induction victims arbitrary: pre)
  case Nil
  then show ?case by simp
next
  case (Cons victim victims)
  have "[Suc (length pre)..<Suc (length order)] =
      Suc (length pre) # [Suc (Suc (length pre))..<Suc (length order)]"
    using Cons.prems by (subst upt_Cons) simp_all
  then show ?case
    using Cons.IH[of "pre @ [victim]"] select_victims_loop_step[OF Cons.prems] Cons.prems
    by (simp del: upt_Suc select_victims_loop.simps)
qed

lemma SelectMinimalVictims_find:
  "SelectMinimalVictims worker capacity order required =
     (case find (victims_suffice worker capacity order required) [0..<Suc (length order)] of
        Some k \<Rightarrow> selection_of order k True
      | None \<Rightarrow> selection_of order (length order) False)"
proof -
  have init: "\<lparr>vs_worker_names = [], vs_released_fraction = 0, vs_released_memory_cap_mb = 0,
      vs_satisfies = s\<rparr> = selection_of order 0 s" for s
    by (simp add: selection_of_def released_fraction_def released_memory_def)
  have zero: "victims_suffice worker capacity order required 0 \<longleftrightarrow>
      needed_fraction_for capacity required \<le> kFractionEpsilon \<and>
      needed_memory_for worker capacity \<le> 0"
    by (simp add: victims_suffice_def released_fraction_def released_memory_def
        dadd_0_kFractionEpsilon)
  have upt: "[0..<Suc (length order)] = 0 # [Suc 0..<Suc (length order)]"
    by (rule upt_Cons) simp
  have upd: "(selection_of order 0 False)\<lparr>vs_satisfies := True\<rparr> = selection_of order 0 True"
    by (simp add: selection_of_def)
  show ?thesis
    unfolding SelectMinimalVictims_def Let_def init upd upt find.simps zero
    using select_victims_loop_find[of order "[]" order capacity required worker]
    by simp
qed

lemma find_Some_mem: "find P xs = Some x \<Longrightarrow> x \<in> set xs"
  by (metis find_Some_iff nth_mem)

lemma SelectMinimalVictims_names:
  "set (vs_worker_names (SelectMinimalVictims worker capacity order required))
     \<subseteq> wr_worker_name ` set order"
  by (auto simp: SelectMinimalVictims_find selection_of_def split: option.splits
      dest: in_set_takeD)

text \<open>
  \<^bold>\<open>C14.\<close> \<open>SelectMinimalVictims\<close> takes the shortest prefix of the victim order that
  suffices: among the prefix lengths \<open>0, 1, ...\<close> the first one whose released fraction
  and memory cover the shortage, with the totals of exactly that prefix. If none does, it
  returns the whole order marked as not satisfying.
\<close>

theorem SelectMinimalVictims_shortest_prefix:
  "SelectMinimalVictims worker capacity order required =
     (case find (victims_suffice worker capacity order required) [0..<Suc (length order)] of
        Some k \<Rightarrow> selection_of order k True
      | None \<Rightarrow> selection_of order (length order) False)"
  by (rule SelectMinimalVictims_find)
section \<open>Worker records and soft sharing\<close>

lemma mark_soft_shared_map:
  "\<exists>f. mark_soft_shared entry rs = map (\<lambda>r. r\<lparr>wr_currently_soft_shared := f r\<rparr>) rs"
proof (cases "length (acc_worker_names (snd entry)) > 1")
  case True
  then show ?thesis
    by (intro exI[of _ "\<lambda>r. wr_node_name r = fst (fst entry) \<and> wr_gpu_device r = snd (fst entry)
        \<or> wr_currently_soft_shared r"]) (auto simp: mark_soft_shared_def)
next
  case False
  then show ?thesis
    by (intro exI[of _ wr_currently_soft_shared]) (simp add: mark_soft_shared_def)
qed

text \<open>Marking changes only the soft-share flag, so the records keep the admitted workers.\<close>

lemma fold_mark_soft_shared:
  assumes "\<forall>r \<in> set rs. \<exists>i \<in> A. \<exists>b. r = (worker_record i)\<lparr>wr_currently_soft_shared := b\<rparr>"
  shows "\<forall>r \<in> set (fold mark_soft_shared entries rs).
    \<exists>i \<in> A. \<exists>b. r = (worker_record i)\<lparr>wr_currently_soft_shared := b\<rparr>"
  using assms
proof (induction entries arbitrary: rs)
  case (Cons entry entries)
  obtain f where "mark_soft_shared entry rs = map (\<lambda>r. r\<lparr>wr_currently_soft_shared := f r\<rparr>) rs"
    using mark_soft_shared_map by blast
  then have "\<forall>r \<in> set (mark_soft_shared entry rs).
      \<exists>i \<in> A. \<exists>b. r = (worker_record i)\<lparr>wr_currently_soft_shared := b\<rparr>"
    using Cons.prems by fastforce
  then show ?case
    using Cons.IH by simp
qed simp

definition policy_allocations :: "DesiredState \<Rightarrow> (gpu_key, AllocationAccumulator) omap" where
  "policy_allocations state = map (\<lambda>(key, a). (key, sort_names a)) (allocations_of state)"

definition policy_records :: "DesiredState \<Rightarrow> WorkerAllocationRecord list" where
  "policy_records state =
     fold mark_soft_shared (policy_allocations state) (map worker_record (admitted_of state))"

lemma policy_records_admitted:
  assumes "r \<in> set (policy_records state)"
  shows "\<exists>i \<in> set (workers_of state). \<exists>b. worker_admissible state i \<and>
    r = (worker_record i)\<lparr>wr_currently_soft_shared := b\<rparr>"
proof -
  have "\<forall>r \<in> set (map worker_record (admitted_of state)). \<exists>i \<in> set (admitted_of state).
      \<exists>b. r = (worker_record i)\<lparr>wr_currently_soft_shared := b\<rparr>"
    by (auto intro!: exI[of _ False] bexI simp: worker_record_def)
  from fold_mark_soft_shared[OF this] assms obtain i b where
    "i \<in> set (admitted_of state)" "r = (worker_record i)\<lparr>wr_currently_soft_shared := b\<rparr>"
    unfolding policy_records_def by blast
  then show ?thesis by (auto simp: admitted_of_iff)
qed

definition policy_capacities :: "DesiredState \<Rightarrow> GpuCapacitySummary list" where
  "policy_capacities state = std_sort capacity_less (build_capacities state (policy_allocations state))"

lemma report_fields:
  "rep_capacities (EvaluateSchedulingPolicy state) = policy_capacities state"
  "rep_placement_recommendations (EvaluateSchedulingPolicy state) =
     std_sort recommendation_less
       (placement_recommendations state (policy_records state) (policy_capacities state))"
  "rep_rollout_actions (EvaluateSchedulingPolicy state) =
     rollout_actions_from 1 (rep_placement_recommendations (EvaluateSchedulingPolicy state))"
  "rep_allocations (EvaluateSchedulingPolicy state) =
     std_sort group_less (map allocation_group (policy_allocations state))"
  by (simp_all add: EvaluateSchedulingPolicy_def Let_def policy_capacities_def policy_records_def
      policy_allocations_def allocations_of_def admit_workers_eq)

section \<open>Capacities\<close>

lemma get_policy_allocations:
  "omap_get (policy_allocations state) key = map_option sort_names (omap_get (allocations_of state) key)"
  by (simp add: policy_allocations_def map_of_map)

lemma capacity_origin:
  assumes "c \<in> set (policy_capacities state)"
  obtains node gpu where "node \<in> set (st_nodes state)" "node_execution_mode node \<noteq> InferOnly"
    "gpu \<in> set (EffectiveNodeGpuDevices node)" "c = capacity_summary (policy_allocations state) node gpu"
  using assms
  by (auto simp: policy_capacities_def build_capacities_def node_capacities_def
      NodeSupportsWorkerExecutionMode_def split: if_splits)

lemma capacity_summary_names [simp]:
  "cs_node_name (capacity_summary allocs node gpu) = node_name node"
  "cs_gpu_device (capacity_summary allocs node gpu) = gpu"
  by (simp_all add: capacity_summary_def Let_def split: option.splits)

lemma share_mode_partition:
  "length xs = length (filter (\<lambda>i. inst_share_mode i = Exclusive) xs) +
     length (filter (\<lambda>i. inst_share_mode i = Shared) xs) +
     length (filter (\<lambda>i. inst_share_mode i = BestEffort) xs)"
proof (induction xs)
  case (Cons i xs)
  then show ?case by (cases "inst_share_mode i") simp_all
qed simp

lemma free_fraction_bounds:
  fixes t :: double
  assumes "0 \<le> t"
  shows "0 \<le> max 0 (dsub 1 t) \<and> max 0 (dsub 1 t) \<le> 1"
proof -
  have "dsub 1 t \<le> fl 1"
    unfolding dsub_def by (rule fl_mono) (use assms in simp)
  then show ?thesis by simp
qed

lemma dadd_nonneg: "0 \<le> x \<Longrightarrow> 0 \<le> y \<Longrightarrow> 0 \<le> dadd x y"
  by (simp add: dadd_def fl_nonneg)

lemma foldl_dadd_nonneg: "0 \<le> x \<Longrightarrow> \<forall>y \<in> set ys. 0 \<le> y \<Longrightarrow> 0 \<le> foldl dadd x ys"
  by (induction ys arbitrary: x) (simp_all add: dadd_nonneg)

lemma admitted_on_fraction_pos: "i \<in> set (admitted_on state key) \<Longrightarrow> 0 < inst_gpu_fraction i"
  by (auto simp: admitted_on_def admitted_of_iff worker_admissible_def)

definition capacity_accounts :: "DesiredState \<Rightarrow> GpuCapacitySummary \<Rightarrow> bool" where
  "capacity_accounts state c \<longleftrightarrow>
     (let tenants = admitted_on state (cs_node_name c, cs_gpu_device c) in
      cs_worker_count c = int (length tenants) \<and>
      cs_worker_count c = cs_guaranteed_worker_count c + cs_best_effort_worker_count c \<and>
      (cs_is_idle c \<longleftrightarrow> tenants = []) \<and>
      (cs_has_soft_share c \<longleftrightarrow> length tenants > 1) \<and>
      cs_allocated_fraction c = foldl dadd 0 (map inst_gpu_fraction tenants) \<and>
      cs_allocated_memory_cap_mb c = sum_list (map memory_cap tenants) \<and>
      0 \<le> cs_free_fraction c \<and> cs_free_fraction c \<le> 1 \<and>
      cs_free_memory_mb c = map_option (\<lambda>m. max 0 (m - sum_list (map memory_cap tenants)))
        (cs_memory_capacity_mb c))"

lemma capacity_summary_accounts:
  "capacity_accounts state (capacity_summary (policy_allocations state) node gpu)"
proof -
  let ?key = "(node_name node, gpu)"
  let ?ts = "admitted_on state ?key"
  let ?total = "foldl dadd 0 (map inst_gpu_fraction ?ts)"
  let ?best = "filter (\<lambda>i. inst_share_mode i = BestEffort) ?ts"
  have nonneg: "0 \<le> ?total"
    by (rule foldl_dadd_nonneg) (auto dest: admitted_on_fraction_pos less_imp_le)
  note bounds = free_fraction_bounds[OF nonneg]
  have lookup: "FindAllocationAccumulator (policy_allocations state) (node_name node) gpu =
      (if ?ts = [] then None
       else Some (sort_names (accumulate_all (node_of (nodes_by_name state)) ?ts)))"
    by (simp add: FindAllocationAccumulator_def get_policy_allocations get_allocations_of)
  show ?thesis
  proof (cases "?ts = []")
    case True
    then show ?thesis
      by (simp add: capacity_accounts_def capacity_summary_def lookup Let_def split: option.splits)
  next
    case False
    then have "sort (map inst_name ?ts) \<noteq> []"
      by (metis length_0_conv length_map length_sort)
    with False show ?thesis
      using bounds share_mode_partition[of ?ts]
      by (simp add: capacity_accounts_def capacity_summary_def lookup Let_def accumulate_all_fields
          split: option.splits)
  qed
qed

text \<open>
  \<^bold>\<open>C15.\<close> The capacity summary of every reported GPU accounts for the workers admitted to
  it: it counts them, splits them into guaranteed and best-effort workers, carries the sum
  of their fractions and of their memory caps, is idle exactly when there is none, its
  free fraction lies between 0 and 1, and where the capacity of the GPU is known its free
  memory is what the caps leave, never below zero.
\<close>

theorem rep_capacities_account_for_workers:
  "list_all (capacity_accounts state) (rep_capacities (EvaluateSchedulingPolicy state))"
  unfolding list_all_iff report_fields
  by (metis capacity_origin capacity_summary_accounts)

section \<open>Order of the report\<close>

interpretation capacity_order:
  key_comparator "\<lambda>c. (cs_node_name c, cs_gpu_device c)" capacity_less
  by unfold_locales (auto simp: capacity_less_def less_prod_simp)

interpretation group_order:
  key_comparator "\<lambda>g. (ag_node_name g, ag_gpu_device g)" group_less
  by unfold_locales (auto simp: group_less_def less_prod_simp)

interpretation hint_order:
  key_comparator "\<lambda>h. (ph_node_name h, ph_gpu_device h)" hint_less
  by unfold_locales (auto simp: hint_less_def less_prod_simp)

interpretation recommendation_order: key_comparator wpr_worker_name recommendation_less
  by unfold_locales (simp add: recommendation_less_def)

lemma rep_allocations_keys:
  "set (map (\<lambda>g. (ag_node_name g, ag_gpu_device g)) (rep_allocations (EvaluateSchedulingPolicy state)))
     = {key. admitted_on state key \<noteq> []}"
proof -
  have "set (map fst (allocations_of state)) = {key. admitted_on state key \<noteq> []}"
    using allocations_of_entry[of _ _ state] by (force simp: image_iff)
  then show ?thesis
    by (simp add: report_fields policy_allocations_def allocation_group_def Let_def image_image
        case_prod_beta' image_comp)
qed

lemma rep_allocations_ascending:
  "sorted_wrt (<)
     (map (\<lambda>g. (ag_node_name g, ag_gpu_device g)) (rep_allocations (EvaluateSchedulingPolicy state)))"
proof -
  let ?key = "\<lambda>g. (ag_node_name g, ag_gpu_device g)"
  have "map ?key (map allocation_group (policy_allocations state)) = map fst (allocations_of state)"
    by (simp add: policy_allocations_def allocation_group_def Let_def case_prod_beta')
  then have "distinct (map ?key (rep_allocations (EvaluateSchedulingPolicy state)))"
    unfolding report_fields using omap_ok_distinct[OF omap_ok_allocations_of, of state] by simp
  moreover have "sorted (map ?key (rep_allocations (EvaluateSchedulingPolicy state)))"
    unfolding report_fields by (rule group_order.std_sort_by_key)
  ultimately show ?thesis
    by (simp add: strict_sorted_iff)
qed

text \<open>
  The report is ordered and complete: the allocation groups are strictly ascending
  in (node, GPU) and are exactly the GPUs with an admitted worker; the capacities are
  ascending in (node, GPU); the recommendations are ascending in the worker's name.
\<close>

lemma report_ordered:
  "let report = EvaluateSchedulingPolicy state;
       group_keys = map (\<lambda>g. (ag_node_name g, ag_gpu_device g)) (rep_allocations report)
   in sorted_wrt (<) group_keys \<and> set group_keys = {key. admitted_on state key \<noteq> []} \<and>
      sorted (map (\<lambda>c. (cs_node_name c, cs_gpu_device c)) (rep_capacities report)) \<and>
      sorted (map wpr_worker_name (rep_placement_recommendations report))"
  unfolding Let_def
proof (intro conjI rep_allocations_ascending rep_allocations_keys)
  show "sorted (map (\<lambda>c. (cs_node_name c, cs_gpu_device c))
      (rep_capacities (EvaluateSchedulingPolicy state)))"
    unfolding report_fields policy_capacities_def by (rule capacity_order.std_sort_by_key)
  show "sorted (map wpr_worker_name
      (rep_placement_recommendations (EvaluateSchedulingPolicy state)))"
    unfolding report_fields by (rule recommendation_order.std_sort_by_key)
qed

section \<open>Recommendations and rollout actions\<close>

lemma placement_candidate_names [simp]:
  "pc_node_name (placement_candidate rs worker c) = cs_node_name c"
  "pc_gpu_device (placement_candidate rs worker c) = cs_gpu_device c"
  by (simp_all add: placement_candidate_def Let_def)

lemma BuildBestEffortVictimOrder_set:
  "set (BuildBestEffortVictimOrder rs node gpu) = {r \<in> set rs. is_victim node gpu r}"
  by (simp add: BuildBestEffortVictimOrder_def)

lemma placement_candidate_victims:
  "set (pc_preemption_victims (placement_candidate rs worker c))
     \<subseteq> wr_worker_name ` {r \<in> set rs. is_victim (cs_node_name c) (cs_gpu_device c) r}"
  unfolding placement_candidate_def Let_def BuildBestEffortVictimOrder_set[symmetric]
  using SelectMinimalVictims_names by simp

text \<open>A worker that may be preempted from the given GPU.\<close>

definition preemptible_tenant :: "DesiredState \<Rightarrow> gpu_key \<Rightarrow> string \<Rightarrow> bool" where
  "preemptible_tenant state key name \<longleftrightarrow>
     list_ex (\<lambda>i. inst_name i = name \<and> inst_share_mode i = BestEffort \<and> inst_preemptible i)
       (gpu_tenants state key)"

definition worker_gpu_exists :: "DesiredState \<Rightarrow> gpu_key \<Rightarrow> bool" where
  "worker_gpu_exists state key \<longleftrightarrow>
     list_ex (\<lambda>node. node_name node = fst key \<and> node_execution_mode node \<noteq> InferOnly \<and>
       snd key \<in> set (EffectiveNodeGpuDevices node)) (st_nodes state)"

definition candidate_sound ::
  "DesiredState \<Rightarrow> WorkerPlacementRecommendation \<Rightarrow> PlacementCandidate \<Rightarrow> bool" where
  "candidate_sound state r c \<longleftrightarrow>
     (let target = (pc_node_name c, pc_gpu_device c) in
      target \<noteq> (wpr_current_node_name r, wpr_current_gpu_device r) \<and>
      worker_gpu_exists state target \<and>
      list_all (preemptible_tenant state target) (pc_preemption_victims c))"

lemma victim_record_tenant:
  assumes "r \<in> set (policy_records state)" "is_victim node gpu r"
  shows "preemptible_tenant state (node, gpu) (wr_worker_name r)"
proof -
  from policy_records_admitted[OF assms(1)] obtain i b where i: "i \<in> set (workers_of state)"
    "worker_admissible state i" "r = (worker_record i)\<lparr>wr_currently_soft_shared := b\<rparr>"
    by blast
  from i(2) show ?thesis
    by (rule worker_admissible_gpu)
      (use i(1,3) assms(2) in \<open>auto simp: preemptible_tenant_def list_ex_iff gpu_tenants_def
         is_victim_def worker_record_def\<close>)
qed

lemma recommendation_candidates_sound:
  assumes "r \<in> set (rep_placement_recommendations (EvaluateSchedulingPolicy state))"
    and "c \<in> set (wpr_candidates r)"
  shows "candidate_sound state r c"
proof -
  from assms(1) obtain worker where
    r: "r = recommendation_for state (policy_records state) (policy_capacities state) worker"
    by (auto simp: report_fields placement_recommendations_def)
  with assms(2) obtain cap where cap: "cap \<in> set (policy_capacities state)" "\<not> own_gpu worker cap"
    and c: "c = placement_candidate (policy_records state) worker cap"
    by (auto simp: recommendation_for_def)
  obtain node gpu where origin: "node \<in> set (st_nodes state)" "node_execution_mode node \<noteq> InferOnly"
    "gpu \<in> set (EffectiveNodeGpuDevices node)" "cs_node_name cap = node_name node"
    "cs_gpu_device cap = gpu"
    using capacity_origin[OF cap(1)] by (metis capacity_summary_names)
  have "list_all (preemptible_tenant state (cs_node_name cap, cs_gpu_device cap))
      (pc_preemption_victims c)"
    using placement_candidate_victims[of "policy_records state" worker cap] victim_record_tenant
    unfolding c list_all_iff by blast
  then show ?thesis
    using cap(2) origin
    by (auto simp: candidate_sound_def Let_def r c recommendation_for_def own_gpu_def
        worker_gpu_exists_def list_ex_iff)
qed

text \<open>
  \<^bold>\<open>C31.\<close> Every placement candidate of every recommendation is sound: it names a GPU other
  than the worker's own, which exists on a worker-capable node of the state, and its
  preemption victims are preemptible best-effort workers pinned to that GPU; no guaranteed
  worker is ever a victim.
\<close>

theorem recommendations_sound:
  "list_all (\<lambda>r. list_all (candidate_sound state r) (wpr_candidates r))
     (rep_placement_recommendations (EvaluateSchedulingPolicy state))"
  by (simp add: list_all_iff recommendation_candidates_sound)

text \<open>The recommendations whose first candidate needs a preemption, with that candidate.\<close>

definition preempting_moves ::
  "WorkerPlacementRecommendation list \<Rightarrow> (string \<times> PlacementCandidate) list" where
  "preempting_moves rs = concat (map (\<lambda>r. case wpr_candidates r of [] \<Rightarrow> []
     | c # _ \<Rightarrow> if pc_preemption_required c \<and> pc_preemption_victims c \<noteq> []
                then [(wpr_worker_name r, c)] else []) rs)"

definition rollout_pair :: "int \<Rightarrow> string \<times> PlacementCandidate \<Rightarrow> SchedulerRolloutAction list" where
  "rollout_pair step move =
     [evict_action step (fst move) (snd move), retry_action (step + 1) (fst move) (snd move)]"

lemma rollout_actions_from_eq:
  "rollout_actions_from step rs =
     concat (map (\<lambda>(k, move). rollout_pair (step + 2 * int k) move)
       (enumerate 0 (preempting_moves rs)))"
proof (induction step rs rule: rollout_actions_from.induct)
  case (1 step)
  then show ?case by (simp add: preempting_moves_def)
next
  case (2 step r rs)
  have shift: "map (\<lambda>(k, move). rollout_pair (step + 2 * int k) move) (enumerate (Suc 0) xs) =
      map (\<lambda>(k, move). rollout_pair (step + 2 + 2 * int k) move) (enumerate 0 xs)" for xs
    by (auto simp: enumerate_eq_zip zip_map1 algebra_simps simp del: upt_Suc simp flip: map_Suc_upt)
  show ?case
  proof (cases "wpr_candidates r")
    case Nil
    with 2 show ?thesis by (simp add: preempting_moves_def)
  next
    case (Cons c cs)
    show ?thesis
    proof (cases "pc_preemption_required c \<and> pc_preemption_victims c \<noteq> []")
      case True
      have "preempting_moves (r # rs) = (wpr_worker_name r, c) # preempting_moves rs"
        using Cons True by (simp add: preempting_moves_def)
      moreover have "rollout_actions_from step (r # rs) =
          rollout_pair step (wpr_worker_name r, c) @ rollout_actions_from (step + 2) rs"
        using Cons True by (simp add: rollout_pair_def)
      moreover have "rollout_actions_from (step + 2) rs =
          concat (map (\<lambda>(k, move). rollout_pair (step + 2 + 2 * int k) move)
            (enumerate 0 (preempting_moves rs)))"
        using 2 Cons True by auto
      ultimately show ?thesis by (simp add: shift)
    next
      case False
      have "preempting_moves (r # rs) = preempting_moves rs"
        using Cons False by (simp add: preempting_moves_def)
      then show ?thesis using 2 Cons False by auto
    qed
  qed
qed

text \<open>
  The rollout actions are numbered from 1 without gaps and come in pairs, one pair
  per recommendation whose best candidate needs a preemption, in report order: the
  eviction of that candidate's victims at an odd step, then the retried placement of the
  worker on the same GPU at the next step.
\<close>

lemma rollout_actions_paired:
  "rep_rollout_actions (EvaluateSchedulingPolicy state) =
     concat (map (\<lambda>(k, move). rollout_pair (1 + 2 * int k) move)
       (enumerate 0 (preempting_moves
         (rep_placement_recommendations (EvaluateSchedulingPolicy state)))))"
  unfolding report_fields(3) by (rule rollout_actions_from_eq)

definition rollout_action_safe :: "DesiredState \<Rightarrow> SchedulerRolloutAction \<Rightarrow> bool" where
  "rollout_action_safe state a \<longleftrightarrow>
     (let target = (ra_target_node_name a, ra_target_gpu_device a) in
      worker_gpu_exists state target \<and>
      list_all (preemptible_tenant state target) (ra_victim_worker_names a) \<and>
      (ra_action a = ''evict-best-effort'' \<longrightarrow> ra_victim_worker_names a \<noteq> []))"

lemma preempting_moves_candidate:
  assumes "(w, c) \<in> set (preempting_moves rs)"
  obtains r where "r \<in> set rs" "c \<in> set (wpr_candidates r)" "pc_preemption_victims c \<noteq> []"
    "w = wpr_worker_name r"
proof -
  from assms obtain r where r: "r \<in> set rs" "(w, c) \<in> set (case wpr_candidates r of [] \<Rightarrow> []
     | c # _ \<Rightarrow> if pc_preemption_required c \<and> pc_preemption_victims c \<noteq> []
                then [(wpr_worker_name r, c)] else [])"
    by (auto simp: preempting_moves_def)
  then show thesis
    by (cases "wpr_candidates r") (auto split: if_splits intro!: that[of r])
qed

lemma enumerate_mem: "(k, x) \<in> set (enumerate n xs) \<Longrightarrow> x \<in> set xs"
  by (metis enumerate_eq_zip set_zip_rightD)

text \<open>
  \<^bold>\<open>C8.\<close> Every rollout action targets an existing GPU of a worker-capable node; an eviction
  names at least one victim, and all its victims are preemptible best-effort workers pinned
  to the target GPU.
\<close>

theorem rollout_actions_safe:
  "list_all (rollout_action_safe state) (rep_rollout_actions (EvaluateSchedulingPolicy state))"
proof -
  let ?recs = "rep_placement_recommendations (EvaluateSchedulingPolicy state)"
  have safe: "rollout_action_safe state a" if moves: "(w, c) \<in> set (preempting_moves ?recs)"
    and a: "a \<in> set (rollout_pair step (w, c))" for w c step a
  proof -
    from moves obtain r where r: "r \<in> set ?recs" "c \<in> set (wpr_candidates r)"
      and nonempty: "pc_preemption_victims c \<noteq> []"
      by (rule preempting_moves_candidate)
    from recommendation_candidates_sound[OF r] a nonempty show ?thesis
      by (auto simp: rollout_pair_def evict_action_def retry_action_def rollout_action_safe_def
          candidate_sound_def Let_def)
  qed
  show ?thesis
    unfolding report_fields(3) rollout_actions_from_eq
    by (auto simp: list_all_iff dest!: enumerate_mem intro: safe)
qed

section \<open>Exact load of an admitted GPU\<close>

lemma kFractionEpsilon_value: "kFractionEpsilon = 4835703278458517 / 2 ^ 82"
  unfolding kFractionEpsilon_def
  by (subst fl_eqI[of "-30" _ 4835703278458517]) (simp_all add: power_int_minus)

lemma one_plus_epsilon_value: "dadd 1 kFractionEpsilon = 1 + 4503600 / 2 ^ 52"
  unfolding dadd_def kFractionEpsilon_value
  by (subst fl_eqI[of 0 _ "2 ^ 52 + 4503600"]) (simp_all add: power_int_minus)

lemma one_minus_epsilon_value: "dsub 1 kFractionEpsilon = 1 - 9007199 / 2 ^ 53"
  unfolding dsub_def kFractionEpsilon_value
  by (subst fl_eqI[of "-1" _ "2 ^ 53 - 9007199"]) (simp_all add: power_int_minus)

lemma dadd_ge_left: "is_double s \<Longrightarrow> 0 \<le> f \<Longrightarrow> s \<le> dadd s f"
  unfolding dadd_def using fl_mono[of s "s + f"] fl_exact[of s] by simp

lemma foldl_dadd_ge: "is_double s \<Longrightarrow> \<forall>f \<in> set fs. 0 \<le> f \<Longrightarrow> s \<le> foldl dadd s fs"
proof (induction fs arbitrary: s)
  case (Cons f fs)
  then have "s \<le> dadd s f" "dadd s f \<le> foldl dadd (dadd s f) fs"
    by (simp_all add: dadd_ge_left) (simp add: dadd_def is_double_fl)
  then show ?case by simp
qed simp

lemma dadd_error:
  assumes "0 \<le> s" "s \<le> 2" "0 \<le> f" "f \<le> 2"
  shows "s + f \<le> dadd s f + 1 / 2 ^ 51"
proof -
  have "s + f - dadd s f \<le> (s + f) / 2 ^ 53"
    using fl_error[of "s + f"] assms unfolding dadd_def by linarith
  also have "\<dots> \<le> 4 / 2 ^ 53"
    by (rule divide_right_mono) (use assms in simp_all)
  finally show ?thesis by simp
qed

text \<open>A floating-point sum that stays at most 2 loses at most \<open>2^-51\<close> per term.\<close>

lemma foldl_dadd_error:
  assumes "is_double s" "0 \<le> s" "\<forall>f \<in> set fs. 0 \<le> f \<and> f \<le> 2" "foldl dadd s fs \<le> 2"
  shows "s + sum_list fs \<le> foldl dadd s fs + of_nat (length fs) / 2 ^ 51"
  using assms
proof (induction fs arbitrary: s)
  case (Cons f fs)
  have dbl: "is_double (dadd s f)" by (simp add: dadd_def is_double_fl)
  have ge: "s \<le> dadd s f" using Cons.prems by (simp add: dadd_ge_left)
  have "dadd s f \<le> foldl dadd (dadd s f) fs" using Cons.prems dbl by (simp add: foldl_dadd_ge)
  then have "s \<le> 2" using ge Cons.prems(4) by simp
  then have err: "s + f \<le> dadd s f + 1 / 2 ^ 51"
    using Cons.prems by (intro dadd_error) simp_all
  have "dadd s f + sum_list fs \<le> foldl dadd (dadd s f) fs + of_nat (length fs) / 2 ^ 51"
    using Cons.prems dbl ge by (intro Cons.IH) simp_all
  with err show ?case by (simp add: add_divide_distrib)
qed simp

lemma one_plus_epsilon_bound: "dadd 1 kFractionEpsilon \<le> 1 + 2 / 10 ^ 9"
  by (simp add: one_plus_epsilon_value)

lemma gpu_tenants_admissible:
  assumes "scheduling_admissible state" "i \<in> set (gpu_tenants state key)"
  shows "worker_admissible state i"
  using assms by (auto simp: scheduling_admissible_def gpu_tenants_def list_all_iff)


text \<open>A small admitted state: two workers with half a GPU each.\<close>

definition sample_worker :: "string \<Rightarrow> InstanceSpec" where
  "sample_worker name = (default_InstanceSpec Worker)\<lparr>inst_name := name, inst_node_name := ''n1'',
     inst_gpu_device := Some ''0'', inst_share_mode := Shared, inst_gpu_fraction := 1 / 2\<rparr>"

definition sample_state :: DesiredState where
  "sample_state = default_DesiredState\<lparr>
     st_nodes := [default_NodeInventory\<lparr>node_name := ''n1'', node_gpu_devices := [''0'']\<rparr>],
     st_instances := [sample_worker ''w1'', sample_worker ''w2'']\<rparr>"

lemma sample_worker_fields [simp]:
  "inst_role (sample_worker w) = Worker" "inst_gpu_device (sample_worker w) = Some ''0''"
  "inst_node_name (sample_worker w) = ''n1''" "inst_gpu_fraction (sample_worker w) = 1 / 2"
  "inst_share_mode (sample_worker w) = Shared" "inst_memory_cap_mb (sample_worker w) = None"
  "inst_priority (sample_worker w) = 100" "gpu_of (sample_worker w) = (''n1'', ''0'')"
  by (simp_all add: sample_worker_def default_InstanceSpec_def gpu_of_def)

lemma workers_of_sample_state [simp]:
  "workers_of sample_state = [sample_worker ''w1'', sample_worker ''w2'']"
  by (simp add: workers_of_def sample_state_def)

lemma find_node_sample_state [simp]:
  "find_node sample_state ''n1'' =
     Some (default_NodeInventory\<lparr>node_name := ''n1'', node_gpu_devices := [''0'']\<rparr>)"
  by (simp add: find_node_def sample_state_def)

lemma dadd_half [simp]: "dadd 0 (1 / 2) = 1 / 2" "dadd (1 / 2) (1 / 2) = 1"
  using fl_dyadic[of "1 / 2" 1 1] fl_dyadic[of 1 0 1] by (simp_all add: dadd_def)

lemma scheduling_admissible_sample_state: "scheduling_admissible sample_state"
  by (simp add: scheduling_admissible_def worker_admissible_def gpu_admissible_def gpu_tenants_def
      one_plus_epsilon_value default_NodeInventory_def gpu_memory_capacity_def)


section \<open>The victim order\<close>

definition victim_key :: "WorkerAllocationRecord \<Rightarrow> int \<times> rat \<times> int \<times> string" where
  "victim_key r =
     (wr_priority r, - wr_gpu_fraction r, - value_or (wr_memory_cap_mb r) 0, wr_worker_name r)"

definition victim_key_less :: "WorkerAllocationRecord \<Rightarrow> WorkerAllocationRecord \<Rightarrow> bool" where
  "victim_key_less r s \<longleftrightarrow> victim_key r < victim_key s"

interpretation victim_order: key_comparator victim_key victim_key_less
  by unfold_locales (simp add: victim_key_less_def)

definition fractions_separated :: "WorkerAllocationRecord list \<Rightarrow> bool" where
  "fractions_separated rs \<longleftrightarrow>
     list_all (\<lambda>r. list_all (\<lambda>s. wr_gpu_fraction r = wr_gpu_fraction s \<or>
       \<bar>dsub (wr_gpu_fraction r) (wr_gpu_fraction s)\<bar> > kFractionEpsilon) rs) rs"

lemma kFractionEpsilon_pos: "0 < kFractionEpsilon"
  by (simp add: kFractionEpsilon_def fl_pos)

lemma victim_less_key:
  assumes "wr_gpu_fraction r = wr_gpu_fraction s \<or>
    \<bar>dsub (wr_gpu_fraction r) (wr_gpu_fraction s)\<bar> > kFractionEpsilon"
  shows "victim_less r s \<longleftrightarrow> victim_key_less r s"
proof (cases "wr_gpu_fraction r = wr_gpu_fraction s")
  case True
  then show ?thesis
    using kFractionEpsilon_pos
    by (auto simp: victim_less_def victim_key_less_def victim_key_def less_prod_simp dsub_def)
next
  case False
  then show ?thesis
    using assms by (auto simp: victim_less_def victim_key_less_def victim_key_def less_prod_simp)
qed

text \<open>
  When no two candidate victims have fractions that differ by no more than the
  tolerance without being equal, the victim order is the intended one: all preemptible
  best-effort workers of the GPU, by ascending priority, then descending fraction, then
  descending memory cap, then name.
\<close>

lemma victim_order_sorted:
  assumes "fractions_separated (filter (is_victim node gpu) records)"
  shows "sorted (map victim_key (BuildBestEffortVictimOrder records node gpu)) \<and>
    mset (BuildBestEffortVictimOrder records node gpu) = mset (filter (is_victim node gpu) records)"
proof -
  have "BuildBestEffortVictimOrder records node gpu =
      std_sort victim_key_less (filter (is_victim node gpu) records)"
    unfolding BuildBestEffortVictimOrder_def
    by (rule std_sort_cong, rule victim_less_key)
      (use assms in \<open>auto simp: fractions_separated_def list_all_iff\<close>)
  then show ?thesis by (simp add: victim_order.std_sort_by_key)
qed

definition sample_victim :: "string \<Rightarrow> double \<Rightarrow> WorkerAllocationRecord" where
  "sample_victim name fraction =
     \<lparr>wr_worker_name = name, wr_node_name = ''n1'', wr_gpu_device = ''0'',
      wr_share_mode = BestEffort, wr_gpu_fraction = fraction, wr_priority = 10,
      wr_preemptible = True, wr_memory_cap_mb = None, wr_currently_soft_shared = False\<rparr>"

text \<open>
  Without that condition the comparator is not a strict weak order, which \<open>std::sort\<close>
  requires: three workers of equal priority whose fractions are less than the tolerance
  apart from one to the next can be ordered in a cycle. The fractions below are the doubles
  nearest to 0.5, 0.5 + 7e-10 and 0.5 + 14e-10.
\<close>

definition cycle_a :: WorkerAllocationRecord where
  "cycle_a = sample_victim ''a'' (4503599627370496 / 2 ^ 53)"
definition cycle_b :: WorkerAllocationRecord where
  "cycle_b = sample_victim ''b'' (4503599633675535 / 2 ^ 53)"
definition cycle_c :: WorkerAllocationRecord where
  "cycle_c = sample_victim ''c'' (4503599639980575 / 2 ^ 53)"

lemma dsub_dyadic_53:
  "\<bar>m - n\<bar> < 2 ^ 53 \<Longrightarrow> dsub (of_int m / 2 ^ 53) (of_int n / 2 ^ 53) = of_int (m - n) / 2 ^ 53"
  unfolding dsub_def diff_divide_distrib[symmetric] of_int_diff[symmetric]
  by (rule fl_dyadic[of _ 53 "m - n"]) simp_all

lemma cycle_dsub:
  "dsub (4503599627370496 / 2 ^ 53) (4503599633675535 / 2 ^ 53) = - 6305039 / 2 ^ 53"
  "dsub (4503599633675535 / 2 ^ 53) (4503599639980575 / 2 ^ 53) = - 6305040 / 2 ^ 53"
  "dsub (4503599639980575 / 2 ^ 53) (4503599627370496 / 2 ^ 53) = 12610079 / 2 ^ 53"
  using dsub_dyadic_53[of 4503599627370496 4503599633675535]
    dsub_dyadic_53[of 4503599633675535 4503599639980575]
    dsub_dyadic_53[of 4503599639980575 4503599627370496]
  by simp_all

lemma victim_less_cycle:
  "victim_less cycle_a cycle_b" "victim_less cycle_b cycle_c" "victim_less cycle_c cycle_a"
  unfolding victim_less_def cycle_a_def cycle_b_def cycle_c_def sample_victim_def
  by (simp_all add: cycle_dsub kFractionEpsilon_value del: power_numeral) simp_all

text \<open>
  \<^bold>\<open>C39.\<close> The comparator of the victim order is not a strict weak order.
\<close>

theorem victim_less_not_strict_weak_order: "\<not> strict_weak_order victim_less"
proof
  assume swo: "strict_weak_order victim_less"
  have "victim_less cycle_a cycle_c"
    using swo victim_less_cycle(1,2) by (rule strict_weak_order.lt_trans)
  with strict_weak_order.lt_asym[OF swo victim_less_cycle(3)] show False by contradiction
qed

end
