(* ===== verification/Naim_Scheduling_Report.thy ===== *)
theory Naim_Scheduling_Report
  imports Naim_Scheduling_Policy
begin

text \<open>
  \<open>RenderSchedulingPolicyReport\<close> of \<open>common/src/planning/scheduling_policy.cpp\<close>: the text
  form of a scheduling report, one definition per section of the output.
\<close>

definition yes_no :: "bool \<Rightarrow> string" where
  "yes_no b = (if b then ''yes'' else ''no'')"

definition render_allocation :: "GpuAllocationGroup \<Rightarrow> string" where
  "render_allocation a =
     ''  - node='' @ ag_node_name a @ '' gpu='' @ ag_gpu_device a @
     '' workers='' @ JoinStrings (ag_worker_names a) '','' @
     '' exclusive='' @ JoinStrings (ag_exclusive_worker_names a) '','' @
     '' shared='' @ JoinStrings (ag_shared_worker_names a) '','' @
     '' best_effort='' @ JoinStrings (ag_best_effort_worker_names a) '','' @
     '' total_fraction='' @ stream_double (ag_total_fraction a) @
     '' remaining_fraction='' @ stream_double (ag_remaining_fraction a) @
     '' priority_range='' @ to_string (ag_lowest_priority a) @ ''..'' @
       to_string (ag_highest_priority a) @
     (case ag_memory_capacity_mb a of
        Some capacity \<Rightarrow> '' memory_cap_mb='' @ to_string (ag_total_memory_cap_mb a) @ ''/'' @
          to_string capacity
      | None \<Rightarrow> if ag_total_memory_cap_mb a > 0
          then '' memory_cap_mb='' @ to_string (ag_total_memory_cap_mb a) @ ''/unknown'' else []) @
     newline"

definition render_capacity :: "GpuCapacitySummary \<Rightarrow> string" where
  "render_capacity c =
     ''    - node='' @ cs_node_name c @ '' gpu='' @ cs_gpu_device c @
     '' workers='' @ to_string (cs_worker_count c) @
     '' guaranteed_workers='' @ to_string (cs_guaranteed_worker_count c) @
     '' best_effort_workers='' @ to_string (cs_best_effort_worker_count c) @
     '' allocated_fraction='' @ stream_double (cs_allocated_fraction c) @
     '' free_fraction='' @ stream_double (cs_free_fraction c) @
     '' releasable_best_effort_fraction='' @ stream_double (cs_releasable_best_effort_fraction c) @
     '' idle='' @ yes_no (cs_is_idle c) @ '' soft_share='' @ yes_no (cs_has_soft_share c) @
     (case cs_memory_capacity_mb c of
        Some capacity \<Rightarrow>
          '' memory_cap_mb='' @ to_string (cs_allocated_memory_cap_mb c) @ ''/'' @
          to_string capacity @
          (if cs_releasable_best_effort_memory_cap_mb c > 0
           then '' releasable_best_effort_memory_cap_mb='' @
             to_string (cs_releasable_best_effort_memory_cap_mb c) else [])
      | None \<Rightarrow> []) @
     (if cs_preemptible_best_effort_workers c \<noteq> []
      then '' preemptible_best_effort='' @ JoinStrings (cs_preemptible_best_effort_workers c) '',''
      else []) @
     newline"

definition render_preemption_hint :: "PreemptionHint \<Rightarrow> string" where
  "render_preemption_hint h =
     ''    - node='' @ ph_node_name h @ '' gpu='' @ ph_gpu_device h @
     '' victims='' @ JoinStrings (ph_victim_worker_names h) '','' @
     '' reason='' @ ph_reason h @ newline"

definition render_rollout_action :: "SchedulerRolloutAction \<Rightarrow> string" where
  "render_rollout_action a =
     ''    - step='' @ to_string (ra_step a) @ '' worker='' @ ra_worker_name a @
     '' action='' @ ra_action a @
     '' target='' @ ra_target_node_name a @ '':'' @ ra_target_gpu_device a @
     (if ra_victim_worker_names a \<noteq> []
      then '' victims='' @ JoinStrings (ra_victim_worker_names a) '','' else []) @
     (if ra_reason a \<noteq> [] then '' reason='' @ ra_reason a else []) @
     newline"

definition render_candidate :: "PlacementCandidate \<Rightarrow> string" where
  "render_candidate c =
     ''      candidate node='' @ pc_node_name c @ '' gpu='' @ pc_gpu_device c @
     '' score='' @ to_string (pc_score c) @ '' action='' @ pc_action c @
     '' same_node='' @ yes_no (pc_same_node c) @ '' idle='' @ yes_no (pc_idle c) @
     '' fits_current='' @ yes_no (pc_fits_current_fraction c) @
     '' fits_current_after_preemption='' @ yes_no (pc_fits_current_with_preemption c) @
     '' fits_exclusive='' @ yes_no (pc_fits_exclusive_fraction c) @
     '' fits_exclusive_after_preemption='' @ yes_no (pc_fits_exclusive_with_preemption c) @
     '' fits_memory='' @ yes_no (pc_fits_memory_cap c) @
     '' fits_memory_after_preemption='' @ yes_no (pc_fits_memory_with_preemption c) @
     '' preemption_required='' @ yes_no (pc_preemption_required c) @
     '' free_fraction='' @ stream_double (pc_free_fraction c) @
     (case pc_free_memory_mb c of
        Some free \<Rightarrow> '' free_memory_mb='' @ to_string free | None \<Rightarrow> []) @
     (if pc_preemption_victims c \<noteq> []
      then '' victims='' @ JoinStrings (pc_preemption_victims c) '','' else []) @
     newline"

definition render_recommendation :: "WorkerPlacementRecommendation \<Rightarrow> string" where
  "render_recommendation r =
     ''    - worker='' @ wpr_worker_name r @
     '' current='' @ wpr_current_node_name r @ '':'' @ wpr_current_gpu_device r @
     '' share_mode='' @ ToString_GpuShareMode (wpr_current_share_mode r) @
     '' fraction='' @ stream_double (wpr_current_fraction r) @
     (case wpr_current_memory_cap_mb r of
        Some cap \<Rightarrow> '' memory_cap_mb='' @ to_string cap | None \<Rightarrow> []) @
     newline @ concat (map render_candidate (wpr_candidates r))"

definition render_section :: "string \<Rightarrow> ('a \<Rightarrow> string) \<Rightarrow> 'a list \<Rightarrow> string" where
  "render_section heading render items =
     (if items = [] then [] else heading @ newline @ concat (map render items))"

definition render_line :: "string \<Rightarrow> string" where
  "render_line s = ''    - '' @ s @ newline"

definition RenderSchedulingPolicyReport :: "SchedulingPolicyReport \<Rightarrow> string" where
  "RenderSchedulingPolicyReport report =
     ''scheduling-policy:'' @ newline @
     (if rep_allocations report = [] then ''  allocations=(empty)'' @ newline
      else concat (map render_allocation (rep_allocations report))) @
     ''  capacity:'' @ newline @
     (if rep_capacities report = [] then ''    (empty)'' @ newline
      else concat (map render_capacity (rep_capacities report))) @
     render_section ''  warnings:'' render_line (rep_warnings report) @
     render_section ''  rebalance-hints:'' render_line (rep_rebalance_hints report) @
     render_section ''  preemption-hints:'' render_preemption_hint (rep_preemption_hints report) @
     render_section ''  rollout-actions:'' render_rollout_action (rep_rollout_actions report) @
     render_section ''  placement-recommendations:'' render_recommendation
       (rep_placement_recommendations report) @
     render_section ''  errors:'' render_line (rep_errors report)"

end
