(* ===== verification/Naim_Worker_Group_Topology.thy ===== *)
theory Naim_Worker_Group_Topology
  imports Naim_Models "HOL-Library.Word"
begin

text \<open>
  The worker-group topology of \<open>common/include/naim/state/worker_group_topology.h\<close>: the
  FNV-1a port hash at its 32-bit width, the validation of the packing of workers into
  data-parallel replicas, and the assignment of ranks, replicas and API endpoints to the
  members. Members are numbered by \<open>eligible_index\<close>, their position among the enabled
  members.
\<close>

unbundle bit_operations_syntax

section \<open>Published ports\<close>

definition kLlamaRpcWorkerPublishedPortBase :: int where
  "kLlamaRpcWorkerPublishedPortBase = 40000"

definition kLlamaRpcWorkerPublishedPortSpan :: int where
  "kLlamaRpcWorkerPublishedPortSpan = 20000"

definition StablePortHash :: "string \<Rightarrow> 32 word" where
  "StablePortHash value =
     foldl (\<lambda>hash ch. (hash XOR of_nat (of_char ch)) * 16777619) 2166136261 value"

text \<open>The modulus is converted to \<open>uint32_t\<close> for the remainder, the offset back to \<open>int\<close>.\<close>

definition StableLlamaRpcWorkerPort :: "string \<Rightarrow> string \<Rightarrow> int" where
  "StableLlamaRpcWorkerPort plane_name worker_name =
     (let offset = StablePortHash (plane_name @ '':'' @ worker_name @ '':llama-rpc'') mod
            of_int kLlamaRpcWorkerPublishedPortSpan
      in kLlamaRpcWorkerPublishedPortBase + sint offset)"

section \<open>Replica counts\<close>

definition CanonicalDataParallelMode :: "InferenceRuntimeSettings \<Rightarrow> string" where
  "CanonicalDataParallelMode inference =
     (if inf_data_parallel_mode inference = [] then ''off'' else inf_data_parallel_mode inference)"

definition DataParallelEnabled :: "InferenceRuntimeSettings \<Rightarrow> bool" where
  "DataParallelEnabled inference \<longleftrightarrow> CanonicalDataParallelMode inference \<noteq> ''off''"

definition NativeDataParallelEnabled :: "InferenceRuntimeSettings \<Rightarrow> bool" where
  "NativeDataParallelEnabled inference \<longleftrightarrow> DataParallelEnabled inference"

definition HybridDataParallelEnabled :: "InferenceRuntimeSettings \<Rightarrow> bool" where
  "HybridDataParallelEnabled inference \<longleftrightarrow>
     NativeDataParallelEnabled inference \<and> inf_data_parallel_lb_mode inference = ''hybrid''"

definition WorkersPerReplica :: "WorkerGroupSpec \<Rightarrow> int" where
  "WorkersPerReplica worker_group = max 1 (wg_expected_workers worker_group)"

definition EligibleWorkerMemberCount :: "WorkerGroupSpec \<Rightarrow> int" where
  "EligibleWorkerMemberCount worker_group =
     int (length (filter mem_enabled (wg_members worker_group)))"

definition DefaultWorkersPerReplica :: "InferenceRuntimeSettings \<Rightarrow> int \<Rightarrow> int" where
  "DefaultWorkersPerReplica inference eligible_worker_members = max 1 eligible_worker_members"

definition ExpectedReplicaGroupCount :: "InferenceRuntimeSettings \<Rightarrow> WorkerGroupSpec \<Rightarrow> int" where
  "ExpectedReplicaGroupCount inference worker_group =
     (let eligible_members = EligibleWorkerMemberCount worker_group in
      if eligible_members \<le> 0 then 0
      else if \<not> DataParallelEnabled inference then 1
      else eligible_members div WorkersPerReplica worker_group)"

definition ReplicaGroupIdFor :: "WorkerGroupSpec \<Rightarrow> int \<Rightarrow> string" where
  "ReplicaGroupIdFor worker_group replica_index =
     (if wg_group_id worker_group = [] then ''worker-group'' else wg_group_id worker_group) @
     ''-replica-'' @ to_string (max 0 replica_index)"

section \<open>Validation of the packing\<close>

text \<open>
  The hybrid loop of \<open>ValidateReplicaPacking\<close>. Its variables are the arguments
  \<open>eligible_index\<close>, \<open>replica_node_name\<close> and \<open>node_gpu_workers\<close>.
\<close>

fun validate_hybrid_members ::
  "int \<Rightarrow> WorkerGroupMemberSpec list \<Rightarrow> int \<Rightarrow> string \<Rightarrow> (string, (string, string) omap) omap
   \<Rightarrow> unit res" where
  "validate_hybrid_members workers_per_replica [] eligible_index replica_node_name node_gpu_workers =
     Inr ()"
| "validate_hybrid_members workers_per_replica (member # members) eligible_index
     replica_node_name node_gpu_workers =
     (if \<not> mem_enabled member
      then validate_hybrid_members workers_per_replica members eligible_index
             replica_node_name node_gpu_workers
      else if mem_node_name member = []
      then Inl (RuntimeError
        ''data_parallel_lb_mode=hybrid requires enabled worker members to have node_name'')
      else
        let local_rank = eligible_index mod workers_per_replica;
            replica_node_name' =
              (if local_rank = 0 then mem_node_name member else replica_node_name)
        in if local_rank \<noteq> 0 \<and> mem_node_name member \<noteq> replica_node_name
           then Inl (RuntimeError
             (''data_parallel_lb_mode=hybrid requires node-local replica packing; worker '' @
              quoted (mem_name member) @ '' is assigned to node '' @
              quoted (mem_node_name member) @ '' but replica started on node '' @
              quoted replica_node_name))
           else if mem_gpu_device member = []
           then validate_hybrid_members workers_per_replica members (eligible_index + 1)
                  replica_node_name' node_gpu_workers
           else
             let workers_by_gpu = value_or (omap_get node_gpu_workers (mem_node_name member)) []
             in case omap_get workers_by_gpu (mem_gpu_device member) of
                  Some existing \<Rightarrow> Inl (RuntimeError
                    (''data_parallel_lb_mode=hybrid requires unique gpu_device per node-local '' @
                     ''data-parallel rank; worker '' @ quoted (mem_name member) @
                     '' reuses gpu '' @ quoted (mem_gpu_device member) @ '' on node '' @
                     quoted (mem_node_name member) @ '' already assigned to worker '' @
                     quoted existing))
                | None \<Rightarrow> validate_hybrid_members workers_per_replica members (eligible_index + 1)
                    replica_node_name'
                    (omap_put (mem_node_name member)
                      (omap_emplace (mem_gpu_device member) (mem_name member) workers_by_gpu)
                      node_gpu_workers))"

definition ValidateReplicaPacking ::
  "InferenceRuntimeSettings \<Rightarrow> WorkerGroupSpec \<Rightarrow> unit res" where
  "ValidateReplicaPacking inference worker_group =
     (let eligible_members = EligibleWorkerMemberCount worker_group;
          workers_per_replica = WorkersPerReplica worker_group
      in if \<not> DataParallelEnabled inference then Inr ()
         else if eligible_members \<le> 0 \<or> workers_per_replica \<le> 0 then Inr ()
         else if eligible_members mod workers_per_replica \<noteq> 0
         then Inl (RuntimeError
           (''data_parallel_mode='' @ inf_data_parallel_mode inference @
            '' requires eligible worker count ('' @ to_string eligible_members @
            '') to be divisible by worker_group.expected_workers ('' @
            to_string workers_per_replica @ '')''))
         else if HybridDataParallelEnabled inference
         then validate_hybrid_members workers_per_replica (wg_members worker_group) 0 [] []
         else Inr ())"

section \<open>Assignment of the topology\<close>

definition data_parallel_head_address_for :: "WorkerGroupSpec \<Rightarrow> string" where
  "data_parallel_head_address_for worker_group =
     (let head = (case find mem_enabled (wg_members worker_group) of
            None \<Rightarrow> [] | Some member \<Rightarrow> mem_name member)
      in if head \<noteq> [] then head
         else if wg_rendezvous_host worker_group = [] then wg_infer_instance_name worker_group
         else wg_rendezvous_host worker_group)"

text \<open>
  The loop that counts the replicas starting on each node and the lowest replica index
  there, as the pair of \<open>node_replica_counts\<close> and \<open>node_replica_start_ranks\<close>.
\<close>

type_synonym replica_counts = "(string, int) omap \<times> (string, int) omap"

fun count_node_replicas ::
  "bool \<Rightarrow> int \<Rightarrow> WorkerGroupMemberSpec list \<Rightarrow> int \<Rightarrow> replica_counts \<Rightarrow> replica_counts" where
  "count_node_replicas data_parallel workers_per_replica [] replica_index counts = counts"
| "count_node_replicas data_parallel workers_per_replica (member # members) replica_index counts =
     (if \<not> mem_enabled member
      then count_node_replicas data_parallel workers_per_replica members replica_index counts
      else
        let current_replica_index =
              (if data_parallel then replica_index div workers_per_replica else 0);
            local_rank =
              (if data_parallel then replica_index mod workers_per_replica else replica_index);
            counts' =
              (if local_rank = 0
               then (omap_modify (mem_node_name member) 0 (\<lambda>count. count + 1) (fst counts),
                     case omap_get (snd counts) (mem_node_name member) of
                       None \<Rightarrow> omap_emplace (mem_node_name member) current_replica_index (snd counts)
                     | Some start \<Rightarrow> omap_put (mem_node_name member)
                         (min start current_replica_index) (snd counts))
               else counts)
        in count_node_replicas data_parallel workers_per_replica members (replica_index + 1) counts')"

definition disabled_member :: "int \<Rightarrow> WorkerGroupMemberSpec \<Rightarrow> WorkerGroupMemberSpec" where
  "disabled_member workers_per_replica member = member\<lparr>
     mem_rank := 0, mem_replica_group_id := [], mem_replica_index := 0,
     mem_replica_size := workers_per_replica, mem_replica_leader := False,
     mem_data_parallel_rank := 0, mem_data_parallel_size := 1,
     mem_data_parallel_size_local := 1, mem_data_parallel_start_rank := 0,
     mem_data_parallel_api_endpoint := False, mem_data_parallel_head_address := [],
     mem_data_parallel_rpc_port := 0, mem_leader := False\<rparr>"

text \<open>The values fixed before the assignment loop.\<close>

record replica_layout =
  rl_data_parallel :: bool
  rl_hybrid :: bool
  rl_workers_per_replica :: int
  rl_replica_count :: int
  rl_rpc_port :: int
  rl_head_address :: string
  rl_counts :: replica_counts

definition replica_layout_for :: "InferenceRuntimeSettings \<Rightarrow> WorkerGroupSpec \<Rightarrow> replica_layout" where
  "replica_layout_for inference worker_group =
     (let data_parallel = DataParallelEnabled inference;
          workers_per_replica = WorkersPerReplica worker_group
      in \<lparr> rl_data_parallel = data_parallel,
           rl_hybrid = HybridDataParallelEnabled inference,
           rl_workers_per_replica = workers_per_replica,
           rl_replica_count = ExpectedReplicaGroupCount inference worker_group,
           rl_rpc_port = (if wg_rendezvous_port worker_group > 0
             then wg_rendezvous_port worker_group + 100 else 29600),
           rl_head_address = data_parallel_head_address_for worker_group,
           rl_counts = (if HybridDataParallelEnabled inference
             then count_node_replicas data_parallel workers_per_replica
                    (wg_members worker_group) 0 ([], [])
             else ([], [])) \<rparr>)"

definition enabled_member ::
  "WorkerGroupSpec \<Rightarrow> replica_layout \<Rightarrow> int \<Rightarrow> WorkerGroupMemberSpec \<Rightarrow> WorkerGroupMemberSpec" where
  "enabled_member worker_group layout eligible_index member =
     (let replica_index = (if rl_data_parallel layout
            then eligible_index div rl_workers_per_replica layout else 0);
          local_rank = (if rl_data_parallel layout
            then eligible_index mod rl_workers_per_replica layout else eligible_index);
          member = member\<lparr>
            mem_rank := local_rank,
            mem_replica_group_id := ReplicaGroupIdFor worker_group replica_index,
            mem_replica_index := replica_index,
            mem_replica_size := rl_workers_per_replica layout,
            mem_replica_leader := (local_rank = 0),
            mem_data_parallel_rank := replica_index,
            mem_data_parallel_size := max 1 (rl_replica_count layout),
            mem_data_parallel_size_local := 1,
            mem_data_parallel_start_rank := replica_index,
            mem_data_parallel_api_endpoint := (local_rank = 0),
            mem_data_parallel_head_address := rl_head_address layout,
            mem_data_parallel_rpc_port := rl_rpc_port layout\<rparr>;
          member =
            (if rl_hybrid layout \<and> mem_node_name member \<noteq> []
             then let size_local = (case omap_get (fst (rl_counts layout)) (mem_node_name member) of
                        None \<Rightarrow> mem_data_parallel_size_local member
                      | Some replicas \<Rightarrow> max 1 replicas);
                      start_rank = (case omap_get (snd (rl_counts layout)) (mem_node_name member) of
                        None \<Rightarrow> mem_data_parallel_start_rank member
                      | Some start \<Rightarrow> max 0 start)
                  in member\<lparr>
                       mem_data_parallel_size_local := size_local,
                       mem_data_parallel_start_rank := start_rank,
                       mem_data_parallel_api_endpoint :=
                         (mem_replica_leader member \<and> mem_data_parallel_rank member = start_rank)\<rparr>
             else member)
      in member\<lparr>mem_leader := mem_replica_leader member\<rparr>)"

fun assign_members ::
  "WorkerGroupSpec \<Rightarrow> replica_layout \<Rightarrow> WorkerGroupMemberSpec list \<Rightarrow> int
   \<Rightarrow> WorkerGroupMemberSpec list" where
  "assign_members worker_group layout [] eligible_index = []"
| "assign_members worker_group layout (member # members) eligible_index =
     (if \<not> mem_enabled member
      then disabled_member (rl_workers_per_replica layout) member #
             assign_members worker_group layout members eligible_index
      else enabled_member worker_group layout eligible_index member #
             assign_members worker_group layout members (eligible_index + 1))"

definition AssignReplicaTopology ::
  "InferenceRuntimeSettings \<Rightarrow> WorkerGroupSpec \<Rightarrow> WorkerGroupSpec" where
  "AssignReplicaTopology inference worker_group = worker_group\<lparr>wg_members :=
     assign_members worker_group (replica_layout_for inference worker_group)
       (wg_members worker_group) 0\<rparr>"

section \<open>Ports\<close>

text \<open>
  The published port of a worker lies in the reserved range 40000 to 59999
  whatever the names are, and is computed without overflow of \<open>int\<close>.
\<close>

lemma StableLlamaRpcWorkerPort_range:
  "StableLlamaRpcWorkerPort plane worker \<in> {40000..<60000}"
proof -
  let ?h = "StablePortHash (plane @ '':'' @ worker @ '':llama-rpc'')"
  have "uint (?h mod 20000) = uint ?h mod 20000"
    by (simp add: uint_mod)
  moreover have "uint ?h mod 20000 < 20000" by simp
  ultimately have "uint (?h mod 20000) < 20000" by simp
  moreover from this have "sint (?h mod 20000) = uint (?h mod 20000)"
    unfolding sint_uint
    by (intro signed_take_bit_int_eq_self order_trans[OF _ uint_ge_0]) simp_all
  ultimately show ?thesis
    by (simp add: StableLlamaRpcWorkerPort_def kLlamaRpcWorkerPublishedPortSpan_def
        kLlamaRpcWorkerPublishedPortBase_def)
qed

section \<open>Valid packings\<close>

text \<open>
  The enabled members, in order, are cut into runs of \<open>w\<close>. A hybrid packing is valid when
  every enabled member names a node, every run stays on the node of its first member, and
  no GPU of a node is given to two members.
\<close>

definition packing_valid :: "nat \<Rightarrow> WorkerGroupMemberSpec list \<Rightarrow> bool" where
  "packing_valid w es \<longleftrightarrow>
     (\<forall>i < length es. mem_node_name (es ! i) \<noteq> [] \<and>
        mem_node_name (es ! i) = mem_node_name (es ! (i - i mod w))) \<and>
     distinct (map (\<lambda>m. (mem_node_name m, mem_gpu_device m))
       (filter (\<lambda>m. mem_gpu_device m \<noteq> []) es))"

definition replica_packing_ok :: "InferenceRuntimeSettings \<Rightarrow> WorkerGroupSpec \<Rightarrow> bool" where
  "replica_packing_ok inference worker_group \<longleftrightarrow>
     (DataParallelEnabled inference \<longrightarrow>
        WorkersPerReplica worker_group dvd EligibleWorkerMemberCount worker_group) \<and>
     (HybridDataParallelEnabled inference \<longrightarrow>
        packing_valid (nat (WorkersPerReplica worker_group))
          (filter mem_enabled (wg_members worker_group)))"

lemma packing_valid_Nil [simp]: "packing_valid w []"
  by (simp add: packing_valid_def)

lemma packing_valid_appendD: "packing_valid w (xs @ ys) \<Longrightarrow> packing_valid w xs"
proof -
  assume valid: "packing_valid w (xs @ ys)"
  have "mem_node_name (xs ! i) \<noteq> [] \<and>
      mem_node_name (xs ! i) = mem_node_name (xs ! (i - i mod w))" if "i < length xs" for i
  proof -
    have i: "i < length (xs @ ys)" using that by simp
    have "(xs @ ys) ! i = xs ! i" "(xs @ ys) ! (i - i mod w) = xs ! (i - i mod w)"
      using that by (simp_all add: nth_append less_imp_diff_less)
    with valid i show ?thesis unfolding packing_valid_def by metis
  qed
  moreover have "distinct (map (\<lambda>m. (mem_node_name m, mem_gpu_device m))
      (filter (\<lambda>m. mem_gpu_device m \<noteq> []) xs))"
    using valid by (simp add: packing_valid_def)
  ultimately show ?thesis unfolding packing_valid_def by blast
qed

lemma packing_valid_snoc:
  "packing_valid w (es @ [m]) \<longleftrightarrow> packing_valid w es \<and> mem_node_name m \<noteq> [] \<and>
     mem_node_name m = mem_node_name ((es @ [m]) ! (length es - length es mod w)) \<and>
     (mem_gpu_device m \<noteq> [] \<longrightarrow> \<not> (\<exists>p \<in> set es. mem_gpu_device p \<noteq> [] \<and>
        mem_node_name p = mem_node_name m \<and> mem_gpu_device p = mem_gpu_device m))"
proof -
  have less: "(\<forall>i < Suc n. P i) \<longleftrightarrow> (\<forall>i < n. P i) \<and> P n" for n and P :: "nat \<Rightarrow> bool"
    by (auto simp: less_Suc_eq)
  have old: "(\<forall>i < length es. mem_node_name ((es @ [m]) ! i) \<noteq> [] \<and>
        mem_node_name ((es @ [m]) ! i) = mem_node_name ((es @ [m]) ! (i - i mod w))) \<longleftrightarrow>
      (\<forall>i < length es. mem_node_name (es ! i) \<noteq> [] \<and>
        mem_node_name (es ! i) = mem_node_name (es ! (i - i mod w)))"
    by (intro all_cong) (simp add: nth_append less_imp_diff_less)
  have dist: "distinct (map (\<lambda>m. (mem_node_name m, mem_gpu_device m))
        (filter (\<lambda>m. mem_gpu_device m \<noteq> []) (es @ [m]))) \<longleftrightarrow>
      distinct (map (\<lambda>m. (mem_node_name m, mem_gpu_device m))
        (filter (\<lambda>m. mem_gpu_device m \<noteq> []) es)) \<and>
      (mem_gpu_device m \<noteq> [] \<longrightarrow> \<not> (\<exists>p \<in> set es. mem_gpu_device p \<noteq> [] \<and>
        mem_node_name p = mem_node_name m \<and> mem_gpu_device p = mem_gpu_device m))"
    by (cases "mem_gpu_device m = []") (auto simp: image_iff, metis)
  show ?thesis
    unfolding packing_valid_def length_append_singleton less old dist nth_append_length by argo
qed

lemma run_start_step:
  "0 < w \<Longrightarrow> n mod w \<noteq> 0 \<Longrightarrow> n - n mod w = (n - 1) - (n - 1) mod (w :: nat)"
  by (cases n) (auto simp: mod_Suc split: if_splits)

definition gpu_known :: "(string, (string, string) omap) omap \<Rightarrow> string \<Rightarrow> string \<Rightarrow> bool" where
  "gpu_known m node gpu \<longleftrightarrow> omap_get (value_or (omap_get m node) []) gpu \<noteq> None"

lemma validate_hybrid_members_iff:
  assumes "0 < w" "packing_valid w ps"
    and "ps \<noteq> [] \<Longrightarrow> r = mem_node_name (ps ! (length ps - 1 - (length ps - 1) mod w))"
    and "\<And>node gpu. gpu_known m node gpu \<longleftrightarrow> (\<exists>p \<in> set ps. mem_gpu_device p \<noteq> [] \<and>
      mem_node_name p = node \<and> mem_gpu_device p = gpu)"
  shows "validate_hybrid_members (int w) ms (int (length ps)) r m = Inr () \<longleftrightarrow>
    packing_valid w (ps @ filter mem_enabled ms)"
  using assms
proof (induction ms arbitrary: ps r m)
  case Nil
  then show ?case by simp
next
  case (Cons x ms)
  let ?n = "length ps"
  show ?case
  proof (cases "mem_enabled x")
    case False
    then show ?thesis using Cons.IH[OF Cons.prems] by simp
  next
    case True
    have start: "(ps @ [x]) ! (?n - ?n mod w) = (if ?n mod w = 0 then x
        else ps ! (?n - 1 - (?n - 1) mod w))"
    proof (cases "?n mod w = 0")
      case False
      then have "?n - 1 - (?n - 1) mod w < ?n" by (cases ps) auto
      with False show ?thesis
        using run_start_step[OF Cons.prems(1) False] by (simp add: nth_append)
    qed simp
    have r: "?n mod w \<noteq> 0 \<Longrightarrow> r = mem_node_name (ps ! (?n - 1 - (?n - 1) mod w))"
      using Cons.prems(3) by (cases ps) auto
    have snoc: "packing_valid w (ps @ [x]) \<longleftrightarrow> mem_node_name x \<noteq> [] \<and>
        (?n mod w = 0 \<or> mem_node_name x = r) \<and>
        (mem_gpu_device x \<noteq> [] \<longrightarrow> \<not> gpu_known m (mem_node_name x) (mem_gpu_device x))"
      unfolding packing_valid_snoc start using Cons.prems(2,4) r by auto
    show ?thesis
    proof (cases "packing_valid w (ps @ [x])")
      case False
      then have "\<not> packing_valid w (ps @ filter mem_enabled (x # ms))"
        using True packing_valid_appendD[of w "ps @ [x]"] by auto
      moreover from False have "validate_hybrid_members (int w) (x # ms) (int ?n) r m \<noteq> Inr ()"
        unfolding snoc using True
        by (auto simp: Let_def gpu_known_def zmod_int[symmetric] split: option.splits)
      ultimately show ?thesis by simp
    next
      case valid: True
      let ?r = "if ?n mod w = 0 then mem_node_name x else r"
      let ?m = "if mem_gpu_device x = [] then m else omap_put (mem_node_name x)
        (omap_emplace (mem_gpu_device x) (mem_name x)
          (value_or (omap_get m (mem_node_name x)) [])) m"
      have fresh: "mem_gpu_device x \<noteq> [] \<Longrightarrow>
          omap_get (value_or (omap_get m (mem_node_name x)) []) (mem_gpu_device x) = None"
        using valid unfolding snoc by (simp add: gpu_known_def)
      have step: "validate_hybrid_members (int w) (x # ms) (int ?n) r m =
          validate_hybrid_members (int w) ms (int (length (ps @ [x]))) ?r ?m"
        using valid True fresh unfolding snoc
        by (auto simp: Let_def zmod_int[symmetric] add.commute split: option.splits)
      have known: "gpu_known ?m node gpu \<longleftrightarrow> (\<exists>p \<in> set (ps @ [x]). mem_gpu_device p \<noteq> [] \<and>
          mem_node_name p = node \<and> mem_gpu_device p = gpu)" for node gpu
        using Cons.prems(4)[of node gpu] fresh
        by (auto simp: gpu_known_def value_or_def omap_emplace_def)
      have last: "?r = mem_node_name ((ps @ [x]) ! (?n - ?n mod w))"
        unfolding start using r by simp
      show ?thesis
        unfolding step using Cons.IH[OF Cons.prems(1) valid, of ?r ?m] known last True by simp
    qed
  qed
qed

lemma WorkersPerReplica_pos: "0 < WorkersPerReplica g"
  by (simp add: WorkersPerReplica_def)

lemma ValidateReplicaPacking_ok:
  "ValidateReplicaPacking inference g = Inr () \<longleftrightarrow> replica_packing_ok inference g"
proof -
  let ?es = "filter mem_enabled (wg_members g)"
  obtain w where w: "0 < w" "WorkersPerReplica g = int w"
    using WorkersPerReplica_pos[of g] by (metis pos_int_cases)
  have hyb: "validate_hybrid_members (WorkersPerReplica g) (wg_members g) 0 [] [] = Inr () \<longleftrightarrow>
      packing_valid w ?es"
    unfolding w(2) using validate_hybrid_members_iff[OF w(1), of "[]" "[]" "[]" "wg_members g"]
    by (simp add: gpu_known_def value_or_def)
  have none: "EligibleWorkerMemberCount g \<le> 0 \<Longrightarrow> ?es = [] \<and> EligibleWorkerMemberCount g = 0"
    by (simp add: EligibleWorkerMemberCount_def)
  have dp: "HybridDataParallelEnabled inference \<longrightarrow> DataParallelEnabled inference"
    by (simp add: HybridDataParallelEnabled_def NativeDataParallelEnabled_def)
  show ?thesis
  proof (cases "DataParallelEnabled inference \<and> EligibleWorkerMemberCount g > 0")
    case True
    then show ?thesis
      using w(1) hyb by (simp add: ValidateReplicaPacking_def replica_packing_ok_def dvd_eq_mod_eq_0 w(2) Let_def)
  next
    case False
    then show ?thesis
      using none dp
      by (cases "DataParallelEnabled inference")
        (simp_all add: ValidateReplicaPacking_def replica_packing_ok_def)
  qed
qed

text \<open>
  \<^bold>\<open>C18.\<close> \<open>ValidateReplicaPacking\<close> accepts a worker group exactly when the enabled
  workers divide evenly into replicas and, in hybrid mode, each replica is packed on one
  named node and no two workers share a GPU of a node.
\<close>

theorem ValidateReplicaPacking_iff:
  "ValidateReplicaPacking inference g = Inr () \<longleftrightarrow> replica_packing_ok inference g"
  by (rule ValidateReplicaPacking_ok)
section \<open>The assigned topology\<close>

definition enabled_members :: "WorkerGroupSpec \<Rightarrow> WorkerGroupMemberSpec list" where
  "enabled_members g = filter mem_enabled (wg_members g)"

lemma member_fields [simp]:
  "mem_enabled (disabled_member w m) = mem_enabled m"
  "mem_enabled (enabled_member g L i m) = mem_enabled m"
  "mem_node_name (enabled_member g L i m) = mem_node_name m"
  "mem_name (enabled_member g L i m) = mem_name m"
  "mem_replica_index (enabled_member g L i m) =
     (if rl_data_parallel L then i div rl_workers_per_replica L else 0)"
  "mem_rank (enabled_member g L i m) =
     (if rl_data_parallel L then i mod rl_workers_per_replica L else i)"
  "mem_replica_leader (enabled_member g L i m) = (mem_rank (enabled_member g L i m) = 0)"
  by (simp_all add: disabled_member_def enabled_member_def Let_def)

lemma filter_assign_members:
  "filter mem_enabled (assign_members g L ms (int n)) =
     map (\<lambda>(i, m). enabled_member g L (int i) m) (enumerate n (filter mem_enabled ms))"
proof (induction ms arbitrary: n)
  case (Cons m ms)
  show ?case using Cons[of n] Cons[of "Suc n"] by (simp add: add.commute)
qed simp

lemma enabled_members_assigned:
  "enabled_members (AssignReplicaTopology inference g) =
     map (\<lambda>(i, m). enabled_member g (replica_layout_for inference g) (int i) m)
       (enumerate 0 (enabled_members g))"
  using filter_assign_members[of g _ "wg_members g" 0]
  by (simp add: enabled_members_def AssignReplicaTopology_def)

lemma layout_fields [simp]:
  "rl_data_parallel (replica_layout_for inference g) = DataParallelEnabled inference"
  "rl_hybrid (replica_layout_for inference g) = HybridDataParallelEnabled inference"
  "rl_workers_per_replica (replica_layout_for inference g) = WorkersPerReplica g"
  by (simp_all add: replica_layout_for_def Let_def)

lemma product_ranks:
  "map (\<lambda>i. (int (i div w), int (i mod w))) [0..<n * w] =
     List.product (map int [0..<n]) (map int [0..<w])"
proof (induction n)
  case (Suc n)
  have "map (\<lambda>i. (int (i div w), int (i mod w))) [n * w..<n * w + w] =
      map (Pair (int n)) (map int [0..<w])"
    by (rule nth_equalityI) (auto simp: div_mult_self4)
  moreover have "[0..<Suc n * w] = [0..<n * w] @ [n * w..<n * w + w]"
    by (metis add.commute mult_Suc upt_add_eq_append zero_le)
  ultimately show ?case
    using Suc by (simp add: product_concat_map)
qed simp

text \<open>
  \<^bold>\<open>C19.\<close> With data parallelism on, an accepted packing gives a complete rank table: in
  member order the enabled workers receive the pairs of replica index and rank
  \<open>(0,0), (0,1), \<dots>\<close>, every replica below the expected count having one worker of every
  rank.
\<close>

theorem AssignReplicaTopology_rank_table:
  assumes "DataParallelEnabled inference" and "ValidateReplicaPacking inference g = Inr ()"
  shows "map (\<lambda>m. (mem_replica_index m, mem_rank m))
      (enabled_members (AssignReplicaTopology inference g)) =
    List.product (map int [0..<nat (ExpectedReplicaGroupCount inference g)])
      (map int [0..<nat (WorkersPerReplica g)])"
proof -
  obtain w where w: "0 < w" "WorkersPerReplica g = int w"
    using WorkersPerReplica_pos[of g] by (metis pos_int_cases)
  let ?n = "length (enabled_members g)"
  have count: "EligibleWorkerMemberCount g = int ?n"
    by (simp add: EligibleWorkerMemberCount_def enabled_members_def)
  have "w dvd ?n"
    using assms w(2) count by (simp add: ValidateReplicaPacking_ok replica_packing_ok_def)
  then have n: "?n = nat (ExpectedReplicaGroupCount inference g) * w"
    using assms(1) w by (simp add: ExpectedReplicaGroupCount_def count Let_def flip: zdiv_int)
  have "map (\<lambda>m. (mem_replica_index m, mem_rank m))
      (enabled_members (AssignReplicaTopology inference g)) =
      map (\<lambda>i. (int (i div w), int (i mod w))) [0..<?n]"
    unfolding enabled_members_assigned
    by (rule nth_equalityI) (use assms(1) w(2) in
      \<open>simp_all add: nth_enumerate_eq zdiv_int zmod_int\<close>)
  then show ?thesis
    unfolding n product_ranks by (simp add: w(2))
qed

text \<open>Replicas started on a node, as \<open>count_node_replicas\<close> sees them.\<close>

definition replica_starts :: "nat \<Rightarrow> nat \<Rightarrow> WorkerGroupMemberSpec list \<Rightarrow> string \<Rightarrow> int list" where
  "replica_starts w n es node =
     map (\<lambda>(i, m). int (i div w))
       (filter (\<lambda>(i, m). i mod w = 0 \<and> mem_node_name m = node) (enumerate n es))"

definition min_seen :: "int \<Rightarrow> int option \<Rightarrow> int option" where
  "min_seen r s = Some (case s of None \<Rightarrow> r | Some s' \<Rightarrow> min s' r)"

definition count_seen :: "int \<Rightarrow> int option \<Rightarrow> int option" where
  "count_seen r s = Some (value_or s 0 + 1)"

lemma count_node_replicas_get:
  "omap_get (fst (count_node_replicas True (int w) ms (int n) c)) node =
     fold count_seen (replica_starts w n (filter mem_enabled ms) node) (omap_get (fst c) node)"
  "omap_get (snd (count_node_replicas True (int w) ms (int n) c)) node =
     fold min_seen (replica_starts w n (filter mem_enabled ms) node) (omap_get (snd c) node)"
proof (induction ms arbitrary: n c)
  case (Cons m ms)
  {
    case 1
    show ?case
      using Cons(1)[of "Suc n"] Cons(1)[of n]
      by (simp add: Let_def replica_starts_def count_seen_def zmod_int[symmetric] add.commute)
  next
    case 2
    show ?case
      using Cons(2)[of "Suc n"] Cons(2)[of n]
      by (auto simp: Let_def replica_starts_def min_seen_def omap_emplace_def zmod_int[symmetric]
          zdiv_int[symmetric] add.commute split: option.splits)
  }
qed (simp_all add: replica_starts_def)

lemma fold_count_seen:
  "fold count_seen rs None = (if rs = [] then None else Some (int (length rs)))"
  by (induction rs rule: rev_induct) (auto simp: count_seen_def value_or_def)

lemma fold_min_seen:
  "fold min_seen rs None = (if rs = [] then None else Some (Min (set rs)))"
  by (induction rs rule: rev_induct) (auto simp: min_seen_def min.commute Min_insert)

section \<open>Hybrid mode\<close>

text \<open>
  \<open>run_on w n node i\<close>: the enabled member with index \<open>i\<close> sits on \<open>node\<close>. In a valid
  packing the replicas with a member on a node are those whose first member is there.
\<close>

lemma replica_starts_set:
  assumes "0 < w" "packing_valid w es"
  shows "set (replica_starts w 0 es node) =
    (\<lambda>i. int (i div w)) ` {i. i < length es \<and> mem_node_name (es ! i) = node}" (is "_ = ?r")
proof
  show "set (replica_starts w 0 es node) \<subseteq> ?r"
    by (auto simp: replica_starts_def in_set_enumerate_eq)
next
  show "?r \<subseteq> set (replica_starts w 0 es node)"
  proof
    fix r assume "r \<in> ?r"
    then obtain i where i: "i < length es" "mem_node_name (es ! i) = node" "r = int (i div w)"
      by auto
    let ?j = "i - i mod w"
    have "?j = i div w * w" by (simp add: minus_mod_eq_div_mult)
    then have j: "?j mod w = 0" "?j div w = i div w" using assms(1) by simp_all
    have "mem_node_name (es ! ?j) = node"
      using assms(2) i(1,2) unfolding packing_valid_def by metis
    moreover have "(?j, es ! ?j) \<in> set (enumerate 0 es)"
      using i(1) by (simp add: in_set_enumerate_eq less_imp_diff_less)
    ultimately show "r \<in> set (replica_starts w 0 es node)"
      unfolding replica_starts_def i(3) using j by (force simp: image_iff)
  qed
qed

lemma replica_starts_distinct:
  assumes "0 < w" shows "distinct (replica_starts w 0 es node)"
proof -
  let ?ps = "filter (\<lambda>(i, m). i mod w = 0 \<and> mem_node_name m = node) (enumerate 0 es)"
  have "inj_on (\<lambda>(i, m). int (i div w)) (set ?ps)"
  proof (rule inj_onI, clarify)
    fix i m j k
    assume "(i, m) \<in> set ?ps" "(j, k) \<in> set ?ps" "int (i div w) = int (j div w)"
    then have "i = j" "m = es ! i" "k = es ! j"
      using div_mult_mod_eq[of i w] div_mult_mod_eq[of j w]
      by (auto simp: in_set_enumerate_eq)
    then show "i = j \<and> m = k" by simp
  qed
  moreover have "distinct ?ps" by (simp add: distinct_enumerate)
  ultimately show ?thesis by (simp add: replica_starts_def distinct_map)
qed

definition replicas_on :: "WorkerGroupSpec \<Rightarrow> string \<Rightarrow> int set" where
  "replicas_on g node =
     mem_replica_index ` {m \<in> set (enabled_members g). mem_node_name m = node}"

lemma replicas_on_assigned:
  assumes "DataParallelEnabled inference" "WorkersPerReplica g = int w"
  shows "replicas_on (AssignReplicaTopology inference g) node = (\<lambda>i. int (i div w)) `
    {i. i < length (enabled_members g) \<and> mem_node_name (enabled_members g ! i) = node}"
proof -
  let ?es = "enabled_members g"
  let ?f = "\<lambda>i. enabled_member g (replica_layout_for inference g) (int i) (?es ! i)"
  have "set (enabled_members (AssignReplicaTopology inference g)) = ?f ` {..<length ?es}"
    unfolding enabled_members_assigned by (force simp: in_set_enumerate_eq)
  then have "replicas_on (AssignReplicaTopology inference g) node =
      mem_replica_index ` ?f ` {i. i < length ?es \<and> mem_node_name (?es ! i) = node}"
    by (auto simp: replicas_on_def)
  then show ?thesis
    using assms by (simp add: image_image zdiv_int)
qed

lemma hybrid_layout_get:
  assumes "HybridDataParallelEnabled inference" "ValidateReplicaPacking inference g = Inr ()"
    and "m \<in> set (enabled_members g)"
  shows "omap_get (fst (rl_counts (replica_layout_for inference g))) (mem_node_name m) =
      Some (int (card (replicas_on (AssignReplicaTopology inference g) (mem_node_name m))))"
    and "omap_get (snd (rl_counts (replica_layout_for inference g))) (mem_node_name m) =
      Some (Min (replicas_on (AssignReplicaTopology inference g) (mem_node_name m)))"
proof -
  obtain w where w: "0 < w" "WorkersPerReplica g = int w"
    using WorkersPerReplica_pos[of g] by (metis pos_int_cases)
  let ?rs = "replica_starts w 0 (enabled_members g) (mem_node_name m)"
  have dp: "DataParallelEnabled inference"
    using assms(1) by (simp add: HybridDataParallelEnabled_def NativeDataParallelEnabled_def)
  have "packing_valid w (enabled_members g)"
    using assms(1,2) w by (simp add: ValidateReplicaPacking_ok replica_packing_ok_def enabled_members_def)
  then have rs: "set ?rs = replicas_on (AssignReplicaTopology inference g) (mem_node_name m)"
    by (simp add: replica_starts_set w replicas_on_assigned[OF dp w(2)])
  have "?rs \<noteq> []"
    using rs assms(3) w dp
    by (auto simp: replicas_on_assigned in_set_conv_nth simp flip: set_empty)
  moreover have "card (set ?rs) = length ?rs"
    by (rule distinct_card) (rule replica_starts_distinct[OF w(1)])
  ultimately show
    "omap_get (fst (rl_counts (replica_layout_for inference g))) (mem_node_name m) =
      Some (int (card (replicas_on (AssignReplicaTopology inference g) (mem_node_name m))))"
    "omap_get (snd (rl_counts (replica_layout_for inference g))) (mem_node_name m) =
      Some (Min (replicas_on (AssignReplicaTopology inference g) (mem_node_name m)))"
    using assms(1) dp w count_node_replicas_get[of w "wg_members g" 0 "([], [])" "mem_node_name m"] rs
    by (simp_all add: replica_layout_for_def Let_def fold_count_seen fold_min_seen enabled_members_def)
qed

lemma hybrid_member_fields:
  fixes i :: nat
  assumes "HybridDataParallelEnabled inference" "ValidateReplicaPacking inference g = Inr ()"
    and "m \<in> set (enabled_members g)"
  defines "R \<equiv> replicas_on (AssignReplicaTopology inference g) (mem_node_name m)"
    and "e \<equiv> enabled_member g (replica_layout_for inference g) (int i) m"
  shows "mem_data_parallel_size_local e = max 1 (int (card R))"
    and "mem_data_parallel_start_rank e = max 0 (Min R)"
    and "mem_data_parallel_api_endpoint e \<longleftrightarrow>
      mem_rank e = 0 \<and> mem_replica_index e = mem_data_parallel_start_rank e"
proof -
  obtain w where w: "0 < w" "WorkersPerReplica g = int w"
    using WorkersPerReplica_pos[of g] by (metis pos_int_cases)
  have "packing_valid w (enabled_members g)"
    using assms(1,2) w by (simp add: ValidateReplicaPacking_ok replica_packing_ok_def enabled_members_def)
  then have "mem_node_name m \<noteq> []"
    using assms(3) unfolding packing_valid_def in_set_conv_nth by metis
  then show "mem_data_parallel_size_local e = max 1 (int (card R))"
    "mem_data_parallel_start_rank e = max 0 (Min R)"
    "mem_data_parallel_api_endpoint e \<longleftrightarrow>
      mem_rank e = 0 \<and> mem_replica_index e = mem_data_parallel_start_rank e"
    using hybrid_layout_get[OF assms(1-3)] assms(1)
    by (simp_all add: e_def R_def enabled_member_def Let_def)
qed

lemma unique_endpoint:
  assumes "0 < w" "R \<noteq> {}" "finite R" "R = set (replica_starts w 0 es node)"
  shows "card {i. i < length es \<and> mem_node_name (es ! i) = node \<and> i mod w = 0 \<and>
    int (i div w) = Min R} = 1"
proof -
  have "Min R \<in> set (replica_starts w 0 es node)"
    using Min_in[OF assms(3,2)] assms(4) by simp
  then obtain i where i: "i < length es" "mem_node_name (es ! i) = node" "i mod w = 0"
    "int (i div w) = Min R"
    by (auto simp: replica_starts_def in_set_enumerate_eq)
  have uniq: "j = i" if "j mod w = 0" "int (j div w) = Min R" for j
  proof -
    have d: "j div w = i div w" using that(2) i(4) by linarith
    have "j = j div w * w + j mod w" by (simp only: div_mult_mod_eq)
    also have "\<dots> = i div w * w + i mod w" by (simp only: d that(1) i(3))
    finally show ?thesis by (simp only: div_mult_mod_eq)
  qed
  have "{i. i < length es \<and> mem_node_name (es ! i) = node \<and> i mod w = 0 \<and>
      int (i div w) = Min R} \<subseteq> {i}" (is "?S \<subseteq> _")
  proof
    fix j assume "j \<in> ?S"
    then have "j mod w = 0" "int (j div w) = Min R" by (simp_all only: mem_Collect_eq)
    then have "j = i" by (rule uniq)
    then show "j \<in> {i}" by simp
  qed
  moreover have "{i} \<subseteq> {i. i < length es \<and> mem_node_name (es ! i) = node \<and> i mod w = 0 \<and>
      int (i div w) = Min R}"
    using i by simp
  ultimately have "{i. i < length es \<and> mem_node_name (es ! i) = node \<and> i mod w = 0 \<and>
      int (i div w) = Min R} = {i}"
    by (rule subset_antisym)
  then show ?thesis by simp
qed

text \<open>
  \<^bold>\<open>C20.\<close> In hybrid mode an accepted packing gives every node exactly one API endpoint.
  For every enabled worker the local size is the number of replicas on its node and the
  start rank is the lowest of them.
\<close>

theorem AssignReplicaTopology_hybrid_endpoints:
  assumes hybrid: "HybridDataParallelEnabled inference"
    and valid: "ValidateReplicaPacking inference g = Inr ()"
    and member: "m \<in> set (enabled_members (AssignReplicaTopology inference g))"
  shows "mem_data_parallel_size_local m =
      int (card (replicas_on (AssignReplicaTopology inference g) (mem_node_name m)))
    \<and> mem_data_parallel_start_rank m =
      Min (replicas_on (AssignReplicaTopology inference g) (mem_node_name m))
    \<and> length (filter (\<lambda>e. mem_data_parallel_api_endpoint e \<and> mem_node_name e = mem_node_name m)
      (enabled_members (AssignReplicaTopology inference g))) = 1"
proof -
  obtain w where w: "0 < w" "WorkersPerReplica g = int w"
    using WorkersPerReplica_pos[of g] by (metis pos_int_cases)
  let ?es = "enabled_members g" and ?L = "replica_layout_for inference g"
  let ?as = "enabled_members (AssignReplicaTopology inference g)"
  define R where "R = replicas_on (AssignReplicaTopology inference g) (mem_node_name m)"
  have dp: "DataParallelEnabled inference"
    using hybrid by (simp add: HybridDataParallelEnabled_def NativeDataParallelEnabled_def)
  have pv: "packing_valid w ?es"
    using hybrid valid w
    by (simp add: ValidateReplicaPacking_ok replica_packing_ok_def enabled_members_def)
  obtain k where k: "k < length ?es" "m = enabled_member g ?L (int k) (?es ! k)"
    using member unfolding enabled_members_assigned by (auto simp: in_set_enumerate_eq)
  have "finite R" "R \<noteq> {}" "\<forall>r \<in> R. 0 \<le> r"
    using k dp w unfolding R_def by (auto simp: replicas_on_assigned)
  then have R: "finite R" "R \<noteq> {}" "0 \<le> Min R" "1 \<le> card R"
    by (simp_all add: Suc_le_eq card_gt_0_iff)
  have node: "mem_node_name m = mem_node_name (?es ! k)" using k by simp
  note fields = hybrid_member_fields[OF hybrid valid]
  have size_start: "mem_data_parallel_size_local m = int (card R)" "mem_data_parallel_start_rank m = Min R"
    using fields(1,2)[of "?es ! k" k] k R unfolding R_def node by simp_all
  have len: "length ?as = length ?es" by (simp add: enabled_members_assigned)
  have nth: "?as ! i = enabled_member g ?L (int i) (?es ! i)" if "i < length ?es" for i
    using that by (simp add: enabled_members_assigned nth_enumerate_eq)
  have "{i. i < length ?as \<and> mem_data_parallel_api_endpoint (?as ! i) \<and>
      mem_node_name (?as ! i) = mem_node_name m} =
    {i. i < length ?es \<and> mem_node_name (?es ! i) = mem_node_name m \<and> i mod w = 0 \<and>
      int (i div w) = Min R}"
  proof (rule Collect_cong)
    fix i
    have "mem_data_parallel_api_endpoint (?as ! i) \<longleftrightarrow> i mod w = 0 \<and> int (i div w) = Min R"
      if "i < length ?es" "mem_node_name (?es ! i) = mem_node_name m"
      using fields(2,3)[of "?es ! i" i] dp w(2) R(3) that
      by (simp add: nth R_def zdiv_int flip: zmod_int)
    then show "(i < length ?as \<and> mem_data_parallel_api_endpoint (?as ! i) \<and>
        mem_node_name (?as ! i) = mem_node_name m) \<longleftrightarrow>
      (i < length ?es \<and> mem_node_name (?es ! i) = mem_node_name m \<and> i mod w = 0 \<and>
        int (i div w) = Min R)"
      using len by (auto simp: nth)
  qed
  moreover have "R = set (replica_starts w 0 ?es (mem_node_name m))"
    unfolding R_def by (simp add: replica_starts_set w pv replicas_on_assigned[OF dp w(2)])
  ultimately have "length (filter (\<lambda>e. mem_data_parallel_api_endpoint e \<and>
      mem_node_name e = mem_node_name m) ?as) = 1"
    using unique_endpoint[OF w(1) R(2,1)] by (simp add: length_filter_conv_card)
  with size_start show ?thesis unfolding R_def by simp
qed

text \<open>A hybrid group with two workers per replica, three replicas and two nodes.\<close>

definition sample_member :: "string \<Rightarrow> string \<Rightarrow> string \<Rightarrow> WorkerGroupMemberSpec" where
  "sample_member name node gpu = default_WorkerGroupMemberSpec\<lparr>mem_name := name,
     mem_node_name := node, mem_gpu_device := gpu\<rparr>"

definition sample_group :: WorkerGroupSpec where
  "sample_group = default_WorkerGroupSpec\<lparr>wg_expected_workers := 2, wg_members :=
     [sample_member ''a'' ''n1'' ''0'', sample_member ''b'' ''n1'' ''1'',
      sample_member ''c'' ''n2'' ''0'', sample_member ''d'' ''n2'' ''1'',
      sample_member ''e'' ''n1'' ''2'', sample_member ''f'' ''n1'' ''3'']\<rparr>"

definition sample_hybrid :: InferenceRuntimeSettings where
  "sample_hybrid = default_InferenceRuntimeSettings\<lparr>inf_data_parallel_mode := ''replicas'',
     inf_data_parallel_lb_mode := ''hybrid''\<rparr>"

lemma sample_hybrid_modes [simp]:
  "DataParallelEnabled sample_hybrid" "HybridDataParallelEnabled sample_hybrid"
  by (simp_all add: sample_hybrid_def HybridDataParallelEnabled_def NativeDataParallelEnabled_def
      DataParallelEnabled_def CanonicalDataParallelMode_def)

lemma sample_group_valid: "ValidateReplicaPacking sample_hybrid sample_group = Inr ()"
  by code_simp

lemma sample_group_counts:
  "ExpectedReplicaGroupCount sample_hybrid sample_group = 3" "WorkersPerReplica sample_group = 2"
  by code_simp+

theorem AssignReplicaTopology_rank_table_witness:
  "map (\<lambda>m. (mem_replica_index m, mem_rank m))
     (enabled_members (AssignReplicaTopology sample_hybrid sample_group)) =
   [(0, 0), (0, 1), (1, 0), (1, 1), (2, 0), (2, 1)]"
  using AssignReplicaTopology_rank_table[OF _ sample_group_valid]
  by (simp add: sample_group_counts upt_rec)

theorem AssignReplicaTopology_hybrid_endpoints_witness:
  "length (filter (\<lambda>e. mem_data_parallel_api_endpoint e \<and> mem_node_name e = ''n1'')
     (enabled_members (AssignReplicaTopology sample_hybrid sample_group))) = 1"
proof -
  have "hd (enabled_members (AssignReplicaTopology sample_hybrid sample_group)) \<in>
      set (enabled_members (AssignReplicaTopology sample_hybrid sample_group))
    \<and> mem_node_name (hd (enabled_members (AssignReplicaTopology sample_hybrid sample_group))) = ''n1''"
    by code_simp
  then show ?thesis
    using AssignReplicaTopology_hybrid_endpoints[OF _ sample_group_valid] by fastforce
qed


section \<open>Stability\<close>

text \<open>
  The assignment overwrites every field it computes and reads none of them, so it depends
  on the remaining fields only.
\<close>

definition local_size :: "replica_layout \<Rightarrow> string \<Rightarrow> int" where
  "local_size L node = (if rl_hybrid L \<and> node \<noteq> []
     then case omap_get (fst (rl_counts L)) node of None \<Rightarrow> 1 | Some n \<Rightarrow> max 1 n else 1)"

definition start_rank :: "replica_layout \<Rightarrow> int \<Rightarrow> string \<Rightarrow> int" where
  "start_rank L replica_index node = (if rl_hybrid L \<and> node \<noteq> []
     then case omap_get (snd (rl_counts L)) node of None \<Rightarrow> replica_index | Some s \<Rightarrow> max 0 s
     else replica_index)"

lemma enabled_member_kept [simp]:
  "mem_infer_instance_name (enabled_member g L i m) = mem_infer_instance_name m"
  "mem_gpu_device (enabled_member g L i m) = mem_gpu_device m"
  "mem_rpc_port (enabled_member g L i m) = mem_rpc_port m"
  "mem_gpu_fraction (enabled_member g L i m) = mem_gpu_fraction m"
  "mem_share_mode (enabled_member g L i m) = mem_share_mode m"
  "mem_priority (enabled_member g L i m) = mem_priority m"
  "mem_preemptible (enabled_member g L i m) = mem_preemptible m"
  "mem_memory_cap_mb (enabled_member g L i m) = mem_memory_cap_mb m"
  by (simp_all add: enabled_member_def Let_def)

lemma enabled_member_written:
  "mem_replica_group_id (enabled_member g L i m) =
     ReplicaGroupIdFor g (mem_replica_index (enabled_member g L i m))"
  "mem_replica_size (enabled_member g L i m) = rl_workers_per_replica L"
  "mem_data_parallel_rank (enabled_member g L i m) = mem_replica_index (enabled_member g L i m)"
  "mem_data_parallel_size (enabled_member g L i m) = max 1 (rl_replica_count L)"
  "mem_data_parallel_size_local (enabled_member g L i m) = local_size L (mem_node_name m)"
  "mem_data_parallel_start_rank (enabled_member g L i m) =
     start_rank L (mem_replica_index (enabled_member g L i m)) (mem_node_name m)"
  "mem_data_parallel_api_endpoint (enabled_member g L i m) \<longleftrightarrow>
     mem_rank (enabled_member g L i m) = 0 \<and> (rl_hybrid L \<and> mem_node_name m \<noteq> [] \<longrightarrow>
       mem_replica_index (enabled_member g L i m) =
       start_rank L (mem_replica_index (enabled_member g L i m)) (mem_node_name m))"
  "mem_data_parallel_head_address (enabled_member g L i m) = rl_head_address L"
  "mem_data_parallel_rpc_port (enabled_member g L i m) = rl_rpc_port L"
  "mem_leader (enabled_member g L i m) = (mem_rank (enabled_member g L i m) = 0)"
  by (simp_all add: enabled_member_def Let_def local_size_def start_rank_def cong: option.case_cong)
    auto

lemma assigned_member_fields [simp]:
  "mem_name (disabled_member w m) = mem_name m"
  "mem_node_name (disabled_member w m) = mem_node_name m"
  "disabled_member w (disabled_member w' m) = disabled_member w m"
  by (simp_all add: disabled_member_def)

lemma enabled_member_again [simp]:
  "enabled_member g L i (enabled_member g' L' i' m) = enabled_member g L i m"
  by (rule WorkerGroupMemberSpec.equality) (simp_all add: enabled_member_written)

lemma enabled_member_group_id:
  "wg_group_id g = wg_group_id g' \<Longrightarrow> enabled_member g L i m = enabled_member g' L i m"
  by (rule WorkerGroupMemberSpec.equality)
    (simp_all add: enabled_member_written ReplicaGroupIdFor_def)

lemma assign_members_idem:
  "wg_group_id g = wg_group_id g' \<Longrightarrow>
   assign_members g L (assign_members g' L' ms n) n = assign_members g L ms n"
  by (induction ms arbitrary: n) (simp_all add: enabled_member_group_id[of g g'])

lemma assign_members_group_id:
  "wg_group_id g = wg_group_id g' \<Longrightarrow> assign_members g L ms n = assign_members g' L ms n"
  by (induction ms arbitrary: n) (simp_all add: enabled_member_group_id[of g g'])

lemma assign_members_reads:
  "filter mem_enabled (assign_members g L ms n) = [] \<longleftrightarrow> filter mem_enabled ms = []"
  "length (filter mem_enabled (assign_members g L ms n)) = length (filter mem_enabled ms)"
  "map_option mem_name (find mem_enabled (assign_members g L ms n)) =
     map_option mem_name (find mem_enabled ms)"
  "count_node_replicas dp w (assign_members g L ms n) k c = count_node_replicas dp w ms k c"
  by (induction ms arbitrary: n k c) (simp_all add: Let_def cong: option.case_cong)

lemma replica_layout_assigned:
  "replica_layout_for inference (AssignReplicaTopology inference' g) = replica_layout_for inference g"
proof -
  let ?h = "AssignReplicaTopology inference' g"
  have "EligibleWorkerMemberCount ?h = EligibleWorkerMemberCount g"
    by (simp add: EligibleWorkerMemberCount_def AssignReplicaTopology_def assign_members_reads)
  moreover have "WorkersPerReplica ?h = WorkersPerReplica g"
    by (simp add: WorkersPerReplica_def AssignReplicaTopology_def)
  moreover have "data_parallel_head_address_for ?h = data_parallel_head_address_for g"
    using assign_members_reads(3)[of g "replica_layout_for inference' g" "wg_members g" 0]
    by (cases "find mem_enabled (wg_members g)")
      (auto simp: data_parallel_head_address_for_def AssignReplicaTopology_def Let_def)
  moreover have "wg_rendezvous_port ?h = wg_rendezvous_port g"
    "count_node_replicas dp w (wg_members ?h) k c = count_node_replicas dp w (wg_members g) k c"
    for dp w k c
    by (simp_all add: AssignReplicaTopology_def assign_members_reads(4))
  ultimately show ?thesis
    unfolding replica_layout_for_def ExpectedReplicaGroupCount_def Let_def by simp
qed

text \<open>
  Assigning the topology again changes nothing: the assignment depends on the
  plan's inputs only, not on a topology left from an earlier run.
\<close>

lemma AssignReplicaTopology_idem:
  "AssignReplicaTopology inference (AssignReplicaTopology inference' g) =
   AssignReplicaTopology inference g"
proof -
  let ?h = "AssignReplicaTopology inference' g"
  have h: "?h = g\<lparr>wg_members := assign_members g (replica_layout_for inference' g) (wg_members g) 0\<rparr>"
    by (simp add: AssignReplicaTopology_def)
  have "assign_members ?h L (wg_members ?h) 0 = assign_members g L (wg_members g) 0" for L
    using assign_members_group_id[of ?h g] assign_members_idem[of g g] by (simp add: h)
  then show ?thesis
    unfolding AssignReplicaTopology_def[of inference ?h] replica_layout_assigned
    by (simp add: h AssignReplicaTopology_def[of inference g])
qed

end
