(* ===== verification/Naim_Reconcile.thy ===== *)
theory Naim_Reconcile
  imports Naim_Models
begin

text \<open>
  The reconcile planner of \<open>common/src/planning/reconcile.cpp\<close>: resources are compared
  by a textual signature under a textual key, and the plan lists what to create, update
  and delete. The lemmas show that the listed changes turn the current resources into the
  desired ones, that a plan is empty exactly when the signatures agree, and what the
  signatures leave out.
\<close>

section \<open>Changes and plans\<close>

datatype ChangeAction = Create | Update | Delete

record ResourceChange =
  ch_action :: ChangeAction
  ch_resource_type :: string
  ch_resource_id :: string
  ch_details :: string

record ReconcilePlan =
  plan_notes :: "string list"
  plan_warnings :: "string list"
  plan_changes :: "ResourceChange list"

fun ToString_ChangeAction :: "ChangeAction \<Rightarrow> string" where
  "ToString_ChangeAction Create = ''create''"
| "ToString_ChangeAction Update = ''update''"
| "ToString_ChangeAction Delete = ''delete''"

section \<open>Signatures\<close>

definition OptionalValue :: "string option \<Rightarrow> string" where
  "OptionalValue v = value_or v ''-''"

definition flag_text :: "bool \<Rightarrow> string" where
  "flag_text b = to_string (if b then 1 else 0)"

definition NodeSignature :: "NodeInventory \<Rightarrow> string" where
  "NodeSignature node =
     (let gpu_devices = EffectiveNodeGpuDevices node;
          gpu_memory_entries = map (\<lambda>gpu_device. gpu_device @ '':'' @
            to_string (value_or (omap_get (node_gpu_memory_mb node) gpu_device) 0)) gpu_devices
      in node_platform node @ ''|'' @ JoinStrings gpu_devices '','' @ ''|'' @
         JoinStrings gpu_memory_entries '','')"

definition DiskKey :: "DiskSpec \<Rightarrow> string" where
  "DiskKey disk = disk_name disk @ ''@'' @ disk_node_name disk"

definition DiskSignature :: "DiskSpec \<Rightarrow> string" where
  "DiskSignature disk =
     disk_plane_name disk @ ''|'' @ disk_owner_name disk @ ''|'' @
     ToString_DiskKind (disk_kind disk) @ ''|'' @ disk_host_path disk @ ''|'' @
     disk_container_path disk @ ''|'' @ to_string (disk_size_gb disk)"

definition SortedKeys :: "(string, string) omap \<Rightarrow> string list" where
  "SortedKeys values = sort (map fst values)"

definition MapSignature :: "(string, string) omap \<Rightarrow> string" where
  "MapSignature values =
     JoinStrings (map (\<lambda>key. key @ ''='' @ value_or (omap_get values key) []) (SortedKeys values)) '';''"

definition PublishedPortsSignature :: "PublishedPort list \<Rightarrow> string" where
  "PublishedPortsSignature ports =
     JoinStrings (sort (map (\<lambda>port. port_host_ip port @ '':'' @ to_string (port_host_port port) @
       '':'' @ to_string (port_container_port port)) ports)) '';''"

definition app_model_mount_entry :: "AppModelMountSpec \<Rightarrow> string" where
  "app_model_mount_entry mount =
     mount_name mount @ ''|'' @ mount_source_path mount @ ''|'' @ mount_source_node_name mount @
     ''|'' @ JoinStrings (sort (mount_source_paths mount)) '','' @ ''|'' @ mount_host_path mount @
     ''|'' @ mount_mount_path mount @ ''|'' @ mount_env_var mount @ ''|'' @
     flag_text (mount_required mount)"

definition AppModelMountsSignature :: "AppModelMountSpec list \<Rightarrow> string" where
  "AppModelMountsSignature mounts = JoinStrings (sort (map app_model_mount_entry mounts)) '';''"

definition InstanceSignature :: "InstanceSpec \<Rightarrow> string" where
  "InstanceSignature instance =
     ToString_InstanceRole (inst_role instance) @ ''|'' @ inst_plane_name instance @ ''|'' @
     inst_node_name instance @ ''|'' @ inst_image instance @ ''|'' @ inst_command instance @ ''|'' @
     inst_private_disk_name instance @ ''|'' @ inst_shared_disk_name instance @ ''|'' @
     OptionalValue (inst_gpu_device instance) @ ''|'' @
     ToString_PlacementMode (inst_placement_mode instance) @ ''|'' @
     ToString_GpuShareMode (inst_share_mode instance) @ ''|'' @
     to_string (inst_priority instance) @ ''|'' @ flag_text (inst_preemptible instance) @ ''|'' @
     to_string (value_or (inst_memory_cap_mb instance) 0) @ ''|'' @
     double_to_string (inst_gpu_fraction instance) @ ''|'' @
     to_string (inst_private_disk_size_gb instance) @ ''|'' @
     PublishedPortsSignature (inst_published_ports instance) @ ''|'' @
     AppModelMountsSignature (inst_app_model_mounts instance) @ ''|'' @
     JoinStrings (sort (inst_depends_on instance)) '','' @ ''|'' @
     MapSignature (inst_environment instance) @ ''|'' @ MapSignature (inst_labels instance)"

definition PlaneSignature :: "DesiredState \<Rightarrow> string" where
  "PlaneSignature state = st_plane_name state @ ''|'' @ st_plane_shared_disk_name state"

section \<open>The plan\<close>

definition signatures_by_key ::
  "('a \<Rightarrow> string) \<Rightarrow> ('a \<Rightarrow> string) \<Rightarrow> 'a list \<Rightarrow> (string, string) omap" where
  "signatures_by_key key_fn signature_fn items =
     fold (\<lambda>item. omap_put (key_fn item) (signature_fn item)) items []"

definition change_for ::
  "string \<Rightarrow> (string, string) omap \<Rightarrow> (string, string) omap \<Rightarrow> string \<Rightarrow> ResourceChange list" where
  "change_for resource_type current_by_key desired_by_key key =
     (case (omap_get current_by_key key, omap_get desired_by_key key) of
        (None, _) \<Rightarrow> [\<lparr>ch_action = Create, ch_resource_type = resource_type,
           ch_resource_id = key, ch_details = ''new resource''\<rparr>]
      | (Some _, None) \<Rightarrow> [\<lparr>ch_action = Delete, ch_resource_type = resource_type,
           ch_resource_id = key, ch_details = ''missing from desired bundle''\<rparr>]
      | (Some current, Some desired) \<Rightarrow>
          if current \<noteq> desired
          then [\<lparr>ch_action = Update, ch_resource_type = resource_type,
             ch_resource_id = key, ch_details = ''resource configuration changed''\<rparr>]
          else [])"

definition all_keys :: "(string, string) omap \<Rightarrow> (string, string) omap \<Rightarrow> string list" where
  "all_keys current_by_key desired_by_key =
     fold insort_insert (map fst desired_by_key) (fold insort_insert (map fst current_by_key) [])"

definition AppendResourceChanges ::
  "'a list \<Rightarrow> 'a list \<Rightarrow> string \<Rightarrow> ('a \<Rightarrow> string) \<Rightarrow> ('a \<Rightarrow> string) \<Rightarrow> ResourceChange list
   \<Rightarrow> ResourceChange list" where
  "AppendResourceChanges current_items desired_items resource_type key_fn signature_fn changes =
     (let current_by_key = signatures_by_key key_fn signature_fn current_items;
          desired_by_key = signatures_by_key key_fn signature_fn desired_items
      in changes @ concat (map (change_for resource_type current_by_key desired_by_key)
           (all_keys current_by_key desired_by_key)))"

definition worker_warnings :: "InstanceSpec \<Rightarrow> string list" where
  "worker_warnings instance =
     (if inst_role instance = Worker \<and> inst_gpu_fraction instance < 1
      then [''worker '' @ quoted (inst_name instance) @ '' requests gpu_fraction='' @
        double_to_string (inst_gpu_fraction instance) @ '', so soft GPU sharing will be required'']
      else []) @
     (if inst_role instance = Worker \<and> \<not> has_value (inst_memory_cap_mb instance)
      then [''worker '' @ quoted (inst_name instance) @
        '' does not set memory_cap_mb, so memory-aware GPU admission cannot be enforced'']
      else [])"

definition AppendDesiredStateWarnings :: "DesiredState \<Rightarrow> ReconcilePlan \<Rightarrow> ReconcilePlan" where
  "AppendDesiredStateWarnings state plan = plan\<lparr>plan_warnings :=
     plan_warnings plan @ concat (map worker_warnings (st_instances state))\<rparr>"

definition append_all_resources ::
  "NodeInventory list \<Rightarrow> DiskSpec list \<Rightarrow> InstanceSpec list \<Rightarrow> DesiredState \<Rightarrow> ResourceChange list
   \<Rightarrow> ResourceChange list" where
  "append_all_resources nodes disks instances desired_state changes =
     AppendResourceChanges instances (st_instances desired_state) ''instance''
       inst_name InstanceSignature
       (AppendResourceChanges disks (st_disks desired_state) ''disk'' DiskKey DiskSignature
         (AppendResourceChanges nodes (st_nodes desired_state) ''node'' node_name NodeSignature
           changes))"

definition initial_plan :: "DesiredState option \<Rightarrow> DesiredState \<Rightarrow> ReconcilePlan" where
  "initial_plan current_state desired_state =
     AppendDesiredStateWarnings desired_state
       (case current_state of
          None \<Rightarrow> \<lparr>plan_notes =
              [''controller database is empty; all desired resources will be created''],
            plan_warnings = [], plan_changes = []\<rparr>
        | Some current \<Rightarrow> \<lparr>plan_notes = [],
            plan_warnings = (if st_plane_name current \<noteq> st_plane_name desired_state
              then [''bundle plane '' @ quoted (st_plane_name desired_state) @
                '' differs from current plane '' @ quoted (st_plane_name current)]
              else []),
            plan_changes = []\<rparr>)"

definition BuildReconcilePlan :: "DesiredState option \<Rightarrow> DesiredState \<Rightarrow> ReconcilePlan" where
  "BuildReconcilePlan current_state desired_state =
     (let plan = initial_plan current_state desired_state in
      case current_state of
        None \<Rightarrow> plan\<lparr>plan_changes := append_all_resources [] [] [] desired_state
          [\<lparr>ch_action = Create, ch_resource_type = ''plane'',
            ch_resource_id = st_plane_name desired_state, ch_details = ''new plane''\<rparr>]\<rparr>
      | Some current \<Rightarrow>
          let changes = append_all_resources (st_nodes current) (st_disks current)
                (st_instances current) desired_state
                (if PlaneSignature current \<noteq> PlaneSignature desired_state
                 then [\<lparr>ch_action = Update, ch_resource_type = ''plane'',
                   ch_resource_id = st_plane_name desired_state,
                   ch_details = ''plane metadata changed''\<rparr>]
                 else [])
          in plan\<lparr>plan_changes := changes,
               plan_notes := plan_notes plan @
                 (if changes = [] then [''current state already matches desired bundle''] else [])\<rparr>)"

section \<open>Text form\<close>

definition count_action :: "ChangeAction \<Rightarrow> ResourceChange list \<Rightarrow> int" where
  "count_action action changes = int (length (filter (\<lambda>change. ch_action change = action) changes))"

definition render_items :: "string \<Rightarrow> string list \<Rightarrow> string" where
  "render_items heading items =
     (if items = [] then []
      else heading @ newline @ concat (map (\<lambda>item. ''  - '' @ item @ newline) items))"

definition render_change :: "ResourceChange \<Rightarrow> string" where
  "render_change change =
     ''  - ['' @ ToString_ChangeAction (ch_action change) @ ''] '' @ ch_resource_type change @
     '' '' @ ch_resource_id change @
     (if ch_details change \<noteq> [] then '' :: '' @ ch_details change else []) @ newline"

definition RenderReconcilePlan :: "ReconcilePlan \<Rightarrow> string" where
  "RenderReconcilePlan plan =
     render_items ''notes:'' (plan_notes plan) @
     render_items ''warnings:'' (plan_warnings plan) @
     ''changes:'' @ newline @
     ''  create='' @ to_string (count_action Create (plan_changes plan)) @ newline @
     ''  update='' @ to_string (count_action Update (plan_changes plan)) @ newline @
     ''  delete='' @ to_string (count_action Delete (plan_changes plan)) @ newline @
     concat (map render_change (plan_changes plan))"

section \<open>What the changes describe\<close>

lemma omap_ok_signatures [simp]: "omap_ok (signatures_by_key k s items)"
  unfolding signatures_by_key_def by (rule om.ok_build) simp

lemma set_all_keys: "set (all_keys c d) = fst ` set c \<union> fst ` set d"
proof -
  have "set (fold insort_insert xs ys) = set xs \<union> set ys" for xs ys :: "string list"
    by (induction xs arbitrary: ys) (auto simp: set_insort_insert)
  then show ?thesis by (auto simp: all_keys_def)
qed

lemma all_keys_ascending: "sorted_wrt (<) (all_keys c d)"
proof -
  have "sorted ys \<and> distinct ys \<Longrightarrow>
      sorted (fold insort_insert xs ys) \<and> distinct (fold insort_insert xs ys)"
    for xs ys :: "string list"
    by (induction xs arbitrary: ys) (auto simp: sorted_insort_insert distinct_insort_insert)
  then show ?thesis
    by (simp add: all_keys_def strict_sorted_iff)
qed

text \<open>The effect of carrying out a list of changes on the current signatures.\<close>

definition apply_change ::
  "(string \<rightharpoonup> string) \<Rightarrow> ResourceChange \<Rightarrow> (string \<rightharpoonup> string) \<Rightarrow> (string \<rightharpoonup> string)" where
  "apply_change desired change current =
     (case ch_action change of
        Delete \<Rightarrow> current(ch_resource_id change := None)
      | _ \<Rightarrow> current(ch_resource_id change := desired (ch_resource_id change)))"

lemma change_for_id: "ch \<in> set (change_for ty c d k) \<Longrightarrow> ch_resource_id ch = k"
  by (auto simp: change_for_def split: option.splits if_splits)

lemma fold_apply_other:
  "\<forall>ch \<in> set chs. ch_resource_id ch \<noteq> k \<Longrightarrow> fold (apply_change d) chs m k = m k"
  by (induction chs arbitrary: m) (auto simp: apply_change_def split: ChangeAction.splits)

lemma fold_apply_change_for:
  assumes "m k = omap_get c k" "k \<in> set (all_keys c d)"
  shows "fold (apply_change (omap_get d)) (change_for ty c d k) m k = omap_get d k"
  using assms by (auto simp: change_for_def apply_change_def split: option.splits)

lemma fold_apply_keys:
  assumes "distinct ks" "set ks \<subseteq> set (all_keys c d)" "\<forall>k \<in> set ks. m k = omap_get c k"
  shows "fold (apply_change (omap_get d)) (concat (map (change_for ty c d) ks)) m k =
    (if k \<in> set ks then omap_get d k else m k)"
  using assms
proof (induction ks arbitrary: m)
  case (Cons j ks)
  let ?m = "fold (apply_change (omap_get d)) (change_for ty c d j) m"
  have other: "?m i = m i" if "i \<noteq> j" for i
    using that by (intro fold_apply_other) (auto dest: change_for_id)
  have "?m j = omap_get d j"
    using Cons.prems by (intro fold_apply_change_for) auto
  moreover have "\<forall>i \<in> set ks. ?m i = omap_get c i"
    using Cons.prems other by (metis distinct.simps(2) list.set_intros(2))
  ultimately show ?case
    using Cons.IH[of ?m] Cons.prems other by auto
qed simp

lemma changes_converge:
  assumes "\<And>k. k \<notin> set (all_keys c d) \<Longrightarrow> omap_get c k = omap_get d k"
  shows "fold (apply_change (omap_get d)) (concat (map (change_for ty c d) (all_keys c d)))
    (omap_get c) = omap_get d"
  using fold_apply_keys[of "all_keys c d" c d "omap_get c" ty] all_keys_ascending[of c d] assms
  by (auto simp: strict_sorted_iff)

lemma AppendResourceChanges_apply:
  "fold (apply_change (omap_get (signatures_by_key key_fn sig_fn desired)))
     (AppendResourceChanges current desired ty key_fn sig_fn [])
     (omap_get (signatures_by_key key_fn sig_fn current)) =
   omap_get (signatures_by_key key_fn sig_fn desired)"
  unfolding AppendResourceChanges_def Let_def append_Nil
  by (rule changes_converge) (simp add: set_all_keys omap_get_eq_None[THEN iffD2])


lemma concat_change_for_ids:
  "map ch_resource_id (concat (map (change_for ty c d) ks)) =
     filter (\<lambda>k. change_for ty c d k \<noteq> []) ks"
  by (induction ks) (auto simp: change_for_def split: option.splits)

lemma change_for_iff:
  "ch \<in> set (change_for ty c d k) \<longleftrightarrow> ch_resource_type ch = ty \<and> ch_resource_id ch = k \<and>
     (case ch_action ch of
        Create \<Rightarrow> omap_get c k = None \<and> ch_details ch = ''new resource''
      | Delete \<Rightarrow> omap_get c k \<noteq> None \<and> omap_get d k = None \<and>
          ch_details ch = ''missing from desired bundle''
      | Update \<Rightarrow> omap_get c k \<noteq> None \<and> omap_get d k \<noteq> None \<and> omap_get c k \<noteq> omap_get d k \<and>
          ch_details ch = ''resource configuration changed'')"
  by (cases ch) (auto simp: change_for_def split: option.splits ChangeAction.splits)

lemma signatures_get_None:
  "omap_get (signatures_by_key key_fn sig_fn xs) k = None \<longleftrightarrow> k \<notin> key_fn ` set xs"
  unfolding signatures_by_key_def by (subst om.keys_build) simp_all

lemma AppendResourceChanges_mem:
  fixes key_fn sig_fn
  defines "sigs \<equiv> signatures_by_key key_fn sig_fn"
  shows "ch \<in> set (AppendResourceChanges current desired ty key_fn sig_fn []) \<longleftrightarrow>
    ch_resource_id ch \<in> key_fn ` set current \<union> key_fn ` set desired \<and>
    ch \<in> set (change_for ty (sigs current) (sigs desired) (ch_resource_id ch))"
proof -
  have "k \<in> set (all_keys (sigs current) (sigs desired)) \<longleftrightarrow>
      k \<in> key_fn ` set current \<union> key_fn ` set desired" for k
    using signatures_get_None[of key_fn sig_fn current k] signatures_get_None[of key_fn sig_fn desired k]
    by (auto simp: sigs_def set_all_keys omap_get_eq_None)
  then show ?thesis
    by (auto simp: AppendResourceChanges_def Let_def sigs_def dest: change_for_id)
qed

lemma AppendResourceChanges_image:
  fixes key_fn sig_fn
  defines "sigs \<equiv> signatures_by_key key_fn sig_fn"
  shows "(a, k) \<in> (\<lambda>ch. (ch_action ch, ch_resource_id ch)) `
      set (AppendResourceChanges current desired ty key_fn sig_fn []) \<longleftrightarrow>
    k \<in> key_fn ` set current \<union> key_fn ` set desired \<and>
    (case a of
       Create \<Rightarrow> omap_get (sigs current) k = None
     | Delete \<Rightarrow> omap_get (sigs current) k \<noteq> None \<and> omap_get (sigs desired) k = None
     | Update \<Rightarrow> omap_get (sigs current) k \<noteq> None \<and> omap_get (sigs desired) k \<noteq> None \<and>
         omap_get (sigs current) k \<noteq> omap_get (sigs desired) k)"
    (is "_ \<in> _ ` set ?chs \<longleftrightarrow> ?r")
proof
  assume "(a, k) \<in> (\<lambda>ch. (ch_action ch, ch_resource_id ch)) ` set ?chs"
  then show ?r
    unfolding image_iff sigs_def
    by (auto simp: AppendResourceChanges_mem change_for_iff split: ChangeAction.splits)
next
  assume ?r
  then have "\<lparr>ch_action = a, ch_resource_type = ty, ch_resource_id = k, ch_details =
      (case a of Create \<Rightarrow> ''new resource'' | Delete \<Rightarrow> ''missing from desired bundle''
       | Update \<Rightarrow> ''resource configuration changed'')\<rparr> \<in> set ?chs"
    unfolding AppendResourceChanges_mem sigs_def
    by (auto simp: change_for_iff split: ChangeAction.splits)
  then show "(a, k) \<in> (\<lambda>ch. (ch_action ch, ch_resource_id ch)) ` set ?chs"
    by (rule rev_image_eqI) simp
qed

text \<open>
  \<^bold>\<open>C32.\<close> The changes are the exact difference: a key is created, deleted or updated
  precisely when it is only desired, only current, or present in both with different
  signatures. Every key has at most one change, and the changes are in ascending key order.
\<close>

theorem AppendResourceChanges_exact:
  "sorted_wrt (<) (map ch_resource_id (AppendResourceChanges current desired ty key_fn sig_fn [])) \<and>
   (\<lambda>ch. (ch_action ch, ch_resource_id ch)) `
     set (AppendResourceChanges current desired ty key_fn sig_fn []) =
   {(Create, k) |k. k \<in> key_fn ` set desired - key_fn ` set current} \<union>
   {(Delete, k) |k. k \<in> key_fn ` set current - key_fn ` set desired} \<union>
   {(Update, k) |k. k \<in> key_fn ` set current \<inter> key_fn ` set desired \<and>
      omap_get (signatures_by_key key_fn sig_fn current) k \<noteq>
      omap_get (signatures_by_key key_fn sig_fn desired) k}"
    (is "?asc \<and> ?img = ?diff")
proof
  show ?asc
    unfolding AppendResourceChanges_def Let_def append_Nil concat_change_for_ids
    by (rule sorted_wrt_filter) (rule all_keys_ascending)
  show "?img = ?diff"
  proof (rule set_eqI)
    fix p :: "ChangeAction \<times> string"
    obtain a k where p: "p = (a, k)" by (cases p)
    show "p \<in> ?img \<longleftrightarrow> p \<in> ?diff"
      unfolding p AppendResourceChanges_image signatures_get_None by (cases a) auto
  qed
qed

section \<open>Quiescence\<close>

lemma AppendResourceChanges_append:
  "AppendResourceChanges c d ty k s chs = chs @ AppendResourceChanges c d ty k s []"
  by (simp add: AppendResourceChanges_def Let_def)

lemma AppendResourceChanges_Nil_iff:
  "AppendResourceChanges c d ty k s [] = [] \<longleftrightarrow>
     signatures_by_key k s c = signatures_by_key k s d"
proof
  assume "AppendResourceChanges c d ty k s [] = []"
  then have "omap_get (signatures_by_key k s c) = omap_get (signatures_by_key k s d)"
    using AppendResourceChanges_apply[of k s d c ty] by simp
  then show "signatures_by_key k s c = signatures_by_key k s d"
    by (intro omap_eqI) simp_all
next
  assume eq: "signatures_by_key k s c = signatures_by_key k s d"
  have "change_for ty m m j = []" if "j \<in> fst ` set m" for m j
    using that omap_get_eq_None[of m j] by (auto simp: change_for_def)
  then show "AppendResourceChanges c d ty k s [] = []"
    by (simp add: AppendResourceChanges_def eq set_all_keys Let_def)
qed

lemma append_all_resources_split:
  "append_all_resources nodes disks instances s chs = chs @
     AppendResourceChanges nodes (st_nodes s) ''node'' node_name NodeSignature [] @
     AppendResourceChanges disks (st_disks s) ''disk'' DiskKey DiskSignature [] @
     AppendResourceChanges instances (st_instances s) ''instance'' inst_name InstanceSignature []"
  by (simp only: append_all_resources_def AppendResourceChanges_def Let_def append.assoc append_Nil)

lemma plan_changes_current:
  "plan_changes (BuildReconcilePlan (Some current) desired) =
     (if PlaneSignature current \<noteq> PlaneSignature desired
      then [\<lparr>ch_action = Update, ch_resource_type = ''plane'',
        ch_resource_id = st_plane_name desired, ch_details = ''plane metadata changed''\<rparr>]
      else []) @
     AppendResourceChanges (st_nodes current) (st_nodes desired) ''node'' node_name NodeSignature [] @
     AppendResourceChanges (st_disks current) (st_disks desired) ''disk'' DiskKey DiskSignature [] @
     AppendResourceChanges (st_instances current) (st_instances desired) ''instance''
       inst_name InstanceSignature []"
  by (simp add: BuildReconcilePlan_def Let_def append_all_resources_split)

text \<open>
  \<^bold>\<open>C34.\<close> A plan against an existing state has no changes, and says that the state
  already matches, exactly when the plane signatures agree and the nodes, disks and
  instances have the same keys with the same signatures.
\<close>

theorem BuildReconcilePlan_quiescent_iff:
  "(plan_changes (BuildReconcilePlan (Some current) desired) = [] \<longleftrightarrow>
     PlaneSignature current = PlaneSignature desired \<and>
     signatures_by_key node_name NodeSignature (st_nodes current) =
       signatures_by_key node_name NodeSignature (st_nodes desired) \<and>
     signatures_by_key DiskKey DiskSignature (st_disks current) =
       signatures_by_key DiskKey DiskSignature (st_disks desired) \<and>
     signatures_by_key inst_name InstanceSignature (st_instances current) =
       signatures_by_key inst_name InstanceSignature (st_instances desired)) \<and>
   (plan_notes (BuildReconcilePlan (Some current) desired) =
      (if plan_changes (BuildReconcilePlan (Some current) desired) = []
       then [''current state already matches desired bundle''] else []))"
proof
  show "plan_notes (BuildReconcilePlan (Some current) desired) =
      (if plan_changes (BuildReconcilePlan (Some current) desired) = []
       then [''current state already matches desired bundle''] else [])"
    by (simp add: BuildReconcilePlan_def initial_plan_def AppendDesiredStateWarnings_def Let_def)
qed (auto simp: plan_changes_current AppendResourceChanges_Nil_iff)

lemma all_keys_created:
  "all_keys [] (signatures_by_key k s ds) = sorted_list_of_set (k ` set ds)"
proof -
  have "set (all_keys [] (signatures_by_key k s ds)) = k ` set ds"
    using signatures_get_None[of k s ds] by (auto simp: set_all_keys omap_get_eq_None)
  then show ?thesis
    using all_keys_ascending[of "[]" "signatures_by_key k s ds"]
    by (metis sorted_list_of_set.idem_if_sorted_distinct strict_sorted_iff)
qed

lemma AppendResourceChanges_created:
  "map (\<lambda>ch. (ch_action ch, ch_resource_type ch, ch_resource_id ch))
     (AppendResourceChanges [] ds ty k s []) =
   map (\<lambda>k. (Create, ty, k)) (sorted_list_of_set (k ` set ds))"
proof -
  have "map (\<lambda>ch. (ch_action ch, ch_resource_type ch, ch_resource_id ch))
      (concat (map (change_for ty [] d) ks)) = map (\<lambda>k. (Create, ty, k)) ks" for d ks
    by (induction ks) (simp_all add: change_for_def)
  moreover have "signatures_by_key k s [] = []" by (simp add: signatures_by_key_def)
  ultimately show ?thesis
    by (simp add: AppendResourceChanges_def all_keys_created)
qed

text \<open>
  With an empty database the plan only creates: the plane first, then every
  node, disk and instance once, in key order.
\<close>

lemma BuildReconcilePlan_initial:
  "map (\<lambda>ch. (ch_action ch, ch_resource_type ch, ch_resource_id ch))
     (plan_changes (BuildReconcilePlan None desired)) =
   (Create, ''plane'', st_plane_name desired) #
   map (\<lambda>k. (Create, ''node'', k)) (sorted_list_of_set (node_name ` set (st_nodes desired))) @
   map (\<lambda>k. (Create, ''disk'', k)) (sorted_list_of_set (DiskKey ` set (st_disks desired))) @
   map (\<lambda>k. (Create, ''instance'', k)) (sorted_list_of_set (inst_name ` set (st_instances desired)))"
  unfolding BuildReconcilePlan_def append_all_resources_def Let_def
  by (subst (1 2 3) AppendResourceChanges_append) (simp add: AppendResourceChanges_created)

section \<open>What the signatures leave out\<close>

text \<open>
  The node signature has no execution mode: a bundle that only switches nodes between
  worker-capable and inference-only modes is reported as matching the current state.
\<close>

lemma NodeSignature_execution_mode:
  "NodeSignature (node\<lparr>node_execution_mode := mode\<rparr>) = NodeSignature node"
  by (simp add: NodeSignature_def EffectiveNodeGpuDevices_def)

text \<open>
  \<^bold>\<open>C40.\<close> Changing the execution mode of the nodes is invisible to the reconcile
  plan: whatever the new modes are, the plan has no changes and notes that the current
  state already matches.
\<close>

theorem reconcile_ignores_execution_mode:
  "plan_changes (BuildReconcilePlan (Some state)
     (state\<lparr>st_nodes := map (\<lambda>node. node\<lparr>node_execution_mode := mode node\<rparr>) (st_nodes state)\<rparr>)) = []"
proof -
  have "signatures_by_key node_name NodeSignature
      (map (\<lambda>node. node\<lparr>node_execution_mode := mode node\<rparr>) nodes) =
      signatures_by_key node_name NodeSignature nodes" for nodes
    by (simp add: signatures_by_key_def fold_map NodeSignature_execution_mode comp_def)
  then show ?thesis
    by (simp add: plan_changes_current AppendResourceChanges_Nil_iff PlaneSignature_def)
qed

end
