(* ===== verification/Naim_Std_Lib.thy ===== *)
theory Naim_Std_Lib
  imports Naim_Prelude
begin

text \<open>
  Further parts of the C++ standard library that the renderers use: \<open>std::stoi\<close> with its
  two exceptions, and POSIX \<open>std::filesystem::path\<close> as a string with \<open>operator/\<close>,
  iteration over the elements and \<open>lexically_relative\<close>.
\<close>

section \<open>Parsing integers\<close>

definition is_space :: "char \<Rightarrow> bool" where
  "is_space c \<longleftrightarrow> c \<in> set [CHR 0x20, CHR 0x09, CHR 0x0A, CHR 0x0B, CHR 0x0C, CHR 0x0D]"

definition is_digit :: "char \<Rightarrow> bool" where
  "is_digit c \<longleftrightarrow> c \<in> set ''0123456789''"

text \<open>
  \<open>std::stoi\<close> in base 10: leading white space, an optional sign, the longest run of digits;
  the rest of the text is ignored.
\<close>

definition stoi :: "string \<Rightarrow> int res" where
  "stoi text =
     (let body = dropWhile is_space text;
          negative = (case body of c # _ \<Rightarrow> c = CHR ''-'' | [] \<Rightarrow> False);
          digits = takeWhile is_digit (case body of
            c # cs \<Rightarrow> if c = CHR ''-'' \<or> c = CHR ''+'' then cs else body | [] \<Rightarrow> []);
          n = (if negative then - int (digits_value digits) else int (digits_value digits))
      in if digits = [] then Inl (InvalidArgument ''stoi'')
         else if n < - (2 ^ 31) \<or> n > 2 ^ 31 - 1 then Inl (OutOfRange ''stoi'')
         else Inr n)"

lemma digit_not_space: "is_digit c \<Longrightarrow> \<not> is_space c"
  by (auto simp: is_digit_def is_space_def)

lemma show_nat_takeWhile: "takeWhile is_digit (show_nat n) = show_nat n"
  using show_nat_digits[of n] unfolding takeWhile_eq_all_conv is_digit_def by blast

lemma show_nat_first:
  obtains c cs where "show_nat n = c # cs" "is_digit c" "c \<noteq> CHR ''-''" "c \<noteq> CHR ''+''" "\<not> is_space c"
proof -
  obtain c cs where "show_nat n = c # cs" using show_nat_nonempty[of n] by (cases "show_nat n") auto
  moreover from this have "is_digit c" using show_nat_digits[of n] by (auto simp: is_digit_def)
  ultimately show ?thesis
    using that digit_not_space[of c] by (auto simp: is_digit_def)
qed

lemma stoi_to_string:
  assumes "- (2 ^ 31) \<le> n" "n \<le> 2 ^ 31 - 1"
  shows "stoi (to_string n) = Inr n"
proof (cases "n < 0")
  case True
  have "\<not> is_space CHR ''-''" by (simp add: is_space_def)
  with True assms show ?thesis
    by (simp add: stoi_def to_string_def Let_def digits_value_show_nat show_nat_takeWhile)
next
  case False
  obtain c cs where c: "show_nat (nat n) = c # cs" "c \<noteq> CHR ''-''" "c \<noteq> CHR ''+''" "\<not> is_space c"
    by (rule show_nat_first[of "nat n"]) blast
  have digits: "takeWhile is_digit (c # cs) = c # cs" and n: "int (digits_value (c # cs)) = n"
    using show_nat_takeWhile[of "nat n"] digits_value_show_nat[of "nat n"] False unfolding c(1) by simp_all
  with False assms c show ?thesis
    by (simp add: stoi_def to_string_def Let_def digits del: takeWhile.simps)
qed

lemma stoi_range: "stoi text = Inr n \<Longrightarrow> - (2 ^ 31) \<le> n \<and> n \<le> 2 ^ 31 - 1"
  by (auto simp: stoi_def Let_def split: if_splits)

section \<open>Paths\<close>

abbreviation slash :: char where
  "slash \<equiv> CHR ''/''"

definition path_is_absolute :: "string \<Rightarrow> bool" where
  "path_is_absolute p \<longleftrightarrow> p \<noteq> [] \<and> hd p = slash"

definition path_has_filename :: "string \<Rightarrow> bool" where
  "path_has_filename p \<longleftrightarrow> p \<noteq> [] \<and> last p \<noteq> slash"

text \<open>\<open>operator/\<close>\<close>

definition path_append :: "string \<Rightarrow> string \<Rightarrow> string" where
  "path_append p q =
     (if path_is_absolute q \<or> p = [] then q
      else if path_has_filename p then p @ [slash] @ q
      else p @ q)"

text \<open>
  The elements a path iterator yields: the root directory, the file names between runs of
  separators, and an empty element for a trailing separator.
\<close>

fun split_slash :: "string \<Rightarrow> string \<Rightarrow> string list" where
  "split_slash [] current = [current]"
| "split_slash (c # cs) current =
     (if c = slash then current # split_slash cs [] else split_slash cs (current @ [c]))"

definition path_elements :: "string \<Rightarrow> string list" where
  "path_elements p =
     (let root = (if path_is_absolute p then [[slash]] else []);
          names = filter (\<lambda>s. s \<noteq> []) (split_slash p [])
      in root @ names @ (if names \<noteq> [] \<and> \<not> path_has_filename p then [[]] else []))"

fun strip_common :: "string list \<Rightarrow> string list \<Rightarrow> string list \<times> string list" where
  "strip_common (a # as) (b # bs) = (if a = b then strip_common as bs else (a # as, b # bs))"
| "strip_common as bs = (as, bs)"

definition lexically_relative :: "string \<Rightarrow> string \<Rightarrow> string" where
  "lexically_relative p base =
     (if path_is_absolute p \<noteq> path_is_absolute base then []
      else
        let (as, bs) = strip_common (path_elements p) (path_elements base);
            n = int (length (filter (\<lambda>s. s \<noteq> [] \<and> s \<noteq> ''.'' \<and> s \<noteq> ''..'') bs)) -
                int (length (filter (\<lambda>s. s = ''..'') bs))
        in if as = [] \<and> bs = [] then ''.''
           else if n < 0 then []
           else if n = 0 \<and> (as = [] \<or> hd as = []) then ''.''
           else foldl path_append [] (replicate (nat n) ''..'' @ as))"

lemma path_append_Nil [simp]: "path_append [] q = q"
  by (simp add: path_append_def)

lemma path_append_file:
  "path_has_filename p \<Longrightarrow> \<not> path_is_absolute q \<Longrightarrow> path_append p q = p @ [slash] @ q"
  by (auto simp: path_append_def path_has_filename_def)

lemma path_has_filename_append: "path_has_filename q \<Longrightarrow> path_has_filename (path_append p q)"
  by (auto simp: path_append_def path_has_filename_def)

lemma path_append_inject:
  assumes "\<not> path_is_absolute q" "\<not> path_is_absolute r"
  shows "path_append p q = path_append p r \<longleftrightarrow> q = r"
  using assms by (simp add: path_append_def)

end
