(* ===== verification/Naim_Json.thy ===== *)
theory Naim_Json
  imports Naim_Double Naim_Std_Lib
begin

text \<open>
  JSON documents as the state codecs see them. Objects keep their keys in ascending order,
  as the default object type of the JSON library does; of two equal keys in an initialiser
  list the first is kept. The accessors follow the library's
  documentation: \<open>at\<close> throws exception 304 on a value that is not an object and 403 on a
  missing key, \<open>value\<close> throws 306 on a value that is not an object and returns the default
  on a missing key, \<open>get\<close> throws 302 on a value of another type, \<open>contains\<close> is false on
  everything but an object that has the key. \<open>get<int>\<close> converts a number with
  \<open>static_cast\<close>, so an integer that does not fit is reduced modulo \<open>2 ^ 32\<close>.
\<close>

section \<open>Values\<close>

datatype json =
    JNull
  | JBool bool
  | JInt int
  | JFloat double
  | JString string
  | JArray "json list"
  | JObject "(string \<times> json) list"

definition json_object :: "(string \<times> json) list \<Rightarrow> json" where
  "json_object members = JObject (fold (\<lambda>(key, v). omap_emplace key v) members [])"

text \<open>\<open>object[key] = value\<close>\<close>

fun json_set :: "string \<Rightarrow> json \<Rightarrow> json \<Rightarrow> json" where
  "json_set key v (JObject m) = JObject (omap_put key v m)"
| "json_set key v j = j"

fun json_get :: "json \<Rightarrow> string \<Rightarrow> json option" where
  "json_get (JObject m) key = omap_get m key"
| "json_get j key = None"

text \<open>\<open>if (cond) object[key] = value\<close> and \<open>if (opt.has_value()) object[key] = *opt\<close>\<close>

definition json_set_if :: "bool \<Rightarrow> string \<Rightarrow> json \<Rightarrow> json \<Rightarrow> json" where
  "json_set_if c key v j = (if c then json_set key v j else j)"

definition json_set_opt :: "string \<Rightarrow> ('a \<Rightarrow> json) \<Rightarrow> 'a option \<Rightarrow> json \<Rightarrow> json" where
  "json_set_opt key enc v j = (case v of None \<Rightarrow> j | Some x \<Rightarrow> json_set key (enc x) j)"

fun is_object :: "json \<Rightarrow> bool" where
  "is_object (JObject m) = True"
| "is_object j = False"

fun is_array :: "json \<Rightarrow> bool" where
  "is_array (JArray xs) = True"
| "is_array j = False"

fun is_string :: "json \<Rightarrow> bool" where
  "is_string (JString s) = True"
| "is_string j = False"

definition json_strings :: "string list \<Rightarrow> json" where
  "json_strings xs = JArray (map JString xs)"

definition json_map :: "('a \<Rightarrow> json) \<Rightarrow> (string, 'a) omap \<Rightarrow> json" where
  "json_map enc m = JObject (map (map_prod id enc) m)"

section \<open>Accessors\<close>

text \<open>\<open>static_cast<int>\<close> of a 64-bit integer.\<close>

definition int_cast :: "int \<Rightarrow> int" where
  "int_cast i = (i + 2 ^ 31) mod 2 ^ 32 - 2 ^ 31"

definition int_fits :: "int \<Rightarrow> bool" where
  "int_fits i \<longleftrightarrow> - (2 ^ 31) \<le> i \<and> i < 2 ^ 31"

fun get_string :: "json \<Rightarrow> string res" where
  "get_string (JString s) = Inr s"
| "get_string j = Inl (JsonError 302)"

fun get_bool :: "json \<Rightarrow> bool res" where
  "get_bool (JBool b) = Inr b"
| "get_bool j = Inl (JsonError 302)"

fun get_int :: "json \<Rightarrow> int res" where
  "get_int (JInt i) = Inr (int_cast i)"
| "get_int (JFloat d) = Inr (if d < 0 then \<lceil>d\<rceil> else \<lfloor>d\<rfloor>)"
| "get_int (JBool b) = Inr (if b then 1 else 0)"
| "get_int j = Inl (JsonError 302)"

fun get_double :: "json \<Rightarrow> double res" where
  "get_double (JFloat d) = Inr d"
| "get_double (JInt i) = Inr (fl (of_int i))"
| "get_double j = Inl (JsonError 302)"

fun get_strings :: "json \<Rightarrow> string list res" where
  "get_strings (JArray xs) = res_map_list get_string xs"
| "get_strings j = Inl (JsonError 302)"

fun get_map :: "(json \<Rightarrow> 'a res) \<Rightarrow> json \<Rightarrow> (string, 'a) omap res" where
  "get_map get (JObject m) = res_map_list (\<lambda>(k, v). res_bind (get v) (\<lambda>x. Inr (k, x))) m"
| "get_map get j = Inl (JsonError 302)"

definition json_at :: "(json \<Rightarrow> 'a res) \<Rightarrow> json \<Rightarrow> string \<Rightarrow> 'a res" where
  "json_at get j key =
     (if \<not> is_object j then Inl (JsonError 304)
      else case json_get j key of None \<Rightarrow> Inl (JsonError 403) | Some v \<Rightarrow> get v)"

definition json_value :: "(json \<Rightarrow> 'a res) \<Rightarrow> json \<Rightarrow> string \<Rightarrow> 'a \<Rightarrow> 'a res" where
  "json_value get j key fallback =
     (if \<not> is_object j then Inl (JsonError 306)
      else case json_get j key of None \<Rightarrow> Inr fallback | Some v \<Rightarrow> get v)"

text \<open>\<open>if (v.contains(key) && !v.at(key).is_null()) field = v.at(key).get<T>()\<close>\<close>

definition json_optional :: "(json \<Rightarrow> 'a res) \<Rightarrow> json \<Rightarrow> string \<Rightarrow> 'a option res" where
  "json_optional get j key =
     (case json_get j key of
        None \<Rightarrow> Inr None
      | Some v \<Rightarrow> if v = JNull then Inr None else res_bind (get v) (\<lambda>x. Inr (Some x)))"

text \<open>\<open>if (v.contains(key) && v.at(key).is_T()) field = f(v.at(key))\<close>, else the default\<close>

definition json_when :: "(json \<Rightarrow> bool) \<Rightarrow> (json \<Rightarrow> 'a res) \<Rightarrow> json \<Rightarrow> string \<Rightarrow> 'a \<Rightarrow> 'a res" where
  "json_when is_type f j key fallback =
     (case json_get j key of
        None \<Rightarrow> Inr fallback
      | Some v \<Rightarrow> if is_type v then f v else Inr fallback)"

text \<open>The same for an optional block of settings.\<close>

definition json_block :: "(json \<Rightarrow> 'a res) \<Rightarrow> json \<Rightarrow> string \<Rightarrow> 'a option res" where
  "json_block f j key = json_when is_object (\<lambda>v. res_bind (f v) (\<lambda>x. Inr (Some x))) j key None"

text \<open>A loop that keeps the string items of an array, and the items of any value.\<close>

definition string_items :: "json \<Rightarrow> string list res" where
  "string_items j = (case j of
     JArray xs \<Rightarrow> Inr (concat (map (\<lambda>x. case x of JString s \<Rightarrow> [s] | _ \<Rightarrow> []) xs))
   | _ \<Rightarrow> Inr [])"

fun json_iter :: "json \<Rightarrow> json list" where
  "json_iter (JArray xs) = xs"
| "json_iter (JObject m) = map snd m"
| "json_iter JNull = []"
| "json_iter j = [j]"

section \<open>Laws\<close>

lemma int_cast_fits [simp]: "int_fits i \<Longrightarrow> int_cast i = i"
  by (simp add: int_cast_def int_fits_def)

lemma int_fits_cast: "int_fits (int_cast i)"
  using pos_mod_bound[of "2 ^ 32" "i + 2 ^ 31"] pos_mod_sign[of "2 ^ 32" "i + 2 ^ 31"]
  by (simp add: int_cast_def int_fits_def)

lemma json_get_object [simp]: "json_get (json_object members) key = map_of members key"
proof -
  have "omap_get (fold (\<lambda>(key, v). omap_emplace key v) ms m) = map_of ms ++ omap_get m"
    for ms :: "(string \<times> json) list" and m
    by (induction ms arbitrary: m)
      (auto simp: omap_emplace_def map_add_def fun_eq_iff split: option.splits)
  then show ?thesis by (simp add: json_object_def)
qed

lemma is_object_simps [simp]:
  "is_object (json_object ms)"
  "is_object (json_set k v j) = is_object j"
  "is_object (json_set_if c k v j) = is_object j"
  "is_object (json_set_opt k enc w j) = is_object j"
  "is_object (json_map enc' m)"
  by (simp_all add: json_object_def json_set_if_def json_set_opt_def json_map_def split: option.splits)
    (cases j; simp)+

lemma is_array_strings [simp]: "is_array (json_strings xs)"
  by (simp add: json_strings_def)

lemma json_get_set [simp]:
  "json_get (json_set k v (JObject m)) key = (if key = k then Some v else omap_get m key)"
  by simp

lemma json_get_set_other [simp]:
  "is_object j \<Longrightarrow> json_get (json_set k v j) key = (if key = k then Some v else json_get j key)"
  by (cases j) auto

lemma json_get_set_if [simp]:
  "is_object j \<Longrightarrow> json_get (json_set_if c k v j) key =
     (if key = k \<and> c then Some v else json_get j key)"
  by (simp add: json_set_if_def)

lemma json_get_set_opt [simp]:
  "is_object j \<Longrightarrow> json_get (json_set_opt k enc w j) key =
     (if key = k \<and> w \<noteq> None then map_option enc w else json_get j key)"
  by (simp add: json_set_opt_def split: option.splits)

lemma json_at_object [simp]:
  "is_object j \<Longrightarrow> json_at get j key =
     (case json_get j key of None \<Rightarrow> Inl (JsonError 403) | Some v \<Rightarrow> get v)"
  by (simp add: json_at_def)

lemma json_value_object [simp]:
  "is_object j \<Longrightarrow> json_value get j key d =
     (case json_get j key of None \<Rightarrow> Inr d | Some v \<Rightarrow> get v)"
  by (simp add: json_value_def)

lemma get_strings_strings [simp]: "get_strings (json_strings xs) = Inr xs"
proof -
  have "res_map_list get_string (map JString xs) = Inr xs"
    by (induction xs) auto
  then show ?thesis by (simp add: json_strings_def)
qed

lemma string_items_strings [simp]: "string_items (json_strings xs) = Inr xs"
  by (induction xs) (auto simp: json_strings_def string_items_def)

lemma json_strings_not_null [simp]: "json_strings xs \<noteq> JNull"
  by (simp add: json_strings_def)

lemma is_object_not_null: "is_object j \<Longrightarrow> j \<noteq> JNull"
  by auto

lemma get_map_map [simp]:
  assumes "\<And>v. v \<in> snd ` set m \<Longrightarrow> get (enc v) = Inr v"
  shows "get_map get (json_map enc m) = Inr m"
  unfolding json_map_def using assms by (induction m) (simp_all add: case_prod_beta)

text \<open>A list that was written element by element is read back.\<close>

lemma res_map_list_map:
  "(\<And>x. x \<in> set xs \<Longrightarrow> dec (enc x) = Inr x) \<Longrightarrow> res_map_list dec (map enc xs) = Inr xs"
  by (induction xs) auto

end
