(* ===== verification/Naim_Infer_Runtime_Config.thy ===== *)
theory Naim_Infer_Runtime_Config
  imports Naim_Worker_Group_Topology Naim_Json
begin

text \<open>
  The infer runtime configuration of \<open>common/src/runtime/infer_runtime_config.cpp\<close>. The
  document is a value of the type \<open>json\<close>. The serialiser of the JSON library is the
  parameter \<open>dump\<close>; it may fail, as the library does on text that is not UTF-8.
\<close>

section \<open>Helpers\<close>

definition WorkerAssignedToInfer :: "WorkerGroupMemberSpec \<Rightarrow> string \<Rightarrow> bool" where
  "WorkerAssignedToInfer member infer_instance_name \<longleftrightarrow>
     mem_enabled member \<and> (mem_infer_instance_name member = [] \<or>
       mem_infer_instance_name member = infer_instance_name)"

definition is_blank :: "char \<Rightarrow> bool" where
  "is_blank ch \<longleftrightarrow> ch = CHR '' '' \<or> ch = CHR 0x09 \<or> ch = CHR 0x0A \<or> ch = CHR 0x0D"

fun split_comma :: "string \<Rightarrow> string \<Rightarrow> string list \<Rightarrow> string list" where
  "split_comma [] current result = (if current \<noteq> [] then result @ [current] else result)"
| "split_comma (ch # text) current result =
     (if ch = CHR '',''
      then if current \<noteq> [] then split_comma text [] (result @ [current])
           else split_comma text current result
      else if is_blank ch then split_comma text current result
      else split_comma text (current @ [ch]) result)"

definition SplitCommaSeparated :: "string \<Rightarrow> string list" where
  "SplitCommaSeparated text = split_comma text [] []"

definition ResolveInferPort :: "InstanceSpec \<Rightarrow> string \<Rightarrow> int \<Rightarrow> int res" where
  "ResolveInferPort infer env_name fallback =
     (case omap_get (inst_environment infer) env_name of
        None \<Rightarrow> Inr fallback
      | Some text \<Rightarrow> if text = [] then Inr fallback else stoi text)"

definition RequireInferInstanceByName :: "DesiredState \<Rightarrow> string \<Rightarrow> InstanceSpec res" where
  "RequireInferInstanceByName state infer_instance_name =
     (case find (\<lambda>i. inst_role i = Infer \<and>
              (infer_instance_name = [] \<or> inst_name i = infer_instance_name)) (st_instances state) of
        Some i \<Rightarrow> Inr i
      | None \<Rightarrow>
          if infer_instance_name = []
          then Inl (RuntimeError ''desired state does not contain an infer instance'')
          else Inl (RuntimeError (''desired state does not contain infer instance '' @
            quoted infer_instance_name)))"

definition RequireDefaultInferInstance :: "DesiredState \<Rightarrow> InstanceSpec res" where
  "RequireDefaultInferInstance state =
     (case find (\<lambda>i. inst_role i = Infer) (st_instances state) of
        Some i \<Rightarrow> Inr i
      | None \<Rightarrow> Inl (RuntimeError ''desired state does not contain an infer instance''))"

text \<open>The \<open>std::set\<close> of names is the ascending list of its elements.\<close>

definition SelectedWorkerNames :: "DesiredState \<Rightarrow> string \<Rightarrow> string list" where
  "SelectedWorkerNames state infer_instance_name =
     fold (\<lambda>member. if WorkerAssignedToInfer member infer_instance_name
        then insort_insert (mem_name member) else id) (wg_members (st_worker_group state)) []"

definition worker_selected :: "string list \<Rightarrow> string \<Rightarrow> bool" where
  "worker_selected selected_workers name \<longleftrightarrow>
     \<not> (selected_workers \<noteq> [] \<and> name \<notin> set selected_workers)"

section \<open>The parts of the document\<close>

definition with_memory_cap :: "int option \<Rightarrow> json \<Rightarrow> json" where
  "with_memory_cap memory_cap_mb j =
     (case memory_cap_mb of None \<Rightarrow> j | Some cap \<Rightarrow> json_set ''memory_cap_mb'' (JInt cap) j)"

definition runtime_gpu_node_json :: "RuntimeGpuNode \<Rightarrow> json" where
  "runtime_gpu_node_json g = with_memory_cap (gpu_memory_cap_mb g) (json_object
     [(''name'', JString (gpu_name g)), (''node_name'', JString (gpu_node_name g)),
      (''gpu_device'', JString (gpu_gpu_device g)),
      (''placement_mode'', JString (ToString_PlacementMode (gpu_placement_mode g))),
      (''share_mode'', JString (ToString_GpuShareMode (gpu_share_mode g))),
      (''gpu_fraction'', JFloat (gpu_gpu_fraction g)), (''priority'', JInt (gpu_priority g)),
      (''preemptible'', JBool (gpu_preemptible g)), (''enabled'', JBool (gpu_enabled g))])"

definition worker_fields :: "InstanceSpec \<Rightarrow> (string \<times> json) list" where
  "worker_fields i =
     [(''name'', JString (inst_name i)), (''node_name'', JString (inst_node_name i)),
      (''gpu_device'', JString (value_or (inst_gpu_device i) [])),
      (''placement_mode'', JString (ToString_PlacementMode (inst_placement_mode i))),
      (''share_mode'', JString (ToString_GpuShareMode (inst_share_mode i))),
      (''gpu_fraction'', JFloat (inst_gpu_fraction i)), (''priority'', JInt (inst_priority i)),
      (''preemptible'', JBool (inst_preemptible i)), (''enabled'', JBool True)]"

definition BuildGpuNodesJson :: "DesiredState \<Rightarrow> string \<Rightarrow> json" where
  "BuildGpuNodesJson state infer_instance_name =
     (let selected_workers = SelectedWorkerNames state infer_instance_name in
      if st_runtime_gpu_nodes state \<noteq> []
      then JArray (map runtime_gpu_node_json
        (filter (\<lambda>g. worker_selected selected_workers (gpu_name g)) (st_runtime_gpu_nodes state)))
      else JArray (map (\<lambda>i. with_memory_cap (inst_memory_cap_mb i) (json_object (worker_fields i)))
        (filter (\<lambda>i. inst_role i = Worker \<and> worker_selected selected_workers (inst_name i))
          (st_instances state))))"

definition BuildServingWorkersJson :: "DesiredState \<Rightarrow> string \<Rightarrow> json res" where
  "BuildServingWorkersJson state infer_instance_name =
     res_bind (RequireInferInstanceByName state infer_instance_name) (\<lambda>infer.
       let selected_workers = SelectedWorkerNames state infer_instance_name in
       Inr (if st_runtime_gpu_nodes state \<noteq> []
         then JArray (map (\<lambda>g. json_set ''colocated_with_primary_infer''
             (JBool (gpu_node_name g = inst_node_name infer)) (runtime_gpu_node_json g))
           (filter (\<lambda>g. worker_selected selected_workers (gpu_name g)) (st_runtime_gpu_nodes state)))
         else JArray (map (\<lambda>i. with_memory_cap (inst_memory_cap_mb i) (json_object
             (worker_fields i @ [(''colocated_with_primary_infer'',
               JBool (inst_node_name i = inst_node_name infer))])))
           (filter (\<lambda>i. inst_role i = Worker \<and> worker_selected selected_workers (inst_name i))
             (st_instances state)))))"

definition member_rpc_port :: "DesiredState \<Rightarrow> WorkerGroupMemberSpec \<Rightarrow> int" where
  "member_rpc_port state member =
     (if inf_runtime_engine (st_inference state) = ''llama.cpp'' \<and>
         inf_distributed_backend (st_inference state) = ''llama_rpc''
      then StableLlamaRpcWorkerPort (st_plane_name state) (mem_name member)
      else mem_rpc_port member)"

definition member_rpc_endpoint :: "InstanceSpec \<Rightarrow> int \<Rightarrow> WorkerGroupMemberSpec \<Rightarrow> string" where
  "member_rpc_endpoint infer rpc_port member =
     (if rpc_port > 0
      then if mem_node_name member = inst_node_name infer \<and> mem_name member \<noteq> []
           then mem_name member @ '':'' @ to_string rpc_port
           else if mem_node_name member \<noteq> []
           then mem_node_name member @ '':'' @ to_string rpc_port
           else []
      else [])"

definition member_json :: "DesiredState \<Rightarrow> InstanceSpec \<Rightarrow> WorkerGroupMemberSpec \<Rightarrow> json" where
  "member_json state infer member =
     (let rpc_port = member_rpc_port state member in
      with_memory_cap (mem_memory_cap_mb member) (json_object
        [(''name'', JString (mem_name member)),
         (''infer_instance_name'', JString (mem_infer_instance_name member)),
         (''node_name'', JString (mem_node_name member)),
         (''gpu_device'', JString (mem_gpu_device member)), (''rank'', JInt (mem_rank member)),
         (''replica_group_id'', JString (mem_replica_group_id member)),
         (''replica_index'', JInt (mem_replica_index member)),
         (''replica_size'', JInt (mem_replica_size member)),
         (''replica_leader'', JBool (mem_replica_leader member)),
         (''data_parallel_rank'', JInt (mem_data_parallel_rank member)),
         (''data_parallel_size'', JInt (mem_data_parallel_size member)),
         (''data_parallel_size_local'', JInt (mem_data_parallel_size_local member)),
         (''data_parallel_start_rank'', JInt (mem_data_parallel_start_rank member)),
         (''data_parallel_api_endpoint'', JBool (mem_data_parallel_api_endpoint member)),
         (''data_parallel_head_address'', JString (mem_data_parallel_head_address member)),
         (''data_parallel_rpc_port'', JInt (mem_data_parallel_rpc_port member)),
         (''rpc_port'', JInt rpc_port),
         (''rpc_endpoint'', JString (member_rpc_endpoint infer rpc_port member)),
         (''colocated_with_primary_infer'', JBool (mem_node_name member = inst_node_name infer)),
         (''gpu_fraction'', JFloat (mem_gpu_fraction member)),
         (''share_mode'', JString (ToString_GpuShareMode (mem_share_mode member))),
         (''priority'', JInt (mem_priority member)),
         (''preemptible'', JBool (mem_preemptible member)),
         (''enabled'', JBool (mem_enabled member)), (''leader'', JBool (mem_leader member))]))"

definition BuildWorkerGroupJson :: "DesiredState \<Rightarrow> string \<Rightarrow> json res" where
  "BuildWorkerGroupJson state infer_instance_name =
     res_bind (RequireInferInstanceByName state infer_instance_name) (\<lambda>infer.
       let group = st_worker_group state;
           members = filter (\<lambda>member. WorkerAssignedToInfer member infer_instance_name)
             (wg_members group);
           selected_member_count = int (length members)
       in Inr (json_object
         [(''group_id'', JString (wg_group_id group)),
          (''infer_instance_name'', JString (if infer_instance_name = []
             then wg_infer_instance_name group else infer_instance_name)),
          (''distributed_backend'', JString (wg_distributed_backend group)),
          (''rendezvous_host'', JString (wg_rendezvous_host group)),
          (''rendezvous_port'', JInt (wg_rendezvous_port group)),
          (''expected_workers'', JInt (if selected_member_count > 0 then selected_member_count
             else wg_expected_workers group)),
          (''worker_selection_policy'', JString (wg_worker_selection_policy group)),
          (''members'', JArray (map (member_json state infer) members))]))"

section \<open>Paths\<close>

definition InferRuntimeConfigRelativePath :: "string \<Rightarrow> string" where
  "InferRuntimeConfigRelativePath infer_instance_name =
     (if infer_instance_name = [] then ''infer-runtime.json''
      else path_append (path_append ''infer'' infer_instance_name) ''infer-runtime.json'')"

definition InferRuntimeConfigControlPath :: "string \<Rightarrow> string \<Rightarrow> string" where
  "InferRuntimeConfigControlPath control_root infer_instance_name =
     (if control_root = [] then InferRuntimeConfigRelativePath infer_instance_name
      else path_append control_root (InferRuntimeConfigRelativePath infer_instance_name))"

definition InferRuntimeStatusRelativePath :: "string \<Rightarrow> string" where
  "InferRuntimeStatusRelativePath infer_instance_name =
     (if infer_instance_name = [] then ''runtime-status.json''
      else path_append (path_append ''infer'' infer_instance_name) ''runtime-status.json'')"

definition InferRuntimeStatusControlPath :: "string \<Rightarrow> string \<Rightarrow> string" where
  "InferRuntimeStatusControlPath control_root infer_instance_name =
     (if control_root = [] then InferRuntimeStatusRelativePath infer_instance_name
      else path_append control_root (InferRuntimeStatusRelativePath infer_instance_name))"

section \<open>The document\<close>

definition inference_json ::
  "DesiredState \<Rightarrow> InstanceSpec \<Rightarrow> int \<Rightarrow> int \<Rightarrow> json" where
  "inference_json state infer api_port llama_port =
     (let inference = st_inference state in json_object
        [(''primary_infer_node'', JString (inst_node_name infer)),
         (''runtime_engine'', JString (inf_runtime_engine inference)),
         (''runtime_flavor'', JString (value_or
            (omap_get (inst_environment infer) ''NAIM_LLAMA_RUNTIME_FLAVOR'') ''default'')),
         (''data_parallel_mode'', JString (inf_data_parallel_mode inference)),
         (''data_parallel_lb_mode'', JString (inf_data_parallel_lb_mode inference)),
         (''api_server_count'', JInt (inf_api_server_count inference)),
         (''worker_group_id'', JString (inf_worker_group_id inference)),
         (''distributed_backend'', JString (inf_distributed_backend inference)),
         (''worker_selection_policy'', JString (inf_worker_selection_policy inference)),
         (''net_if'', JString (inf_net_if inference)),
         (''models_root'', JString (inf_models_root inference)),
         (''model_cache_dir'', JString (inf_model_cache_dir inference)),
         (''runtime_log_dir'', JString (inf_runtime_log_dir inference)),
         (''api_port'', JInt api_port),
         (''max_model_len'', JInt (inf_max_model_len inference)),
         (''tensor_parallel_size'', JInt (inf_tensor_parallel_size inference)),
         (''pipeline_parallel_size'', JInt (inf_pipeline_parallel_size inference)),
         (''max_num_seqs'', JInt (inf_max_num_seqs inference)),
         (''gpu_memory_utilization'', JFloat (inf_gpu_memory_utilization inference)),
         (''enforce_eager'', JBool (inf_enforce_eager inference)),
         (''gguf_cache_dir'', JString (inf_gguf_cache_dir inference)),
         (''infer_log_dir'', JString (inf_infer_log_dir inference)),
         (''llama_port'', JInt llama_port),
         (''llama_ctx_size'', JInt (inf_llama_ctx_size inference)),
         (''llama_threads'', JInt (inf_llama_threads inference)),
         (''llama_gpu_layers'', JInt (inf_llama_gpu_layers inference)),
         (''inference_healthcheck_retries'', JInt (inf_inference_healthcheck_retries inference)),
         (''inference_healthcheck_interval_sec'',
            JInt (inf_inference_healthcheck_interval_sec inference)),
         (''rendezvous_port'', JInt (inf_rendezvous_port inference))])"

definition infer_runtime_config :: "DesiredState \<Rightarrow> string \<Rightarrow> json res" where
  "infer_runtime_config state infer_instance_name =
     res_bind (RequireInferInstanceByName state infer_instance_name) (\<lambda>infer.
     res_bind (ResolveInferPort infer ''NAIM_INFERENCE_PORT'' (inf_api_port (st_inference state)))
       (\<lambda>api_port.
     res_bind (ResolveInferPort infer ''NAIM_GATEWAY_PORT'' (gw_listen_port (st_gateway state)))
       (\<lambda>gateway_listen_port.
     res_bind (ResolveInferPort infer ''NAIM_LLAMA_PORT'' (inf_llama_port (st_inference state)))
       (\<lambda>llama_port.
     res_bind (BuildServingWorkersJson state (inst_name infer)) (\<lambda>serving_workers.
     res_bind (BuildWorkerGroupJson state (inst_name infer)) (\<lambda>worker_group.
       let replica_upstreams =
             (case omap_get (inst_environment infer) ''NAIM_REPLICA_UPSTREAMS'' of
                None \<Rightarrow> [] | Some text \<Rightarrow> SplitCommaSeparated text)
       in Inr (json_object
         [(''naim_version'', JString ''0.1.0''),
          (''instance'', json_object [(''name'', JString (inst_name infer))]),
          (''plane'', json_object [(''name'', JString (st_plane_name state)),
             (''control_root'', JString (st_control_root state))]),
          (''control'', json_object [(''root'', JString (st_control_root state)),
             (''controller_url'', JString (value_or
                (omap_get (inst_environment infer) ''NAIM_CONTROLLER_URL'')
                ''http://controller.internal:8080''))]),
          (''gpu_nodes'', BuildGpuNodesJson state (inst_name infer)),
          (''serving_workers'', serving_workers),
          (''inference'', inference_json state infer api_port llama_port),
          (''worker_group'', worker_group),
          (''replica_upstreams'', JArray (map JString replica_upstreams)),
          (''gateway'', json_object [(''listen_host'', JString (gw_listen_host (st_gateway state))),
             (''listen_port'', JInt gateway_listen_port),
             (''server_name'', JString (gw_server_name (st_gateway state)))])])))))))"

definition RenderInferRuntimeConfigJsonForInstance ::
  "(json \<Rightarrow> string res) \<Rightarrow> DesiredState \<Rightarrow> string \<Rightarrow> string res" where
  "RenderInferRuntimeConfigJsonForInstance dump state infer_instance_name =
     res_bind (infer_runtime_config state infer_instance_name) dump"

definition RenderInferRuntimeConfigJson :: "(json \<Rightarrow> string res) \<Rightarrow> DesiredState \<Rightarrow> string res" where
  "RenderInferRuntimeConfigJson dump state =
     res_bind (RequireDefaultInferInstance state) (\<lambda>infer.
       RenderInferRuntimeConfigJsonForInstance dump state (inst_name infer))"

section \<open>Comma-separated lists\<close>

definition plain_item :: "string \<Rightarrow> bool" where
  "plain_item s \<longleftrightarrow> s \<noteq> [] \<and> CHR '','' \<notin> set s \<and> list_all (\<lambda>c. \<not> is_blank c) s"

lemma split_comma_result: "split_comma text current result = result @ split_comma text current []"
proof (induction "text" arbitrary: current result)
  case (Cons c cs)
  show ?case
    using Cons[of "[]" "result @ [current]"] Cons[of "[]" "[current]"] Cons[of current result]
      Cons[of "current @ [c]" result] by (cases "current = []") simp_all
qed simp

lemma split_comma_plain:
  "CHR '','' \<notin> set s \<Longrightarrow> list_all (\<lambda>c. \<not> is_blank c) s \<Longrightarrow>
   split_comma (s @ text) current result = split_comma text (current @ s) result"
  by (induction s arbitrary: current) auto

lemma split_comma_items:
  "CHR '','' \<notin> set current \<Longrightarrow> list_all (\<lambda>c. \<not> is_blank c) current \<Longrightarrow> list_all plain_item result \<Longrightarrow>
   list_all plain_item (split_comma text current result)"
  by (induction "text" current result rule: split_comma.induct) (auto simp: plain_item_def)

lemma SplitCommaSeparated_join:
  "list_all plain_item items \<Longrightarrow> SplitCommaSeparated (JoinStrings items '','') = items"
proof (induction items)
  case (Cons item items)
  then have item: "item \<noteq> []" "CHR '','' \<notin> set item" "list_all (\<lambda>c. \<not> is_blank c) item"
    by (simp_all add: plain_item_def)
  show ?case
  proof (cases items)
    case Nil
    with item show ?thesis
      using split_comma_plain[of item "[]" "[]" "[]"] by (simp add: SplitCommaSeparated_def)
  next
    case (Cons item2 rest)
    with item Cons.IH Cons.prems show ?thesis
      using split_comma_plain[of item _ "[]" "[]"] split_comma_result[of _ "[]" "[item]"]
      by (simp add: SplitCommaSeparated_def)
  qed
qed (simp add: SplitCommaSeparated_def)

text \<open>
  Splitting inverts joining: a comma-separated list of non-empty items without
  commas and blanks is read back unchanged, and on any text the result consists of such
  items.
\<close>

lemma SplitCommaSeparated_roundtrip:
  "list_all plain_item (SplitCommaSeparated text) \<and>
   (list_all plain_item items \<longrightarrow> SplitCommaSeparated (JoinStrings items '','') = items)"
  using SplitCommaSeparated_join[of items] split_comma_items[of "[]" "[]" "text"]
  by (simp add: SplitCommaSeparated_def)

section \<open>Paths of the instances\<close>

lemma config_path_plain:
  "slash \<notin> set n \<Longrightarrow> n \<noteq> [] \<Longrightarrow>
   InferRuntimeConfigRelativePath n = ''infer/'' @ n @ ''/infer-runtime.json''"
  "slash \<notin> set n \<Longrightarrow> n \<noteq> [] \<Longrightarrow>
   InferRuntimeStatusRelativePath n = ''infer/'' @ n @ ''/runtime-status.json''"
  by (auto simp: InferRuntimeConfigRelativePath_def InferRuntimeStatusRelativePath_def
      path_append_def path_is_absolute_def path_has_filename_def hd_in_set last_in_set
      dest: hd_in_set last_in_set)

text \<open>
  Infer instances whose names are plain file names never share a file: distinct
  instances have distinct configuration paths and distinct status paths, and no
  configuration path is a status path.
\<close>

lemma infer_runtime_paths_distinct:
  "inj_on InferRuntimeConfigRelativePath {n. slash \<notin> set n} \<and>
   inj_on InferRuntimeStatusRelativePath {n. slash \<notin> set n} \<and>
   InferRuntimeConfigRelativePath ` {n. slash \<notin> set n} \<inter>
     InferRuntimeStatusRelativePath ` {n. slash \<notin> set n} = {}"
proof -
  have config: "InferRuntimeConfigRelativePath n = InferRuntimeConfigRelativePath m \<Longrightarrow> n = m"
    if "slash \<notin> set n" "slash \<notin> set m" for n m
    using that config_path_plain(1)[of n] config_path_plain(1)[of m]
    by (cases "n = []"; cases "m = []") (auto simp: InferRuntimeConfigRelativePath_def)
  have status: "InferRuntimeStatusRelativePath n = InferRuntimeStatusRelativePath m \<Longrightarrow> n = m"
    if "slash \<notin> set n" "slash \<notin> set m" for n m
    using that config_path_plain(2)[of n] config_path_plain(2)[of m]
    by (cases "n = []"; cases "m = []") (auto simp: InferRuntimeStatusRelativePath_def)
  have "rev (InferRuntimeConfigRelativePath n) ! 5 = CHR ''e''"
    "rev (InferRuntimeStatusRelativePath n) ! 5 = CHR ''s''" if "slash \<notin> set n" for n
    using that config_path_plain[of n]
    by (cases "n = []"; simp add: InferRuntimeConfigRelativePath_def InferRuntimeStatusRelativePath_def
        nth_append)+
  then have "InferRuntimeConfigRelativePath n \<noteq> InferRuntimeStatusRelativePath m"
    if "slash \<notin> set n" "slash \<notin> set m" for n m
    using that by fastforce
  then show ?thesis
    using config status by (auto simp: inj_on_def)
qed

section \<open>Consistency of the document\<close>

lemma RequireInferInstanceByName_again:
  "RequireInferInstanceByName state name = Inr infer \<Longrightarrow>
   \<exists>i. RequireInferInstanceByName state (inst_name infer) = Inr i"
  by (auto simp: RequireInferInstanceByName_def find_None_iff find_Some_iff split: option.splits if_splits)
   

definition json_items :: "json option \<Rightarrow> json list" where
  "json_items j = (case j of Some (JArray xs) \<Rightarrow> xs | _ \<Rightarrow> [])"

definition item_names :: "json option \<Rightarrow> json option list" where
  "item_names j = map (\<lambda>x. json_get x ''name'') (json_items j)"

lemma with_memory_cap_get [simp]:
  "key \<noteq> ''memory_cap_mb'' \<Longrightarrow>
   json_get (with_memory_cap c (json_object ms)) key = json_get (json_object ms) key"
  by (auto simp: with_memory_cap_def json_object_def split: option.splits)

lemma json_get_set_object [simp]:
  "json_get (json_set k v (with_memory_cap c (json_object ms))) key =
   (if key = k then Some v else json_get (with_memory_cap c (json_object ms)) key)"
  by (auto simp: with_memory_cap_def json_object_def split: option.splits)

lemma item_names_agree:
  assumes "BuildServingWorkersJson state name = Inr serving"
  shows "item_names (Some serving) = item_names (Some (BuildGpuNodesJson state name))"
  using assms unfolding BuildServingWorkersJson_def BuildGpuNodesJson_def Let_def
  by (auto simp: res_bind_Inr_iff item_names_def json_items_def runtime_gpu_node_json_def
      worker_fields_def)

lemma BuildWorkerGroupJson_members:
  assumes "BuildWorkerGroupJson state name = Inr grp"
  shows "json_items (json_get grp ''members'') \<noteq> [] \<Longrightarrow> json_get grp ''expected_workers'' =
      Some (JInt (int (length (json_items (json_get grp ''members'')))))"
    and "item_names (json_get grp ''members'') = map (\<lambda>m. Some (JString (mem_name m)))
      (filter (\<lambda>m. WorkerAssignedToInfer m name) (wg_members (st_worker_group state)))"
  using assms unfolding BuildWorkerGroupJson_def Let_def
  by (auto simp: res_bind_Inr_iff item_names_def json_items_def member_json_def Let_def)

lemma infer_runtime_config_parts:
  assumes "infer_runtime_config state name = Inr doc"
  obtains infer serving grp where
    "RequireInferInstanceByName state name = Inr infer"
    "BuildServingWorkersJson state (inst_name infer) = Inr serving"
    "BuildWorkerGroupJson state (inst_name infer) = Inr grp"
    "json_get doc ''gpu_nodes'' = Some (BuildGpuNodesJson state (inst_name infer))"
    "json_get doc ''serving_workers'' = Some serving"
    "json_get doc ''worker_group'' = Some grp"
  using assms unfolding infer_runtime_config_def Let_def
  by (auto simp: res_bind_Inr_iff)

lemma infer_runtime_config_ok:
  "(\<exists>doc. infer_runtime_config state name = Inr doc) \<longleftrightarrow>
   (\<exists>infer api gateway llama. RequireInferInstanceByName state name = Inr infer \<and>
      ResolveInferPort infer ''NAIM_INFERENCE_PORT'' (inf_api_port (st_inference state)) = Inr api \<and>
      ResolveInferPort infer ''NAIM_GATEWAY_PORT'' (gw_listen_port (st_gateway state)) = Inr gateway \<and>
      ResolveInferPort infer ''NAIM_LLAMA_PORT'' (inf_llama_port (st_inference state)) = Inr llama)"
proof -
  have "\<exists>serving. BuildServingWorkersJson state (inst_name infer) = Inr serving"
    "\<exists>grp. BuildWorkerGroupJson state (inst_name infer) = Inr grp"
    if "RequireInferInstanceByName state name = Inr infer" for infer
    using RequireInferInstanceByName_again[OF that]
    by (auto simp: BuildServingWorkersJson_def BuildWorkerGroupJson_def Let_def)
  then show ?thesis
    by (auto simp: infer_runtime_config_def res_bind_Inr_iff Let_def)
qed

text \<open>
  \<^bold>\<open>C30.\<close> The parts of a rendered configuration agree: the GPU nodes and the serving
  workers list the same workers in the same order, the worker group lists the enabled
  members assigned to the instance, and the expected worker count is the number of listed
  members whenever there are any.
\<close>

theorem infer_runtime_config_consistent:
  assumes "infer_runtime_config state name = Inr doc"
  shows "item_names (json_get doc ''gpu_nodes'') = item_names (json_get doc ''serving_workers'') \<and>
    (\<exists>infer grp. RequireInferInstanceByName state name = Inr infer \<and>
      json_get doc ''worker_group'' = Some grp \<and>
      item_names (json_get grp ''members'') = map (\<lambda>m. Some (JString (mem_name m)))
        (filter (\<lambda>m. WorkerAssignedToInfer m (inst_name infer)) (wg_members (st_worker_group state))) \<and>
      (json_items (json_get grp ''members'') = [] \<or> json_get grp ''expected_workers'' =
        Some (JInt (int (length (json_items (json_get grp ''members'')))))))"
  using assms
proof (rule infer_runtime_config_parts)
  fix infer serving grp
  assume *: "RequireInferInstanceByName state name = Inr infer"
    "BuildServingWorkersJson state (inst_name infer) = Inr serving"
    "BuildWorkerGroupJson state (inst_name infer) = Inr grp"
    "json_get doc ''gpu_nodes'' = Some (BuildGpuNodesJson state (inst_name infer))"
    "json_get doc ''serving_workers'' = Some serving"
    "json_get doc ''worker_group'' = Some grp"
  then show ?thesis
    using item_names_agree[OF *(2)] BuildWorkerGroupJson_members[OF *(3)] by auto
qed

definition sample_infer_state :: DesiredState where
  "sample_infer_state = default_DesiredState\<lparr>st_instances :=
     [(default_InstanceSpec Infer)\<lparr>inst_name := ''infer'', inst_node_name := ''n1''\<rparr>,
      (default_InstanceSpec Worker)\<lparr>inst_name := ''w'', inst_node_name := ''n1''\<rparr>]\<rparr>"

theorem infer_runtime_config_consistent_witness:
  "\<exists>doc. infer_runtime_config sample_infer_state ''infer'' = Inr doc \<and>
     item_names (json_get doc ''gpu_nodes'') = item_names (json_get doc ''serving_workers'')"
proof -
  have "\<exists>doc. infer_runtime_config sample_infer_state ''infer'' = Inr doc"
    unfolding infer_runtime_config_ok
    by (simp add: sample_infer_state_def RequireInferInstanceByName_def ResolveInferPort_def
        default_InstanceSpec_def)
  then show ?thesis using infer_runtime_config_consistent by blast
qed


end
