(* ===== verification/Naim_Execution_Plan.thy ===== *)
theory Naim_Execution_Plan
  imports Naim_Infer_Runtime_Config
begin

text \<open>
  The host execution plans of \<open>common/src/planning/execution_plan.cpp\<close>: per node, the
  operations that bring its disks, services, infer configurations and compose project
  from the current to the desired state. \<open>node_view\<close> holds the maps the loop body computes
  for one state and one node. The lemmas give the operations a meaning on an abstract host
  and show that carrying out a plan turns the current host into the desired one.
\<close>

section \<open>Operations and plans\<close>

datatype HostOperationKind =
    EnsureDisk | RemoveDisk | EnsureService | RemoveService
  | WriteInferRuntimeConfig | RemoveInferRuntimeConfig
  | WriteComposeFile | RemoveComposeFile | ComposeUp | ComposeDown

record HostOperation =
  op_kind :: HostOperationKind
  op_target :: string
  op_details :: string

record NodeExecutionPlan =
  nep_plane_name :: string
  nep_node_name :: string
  nep_compose_file_path :: string
  nep_operations :: "HostOperation list"

fun ToString_HostOperationKind :: "HostOperationKind \<Rightarrow> string" where
  "ToString_HostOperationKind EnsureDisk = ''ensure-disk''"
| "ToString_HostOperationKind RemoveDisk = ''remove-disk''"
| "ToString_HostOperationKind EnsureService = ''ensure-service''"
| "ToString_HostOperationKind RemoveService = ''remove-service''"
| "ToString_HostOperationKind WriteInferRuntimeConfig = ''write-infer-runtime''"
| "ToString_HostOperationKind RemoveInferRuntimeConfig = ''remove-infer-runtime''"
| "ToString_HostOperationKind WriteComposeFile = ''write-compose''"
| "ToString_HostOperationKind RemoveComposeFile = ''remove-compose''"
| "ToString_HostOperationKind ComposeUp = ''compose-up''"
| "ToString_HostOperationKind ComposeDown = ''compose-down''"

definition host_op :: "HostOperationKind \<Rightarrow> string \<Rightarrow> string \<Rightarrow> HostOperation" where
  "host_op kind target details = \<lparr>op_kind = kind, op_target = target, op_details = details\<rparr>"

section \<open>Signatures\<close>

definition exec_DiskKey :: "DiskSpec \<Rightarrow> string" where
  "exec_DiskKey disk = disk_name disk @ ''@'' @ disk_node_name disk"

definition exec_DiskSignature :: "DiskSpec \<Rightarrow> string" where
  "exec_DiskSignature disk =
     disk_plane_name disk @ ''|'' @ disk_owner_name disk @ ''|'' @ disk_host_path disk @ ''|'' @
     disk_container_path disk @ ''|'' @ to_string (disk_size_gb disk) @ ''|'' @
     ToString_DiskKind (disk_kind disk)"

definition exec_OptionalValue :: "string option \<Rightarrow> string" where
  "exec_OptionalValue v = value_or v ''-''"

definition exec_MapSignature :: "(string, string) omap \<Rightarrow> string" where
  "exec_MapSignature values = JoinStrings (map (\<lambda>(key, v). key @ ''='' @ v) values) '';''"

definition exec_PublishedPortsSignature :: "PublishedPort list \<Rightarrow> string" where
  "exec_PublishedPortsSignature ports =
     JoinStrings (sort (map (\<lambda>port. port_host_ip port @ '':'' @ to_string (port_host_port port) @
       '':'' @ to_string (port_container_port port)) ports)) '';''"

definition exec_AppModelMountsSignature :: "AppModelMountSpec list \<Rightarrow> string" where
  "exec_AppModelMountsSignature mounts =
     JoinStrings (sort (map (\<lambda>mount.
       mount_name mount @ ''|'' @ mount_source_path mount @ ''|'' @
       mount_source_node_name mount @ ''|'' @
       JoinStrings (sort (mount_source_paths mount)) '','' @ ''|'' @ mount_host_path mount @ ''|'' @
       mount_mount_path mount @ ''|'' @ mount_env_var mount @ ''|'' @
       to_string (if mount_required mount then 1 else 0)) mounts)) '';''"

definition exec_InstanceSignature :: "InstanceSpec \<Rightarrow> string" where
  "exec_InstanceSignature instance =
     inst_node_name instance @ ''|'' @ inst_image instance @ ''|'' @ inst_command instance @ ''|'' @
     inst_private_disk_name instance @ ''|'' @ inst_shared_disk_name instance @ ''|'' @
     exec_OptionalValue (inst_gpu_device instance) @ ''|'' @
     ToString_GpuShareMode (inst_share_mode instance) @ ''|'' @
     double_to_string (inst_gpu_fraction instance) @ ''|'' @
     to_string (inst_priority instance) @ ''|'' @
     to_string (if inst_preemptible instance then 1 else 0) @ ''|'' @
     to_string (value_or (inst_memory_cap_mb instance) 0) @ ''|'' @
     exec_PublishedPortsSignature (inst_published_ports instance) @ ''|'' @
     exec_AppModelMountsSignature (inst_app_model_mounts instance) @ ''|'' @
     exec_MapSignature (inst_environment instance) @ ''|'' @
     exec_MapSignature (inst_labels instance)"

section \<open>What a state asks of a node\<close>

definition BuildDiskMapForNode :: "DiskSpec list \<Rightarrow> string \<Rightarrow> (string, DiskSpec) omap" where
  "BuildDiskMapForNode disks node =
     fold (\<lambda>disk. omap_put (exec_DiskKey disk) disk)
       (filter (\<lambda>disk. disk_node_name disk = node) disks) []"

definition BuildInstanceMapForNode ::
  "InstanceSpec list \<Rightarrow> string \<Rightarrow> (string, InstanceSpec) omap" where
  "BuildInstanceMapForNode instances node =
     fold (\<lambda>instance. omap_put (inst_name instance) instance)
       (filter (\<lambda>instance. inst_node_name instance = node) instances) []"

definition ComposePath :: "string \<Rightarrow> string \<Rightarrow> string \<Rightarrow> string" where
  "ComposePath artifacts_root plane node =
     path_append (path_append (path_append artifacts_root plane) node) ''docker-compose.yml''"

definition infers_on :: "DesiredState \<Rightarrow> string \<Rightarrow> InstanceSpec list" where
  "infers_on state node =
     filter (\<lambda>i. \<not> (inst_node_name i \<noteq> node \<or> inst_role i \<noteq> Infer)) (st_instances state)"

definition relative_control_path :: "DesiredState \<Rightarrow> DiskSpec \<Rightarrow> string" where
  "relative_control_path state shared_disk =
     (let control_text = st_control_root state;
          shared_text = disk_container_path shared_disk;
          relative =
            (if control_text \<noteq> [] \<and> path_is_absolute control_text \<and> path_is_absolute shared_text
             then if control_text = shared_text then ''.''
                  else if length control_text > length shared_text \<and>
                    take (length shared_text) control_text = shared_text \<and>
                    control_text ! length shared_text = slash
                  then lexically_relative control_text shared_text
                  else []
             else [])
      in if relative = [] then path_append ''control'' (st_plane_name state) else relative)"

definition ControlRootPathForNode :: "DesiredState \<Rightarrow> string \<Rightarrow> string option" where
  "ControlRootPathForNode state node =
     (if \<not> list_ex (\<lambda>i. inst_node_name i = node \<and> inst_role i = Infer) (st_instances state)
      then None
      else case find (\<lambda>d. disk_node_name d = node \<and> disk_kind d = PlaneShared) (st_disks state) of
             None \<Rightarrow> None
           | Some shared_disk \<Rightarrow> Some (path_append (disk_host_path shared_disk)
               (relative_control_path state shared_disk)))"

definition InferRuntimeConfigPathsForNode ::
  "DesiredState \<Rightarrow> string \<Rightarrow> (string, string) omap" where
  "InferRuntimeConfigPathsForNode state node =
     (case ControlRootPathForNode state node of
        None \<Rightarrow> []
      | Some control_root \<Rightarrow>
          fold (\<lambda>i. omap_put (inst_name i)
              (path_append control_root (InferRuntimeConfigRelativePath (inst_name i))))
            (infers_on state node) [])"

definition InferRuntimeSignaturesForNode ::
  "(json \<Rightarrow> string res) \<Rightarrow> DesiredState \<Rightarrow> string \<Rightarrow> (string, string) omap res" where
  "InferRuntimeSignaturesForNode dump state node =
     res_bind (res_map_list (\<lambda>i. res_bind
         (RenderInferRuntimeConfigJsonForInstance dump state (inst_name i))
         (\<lambda>signature. Inr (inst_name i, signature))) (infers_on state node))
       (\<lambda>entries. Inr (fold (\<lambda>(name, signature). omap_put name signature) entries []))"

record node_view =
  nv_disks :: "(string, DiskSpec) omap"
  nv_instances :: "(string, InstanceSpec) omap"
  nv_infer_paths :: "(string, string) omap"
  nv_infer_signatures :: "(string, string) omap"

definition empty_view :: node_view where
  "empty_view = \<lparr>nv_disks = [], nv_instances = [], nv_infer_paths = [], nv_infer_signatures = []\<rparr>"

definition node_view_of ::
  "(json \<Rightarrow> string res) \<Rightarrow> DesiredState \<Rightarrow> string \<Rightarrow> node_view res" where
  "node_view_of dump state node =
     res_bind (InferRuntimeSignaturesForNode dump state node) (\<lambda>signatures.
       Inr \<lparr>nv_disks = BuildDiskMapForNode (st_disks state) node,
         nv_instances = BuildInstanceMapForNode (st_instances state) node,
         nv_infer_paths = InferRuntimeConfigPathsForNode state node,
         nv_infer_signatures = signatures\<rparr>)"

section \<open>The operations of a node\<close>

definition ensure_disk_ops :: "node_view \<Rightarrow> node_view \<Rightarrow> HostOperation list" where
  "ensure_disk_ops current desired = concat (map (\<lambda>(key, disk).
     case omap_get (nv_disks current) key of
       None \<Rightarrow> [host_op EnsureDisk key (disk_host_path disk)]
     | Some old \<Rightarrow>
         if exec_DiskSignature old \<noteq> exec_DiskSignature disk
         then [host_op RemoveDisk key (disk_host_path old),
               host_op EnsureDisk key (disk_host_path disk)]
         else []) (nv_disks desired))"

definition remove_disk_ops :: "node_view \<Rightarrow> node_view \<Rightarrow> HostOperation list" where
  "remove_disk_ops current desired = concat (map (\<lambda>(key, disk).
     if omap_get (nv_disks desired) key = None
     then [host_op RemoveDisk key (disk_host_path disk)] else []) (nv_disks current))"

definition ensure_service_ops :: "node_view \<Rightarrow> node_view \<Rightarrow> HostOperation list" where
  "ensure_service_ops current desired = concat (map (\<lambda>(name, instance).
     if (case omap_get (nv_instances current) name of None \<Rightarrow> True
         | Some old \<Rightarrow> exec_InstanceSignature old \<noteq> exec_InstanceSignature instance)
     then [host_op EnsureService name (inst_image instance)] else []) (nv_instances desired))"

definition remove_service_ops :: "node_view \<Rightarrow> node_view \<Rightarrow> HostOperation list" where
  "remove_service_ops current desired = concat (map (\<lambda>(name, instance).
     if omap_get (nv_instances desired) name = None
     then [host_op RemoveService name (inst_image instance)] else []) (nv_instances current))"

definition needs_write :: "node_view \<Rightarrow> node_view \<Rightarrow> string \<Rightarrow> string \<Rightarrow> bool" where
  "needs_write current desired name desired_path \<longleftrightarrow>
     omap_get (nv_infer_paths current) name \<noteq> Some desired_path \<or>
     omap_get (nv_infer_signatures current) name = None \<or>
     omap_get (nv_infer_signatures desired) name = None \<or>
     omap_get (nv_infer_signatures current) name \<noteq> omap_get (nv_infer_signatures desired) name"

definition write_config_ops :: "node_view \<Rightarrow> node_view \<Rightarrow> HostOperation list" where
  "write_config_ops current desired = concat (map (\<lambda>(name, desired_path).
     if needs_write current desired name desired_path
     then [host_op WriteInferRuntimeConfig desired_path name] else []) (nv_infer_paths desired))"

definition remove_config_ops :: "node_view \<Rightarrow> node_view \<Rightarrow> HostOperation list" where
  "remove_config_ops current desired = concat (map (\<lambda>(name, current_path).
     if omap_get (nv_infer_paths desired) name \<noteq> None then []
     else [host_op RemoveInferRuntimeConfig current_path name]) (nv_infer_paths current))"

definition resource_ops :: "node_view \<Rightarrow> node_view \<Rightarrow> HostOperation list" where
  "resource_ops current desired =
     ensure_disk_ops current desired @ remove_disk_ops current desired @
     ensure_service_ops current desired @ remove_service_ops current desired @
     write_config_ops current desired @ remove_config_ops current desired"

definition HasWriteInferRuntimeConfigOperation :: "HostOperation list \<Rightarrow> string \<Rightarrow> bool" where
  "HasWriteInferRuntimeConfigOperation operations name \<longleftrightarrow>
     list_ex (\<lambda>operation. op_kind operation = WriteInferRuntimeConfig \<and>
       op_details operation = name) operations"

definition HasDesiredServices :: "(string, InstanceSpec) omap \<Rightarrow> bool" where
  "HasDesiredServices desired_instances \<longleftrightarrow> desired_instances \<noteq> []"

definition HasCurrentServices :: "(string, InstanceSpec) omap \<Rightarrow> bool" where
  "HasCurrentServices current_instances \<longleftrightarrow> current_instances \<noteq> []"

definition compose_down_ops :: "string \<Rightarrow> HostOperation list" where
  "compose_down_ops path =
     [host_op ComposeDown path ''docker compose down'',
      host_op RemoveComposeFile path ''remove stale compose artifact'']"

fun missing_config_ops ::
  "(string, string) omap \<Rightarrow> HostOperation list \<Rightarrow> HostOperation list" where
  "missing_config_ops [] operations = operations"
| "missing_config_ops ((name, desired_path) # paths) operations =
     missing_config_ops paths
       (if HasWriteInferRuntimeConfigOperation operations name then operations
        else operations @ [host_op WriteInferRuntimeConfig desired_path name])"

definition node_operations ::
  "node_view \<Rightarrow> node_view \<Rightarrow> string \<Rightarrow> string \<Rightarrow> HostOperation list" where
  "node_operations current desired current_compose_path desired_compose_path =
     (let has_current_services = HasCurrentServices (nv_instances current);
          has_desired_services = HasDesiredServices (nv_instances desired);
          compose_path_changed =
            (has_current_services \<and> current_compose_path \<noteq> desired_compose_path);
          operations = resource_ops current desired;
          has_resource_changes = (operations \<noteq> []);
          operations =
            (if has_current_services \<and> (\<not> has_desired_services \<or> compose_path_changed)
             then operations @ compose_down_ops current_compose_path else operations);
          needs_compose_up = (has_desired_services \<and>
            (\<not> has_current_services \<or> compose_path_changed \<or> has_resource_changes))
      in if needs_compose_up
         then missing_config_ops (nv_infer_paths desired) operations @
           [host_op WriteComposeFile desired_compose_path ''render compose artifact'',
            host_op ComposeUp desired_compose_path ''docker compose up -d'']
         else operations)"

definition current_plane_name :: "DesiredState option \<Rightarrow> DesiredState \<Rightarrow> string" where
  "current_plane_name current_state desired_state =
     (case current_state of None \<Rightarrow> st_plane_name desired_state
      | Some current \<Rightarrow> st_plane_name current)"

definition desired_plane_name :: "DesiredState option \<Rightarrow> DesiredState \<Rightarrow> string" where
  "desired_plane_name current_state desired_state =
     (if st_plane_name desired_state = [] then current_plane_name current_state desired_state
      else st_plane_name desired_state)"

definition current_view_of ::
  "(json \<Rightarrow> string res) \<Rightarrow> DesiredState option \<Rightarrow> string \<Rightarrow> node_view res" where
  "current_view_of dump current_state node =
     (case current_state of None \<Rightarrow> Inr empty_view | Some current \<Rightarrow> node_view_of dump current node)"

definition node_execution_plan ::
  "(json \<Rightarrow> string res) \<Rightarrow> DesiredState option \<Rightarrow> DesiredState \<Rightarrow> string \<Rightarrow> string
   \<Rightarrow> NodeExecutionPlan res" where
  "node_execution_plan dump current_state desired_state artifacts_root node =
     res_bind (current_view_of dump current_state node) (\<lambda>current.
     res_bind (node_view_of dump desired_state node) (\<lambda>desired.
       let current_plane = current_plane_name current_state desired_state;
           desired_plane = desired_plane_name current_state desired_state;
           current_compose_path = ComposePath artifacts_root current_plane node;
           desired_compose_path = ComposePath artifacts_root desired_plane node;
           has_desired_services = HasDesiredServices (nv_instances desired)
       in Inr \<lparr>nep_plane_name = (if has_desired_services then desired_plane else current_plane),
            nep_node_name = node,
            nep_compose_file_path =
              (if has_desired_services then desired_compose_path else current_compose_path),
            nep_operations =
              node_operations current desired current_compose_path desired_compose_path\<rparr>))"

definition plan_node_names :: "DesiredState option \<Rightarrow> DesiredState \<Rightarrow> string list" where
  "plan_node_names current_state desired_state =
     fold insort_insert
       (map node_name (st_nodes desired_state) @
        (case current_state of None \<Rightarrow> [] | Some current \<Rightarrow> map node_name (st_nodes current))) []"

definition plan_less :: "NodeExecutionPlan \<Rightarrow> NodeExecutionPlan \<Rightarrow> bool" where
  "plan_less left right \<longleftrightarrow> nep_node_name left < nep_node_name right"

definition BuildNodeExecutionPlans ::
  "(json \<Rightarrow> string res) \<Rightarrow> DesiredState option \<Rightarrow> DesiredState \<Rightarrow> string
   \<Rightarrow> NodeExecutionPlan list res" where
  "BuildNodeExecutionPlans dump current_state desired_state artifacts_root =
     res_bind (res_map_list (node_execution_plan dump current_state desired_state artifacts_root)
         (plan_node_names current_state desired_state))
       (\<lambda>plans. Inr (std_sort plan_less (filter (\<lambda>plan. nep_operations plan \<noteq> []) plans)))"

section \<open>Text form\<close>

definition render_operation :: "HostOperation \<Rightarrow> string" where
  "render_operation operation =
     ''    - ['' @ ToString_HostOperationKind (op_kind operation) @ ''] '' @ op_target operation @
     (if op_details operation \<noteq> [] then '' :: '' @ op_details operation else []) @ newline"

definition RenderNodeExecutionPlans :: "NodeExecutionPlan list \<Rightarrow> string" where
  "RenderNodeExecutionPlans plans =
     ''host-plans:'' @ newline @
     concat (map (\<lambda>plan.
       ''  node '' @ nep_node_name plan @ '':'' @ newline @
       ''    compose='' @ nep_compose_file_path plan @ newline @
       concat (map render_operation (nep_operations plan))) plans)"

end
