(* ===== verification/Naim_Execution_Props.thy ===== *)
theory Naim_Execution_Props
  imports Naim_Execution_Plan
begin

text \<open>
  What the host execution plans guarantee: carried out in order they turn the current host
  into the desired one, the compose project is started last, and a state in place needs no
  work.
\<close>

section \<open>Effect of the operations on a host\<close>

text \<open>
  What a host has, as far as the plan sees it: disks and services by signature, infer
  configurations by instance with path and content, the compose files and the compose
  project that is up. \<open>host_of\<close> is the host that a view of a state describes.
\<close>

record host_state =
  hs_disks :: "string \<rightharpoonup> string"
  hs_services :: "string \<rightharpoonup> string"
  hs_configs :: "string \<rightharpoonup> string \<times> string option"
  hs_compose_files :: "string set"
  hs_running :: "string option"

definition host_of :: "node_view \<Rightarrow> string \<Rightarrow> host_state" where
  "host_of view path =
     \<lparr>hs_disks = (\<lambda>k. map_option exec_DiskSignature (omap_get (nv_disks view) k)),
      hs_services = (\<lambda>n. map_option exec_InstanceSignature (omap_get (nv_instances view) n)),
      hs_configs = (\<lambda>n. map_option (\<lambda>p. (p, omap_get (nv_infer_signatures view) n))
        (omap_get (nv_infer_paths view) n)),
      hs_compose_files = (if nv_instances view = [] then {} else {path}),
      hs_running = (if nv_instances view = [] then None else Some path)\<rparr>"

text \<open>
  An operation that ensures or writes a resource installs what the desired view has under
  its key.
\<close>

definition apply_op :: "node_view \<Rightarrow> HostOperation \<Rightarrow> host_state \<Rightarrow> host_state" where
  "apply_op desired operation h =
     (let target = op_target operation; name = op_details operation in
      case op_kind operation of
        EnsureDisk \<Rightarrow> h\<lparr>hs_disks := (hs_disks h)(target :=
          map_option exec_DiskSignature (omap_get (nv_disks desired) target))\<rparr>
      | RemoveDisk \<Rightarrow> h\<lparr>hs_disks := (hs_disks h)(target := None)\<rparr>
      | EnsureService \<Rightarrow> h\<lparr>hs_services := (hs_services h)(target :=
          map_option exec_InstanceSignature (omap_get (nv_instances desired) target))\<rparr>
      | RemoveService \<Rightarrow> h\<lparr>hs_services := (hs_services h)(target := None)\<rparr>
      | WriteInferRuntimeConfig \<Rightarrow> h\<lparr>hs_configs := (hs_configs h)(name \<mapsto>
          (target, omap_get (nv_infer_signatures desired) name))\<rparr>
      | RemoveInferRuntimeConfig \<Rightarrow> h\<lparr>hs_configs := (hs_configs h)(name := None)\<rparr>
      | WriteComposeFile \<Rightarrow> h\<lparr>hs_compose_files := insert target (hs_compose_files h)\<rparr>
      | RemoveComposeFile \<Rightarrow> h\<lparr>hs_compose_files := hs_compose_files h - {target}\<rparr>
      | ComposeUp \<Rightarrow> h\<lparr>hs_running := Some target\<rparr>
      | ComposeDown \<Rightarrow> h\<lparr>hs_running := (if hs_running h = Some target then None else hs_running h)\<rparr>)"

lemmas apply_simps = apply_op_def host_op_def Let_def

lemma fold_concat_map: "fold f (concat (map g xs)) s = fold (\<lambda>x. fold f (g x)) xs s"
  by (induction xs arbitrary: s) simp_all

text \<open>Operations of one group leave the other components alone.\<close>

lemma group_frame:
  "list_all (\<lambda>o'. op_kind o' \<notin> {EnsureDisk, RemoveDisk}) ops \<Longrightarrow>
     hs_disks (fold (apply_op d) ops h) = hs_disks h"
  "list_all (\<lambda>o'. op_kind o' \<notin> {EnsureService, RemoveService}) ops \<Longrightarrow>
     hs_services (fold (apply_op d) ops h) = hs_services h"
  "list_all (\<lambda>o'. op_kind o' \<notin> {WriteInferRuntimeConfig, RemoveInferRuntimeConfig}) ops \<Longrightarrow>
     hs_configs (fold (apply_op d) ops h) = hs_configs h"
  "list_all (\<lambda>o'. op_kind o' \<notin> {WriteComposeFile, RemoveComposeFile}) ops \<Longrightarrow>
     hs_compose_files (fold (apply_op d) ops h) = hs_compose_files h"
  "list_all (\<lambda>o'. op_kind o' \<notin> {ComposeUp, ComposeDown}) ops \<Longrightarrow>
     hs_running (fold (apply_op d) ops h) = hs_running h"
  by (induction ops arbitrary: h)
    (auto simp: apply_op_def Let_def split: HostOperationKind.splits)

definition only_kinds :: "HostOperationKind list \<Rightarrow> HostOperation list \<Rightarrow> bool" where
  "only_kinds kinds ops \<longleftrightarrow> list_all (\<lambda>o'. op_kind o' \<in> set kinds) ops"

lemma only_kinds_append [simp]: "only_kinds ks (xs @ ys) \<longleftrightarrow> only_kinds ks xs \<and> only_kinds ks ys"
  by (simp add: only_kinds_def)

lemma op_groups:
  "only_kinds [EnsureDisk, RemoveDisk] (ensure_disk_ops c d)"
  "only_kinds [EnsureDisk, RemoveDisk] (remove_disk_ops c d)"
  "only_kinds [EnsureService, RemoveService] (ensure_service_ops c d)"
  "only_kinds [EnsureService, RemoveService] (remove_service_ops c d)"
  "only_kinds [WriteInferRuntimeConfig, RemoveInferRuntimeConfig] (write_config_ops c d)"
  "only_kinds [WriteInferRuntimeConfig, RemoveInferRuntimeConfig] (remove_config_ops c d)"
  by (auto simp: only_kinds_def list_all_iff ensure_disk_ops_def remove_disk_ops_def
      ensure_service_ops_def remove_service_ops_def write_config_ops_def remove_config_ops_def
      host_op_def split: option.splits if_splits)

text \<open>
  A loop over the entries of a map that overwrites the needed keys with a value that
  depends on the key only.
\<close>

lemma fold_overwrite:
  "fold (\<lambda>e f. if P e then f(key e := g (key e)) else f) es f k =
     (if \<exists>e \<in> set es. key e = k \<and> P e then g k else f k)"
  by (induction es arbitrary: f) auto

lemma fold_field:
  assumes "\<And>x s. get (f x s) = g x (get s)"
  shows "get (fold f xs s) = fold g xs (get s)"
  by (induction xs arbitrary: s) (simp_all add: assms)

lemma fold_field_on:
  assumes "\<And>x s. x \<in> set xs \<Longrightarrow> get (f x s) = g x (get s)"
  shows "get (fold f xs s) = fold g xs (get s)"
  using assms by (induction xs arbitrary: s) simp_all

lemma diff_converge:
  assumes "\<And>e. e \<in> set D \<Longrightarrow> \<not> P e \<Longrightarrow> vc (fst e) = vd (fst e)"
    and "\<And>k. k \<notin> fst ` set D \<Longrightarrow> vd k = None" and "\<And>k. k \<notin> fst ` set C \<Longrightarrow> vc k = None"
    and "\<And>e. Q e \<longleftrightarrow> fst e \<notin> fst ` set D"
  shows "fold (\<lambda>e f. if Q e then f(fst e := None) else f) C
    (fold (\<lambda>e f. if P e then f(fst e := vd (fst e)) else f) D vc) = vd"
proof
  fix k
  note overwrite = fold_overwrite[of Q fst "\<lambda>_. None" C _ k] fold_overwrite[of P fst vd D vc k]
  show "fold (\<lambda>e f. if Q e then f(fst e := None) else f) C
      (fold (\<lambda>e f. if P e then f(fst e := vd (fst e)) else f) D vc) k = vd k"
  proof (cases "k \<in> fst ` set D")
    case True
    then obtain e where "e \<in> set D" "fst e = k" by auto
    then have "(if \<exists>e \<in> set D. fst e = k \<and> P e then vd k else vc k) = vd k"
      using assms(1)[of e] by auto
    moreover have "\<not> (\<exists>e \<in> set C. fst e = k \<and> Q e)" using True assms(4) by blast
    ultimately show ?thesis unfolding overwrite by (simp only: if_False)
  next
    case False
    then have "\<not> (\<exists>e \<in> set D. fst e = k \<and> P e)" by auto
    moreover have "(if \<exists>e \<in> set C. fst e = k \<and> Q e then None else vc k) = None"
      using False assms(3)[of k] assms(4) by (auto split: if_splits)
    ultimately show ?thesis
      unfolding overwrite assms(2)[OF False] by (simp only: if_False)
  qed
qed

lemma disks_converge:
  assumes "omap_ok (nv_disks d)" "hs_disks s = hs_disks (host_of c p)"
  shows "hs_disks (fold (apply_op d) (ensure_disk_ops c d @ remove_disk_ops c d) s) =
    hs_disks (host_of d q)"
proof -
  let ?sig = "map_option exec_DiskSignature" and ?C = "omap_get (nv_disks c)"
    and ?D = "omap_get (nv_disks d)"
  have get: "(k, v) \<in> set (nv_disks d) \<Longrightarrow> ?D k = Some v" for k v
    using omap_get_eq_Some[OF assms(1)] by blast
  have "hs_disks (fold (apply_op d) (ensure_disk_ops c d) s) =
      fold (\<lambda>e f. if ?sig (?C (fst e)) \<noteq> Some (exec_DiskSignature (snd e))
        then f(fst e := ?sig (?D (fst e))) else f) (nv_disks d) (hs_disks s)" for s
    unfolding ensure_disk_ops_def fold_concat_map
    by (rule fold_field) (auto simp: apply_simps split: option.splits)
  moreover have "hs_disks (fold (apply_op d) (remove_disk_ops c d) s) =
      fold (\<lambda>e f. if ?D (fst e) = None then f(fst e := None) else f) (nv_disks c) (hs_disks s)" for s
    unfolding remove_disk_ops_def fold_concat_map
    by (rule fold_field) (auto simp: apply_simps)
  ultimately show ?thesis
    using assms(2) get
    by (simp add: host_of_def) (rule diff_converge, auto simp: omap_get_eq_None[THEN iffD2] omap_get_eq_None)
qed

lemma services_converge:
  assumes "omap_ok (nv_instances d)" "hs_services s = hs_services (host_of c p)"
  shows "hs_services (fold (apply_op d) (ensure_service_ops c d @ remove_service_ops c d) s) =
    hs_services (host_of d q)"
proof -
  let ?sig = "map_option exec_InstanceSignature" and ?C = "omap_get (nv_instances c)"
    and ?D = "omap_get (nv_instances d)"
  have get: "(k, v) \<in> set (nv_instances d) \<Longrightarrow> ?D k = Some v" for k v
    using omap_get_eq_Some[OF assms(1)] by blast
  have "hs_services (fold (apply_op d) (ensure_service_ops c d) s) =
      fold (\<lambda>e f. if ?sig (?C (fst e)) \<noteq> Some (exec_InstanceSignature (snd e))
        then f(fst e := ?sig (?D (fst e))) else f) (nv_instances d) (hs_services s)" for s
    unfolding ensure_service_ops_def fold_concat_map
    by (rule fold_field) (auto simp: apply_simps split: option.splits)
  moreover have "hs_services (fold (apply_op d) (remove_service_ops c d) s) =
      fold (\<lambda>e f. if ?D (fst e) = None then f(fst e := None) else f) (nv_instances c) (hs_services s)"
    for s
    unfolding remove_service_ops_def fold_concat_map
    by (rule fold_field) (auto simp: apply_simps)
  ultimately show ?thesis
    using assms(2) get
    by (simp add: host_of_def) (rule diff_converge, auto simp: omap_get_eq_None[THEN iffD2] omap_get_eq_None)
qed

lemma configs_converge:
  assumes "omap_ok (nv_infer_paths d)" "hs_configs s = hs_configs (host_of c p)"
  shows "hs_configs (fold (apply_op d) (write_config_ops c d @ remove_config_ops c d) s) =
    hs_configs (host_of d q)"
proof -
  let ?D = "omap_get (nv_infer_paths d)"
  let ?vd = "\<lambda>n. map_option (\<lambda>p. (p, omap_get (nv_infer_signatures d) n)) (?D n)"
  have get: "(n, path) \<in> set (nv_infer_paths d) \<Longrightarrow> ?D n = Some path" for n path
    using omap_get_eq_Some[OF assms(1)] by blast
  have "hs_configs (fold (apply_op d) (write_config_ops c d) s) =
      fold (\<lambda>e f. if needs_write c d (fst e) (snd e) then f(fst e := ?vd (fst e)) else f)
        (nv_infer_paths d) (hs_configs s)" for s
    unfolding write_config_ops_def fold_concat_map
    by (rule fold_field_on) (auto simp: apply_simps get)
  moreover have "hs_configs (fold (apply_op d) (remove_config_ops c d) s) =
      fold (\<lambda>e f. if ?D (fst e) = None then f(fst e := None) else f) (nv_infer_paths c) (hs_configs s)"
    for s
    unfolding remove_config_ops_def fold_concat_map
    by (rule fold_field) (auto simp: apply_simps)
  ultimately show ?thesis
    using assms(2) get
    by (simp add: host_of_def)
      (rule diff_converge, auto simp: needs_write_def omap_get_eq_None[THEN iffD2] omap_get_eq_None)
qed

section \<open>A plan reaches the desired host\<close>

definition view_ok :: "node_view \<Rightarrow> bool" where
  "view_ok v \<longleftrightarrow> omap_ok (nv_disks v) \<and> omap_ok (nv_instances v) \<and> omap_ok (nv_infer_paths v)"

lemma view_ok_node_view_of: "node_view_of dump state node = Inr v \<Longrightarrow> view_ok v"
  unfolding node_view_of_def view_ok_def
  by (auto simp: res_bind_Inr_iff BuildDiskMapForNode_def BuildInstanceMapForNode_def
      InferRuntimeConfigPathsForNode_def om.ok_build split: option.splits)

lemma only_kinds_frame:
  assumes "only_kinds ks ops"
  shows "set ks \<inter> {EnsureDisk, RemoveDisk} = {} \<Longrightarrow>
      hs_disks (fold (apply_op d) ops h) = hs_disks h"
    and "set ks \<inter> {EnsureService, RemoveService} = {} \<Longrightarrow>
      hs_services (fold (apply_op d) ops h) = hs_services h"
    and "set ks \<inter> {WriteInferRuntimeConfig, RemoveInferRuntimeConfig} = {} \<Longrightarrow>
      hs_configs (fold (apply_op d) ops h) = hs_configs h"
    and "set ks \<inter> {WriteComposeFile, RemoveComposeFile} = {} \<Longrightarrow>
      hs_compose_files (fold (apply_op d) ops h) = hs_compose_files h"
    and "set ks \<inter> {ComposeUp, ComposeDown} = {} \<Longrightarrow>
      hs_running (fold (apply_op d) ops h) = hs_running h"
  using assms unfolding only_kinds_def list_all_iff
  by (intro group_frame; auto simp: list_all_iff)+

lemmas op_frames = op_groups[THEN only_kinds_frame(1)] op_groups[THEN only_kinds_frame(2)]
  op_groups[THEN only_kinds_frame(3)] op_groups[THEN only_kinds_frame(4)]
  op_groups[THEN only_kinds_frame(5)]

lemma resource_ops_effect:
  fixes c d :: node_view and p q :: string
  assumes "view_ok d"
  defines "h \<equiv> fold (apply_op d) (resource_ops c d) (host_of c p)"
  shows "hs_disks h = hs_disks (host_of d q)" "hs_services h = hs_services (host_of d q)"
    "hs_configs h = hs_configs (host_of d q)"
    "hs_compose_files h = hs_compose_files (host_of c p)" "hs_running h = hs_running (host_of c p)"
proof -
  note ok = assms(1)[unfolded view_ok_def]
  show "hs_disks h = hs_disks (host_of d q)"
    using disks_converge[of d "host_of c p" c p q] ok
    by (simp add: h_def resource_ops_def op_frames)
  show "hs_services h = hs_services (host_of d q)"
    using services_converge[of d _ c p q] ok by (simp add: h_def resource_ops_def op_frames)
  show "hs_configs h = hs_configs (host_of d q)"
    using configs_converge[of d _ c p q] ok by (simp add: h_def resource_ops_def op_frames)
  show "hs_compose_files h = hs_compose_files (host_of c p)" "hs_running h = hs_running (host_of c p)"
    by (simp_all add: h_def resource_ops_def op_frames)
qed

lemma apply_write_same:
  assumes "hs_configs k name = Some (path, omap_get (nv_infer_signatures d) name)"
  shows "apply_op d (host_op WriteInferRuntimeConfig path name) k = k"
  using assms by (cases k) (simp add: apply_simps fun_upd_idem)

text \<open>The configurations written before \<open>docker compose up\<close> are already in place.\<close>

lemma missing_config_ops_effect:
  assumes "hs_configs (fold (apply_op d) ops h) = hs_configs (host_of d q)"
    and "\<forall>(n, p) \<in> set paths. omap_get (nv_infer_paths d) n = Some p"
  shows "fold (apply_op d) (missing_config_ops paths ops) h = fold (apply_op d) ops h"
  using assms
proof (induction paths ops rule: missing_config_ops.induct)
  case (2 name path paths ops)
  let ?ops = "if HasWriteInferRuntimeConfigOperation ops name then ops
    else ops @ [host_op WriteInferRuntimeConfig path name]"
  have "apply_op d (host_op WriteInferRuntimeConfig path name) (fold (apply_op d) ops h) =
      fold (apply_op d) ops h"
    using 2(2,3) by (intro apply_write_same) (simp add: host_of_def)
  then have same: "fold (apply_op d) ?ops h = fold (apply_op d) ops h" by simp
  then have "fold (apply_op d) (missing_config_ops paths ?ops) h = fold (apply_op d) ?ops h"
    using 2 by (intro "2.IH") simp_all
  with same show ?case by simp
qed simp

lemma apply_compose [simp]:
  "apply_op d (host_op WriteComposeFile q x) h =
     h\<lparr>hs_compose_files := insert q (hs_compose_files h)\<rparr>"
  "apply_op d (host_op ComposeUp q x) h = h\<lparr>hs_running := Some q\<rparr>"
  by (simp_all add: apply_simps)

lemma compose_down_effect:
  assumes "hs_running h = Some p" "hs_compose_files h = {p}"
  shows "fold (apply_op d) (compose_down_ops p) h = h\<lparr>hs_running := None, hs_compose_files := {}\<rparr>"
  using assms by (simp add: compose_down_ops_def apply_simps)

lemma host_of_compose:
  "hs_compose_files (host_of v p) = (if nv_instances v = [] then {} else {p})"
  "hs_running (host_of v p) = (if nv_instances v = [] then None else Some p)"
  by (simp_all add: host_of_def)

definition stops_project :: "node_view \<Rightarrow> node_view \<Rightarrow> string \<Rightarrow> string \<Rightarrow> bool" where
  "stops_project c d p q \<longleftrightarrow> nv_instances c \<noteq> [] \<and> (nv_instances d = [] \<or> p \<noteq> q)"

definition starts_project :: "node_view \<Rightarrow> node_view \<Rightarrow> string \<Rightarrow> string \<Rightarrow> bool" where
  "starts_project c d p q \<longleftrightarrow>
     nv_instances d \<noteq> [] \<and> (nv_instances c = [] \<or> p \<noteq> q \<or> resource_ops c d \<noteq> [])"

definition stop_ops :: "node_view \<Rightarrow> node_view \<Rightarrow> string \<Rightarrow> string \<Rightarrow> HostOperation list" where
  "stop_ops c d p q =
     resource_ops c d @ (if stops_project c d p q then compose_down_ops p else [])"

lemma node_operations_eq:
  "node_operations c d p q =
     (if starts_project c d p q
      then missing_config_ops (nv_infer_paths d) (stop_ops c d p q) @
        [host_op WriteComposeFile q ''render compose artifact'',
         host_op ComposeUp q ''docker compose up -d'']
      else stop_ops c d p q)"
  by (auto simp: node_operations_def Let_def HasCurrentServices_def HasDesiredServices_def
      stop_ops_def stops_project_def starts_project_def)

lemma node_operations_effect:
  assumes "view_ok d"
  shows "fold (apply_op d) (node_operations c d p q) (host_of c p) = host_of d q"
proof -
  define r where "r = fold (apply_op d) (resource_ops c d) (host_of c p)"
  note r = resource_ops_effect(1-3)[OF assms, where c = c and p = p and q = q, folded r_def]
    resource_ops_effect(4,5)[OF assms, where c = c and p = p, folded r_def]
  define k where "k = (if stops_project c d p q
    then r\<lparr>hs_running := None, hs_compose_files := {}\<rparr> else r)"
  have stop: "fold (apply_op d) (stop_ops c d p q) (host_of c p) = k"
    using compose_down_effect[of r p d] r(4,5)
    by (auto simp: stop_ops_def k_def r_def[symmetric] stops_project_def host_of_compose)
  have paths: "\<forall>(n, p) \<in> set (nv_infer_paths d). omap_get (nv_infer_paths d) n = Some p"
    using assms by (auto simp: view_ok_def omap_get_eq_Some)
  have "fold (apply_op d) (missing_config_ops (nv_infer_paths d) (stop_ops c d p q)) (host_of c p) = k"
    unfolding stop[symmetric]
    by (rule missing_config_ops_effect[where q = q, OF _ paths]) (use stop r(3) in \<open>simp add: k_def\<close>)
  then have res: "fold (apply_op d) (node_operations c d p q) (host_of c p) =
      (if starts_project c d p q
       then k\<lparr>hs_compose_files := insert q (hs_compose_files k), hs_running := Some q\<rparr> else k)"
    by (simp add: node_operations_eq stop)
  show ?thesis
    unfolding res using r
    by (intro host_state.equality)
      (auto simp: k_def starts_project_def stops_project_def host_of_compose)
qed


text \<open>A node with one disk and one application, deployed from nothing.\<close>

definition sample_app_state :: DesiredState where
  "sample_app_state = default_DesiredState\<lparr>st_plane_name := ''p'',
     st_nodes := [default_NodeInventory\<lparr>node_name := ''n1''\<rparr>],
     st_disks := [\<lparr>disk_name = ''d'', disk_kind = AppPrivate, disk_plane_name = ''p'',
       disk_owner_name = ''app'', disk_node_name = ''n1'', disk_host_path = ''/srv/d'',
       disk_container_path = ''/data'', disk_size_gb = 1\<rparr>],
     st_instances := [(default_InstanceSpec App)\<lparr>inst_name := ''app'', inst_node_name := ''n1''\<rparr>]\<rparr>"

definition constant_dump :: "json \<Rightarrow> string res" where
  "constant_dump j = Inr []"

lemma sample_plan_kinds:
  "map_sum id (\<lambda>plan. map op_kind (nep_operations plan))
     (node_execution_plan constant_dump None sample_app_state ''/a'' ''n1'') =
   Inr [EnsureDisk, EnsureService, WriteComposeFile, ComposeUp]"
  by code_simp

lemma sample_plans_ok: "\<not> isl (BuildNodeExecutionPlans constant_dump None sample_app_state ''/a'')"
  by code_simp


section \<open>Order of the operations\<close>

lemma missing_config_ops_shape:
  obtains extra where "missing_config_ops paths ops = ops @ extra"
    "only_kinds [WriteInferRuntimeConfig] extra"
    "\<forall>(n, p) \<in> set paths. HasWriteInferRuntimeConfigOperation (ops @ extra) n"
proof -
  have "\<exists>extra. missing_config_ops paths ops = ops @ extra \<and>
      only_kinds [WriteInferRuntimeConfig] extra \<and>
      (\<forall>(n, p) \<in> set paths. HasWriteInferRuntimeConfigOperation (ops @ extra) n)"
  proof (induction paths ops rule: missing_config_ops.induct)
    case (2 name path paths ops)
    let ?new = "if HasWriteInferRuntimeConfigOperation ops name then []
      else [host_op WriteInferRuntimeConfig path name]"
    obtain extra where "missing_config_ops ((name, path) # paths) ops = ops @ ?new @ extra"
      "only_kinds [WriteInferRuntimeConfig] extra"
      "\<forall>(n, p) \<in> set paths. HasWriteInferRuntimeConfigOperation (ops @ ?new @ extra) n"
      using "2.IH" by (auto split: if_splits)
    moreover have "only_kinds [WriteInferRuntimeConfig] ?new"
      "HasWriteInferRuntimeConfigOperation (ops @ ?new @ extra) name"
      by (auto simp: only_kinds_def host_op_def HasWriteInferRuntimeConfigOperation_def list_ex_iff)
    ultimately show ?case by (intro exI[of _ "?new @ extra"]) simp
  qed (auto simp: only_kinds_def)
  then show ?thesis using that by blast
qed

definition no_compose_up :: "HostOperation list \<Rightarrow> bool" where
  "no_compose_up ops \<longleftrightarrow> list_all (\<lambda>o'. op_kind o' \<notin> {ComposeUp, WriteComposeFile}) ops"

lemma no_compose_up_kinds:
  "only_kinds ks ops \<Longrightarrow> set ks \<inter> {ComposeUp, WriteComposeFile} = {} \<Longrightarrow> no_compose_up ops"
  by (auto simp: only_kinds_def no_compose_up_def list_all_iff)

lemma no_compose_up_resource_ops: "no_compose_up (resource_ops c d)"
proof -
  have app: "no_compose_up (xs @ ys) \<longleftrightarrow> no_compose_up xs \<and> no_compose_up ys" for xs ys
    by (simp add: no_compose_up_def)
  show ?thesis
    unfolding resource_ops_def app
    by (intro conjI; rule op_groups[THEN no_compose_up_kinds]) simp_all
qed


section \<open>The list of plans\<close>

interpretation plan_order: key_comparator nep_node_name plan_less
  by unfold_locales (simp add: plan_less_def)

definition configs_signed :: "node_view \<Rightarrow> bool" where
  "configs_signed v \<longleftrightarrow> fst ` set (nv_infer_paths v) \<subseteq> fst ` set (nv_infer_signatures v)"

lemma keys_fold_put: "fst ` set (fold (\<lambda>x. omap_put (key x) (val x)) xs m) = key ` set xs \<union> fst ` set m"
  by (induction xs arbitrary: m) (auto simp: keys_omap_put)

lemma configs_signed_node_view_of:
  assumes "node_view_of dump state node = Inr v"
  shows "configs_signed v"
proof -
  obtain entries where entries: "list_all2 (\<lambda>i e. res_bind
      (RenderInferRuntimeConfigJsonForInstance dump state (inst_name i))
      (\<lambda>signature. Inr (inst_name i, signature)) = Inr e) (infers_on state node) entries"
    and v: "nv_infer_signatures v = fold (\<lambda>(name, signature). omap_put name signature) entries []"
      "nv_infer_paths v = InferRuntimeConfigPathsForNode state node"
    using assms
    by (auto simp: node_view_of_def InferRuntimeSignaturesForNode_def res_bind_Inr_iff
        res_map_list_Inr_iff)
  from entries have "map fst entries = map inst_name (infers_on state node)"
    by (induction rule: list_all2_induct) (auto simp: res_bind_Inr_iff)
  then have "fst ` set entries = inst_name ` set (infers_on state node)" by (metis set_map)
  moreover have "fst ` set (nv_infer_signatures v) = fst ` set entries"
    using keys_fold_put[of fst snd entries "[]"] by (simp add: v(1) case_prod_beta')
  moreover have "fst ` set (nv_infer_paths v) \<subseteq> inst_name ` set (infers_on state node)"
    by (cases "ControlRootPathForNode state node")
      (simp_all add: v(2) InferRuntimeConfigPathsForNode_def keys_fold_put)
  ultimately show ?thesis by (simp add: configs_signed_def)
qed

lemma resource_ops_same:
  assumes "view_ok v" "configs_signed v"
  shows "resource_ops v v = []"
proof -
  have disks: "omap_get (nv_disks v) k = Some x" if "(k, x) \<in> set (nv_disks v)" for k x
    using that assms(1) by (simp add: view_ok_def omap_get_eq_Some)
  have insts: "omap_get (nv_instances v) k = Some x" if "(k, x) \<in> set (nv_instances v)" for k x
    using that assms(1) by (simp add: view_ok_def omap_get_eq_Some)
  have paths: "omap_get (nv_infer_paths v) k = Some x" "omap_get (nv_infer_signatures v) k \<noteq> None"
    if "(k, x) \<in> set (nv_infer_paths v)" for k x
  proof -
    show "omap_get (nv_infer_paths v) k = Some x"
      using that assms(1) by (simp add: view_ok_def omap_get_eq_Some)
    show "omap_get (nv_infer_signatures v) k \<noteq> None"
      using that assms(2) unfolding configs_signed_def omap_get_eq_None by force
  qed
  have "ensure_disk_ops v v = []" "remove_disk_ops v v = []"
    using disks by (auto simp: ensure_disk_ops_def remove_disk_ops_def)
  moreover have "ensure_service_ops v v = []" "remove_service_ops v v = []"
    using insts by (auto simp: ensure_service_ops_def remove_service_ops_def)
  moreover have "write_config_ops v v = []" "remove_config_ops v v = []"
    using paths by (auto simp: write_config_ops_def remove_config_ops_def needs_write_def)
  ultimately show ?thesis by (simp add: resource_ops_def)
qed

lemma node_execution_plan_same:
  assumes "node_execution_plan dump (Some state) state artifacts node = Inr plan"
  shows "nep_operations plan = []"
proof -
  obtain v where v: "node_view_of dump state node = Inr v"
    "nep_operations plan = node_operations v v
      (ComposePath artifacts (st_plane_name state) node) (ComposePath artifacts (st_plane_name state) node)"
    using assms
    by (auto simp: node_execution_plan_def res_bind_Inr_iff current_view_of_def Let_def
        current_plane_name_def desired_plane_name_def)
  then show ?thesis
    using resource_ops_same[OF view_ok_node_view_of[OF v(1)] configs_signed_node_view_of[OF v(1)]]
    by (auto simp: node_operations_def Let_def HasCurrentServices_def HasDesiredServices_def)
qed


lemma plan_node_names_ascending: "sorted_wrt (<) (plan_node_names c d)"
proof -
  have "sorted ys \<and> distinct ys \<Longrightarrow>
      sorted (fold insort_insert xs ys) \<and> distinct (fold insort_insert xs ys)"
    for xs ys :: "string list"
    by (induction xs arbitrary: ys) (auto simp: sorted_insort_insert distinct_insort_insert)
  then show ?thesis by (simp add: plan_node_names_def strict_sorted_iff)
qed

lemma set_plan_node_names:
  "set (plan_node_names c d) = node_name ` set (st_nodes d) \<union>
     (case c of None \<Rightarrow> {} | Some s \<Rightarrow> node_name ` set (st_nodes s))"
proof -
  have "set (fold insort_insert xs ys) = set xs \<union> set ys" for xs ys :: "string list"
    by (induction xs arbitrary: ys) (auto simp: set_insort_insert)
  then show ?thesis by (auto simp: plan_node_names_def split: option.splits)
qed



end
