(* ===== verification/Naim_Planner.thy ===== *)
theory Naim_Planner
  imports Naim_Worker_Group_Topology Naim_Std_Lib
begin

text \<open>
  The compose planner of \<open>common/src/planning/planner.cpp\<close>: the compose service of an
  instance and the compose plan of every node. The environment variable
  \<open>NAIM_CONTROLLER_INTERNAL_HOST\<close> of the process is the argument \<open>internal_host\<close>. A
  service is built in the order of the source, so that the first exception is the one the
  source throws.
\<close>

section \<open>Helpers\<close>

definition UsesLlamaRpcRuntime :: "DesiredState \<Rightarrow> bool" where
  "UsesLlamaRpcRuntime state \<longleftrightarrow>
     inf_runtime_engine (st_inference state) = ''llama.cpp'' \<and>
     inf_distributed_backend (st_inference state) = ''llama_rpc''"

definition BuildDirectModelCacheVolume :: "DesiredState \<Rightarrow> InstanceSpec \<Rightarrow> ComposeVolume option" where
  "BuildDirectModelCacheVolume state instance =
     (if \<not> UsesLlamaRpcRuntime state \<or> inst_role instance = Browsing then None
      else case st_bootstrap_model state of
             None \<Rightarrow> None
           | Some model \<Rightarrow>
               (case bm_local_path model of
                  None \<Rightarrow> None
                | Some local_path \<Rightarrow>
                    if bm_materialization_mode model \<noteq> ''reference'' then None
                    else if local_path = [] \<or> hd local_path \<noteq> slash then None
                    else Some \<lparr>vol_source = local_path, vol_target = local_path,
                      vol_read_only = True\<rparr>))"

definition DefaultComposeExtraHosts :: "string option \<Rightarrow> string list" where
  "DefaultComposeExtraHosts internal_host =
     [''host.docker.internal:host-gateway'',
      if internal_host \<noteq> None \<and> internal_host \<noteq> Some []
      then ''controller.internal:'' @ the internal_host
      else ''controller.internal:host-gateway'']"

definition IntEnvValue :: "(string, string) omap \<Rightarrow> string \<Rightarrow> int option res" where
  "IntEnvValue environment key =
     (case omap_get environment key of
        None \<Rightarrow> Inr None
      | Some v \<Rightarrow> if v = [] then Inr None else res_bind (stoi v) (\<lambda>n. Inr (Some n)))"

definition InferApiPort :: "DesiredState \<Rightarrow> InstanceSpec \<Rightarrow> int res" where
  "InferApiPort state instance =
     res_bind (IntEnvValue (inst_environment instance) ''NAIM_INFERENCE_PORT'')
       (\<lambda>v. Inr (value_or v (inf_api_port (st_inference state))))"

definition InferGatewayPort :: "DesiredState \<Rightarrow> InstanceSpec \<Rightarrow> int res" where
  "InferGatewayPort state instance =
     res_bind (IntEnvValue (inst_environment instance) ''NAIM_GATEWAY_PORT'')
       (\<lambda>v. Inr (value_or v (gw_listen_port (st_gateway state))))"

definition WorkerRpcPort :: "WorkerGroupMemberSpec option \<Rightarrow> int" where
  "WorkerRpcPort worker_group_member =
     (case worker_group_member of
        Some member \<Rightarrow> if mem_rpc_port member > 0 then mem_rpc_port member else 50052
      | None \<Rightarrow> 50052)"

definition ManagedLlamaRpcWorkerPort ::
  "DesiredState \<Rightarrow> InstanceSpec \<Rightarrow> WorkerGroupMemberSpec option \<Rightarrow> int" where
  "ManagedLlamaRpcWorkerPort state instance worker_group_member =
     (if UsesLlamaRpcRuntime state \<and> inst_role instance = Worker
      then StableLlamaRpcWorkerPort (st_plane_name state) (inst_name instance)
      else WorkerRpcPort worker_group_member)"

definition IsManagedInferPublishedPort ::
  "DesiredState \<Rightarrow> InstanceSpec \<Rightarrow> PublishedPort \<Rightarrow> bool res" where
  "IsManagedInferPublishedPort state instance port =
     (if inst_role instance \<noteq> Infer \<or> port_host_port port \<noteq> port_container_port port then Inr False
      else res_bind (InferApiPort state instance) (\<lambda>infer_api_port.
           res_bind (InferGatewayPort state instance) (\<lambda>infer_gateway_port.
             Inr (port_host_port port = infer_api_port \<or> port_host_port port = infer_gateway_port \<or>
               port_host_port port = inf_api_port (st_inference state) \<or>
               port_host_port port = gw_listen_port (st_gateway state)))))"

definition IsManagedLlamaRpcWorkerPublishedPort ::
  "DesiredState \<Rightarrow> InstanceSpec \<Rightarrow> WorkerGroupMemberSpec option \<Rightarrow> PublishedPort \<Rightarrow> bool" where
  "IsManagedLlamaRpcWorkerPublishedPort state instance worker_group_member port =
     (if \<not> UsesLlamaRpcRuntime state \<or> inst_role instance \<noteq> Worker \<or>
         port_host_port port \<noteq> port_container_port port then False
      else port_host_port port = ManagedLlamaRpcWorkerPort state instance worker_group_member \<or>
        port_host_port port = 50052)"

definition ContainsPublishedPort :: "PublishedPort list \<Rightarrow> PublishedPort \<Rightarrow> bool" where
  "ContainsPublishedPort ports needle \<longleftrightarrow>
     list_ex (\<lambda>port. port_host_ip port = port_host_ip needle \<and>
       port_host_port port = port_host_port needle \<and>
       port_container_port port = port_container_port needle) ports"

definition AppendUniquePublishedPort :: "PublishedPort list \<Rightarrow> PublishedPort \<Rightarrow> PublishedPort list" where
  "AppendUniquePublishedPort ports port =
     (if ContainsPublishedPort ports port then ports else ports @ [port])"

definition LocalWorkerGpuDevices :: "InstanceSpec list \<Rightarrow> string list" where
  "LocalWorkerGpuDevices node_instances =
     foldl (\<lambda>gpu_devices candidate.
       if inst_role candidate \<noteq> Worker \<or> inst_gpu_device candidate = None \<or>
          inst_gpu_device candidate = Some []
       then gpu_devices
       else if the (inst_gpu_device candidate) \<in> set gpu_devices then gpu_devices
       else gpu_devices @ [the (inst_gpu_device candidate)]) [] node_instances"

definition FindDiskByName :: "DiskSpec list \<Rightarrow> string \<Rightarrow> string \<Rightarrow> DiskSpec res" where
  "FindDiskByName disks node name =
     (case find (\<lambda>disk. disk_name disk = name \<and> disk_node_name disk = node) disks of
        None \<Rightarrow> Inl (RuntimeError
          (''missing disk '' @ quoted name @ '' for node '' @ quoted node))
      | Some disk \<Rightarrow> Inr disk)"

definition FindWorkerGroupMember :: "DesiredState \<Rightarrow> string \<Rightarrow> WorkerGroupMemberSpec option" where
  "FindWorkerGroupMember state name =
     find (\<lambda>member. mem_name member = name) (wg_members (st_worker_group state))"

section \<open>Parts of a service\<close>

definition local_dependencies :: "InstanceSpec \<Rightarrow> InstanceSpec list \<Rightarrow> string list" where
  "local_dependencies instance node_instances =
     filter (\<lambda>dependency. list_ex (\<lambda>candidate. inst_name candidate = dependency) node_instances)
       (inst_depends_on instance)"

definition is_llama_rpc_worker :: "DesiredState \<Rightarrow> InstanceSpec \<Rightarrow> bool" where
  "is_llama_rpc_worker state instance \<longleftrightarrow> UsesLlamaRpcRuntime state \<and> inst_role instance = Worker"

definition service_rpc_port :: "DesiredState \<Rightarrow> InstanceSpec \<Rightarrow> int" where
  "service_rpc_port state instance =
     ManagedLlamaRpcWorkerPort state instance (FindWorkerGroupMember state (inst_name instance))"

definition base_environment :: "DesiredState \<Rightarrow> InstanceSpec \<Rightarrow> (string, string) omap" where
  "base_environment state instance =
     (let environment = omap_put ''NAIM_PLANE_PROTECTED''
            (if st_protected_plane state then ''1'' else ''0'')
            (omap_put ''NAIM_PLANE_NAME'' (st_plane_name state) (inst_environment instance))
      in if is_llama_rpc_worker state instance
         then let rpc_port = service_rpc_port state instance in
              omap_put ''NAIM_WORKER_RPC_ENDPOINT'' (inst_name instance @ '':'' @ to_string rpc_port)
                (omap_put ''NAIM_WORKER_RPC_HOST'' ''0.0.0.0''
                  (omap_put ''NAIM_WORKER_RPC_PORT'' (to_string rpc_port) environment))
         else environment)"

definition rpc_published_ports :: "DesiredState \<Rightarrow> InstanceSpec \<Rightarrow> PublishedPort list" where
  "rpc_published_ports state instance =
     (if is_llama_rpc_worker state instance
      then AppendUniquePublishedPort [] \<lparr>port_host_ip = ''0.0.0.0'',
        port_host_port = service_rpc_port state instance,
        port_container_port = service_rpc_port state instance\<rparr>
      else [])"

fun append_instance_ports ::
  "DesiredState \<Rightarrow> InstanceSpec \<Rightarrow> WorkerGroupMemberSpec option \<Rightarrow> PublishedPort list
   \<Rightarrow> PublishedPort list \<Rightarrow> PublishedPort list res" where
  "append_instance_ports state instance member [] published = Inr published"
| "append_instance_ports state instance member (port # ports) published =
     res_bind (IsManagedInferPublishedPort state instance port) (\<lambda>managed_infer.
       append_instance_ports state instance member ports
         (if managed_infer \<or> IsManagedLlamaRpcWorkerPublishedPort state instance member port
          then published else AppendUniquePublishedPort published port))"

definition service_gpu_devices :: "DesiredState \<Rightarrow> InstanceSpec \<Rightarrow> InstanceSpec list \<Rightarrow> string list" where
  "service_gpu_devices state instance node_instances =
     (if UsesLlamaRpcRuntime state \<and> inst_role instance = Infer
      then LocalWorkerGpuDevices node_instances else [])"

definition service_gpu_device ::
  "DesiredState \<Rightarrow> InstanceSpec \<Rightarrow> InstanceSpec list \<Rightarrow> string option" where
  "service_gpu_device state instance node_instances =
     (let gpu_devices = service_gpu_devices state instance node_instances;
          gpu_device =
            (if UsesLlamaRpcRuntime state \<and> inst_role instance = Infer \<and>
                inst_gpu_device instance = None \<and> gpu_devices \<noteq> []
             then Some (hd gpu_devices) else inst_gpu_device instance)
      in if gpu_device = None \<and> inst_role instance = Infer \<and> \<not> UsesLlamaRpcRuntime state
         then case find (\<lambda>candidate. inst_role candidate = Worker \<and>
                  inst_gpu_device candidate \<noteq> None) node_instances of
                None \<Rightarrow> gpu_device
              | Some worker \<Rightarrow> inst_gpu_device worker
         else gpu_device)"

definition service_healthcheck :: "InstanceRole \<Rightarrow> string" where
  "service_healthcheck role =
     (if role = Infer then
        ''CMD-SHELL /runtime/infer/inferctl.sh probe-url '' @
        ''http://127.0.0.1:$${NAIM_GATEWAY_PORT:-80}/health || '' @
        ''/runtime/infer/inferctl.sh probe-url '' @
        ''http://127.0.0.1:$${NAIM_INFERENCE_PORT:-8000}/health''
      else if role = App then
        ''CMD-SHELL curl -fsS http://127.0.0.1:$${PORT:-8080}/health >/dev/null''
      else if role = VoiceModule then
        ''CMD-SHELL curl -fsS http://127.0.0.1:$${NAIM_VOICE_MODULE_PORT:-18140}/health >/dev/null''
      else if role = VoiceMaker then
        ''CMD-SHELL curl -fsS http://127.0.0.1:$${NAIM_VOICE_MAKER_PORT:-18150}/health >/dev/null''
      else ''CMD-SHELL test -f /tmp/naim-ready'')"

definition append_infer_ports ::
  "DesiredState \<Rightarrow> InstanceSpec \<Rightarrow> PublishedPort list \<Rightarrow> PublishedPort list res" where
  "append_infer_ports state instance published =
     (if inst_role instance = Infer
      then res_bind (InferApiPort state instance) (\<lambda>infer_api_port.
           res_bind (InferGatewayPort state instance) (\<lambda>infer_gateway_port.
             Inr (AppendUniquePublishedPort
               (AppendUniquePublishedPort published \<lparr>port_host_ip = ''127.0.0.1'',
                 port_host_port = infer_api_port, port_container_port = infer_api_port\<rparr>)
               \<lparr>port_host_ip = ''127.0.0.1'', port_host_port = infer_gateway_port,
                port_container_port = infer_gateway_port\<rparr>)))
      else Inr published)"

definition disk_volume :: "DiskSpec list \<Rightarrow> InstanceSpec \<Rightarrow> string \<Rightarrow> ComposeVolume list res" where
  "disk_volume disks instance name =
     (if name = [] then Inr []
      else res_bind (FindDiskByName disks (inst_node_name instance) name) (\<lambda>disk.
        Inr [\<lparr>vol_source = disk_host_path disk, vol_target = disk_container_path disk,
          vol_read_only = False\<rparr>]))"

definition model_mount_volumes :: "InstanceSpec \<Rightarrow> ComposeVolume list" where
  "model_mount_volumes instance =
     map (\<lambda>mount. \<lparr>vol_source = mount_host_path mount, vol_target = mount_mount_path mount,
         vol_read_only = True\<rparr>)
       (filter (\<lambda>mount. mount_host_path mount \<noteq> [] \<and> mount_mount_path mount \<noteq> [])
         (inst_app_model_mounts instance))"

section \<open>The service and the plans\<close>

definition BuildComposeService ::
  "string option \<Rightarrow> InstanceSpec \<Rightarrow> DiskSpec list \<Rightarrow> InstanceSpec list \<Rightarrow> DesiredState
   \<Rightarrow> ComposeService res" where
  "BuildComposeService internal_host instance disks node_instances state =
     (let use_llama_rpc = UsesLlamaRpcRuntime state;
          member = (if inst_role instance = Worker
            then FindWorkerGroupMember state (inst_name instance) else None);
          environment = base_environment state instance;
          browsing_opts = (if inst_role instance = Browsing
            then [''no-new-privileges:true'', ''apparmor=unconfined'', ''seccomp=unconfined'']
            else []);
          gpu_devices = service_gpu_devices state instance node_instances;
          gpu_device = service_gpu_device state instance node_instances;
          environment =
            (case gpu_device of
               Some device \<Rightarrow>
                 omap_put ''NVIDIA_VISIBLE_DEVICES''
                   (if gpu_devices = [] then device else JoinStrings gpu_devices '','')
                   (omap_put ''NVIDIA_DRIVER_CAPABILITIES'' ''compute,utility''
                     (omap_put ''NAIM_GPU_DEVICE'' device environment))
             | None \<Rightarrow>
                 if use_llama_rpc \<and> inst_role instance = Infer
                 then omap_put ''NVIDIA_DRIVER_CAPABILITIES'' ''compute,utility''
                   (omap_put ''NVIDIA_VISIBLE_DEVICES'' ''none'' environment)
                 else environment);
          uses_gpu = (gpu_device \<noteq> None \<or> use_llama_rpc \<and> inst_role instance = Infer)
      in
        res_bind (append_instance_ports state instance member (inst_published_ports instance)
          (rpc_published_ports state instance)) (\<lambda>published.
        res_bind (append_infer_ports state instance published) (\<lambda>published.
        res_bind (disk_volume disks instance (inst_shared_disk_name instance)) (\<lambda>shared_volume.
        res_bind (disk_volume disks instance (inst_private_disk_name instance)) (\<lambda>private_volume.
          Inr \<lparr>
            svc_name = inst_name instance,
            svc_image = inst_image instance,
            svc_command = inst_command instance,
            svc_depends_on = local_dependencies instance node_instances,
            svc_environment = environment,
            svc_labels = inst_labels instance,
            svc_volumes = shared_volume @ private_volume @
              (case BuildDirectModelCacheVolume state instance of None \<Rightarrow> [] | Some v \<Rightarrow> [v]) @
              model_mount_volumes instance,
            svc_published_ports = published,
            svc_extra_hosts = DefaultComposeExtraHosts internal_host,
            svc_security_opts = browsing_opts @ (if uses_gpu then [''apparmor=unconfined''] else []),
            svc_privileged = (inst_role instance = Browsing),
            svc_use_nvidia_runtime = uses_gpu,
            svc_gpu_device = gpu_device,
            svc_gpu_devices = gpu_devices,
            svc_shm_size = None,
            svc_healthcheck = service_healthcheck (inst_role instance)\<rparr>)))))"

definition node_instances_of :: "DesiredState \<Rightarrow> NodeInventory \<Rightarrow> InstanceSpec list" where
  "node_instances_of state node =
     filter (\<lambda>instance. inst_node_name instance = node_name node) (st_instances state)"

definition node_compose_plan ::
  "string option \<Rightarrow> DesiredState \<Rightarrow> NodeInventory \<Rightarrow> NodeComposePlan res" where
  "node_compose_plan internal_host state node =
     (let node_instances = node_instances_of state node in
      res_bind (res_map_list
          (\<lambda>instance. BuildComposeService internal_host instance (st_disks state) node_instances state)
          node_instances)
        (\<lambda>services. Inr \<lparr>ncp_plane_name = st_plane_name state, ncp_node_name = node_name node,
          ncp_disks = filter (\<lambda>disk. disk_node_name disk = node_name node) (st_disks state),
          ncp_services = services\<rparr>))"

definition BuildNodeComposePlans :: "string option \<Rightarrow> DesiredState \<Rightarrow> NodeComposePlan list res" where
  "BuildNodeComposePlans internal_host state =
     res_map_list (node_compose_plan internal_host state) (st_nodes state)"

definition FindNodeComposePlan ::
  "string option \<Rightarrow> DesiredState \<Rightarrow> string \<Rightarrow> NodeComposePlan option res" where
  "FindNodeComposePlan internal_host state node =
     res_bind (BuildNodeComposePlans internal_host state)
       (\<lambda>plans. Inr (find (\<lambda>plan. ncp_node_name plan = node) plans))"

section \<open>Published ports\<close>

lemma ContainsPublishedPort_iff [simp]: "ContainsPublishedPort ports p \<longleftrightarrow> p \<in> set ports"
proof -
  have "(port_host_ip q = port_host_ip p \<and> port_host_port q = port_host_port p \<and>
      port_container_port q = port_container_port p) \<longleftrightarrow> q = p" for q :: PublishedPort
    by (cases q, cases p) simp
  then show ?thesis by (simp add: ContainsPublishedPort_def list_ex_iff)
qed

lemma AppendUniquePublishedPort_set [simp]:
  "set (AppendUniquePublishedPort ports p) = insert p (set ports)"
  by (auto simp: AppendUniquePublishedPort_def)

lemma AppendUniquePublishedPort_distinct [simp]:
  "distinct ports \<Longrightarrow> distinct (AppendUniquePublishedPort ports p)"
  by (simp add: AppendUniquePublishedPort_def)

lemma append_instance_ports_set:
  "append_instance_ports s i m ports acc = Inr out \<Longrightarrow>
   set out = set acc \<union> {p \<in> set ports. IsManagedInferPublishedPort s i p = Inr False \<and>
     \<not> IsManagedLlamaRpcWorkerPublishedPort s i m p}"
proof (induction ports arbitrary: acc)
  case (Cons p ports)
  then obtain b where "IsManagedInferPublishedPort s i p = Inr b"
    "append_instance_ports s i m ports
      (if b \<or> IsManagedLlamaRpcWorkerPublishedPort s i m p then acc
       else AppendUniquePublishedPort acc p) = Inr out"
    by (auto simp: res_bind_Inr_iff)
  with Cons.IH[OF this(2)] show ?case by auto
qed simp

lemma append_instance_ports_distinct:
  "append_instance_ports s i m ports acc = Inr out \<Longrightarrow> distinct acc \<Longrightarrow> distinct out"
  by (induction ports arbitrary: acc) (auto simp: res_bind_Inr_iff split: if_splits)

lemma append_instance_ports_managed:
  "append_instance_ports s i m ports acc = Inr out \<Longrightarrow>
   filter (IsManagedLlamaRpcWorkerPublishedPort s i m) out =
   filter (IsManagedLlamaRpcWorkerPublishedPort s i m) acc"
proof (induction ports arbitrary: acc)
  case (Cons p ports)
  then obtain b where "append_instance_ports s i m ports
      (if b \<or> IsManagedLlamaRpcWorkerPublishedPort s i m p then acc
       else AppendUniquePublishedPort acc p) = Inr out"
    by (auto simp: res_bind_Inr_iff)
  from Cons.IH[OF this] show ?case by (auto simp: AppendUniquePublishedPort_def)
qed simp

section \<open>When a service can be built\<close>

definition port_text_ok :: "(string, string) omap \<Rightarrow> string \<Rightarrow> bool" where
  "port_text_ok environment key =
     (case omap_get environment key of
        None \<Rightarrow> True
      | Some v \<Rightarrow> v = [] \<or> (case stoi v of Inl _ \<Rightarrow> False | Inr _ \<Rightarrow> True))"

definition disk_known :: "DiskSpec list \<Rightarrow> InstanceSpec \<Rightarrow> string \<Rightarrow> bool" where
  "disk_known disks i name \<longleftrightarrow> name = [] \<or>
     list_ex (\<lambda>d. disk_name d = name \<and> disk_node_name d = inst_node_name i) disks"

definition instance_composable :: "DiskSpec list \<Rightarrow> InstanceSpec \<Rightarrow> bool" where
  "instance_composable disks i \<longleftrightarrow>
     disk_known disks i (inst_shared_disk_name i) \<and> disk_known disks i (inst_private_disk_name i) \<and>
     (if inst_role i = Infer
      then port_text_ok (inst_environment i) ''NAIM_INFERENCE_PORT'' \<and>
        port_text_ok (inst_environment i) ''NAIM_GATEWAY_PORT''
      else True)"

lemma IntEnvValue_ok: "(\<exists>v. IntEnvValue e k = Inr v) \<longleftrightarrow> port_text_ok e k"
  by (auto simp: IntEnvValue_def port_text_ok_def res_bind_def split: option.splits sum.splits)

lemma infer_ports_ok:
  "(\<exists>p. InferApiPort s i = Inr p) \<longleftrightarrow> port_text_ok (inst_environment i) ''NAIM_INFERENCE_PORT''"
  "(\<exists>p. InferGatewayPort s i = Inr p) \<longleftrightarrow> port_text_ok (inst_environment i) ''NAIM_GATEWAY_PORT''"
  by (simp_all add: InferApiPort_def InferGatewayPort_def res_bind_Inr_iff IntEnvValue_ok)

lemma disk_volume_ok: "(\<exists>v. disk_volume disks i name = Inr v) \<longleftrightarrow> disk_known disks i name"
  by (auto simp: disk_volume_def disk_known_def FindDiskByName_def res_bind_Inr_iff list_ex_iff
      find_None_iff find_Some_iff split: option.splits)

lemma append_instance_ports_ok:
  assumes "\<And>p. \<exists>b. IsManagedInferPublishedPort s i p = Inr b"
  shows "\<exists>out. append_instance_ports s i m ports acc = Inr out"
proof (induction ports arbitrary: acc)
  case (Cons p ports)
  then show ?case using assms[of p] by auto
qed simp

lemma IsManagedInferPublishedPort_ok:
  assumes "if inst_role i = Infer
    then port_text_ok (inst_environment i) ''NAIM_INFERENCE_PORT'' \<and>
      port_text_ok (inst_environment i) ''NAIM_GATEWAY_PORT'' else True"
  shows "\<exists>b. IsManagedInferPublishedPort s i p = Inr b"
  using assms infer_ports_ok[of s i]
  by (auto simp: IsManagedInferPublishedPort_def res_bind_Inr_iff split: if_splits)

lemma append_infer_ports_ok:
  "(\<exists>out. append_infer_ports s i ports = Inr out) \<longleftrightarrow>
   (if inst_role i = Infer
    then port_text_ok (inst_environment i) ''NAIM_INFERENCE_PORT'' \<and>
      port_text_ok (inst_environment i) ''NAIM_GATEWAY_PORT'' else True)"
  using infer_ports_ok[of s i] by (auto simp: append_infer_ports_def res_bind_Inr_iff)

lemma BuildComposeService_ok:
  "(\<exists>svc. BuildComposeService h i disks nis s = Inr svc) \<longleftrightarrow> instance_composable disks i"
proof
  assume "\<exists>svc. BuildComposeService h i disks nis s = Inr svc"
  then obtain ports ports' v w where "append_infer_ports s i ports = Inr ports'"
    "disk_volume disks i (inst_shared_disk_name i) = Inr v"
    "disk_volume disks i (inst_private_disk_name i) = Inr w"
    unfolding BuildComposeService_def Let_def res_bind_Inr_iff by blast
  then show "instance_composable disks i"
    using append_infer_ports_ok[of s i ports] disk_volume_ok[of disks i]
    unfolding instance_composable_def by blast
next
  assume ok: "instance_composable disks i"
  let ?m = "if inst_role i = Worker then FindWorkerGroupMember s (inst_name i) else None"
  obtain ports where ports: "append_instance_ports s i ?m (inst_published_ports i)
      (rpc_published_ports s i) = Inr ports"
    using append_instance_ports_ok IsManagedInferPublishedPort_ok ok
    unfolding instance_composable_def by metis
  moreover obtain ports' where "append_infer_ports s i ports = Inr ports'"
    using append_infer_ports_ok[of s i ports] ok unfolding instance_composable_def by blast
  moreover obtain v w where "disk_volume disks i (inst_shared_disk_name i) = Inr v"
    "disk_volume disks i (inst_private_disk_name i) = Inr w"
    using disk_volume_ok[of disks i] ok unfolding instance_composable_def by blast
  ultimately show "\<exists>svc. BuildComposeService h i disks nis s = Inr svc"
    by (simp add: BuildComposeService_def Let_def)
qed

section \<open>The fields of a service\<close>

lemma BuildComposeService_fields:
  assumes "BuildComposeService h i disks nis s = Inr svc"
  obtains ports where
    "append_instance_ports s i (if inst_role i = Worker then FindWorkerGroupMember s (inst_name i)
       else None) (inst_published_ports i) (rpc_published_ports s i) = Inr ports"
    "append_infer_ports s i ports = Inr (svc_published_ports svc)"
    "svc_name svc = inst_name i"
    "svc_depends_on svc = local_dependencies i nis"
    "\<And>k. k \<notin> {''NAIM_GPU_DEVICE'', ''NVIDIA_DRIVER_CAPABILITIES'', ''NVIDIA_VISIBLE_DEVICES''} \<Longrightarrow>
       omap_get (svc_environment svc) k = omap_get (base_environment s i) k"
  using assms unfolding BuildComposeService_def Let_def res_bind_Inr_iff
  by (auto split: option.splits)

lemma append_infer_ports_distinct:
  "append_infer_ports s i ports = Inr out \<Longrightarrow> distinct ports \<Longrightarrow> distinct out"
  by (auto simp: append_infer_ports_def res_bind_Inr_iff split: if_splits)

lemma BuildComposeService_ports_distinct:
  assumes "BuildComposeService h i disks nis s = Inr svc"
  shows "distinct (svc_published_ports svc)"
proof -
  obtain ports where ports:
    "append_instance_ports s i (if inst_role i = Worker then FindWorkerGroupMember s (inst_name i)
       else None) (inst_published_ports i) (rpc_published_ports s i) = Inr ports"
    "append_infer_ports s i ports = Inr (svc_published_ports svc)"
    by (rule BuildComposeService_fields[OF assms])
  have "distinct (rpc_published_ports s i)" by (simp add: rpc_published_ports_def)
  with append_instance_ports_distinct[OF ports(1)] have "distinct ports" .
  with append_infer_ports_distinct[OF ports(2)] show ?thesis .
qed
section \<open>Properties\<close>

lemma filter_singleton:
  assumes "distinct xs" "{y \<in> set xs. P y} = {x}"
  shows "filter P xs = [x]"
proof -
  have "distinct (filter P xs)" "set (filter P xs) = {x}" using assms by auto
  then show ?thesis
    by (metis List.finite_set card_1_singleton_iff distinct_card length_Suc_conv length_0_conv
        list.set(1,2) One_nat_def the_elem_eq singleton_insert_inj_eq)
qed

lemma service_infer_ports:
  assumes build: "BuildComposeService h i disks nis s = Inr svc" and infer: "inst_role i = Infer"
    and api: "InferApiPort s i = Inr a" and gateway: "InferGatewayPort s i = Inr g"
  defines "loopback p \<equiv> \<lparr>port_host_ip = ''127.0.0.1'', port_host_port = p, port_container_port = p\<rparr>"
  shows "set (svc_published_ports svc) = {loopback a, loopback g} \<union>
     {p \<in> set (inst_published_ports i). IsManagedInferPublishedPort s i p = Inr False}"
proof -
  obtain ports where ports:
    "append_instance_ports s i (if inst_role i = Worker then FindWorkerGroupMember s (inst_name i)
       else None) (inst_published_ports i) (rpc_published_ports s i) = Inr ports"
    "append_infer_ports s i ports = Inr (svc_published_ports svc)"
    by (rule BuildComposeService_fields[OF build])
  have "set ports = {p \<in> set (inst_published_ports i). IsManagedInferPublishedPort s i p = Inr False}"
    using append_instance_ports_set[OF ports(1)] infer
    by (simp add: rpc_published_ports_def is_llama_rpc_worker_def
        IsManagedLlamaRpcWorkerPublishedPort_def)
  moreover have "svc_published_ports svc =
      AppendUniquePublishedPort (AppendUniquePublishedPort ports (loopback a)) (loopback g)"
    using ports(2) infer api gateway by (simp add: append_infer_ports_def loopback_def)
  ultimately show ?thesis by auto
qed


lemma rpc_worker_fields:
  assumes "BuildComposeService h i disks nis s = Inr svc"
    and "UsesLlamaRpcRuntime s" "inst_role i = Worker"
  defines "port \<equiv> StableLlamaRpcWorkerPort (st_plane_name s) (inst_name i)"
  shows "filter (\<lambda>p. port_host_port p = port_container_port p \<and> port_host_port p \<in> {port, 50052})
      (svc_published_ports svc) =
      [\<lparr>port_host_ip = ''0.0.0.0'', port_host_port = port, port_container_port = port\<rparr>] \<and>
    omap_get (svc_environment svc) ''NAIM_WORKER_RPC_PORT'' = Some (to_string port) \<and>
    omap_get (svc_environment svc) ''NAIM_WORKER_RPC_ENDPOINT'' =
      Some (inst_name i @ '':'' @ to_string port)"
proof -
  obtain ports where ports:
    "append_instance_ports s i (if inst_role i = Worker then FindWorkerGroupMember s (inst_name i)
       else None) (inst_published_ports i) (rpc_published_ports s i) = Inr ports"
    "append_infer_ports s i ports = Inr (svc_published_ports svc)" and
    env: "\<And>k. k \<notin> {''NAIM_GPU_DEVICE'', ''NVIDIA_DRIVER_CAPABILITIES'', ''NVIDIA_VISIBLE_DEVICES''} \<Longrightarrow>
       omap_get (svc_environment svc) k = omap_get (base_environment s i) k"
    by (rule BuildComposeService_fields[OF assms(1)]) blast
  have port: "service_rpc_port s i = port"
    using assms(2,3) by (simp add: service_rpc_port_def ManagedLlamaRpcWorkerPort_def port_def)
  have managed: "IsManagedLlamaRpcWorkerPublishedPort s i m =
      (\<lambda>p. port_host_port p = port_container_port p \<and> port_host_port p \<in> {port, 50052})" for m
    using assms(2,3) by (auto simp: IsManagedLlamaRpcWorkerPublishedPort_def
        ManagedLlamaRpcWorkerPort_def port_def fun_eq_iff)
  have "svc_published_ports svc = ports" using ports(2) assms(3) by (simp add: append_infer_ports_def)
  then show ?thesis
    using append_instance_ports_managed[OF ports(1)] assms(2,3) env
    unfolding managed
    by (simp add: rpc_published_ports_def is_llama_rpc_worker_def port base_environment_def Let_def
        AppendUniquePublishedPort_def)
qed

text \<open>
  A worker of the distributed llama.cpp runtime publishes its stable RPC port once, on all
  addresses; no other entry for that port or for the conventional port 50052 is left, and the
  environment of the container names the published port.
\<close>

lemma rpc_worker_service:
  assumes "BuildComposeService h i disks nis s = Inr svc"
    and "UsesLlamaRpcRuntime s" "inst_role i = Worker"
  defines "port \<equiv> StableLlamaRpcWorkerPort (st_plane_name s) (inst_name i)"
  shows "filter (\<lambda>p. port_host_port p = port_container_port p \<and> port_host_port p \<in> {port, 50052})
      (svc_published_ports svc) =
      [\<lparr>port_host_ip = ''0.0.0.0'', port_host_port = port, port_container_port = port\<rparr>] \<and>
    omap_get (svc_environment svc) ''NAIM_WORKER_RPC_PORT'' = Some (to_string port) \<and>
    omap_get (svc_environment svc) ''NAIM_WORKER_RPC_ENDPOINT'' =
      Some (inst_name i @ '':'' @ to_string port)"
  using rpc_worker_fields[OF assms(1-3)] unfolding port_def .

definition sample_compose_infer :: InstanceSpec where
  "sample_compose_infer = (default_InstanceSpec Infer)\<lparr>inst_name := ''infer'', inst_node_name := ''n1'',
     inst_environment := [(''NAIM_INFERENCE_PORT'', ''8081'')],
     inst_published_ports := [\<lparr>port_host_ip = ''0.0.0.0'', port_host_port = 8081,
       port_container_port = 8081\<rparr>]\<rparr>"

definition sample_compose_worker :: InstanceSpec where
  "sample_compose_worker = (default_InstanceSpec Worker)\<lparr>inst_name := ''w1'', inst_node_name := ''n1'',
     inst_depends_on := [''infer'', ''elsewhere''],
     inst_published_ports := [\<lparr>port_host_ip = ''127.0.0.1'', port_host_port = 50052,
       port_container_port = 50052\<rparr>]\<rparr>"

definition sample_compose_state :: DesiredState where
  "sample_compose_state = default_DesiredState\<lparr>st_plane_name := ''plane'',
     st_inference := default_InferenceRuntimeSettings\<lparr>inf_runtime_engine := ''llama.cpp'',
       inf_distributed_backend := ''llama_rpc''\<rparr>,
     st_nodes := [default_NodeInventory\<lparr>node_name := ''n1''\<rparr>],
     st_instances := [sample_compose_infer, sample_compose_worker]\<rparr>"

lemma sample_port: "stoi ''8081'' = Inr 8081"
  by code_simp

lemma sample_composable:
  "instance_composable [] sample_compose_infer" "instance_composable [] sample_compose_worker"
  by (simp_all add: instance_composable_def disk_known_def sample_compose_infer_def
      sample_compose_worker_def default_InstanceSpec_def port_text_ok_def sample_port)

lemma sample_infer_ports:
  "InferApiPort sample_compose_state sample_compose_infer = Inr 8081"
  "InferGatewayPort sample_compose_state sample_compose_infer = Inr 80"
  by (simp_all add: InferApiPort_def InferGatewayPort_def IntEnvValue_def sample_compose_infer_def
      sample_compose_state_def default_InstanceSpec_def default_DesiredState_def
      default_GatewaySettings_def sample_port value_or_def)


lemma res_map_list_ok: "(\<exists>ys. res_map_list f xs = Inr ys) \<longleftrightarrow> list_all (\<lambda>x. \<exists>y. f x = Inr y) xs"
  by (induction xs) (auto simp: res_bind_Inr_iff)

lemma node_compose_plan_ok:
  "(\<exists>plan. node_compose_plan h s n = Inr plan) \<longleftrightarrow>
   list_all (instance_composable (st_disks s)) (node_instances_of s n)"
proof -
  have "(\<exists>plan. node_compose_plan h s n = Inr plan) \<longleftrightarrow> (\<exists>ys. res_map_list
      (\<lambda>i. BuildComposeService h i (st_disks s) (node_instances_of s n) s) (node_instances_of s n) = Inr ys)"
    by (auto simp: node_compose_plan_def Let_def res_bind_Inr_iff)
  then show ?thesis by (simp only: res_map_list_ok BuildComposeService_ok)
qed

lemma BuildNodeComposePlans_ok:
  "(\<exists>plans. BuildNodeComposePlans h s = Inr plans) \<longleftrightarrow>
   list_all (\<lambda>n. list_all (instance_composable (st_disks s)) (node_instances_of s n)) (st_nodes s)"
  unfolding BuildNodeComposePlans_def by (simp only: res_map_list_ok node_compose_plan_ok)

text \<open>
  \<^bold>\<open>C35.\<close> The plans of a state exist exactly when every instance placed on a listed node finds its
  disks and, for an infer instance, the two port variables are absent, empty or numbers.
\<close>

theorem BuildNodeComposePlans_defined:
  "(\<exists>plans. BuildNodeComposePlans h s = Inr plans) \<longleftrightarrow>
   list_all (\<lambda>n. list_all (instance_composable (st_disks s)) (node_instances_of s n)) (st_nodes s)"
  by (rule BuildNodeComposePlans_ok)


end
