(* ===== verification/Naim_Compose_Renderer.thy ===== *)
theory Naim_Compose_Renderer
  imports Naim_Models Naim_Std_Lib
begin

text \<open>
  The compose renderer of \<open>common/src/planning/compose_renderer.cpp\<close>: escaping for double
  quoted YAML scalars, splitting of shell commands and the compose file of a node.
\<close>

section \<open>Scalars\<close>

abbreviation backslash :: char where "backslash \<equiv> CHR 0x5C"
abbreviation double_quote :: char where "double_quote \<equiv> CHR 0x22"
abbreviation single_quote :: char where "single_quote \<equiv> CHR 0x27"

definition escape_char :: "char \<Rightarrow> string" where
  "escape_char ch =
     (if ch = backslash then [backslash, backslash]
      else if ch = double_quote then [backslash, double_quote]
      else if ch = CHR 0x0A then [backslash, CHR ''n'']
      else if ch = CHR 0x0D then [backslash, CHR ''r'']
      else if ch = CHR 0x09 then [backslash, CHR ''t'']
      else [ch])"

definition EscapeYamlDoubleQuoted :: "string \<Rightarrow> string" where
  "EscapeYamlDoubleQuoted s = concat (map escape_char s)"

definition double_quoted :: "string \<Rightarrow> string" where
  "double_quoted s = double_quote # s @ [double_quote]"

definition RenderKeyValueMap :: "string \<Rightarrow> (string, string) omap \<Rightarrow> string" where
  "RenderKeyValueMap indent values =
     concat (map (\<lambda>(key, v).
       indent @ key @ '': '' @ double_quoted (EscapeYamlDoubleQuoted v) @ newline) values)"

definition RenderHealthcheckTest :: "string \<Rightarrow> string \<Rightarrow> string" where
  "RenderHealthcheckTest indent healthcheck =
     (if healthcheck = ''NONE'' then indent @ ''test: ['' @ double_quoted ''NONE'' @ '']'' @ newline
      else if starts_with ''CMD-SHELL '' healthcheck
      then indent @ ''test: ['' @ double_quoted ''CMD-SHELL'' @ '', '' @
        double_quoted (EscapeYamlDoubleQuoted (drop (length ''CMD-SHELL '') healthcheck)) @
        '']'' @ newline
      else if starts_with ''CMD '' healthcheck
      then indent @ ''test: ['' @ double_quoted ''CMD'' @ '', '' @
        double_quoted (EscapeYamlDoubleQuoted (drop (length ''CMD '') healthcheck)) @
        '']'' @ newline
      else indent @ ''test: ['' @ double_quoted ''CMD-SHELL'' @ '', '' @
        double_quoted (EscapeYamlDoubleQuoted healthcheck) @ '']'' @ newline)"

definition UniqueGpuDevices :: "string list \<Rightarrow> string list" where
  "UniqueGpuDevices gpu_devices =
     foldl (\<lambda>result gpu_device.
       if gpu_device \<in> set result then result else result @ [gpu_device]) [] gpu_devices"

section \<open>Commands\<close>

record split_state =
  sp_tokens :: "string list"
  sp_current :: string
  sp_in_single_quotes :: bool
  sp_in_double_quotes :: bool
  sp_escape_next :: bool

definition split_init :: split_state where
  "split_init = \<lparr>sp_tokens = [], sp_current = [], sp_in_single_quotes = False,
     sp_in_double_quotes = False, sp_escape_next = False\<rparr>"

definition split_step :: "char \<Rightarrow> split_state \<Rightarrow> split_state" where
  "split_step ch s =
     (if sp_escape_next s
      then s\<lparr>sp_current := sp_current s @ [ch], sp_escape_next := False\<rparr>
      else if ch = backslash \<and> \<not> sp_in_single_quotes s then s\<lparr>sp_escape_next := True\<rparr>
      else if ch = single_quote \<and> \<not> sp_in_double_quotes s
      then s\<lparr>sp_in_single_quotes := \<not> sp_in_single_quotes s\<rparr>
      else if ch = double_quote \<and> \<not> sp_in_single_quotes s
      then s\<lparr>sp_in_double_quotes := \<not> sp_in_double_quotes s\<rparr>
      else if \<not> sp_in_single_quotes s \<and> \<not> sp_in_double_quotes s \<and> is_space ch
      then if sp_current s \<noteq> []
           then s\<lparr>sp_tokens := sp_tokens s @ [sp_current s], sp_current := []\<rparr> else s
      else s\<lparr>sp_current := sp_current s @ [ch]\<rparr>)"

definition split_finish :: "string \<Rightarrow> split_state \<Rightarrow> string list" where
  "split_finish command s =
     (let current = (if sp_escape_next s then sp_current s @ [backslash] else sp_current s);
          tokens = (if current \<noteq> [] then sp_tokens s @ [current] else sp_tokens s)
      in if tokens = [] \<and> command \<noteq> [] then tokens @ [command] else tokens)"

definition SplitCommandTokens :: "string \<Rightarrow> string list" where
  "SplitCommandTokens command = split_finish command (fold split_step command split_init)"

definition RenderCommand :: "string \<Rightarrow> string \<Rightarrow> string" where
  "RenderCommand indent command =
     indent @ ''command: ['' @
     JoinStrings (map (\<lambda>token. double_quoted (EscapeYamlDoubleQuoted token))
       (SplitCommandTokens command)) '', '' @
     '']'' @ newline"

section \<open>The compose file\<close>

definition yaml_list :: "string \<Rightarrow> ('a \<Rightarrow> string) \<Rightarrow> 'a list \<Rightarrow> string" where
  "yaml_list heading render items =
     (if items = [] then [] else ''    '' @ heading @ newline @ concat (map render items))"

definition yaml_item :: "string \<Rightarrow> string" where
  "yaml_item s = ''      - '' @ s @ newline"

definition render_volume :: "ComposeVolume \<Rightarrow> string" where
  "render_volume volume =
     ''      - type: bind'' @ newline @
     ''        source: '' @ vol_source volume @ newline @
     ''        target: '' @ vol_target volume @ newline @
     (if vol_read_only volume then ''        read_only: true'' @ newline else [])"

definition render_port :: "PublishedPort \<Rightarrow> string" where
  "render_port port = yaml_item (double_quoted (port_host_ip port @ '':'' @
     to_string (port_host_port port) @ '':'' @ to_string (port_container_port port)))"

definition service_device_list :: "ComposeService \<Rightarrow> string list" where
  "service_device_list service =
     (let gpu_devices = UniqueGpuDevices (svc_gpu_devices service) in
      if gpu_devices = [] then (case svc_gpu_device service of None \<Rightarrow> [] | Some d \<Rightarrow> [d])
      else gpu_devices)"

definition render_gpus :: "string list \<Rightarrow> string" where
  "render_gpus gpu_devices =
     (if gpu_devices = [] then []
      else
        let device_ids = JoinStrings (map double_quoted gpu_devices) '', '' in
        ''    gpus:'' @ newline @
        ''      - driver: nvidia'' @ newline @
        ''        device_ids: ['' @ device_ids @ '']'' @ newline @
        ''    deploy:'' @ newline @
        ''      resources:'' @ newline @
        ''        reservations:'' @ newline @
        ''          devices:'' @ newline @
        ''            - driver: nvidia'' @ newline @
        ''              device_ids: ['' @ device_ids @ '']'' @ newline @
        ''              capabilities: [gpu]'' @ newline)"

definition render_service :: "ComposeService \<Rightarrow> string" where
  "render_service service =
     ''  '' @ svc_name service @ '':'' @ newline @
     ''    image: '' @ svc_image service @ newline @
     RenderCommand ''    '' (svc_command service) @
     ''    restart: unless-stopped'' @ newline @
     yaml_list ''depends_on:'' yaml_item (svc_depends_on service) @
     (if svc_environment service \<noteq> []
      then ''    environment:'' @ newline @ RenderKeyValueMap ''      '' (svc_environment service)
      else []) @
     (if svc_labels service \<noteq> []
      then ''    labels:'' @ newline @ RenderKeyValueMap ''      '' (svc_labels service) else []) @
     yaml_list ''security_opt:'' yaml_item (svc_security_opts service) @
     (if svc_privileged service then ''    privileged: true'' @ newline else []) @
     yaml_list ''extra_hosts:'' (\<lambda>host. yaml_item (double_quoted host)) (svc_extra_hosts service) @
     (if svc_use_nvidia_runtime service then ''    runtime: nvidia'' @ newline else []) @
     (case svc_shm_size service of None \<Rightarrow> []
      | Some shm \<Rightarrow> if shm = [] then [] else ''    shm_size: '' @ shm @ newline) @
     yaml_list ''volumes:'' render_volume (svc_volumes service) @
     yaml_list ''ports:'' render_port (svc_published_ports service) @
     ''    networks:'' @ newline @
     ''      plane-mesh:'' @ newline @
     ''        aliases:'' @ newline @
     ''          - '' @ svc_name service @ newline @
     render_gpus (service_device_list service) @
     ''    healthcheck:'' @ newline @
     RenderHealthcheckTest ''      '' (svc_healthcheck service) @
     ''      interval: 15s'' @ newline @
     ''      timeout: 5s'' @ newline @
     ''      retries: 10'' @ newline"

definition RenderComposeYaml :: "NodeComposePlan \<Rightarrow> string" where
  "RenderComposeYaml plan =
     ''name: naim-'' @ ncp_plane_name plan @ ''-'' @ ncp_node_name plan @ newline @
     ''services:'' @ newline @
     concat (map render_service (ncp_services plan)) @
     ''networks:'' @ newline @
     ''  plane-mesh:'' @ newline @
     ''    external: true'' @ newline @
     ''    name: naim-'' @ ncp_plane_name plan @ ''-mesh'' @ newline"

section \<open>Reading the scalars back\<close>

text \<open>
  A reader of YAML double quoted scalars, restricted to the escapes the renderer writes: it
  takes the text after the opening quote and returns the value with the text after the
  closing quote. Other escapes and an unescaped line break are rejected.
\<close>

fun read_double_quoted :: "string \<Rightarrow> (string \<times> string) option" where
  "read_double_quoted [] = None"
| "read_double_quoted (c # cs) =
     (if c = double_quote then Some ([], cs)
      else if c = backslash then
        (case cs of
           [] \<Rightarrow> None
         | e # rest \<Rightarrow>
             (case map_of [(backslash, backslash), (double_quote, double_quote),
                 (CHR ''n'', CHR 0x0A), (CHR ''r'', CHR 0x0D), (CHR ''t'', CHR 0x09)] e of
                None \<Rightarrow> None
              | Some d \<Rightarrow> map_option (\<lambda>(v, r). (d # v, r)) (read_double_quoted rest)))
      else if c = CHR 0x0A \<or> c = CHR 0x0D then None
      else map_option (\<lambda>(v, r). (c # v, r)) (read_double_quoted cs))"

declare read_double_quoted.simps [simp del]

lemma read_escape_char:
  "read_double_quoted (escape_char c @ s) = map_option (\<lambda>(v, r). (c # v, r)) (read_double_quoted s)"
  by (simp add: escape_char_def read_double_quoted.simps)

lemma read_escaped:
  "read_double_quoted (EscapeYamlDoubleQuoted v @ double_quote # rest) = Some (v, rest)"
proof (induction v)
  case Nil
  then show ?case by (simp add: EscapeYamlDoubleQuoted_def read_double_quoted.simps)
next
  case (Cons c v)
  have "EscapeYamlDoubleQuoted (c # v) = escape_char c @ EscapeYamlDoubleQuoted v"
    by (simp add: EscapeYamlDoubleQuoted_def)
  with Cons show ?case by (simp add: read_escape_char)
qed


section \<open>Splitting commands\<close>

definition single_quoted :: "string \<Rightarrow> string" where
  "single_quoted s = single_quote # s @ [single_quote]"

lemma split_in_single_quotes:
  assumes "single_quote \<notin> set s" "sp_in_single_quotes st" "\<not> sp_escape_next st" "\<not> sp_in_double_quotes st"
  shows "fold split_step s st = st\<lparr>sp_current := sp_current st @ s\<rparr>"
  using assms
proof (induction s arbitrary: st)
  case (Cons c s)
  have "split_step c st = st\<lparr>sp_current := sp_current st @ [c]\<rparr>"
    using Cons.prems by (auto simp: split_step_def)
  then show ?case using Cons.IH[of "st\<lparr>sp_current := sp_current st @ [c]\<rparr>"] Cons.prems by simp
qed simp

abbreviation plain :: "string list \<Rightarrow> string \<Rightarrow> split_state" where
  "plain tokens current \<equiv> \<lparr>sp_tokens = tokens, sp_current = current, sp_in_single_quotes = False,
     sp_in_double_quotes = False, sp_escape_next = False\<rparr>"

lemma split_single_quoted:
  assumes "single_quote \<notin> set t"
  shows "fold split_step (single_quoted t) (plain tokens []) = plain tokens t"
  using split_in_single_quotes[OF assms, of "(plain tokens [])\<lparr>sp_in_single_quotes := True\<rparr>"]
  by (simp add: single_quoted_def split_step_def)

lemma split_space: "current \<noteq> [] \<Longrightarrow> split_step CHR '' '' (plain tokens current) = plain (tokens @ [current]) []"
  by (simp add: split_step_def is_space_def)

lemma split_words:
  assumes "list_all (\<lambda>t. t \<noteq> [] \<and> single_quote \<notin> set t) (ts @ [t])"
  shows "fold split_step (JoinStrings (map single_quoted (ts @ [t])) '' '') (plain acc []) =
    plain (acc @ ts) t"
  using assms
proof (induction ts arbitrary: acc)
  case Nil
  then show ?case by (simp add: split_single_quoted)
next
  case (Cons u ts)
  obtain w ws where rest: "map single_quoted (ts @ [t]) = w # ws" by (cases ts) auto
  have "JoinStrings (map single_quoted ((u # ts) @ [t])) '' '' =
      single_quoted u @ '' '' @ JoinStrings (map single_quoted (ts @ [t])) '' ''"
    using rest by simp
  moreover have "single_quote \<notin> set u" "u \<noteq> []" using Cons.prems by simp_all
  ultimately show ?case
    using Cons.IH[of "acc @ [u]"] Cons.prems by (simp add: split_single_quoted split_space)
qed

lemma split_quoted_words:
  assumes "ts \<noteq> []" "list_all (\<lambda>t. t \<noteq> [] \<and> single_quote \<notin> set t) ts"
  shows "SplitCommandTokens (JoinStrings (map single_quoted ts) '' '') = ts"
proof -
  have ts: "butlast ts @ [last ts] = ts" using assms(1) by simp
  have "last ts \<noteq> []" using assms by (simp add: list_all_iff)
  then show ?thesis
    using split_words[of "butlast ts" "last ts" "[]"] assms(2) ts
    by (simp add: SplitCommandTokens_def split_init_def split_finish_def Let_def)
qed



end
