(* ===== verification/Naim_Placement_Resolver.thy ===== *)
theory Naim_Placement_Resolver
  imports Naim_Models
begin

text \<open>
  \<open>common/src/state/desired_state_placement_resolver.cpp\<close>: the execution node that the
  placement target of a state names, and whether a rendered state needs a topology section.
\<close>

definition ResolvePlacementTargetAlias :: "DesiredState \<Rightarrow> string option" where
  "ResolvePlacementTargetAlias state =
     (case st_placement_target state of
        None \<Rightarrow> None
      | Some target \<Rightarrow>
          if target = [] then None
          else if starts_with ''node:'' target \<and> drop (length ''node:'') target \<noteq> []
          then Some (drop (length ''node:'') target)
          else if target = ''local'' then Some ''local-hostd''
          else None)"

definition ExecutionNodeName :: "DesiredState \<Rightarrow> string option" where
  "ExecutionNodeName state = ResolvePlacementTargetAlias state"

definition HasExecutionNode :: "DesiredState \<Rightarrow> bool" where
  "HasExecutionNode state \<longleftrightarrow> ExecutionNodeName state \<noteq> None"

definition DefaultNodeName :: "DesiredState \<Rightarrow> string" where
  "DefaultNodeName state =
     (case ExecutionNodeName state of
        Some execution_node \<Rightarrow> execution_node
      | None \<Rightarrow> (case st_nodes state of node # _ \<Rightarrow> node_name node | [] \<Rightarrow> ''local-hostd''))"

definition IsDefaultSingleNodeTopology :: "DesiredState \<Rightarrow> bool" where
  "IsDefaultSingleNodeTopology state =
     (case st_nodes state of
        [node] \<Rightarrow> node_name node = ''local-hostd'' \<and> node_platform node = ''linux'' \<and>
          node_execution_mode node = Mixed \<and> node_gpu_memory_mb node = []
      | _ \<Rightarrow> False)"

definition ShouldEmitTopology :: "DesiredState \<Rightarrow> bool" where
  "ShouldEmitTopology state \<longleftrightarrow> \<not> HasExecutionNode state \<and> \<not> IsDefaultSingleNodeTopology state"

end
