(* ===== verification/Naim_Assignment_Repository.thy ===== *)
theory Naim_Assignment_Repository
  imports Naim_Prelude
begin

text \<open>
  The queue of host assignments: the status names of
  \<open>common/src/state/sqlite_store_status_codec.cpp\<close> and the operations of
  \<open>common/src/state/assignment_repository.cpp\<close> on the table \<open>host_assignments\<close>.

  The table is the list of its rows with the next value of its \<open>AUTOINCREMENT\<close> key. The SQL
  statements of the source become functions on it: \<open>sql_update\<close> is \<open>UPDATE ... WHERE\<close>
  with the number of changed rows, a query filters the rows and sorts them by its
  \<open>ORDER BY\<close>. A transaction that throws is rolled back, so an operation that can throw returns
  the new table only with its result. Time stamps are seconds, \<open>clock k\<close> the reading of the
  \<open>k\<close>-th statement of a call. Failures of the database engine itself are not modelled.
\<close>

section \<open>Status names\<close>

datatype HostAssignmentStatus = HA_Pending | HA_Claimed | HA_Applied | HA_Failed | HA_Superseded

datatype HostObservationStatus = HO_Idle | HO_Applying | HO_Applied | HO_Failed

datatype NodeAvailability = NA_Active | NA_Draining | NA_Unavailable

datatype RolloutActionStatus = RA_Pending | RA_Acknowledged | RA_ReadyToRetry

fun ToString_HostAssignmentStatus :: "HostAssignmentStatus \<Rightarrow> string" where
  "ToString_HostAssignmentStatus HA_Pending = ''pending''"
| "ToString_HostAssignmentStatus HA_Claimed = ''claimed''"
| "ToString_HostAssignmentStatus HA_Applied = ''applied''"
| "ToString_HostAssignmentStatus HA_Failed = ''failed''"
| "ToString_HostAssignmentStatus HA_Superseded = ''superseded''"

definition ParseHostAssignmentStatus :: "string \<Rightarrow> HostAssignmentStatus res" where
  "ParseHostAssignmentStatus v =
     (if v = ''pending'' then Inr HA_Pending
      else if v = ''claimed'' then Inr HA_Claimed
      else if v = ''applied'' then Inr HA_Applied
      else if v = ''failed'' then Inr HA_Failed
      else if v = ''superseded'' then Inr HA_Superseded
      else Inl (RuntimeError (''unknown host assignment status '' @ quoted v)))"

fun ToString_HostObservationStatus :: "HostObservationStatus \<Rightarrow> string" where
  "ToString_HostObservationStatus HO_Idle = ''idle''"
| "ToString_HostObservationStatus HO_Applying = ''applying''"
| "ToString_HostObservationStatus HO_Applied = ''applied''"
| "ToString_HostObservationStatus HO_Failed = ''failed''"

definition ParseHostObservationStatus :: "string \<Rightarrow> HostObservationStatus res" where
  "ParseHostObservationStatus v =
     (if v = ''idle'' then Inr HO_Idle
      else if v = ''applying'' then Inr HO_Applying
      else if v = ''applied'' then Inr HO_Applied
      else if v = ''failed'' then Inr HO_Failed
      else Inl (RuntimeError (''unknown host observation status '' @ quoted v)))"

fun ToString_NodeAvailability :: "NodeAvailability \<Rightarrow> string" where
  "ToString_NodeAvailability NA_Active = ''active''"
| "ToString_NodeAvailability NA_Draining = ''draining''"
| "ToString_NodeAvailability NA_Unavailable = ''unavailable''"

definition ParseNodeAvailability :: "string \<Rightarrow> NodeAvailability res" where
  "ParseNodeAvailability v =
     (if v = ''active'' then Inr NA_Active
      else if v = ''draining'' then Inr NA_Draining
      else if v = ''unavailable'' then Inr NA_Unavailable
      else Inl (RuntimeError (''unknown node availability '' @ quoted v)))"

fun ToString_RolloutActionStatus :: "RolloutActionStatus \<Rightarrow> string" where
  "ToString_RolloutActionStatus RA_Pending = ''pending''"
| "ToString_RolloutActionStatus RA_Acknowledged = ''acknowledged''"
| "ToString_RolloutActionStatus RA_ReadyToRetry = ''ready-to-retry''"

definition ParseRolloutActionStatus :: "string \<Rightarrow> RolloutActionStatus res" where
  "ParseRolloutActionStatus v =
     (if v = ''pending'' then Inr RA_Pending
      else if v = ''acknowledged'' then Inr RA_Acknowledged
      else if v = ''ready-to-retry'' then Inr RA_ReadyToRetry
      else Inl (RuntimeError (''unknown rollout action status '' @ quoted v)))"

section \<open>Assignments and their table\<close>

record HostAssignment =
  ha_id :: int
  ha_node_name :: string
  ha_plane_name :: string
  ha_desired_generation :: int
  ha_attempt_count :: int
  ha_max_attempts :: int
  ha_assignment_type :: string
  ha_desired_state_json :: string
  ha_artifacts_root :: string
  ha_status :: HostAssignmentStatus
  ha_status_message :: string
  ha_progress_json :: string

record assignment_row =
  row_id :: int
  row_node_name :: string
  row_plane_name :: string
  row_desired_generation :: int
  row_attempt_count :: int
  row_max_attempts :: int
  row_assignment_type :: string
  row_desired_state_json :: string
  row_artifacts_root :: string
  row_status :: string
  row_status_message :: string
  row_progress_json :: string
  row_created_at :: int
  row_updated_at :: int

record assignment_table =
  tab_rows :: "assignment_row list"
  tab_next_id :: int

text \<open>\<open>BindText\<close> passes a C string, so a text ends at its first NUL.\<close>

definition bind_text :: "string \<Rightarrow> string" where
  "bind_text s = takeWhile (\<lambda>c. c \<noteq> CHR 0x00) s"

definition sql_update ::
  "(assignment_row \<Rightarrow> bool) \<Rightarrow> (assignment_row \<Rightarrow> assignment_row) \<Rightarrow> assignment_table
   \<Rightarrow> assignment_table \<times> int" where
  "sql_update condition change table =
     (table\<lparr>tab_rows := map (\<lambda>r. if condition r then change r else r) (tab_rows table)\<rparr>,
      int (length (filter condition (tab_rows table))))"

definition ReadHostAssignment :: "assignment_row \<Rightarrow> HostAssignment res" where
  "ReadHostAssignment r =
     res_bind (ParseHostAssignmentStatus (row_status r)) (\<lambda>status. Inr
       \<lparr>ha_id = row_id r, ha_node_name = row_node_name r, ha_plane_name = row_plane_name r,
        ha_desired_generation = row_desired_generation r, ha_attempt_count = row_attempt_count r,
        ha_max_attempts = row_max_attempts r, ha_assignment_type = row_assignment_type r,
        ha_desired_state_json = row_desired_state_json r, ha_artifacts_root = row_artifacts_root r,
        ha_status = status, ha_status_message = row_status_message r,
        ha_progress_json = row_progress_json r\<rparr>)"

definition InsertAssignment :: "int \<Rightarrow> HostAssignment \<Rightarrow> assignment_table \<Rightarrow> assignment_table" where
  "InsertAssignment now a table =
     \<lparr>tab_rows = tab_rows table @
        [\<lparr>row_id = tab_next_id table, row_node_name = bind_text (ha_node_name a),
          row_plane_name = bind_text (ha_plane_name a),
          row_desired_generation = ha_desired_generation a,
          row_attempt_count = ha_attempt_count a, row_max_attempts = ha_max_attempts a,
          row_assignment_type = bind_text (ha_assignment_type a),
          row_desired_state_json = bind_text (ha_desired_state_json a),
          row_artifacts_root = bind_text (ha_artifacts_root a),
          row_status = ToString_HostAssignmentStatus (ha_status a),
          row_status_message = bind_text (ha_status_message a),
          row_progress_json =
            bind_text (if ha_progress_json a = [] then ''{}'' else ha_progress_json a),
          row_created_at = now, row_updated_at = now\<rparr>],
      tab_next_id = tab_next_id table + 1\<rparr>"

section \<open>Superseding and enqueueing\<close>

definition row_active :: "assignment_row \<Rightarrow> bool" where
  "row_active r \<longleftrightarrow> row_status r = ''pending'' \<or> row_status r = ''claimed''"

definition supersede_row :: "int \<Rightarrow> string \<Rightarrow> assignment_row \<Rightarrow> assignment_row" where
  "supersede_row now message r =
     r\<lparr>row_status := ''superseded'', row_status_message := bind_text message, row_updated_at := now\<rparr>"

definition SupersedeHostAssignmentsForPlane ::
  "int \<Rightarrow> string \<Rightarrow> string \<Rightarrow> assignment_table \<Rightarrow> assignment_table \<times> int" where
  "SupersedeHostAssignmentsForPlane now plane message table =
     sql_update (\<lambda>r. row_plane_name r = bind_text plane \<and> row_active r)
       (supersede_row now message) table"

fun insert_all :: "(nat \<Rightarrow> int) \<Rightarrow> nat \<Rightarrow> HostAssignment list \<Rightarrow> assignment_table \<Rightarrow> assignment_table" where
  "insert_all clock k [] table = table"
| "insert_all clock k (a # as) table =
     insert_all clock (Suc k) as (InsertAssignment (clock k) a table)"

definition ReplaceHostAssignments ::
  "(nat \<Rightarrow> int) \<Rightarrow> HostAssignment list \<Rightarrow> assignment_table \<Rightarrow> assignment_table" where
  "ReplaceHostAssignments clock assignments table =
     (case assignments of
        [] \<Rightarrow> insert_all clock 0 assignments table
      | front # _ \<Rightarrow> insert_all clock 1 assignments
          (fst (SupersedeHostAssignmentsForPlane (clock 0) (ha_plane_name front)
            (''superseded by desired generation '' @ to_string (ha_desired_generation front)) table)))"

definition supersede_for_node ::
  "int \<Rightarrow> string \<Rightarrow> HostAssignment \<Rightarrow> assignment_table \<Rightarrow> assignment_table" where
  "supersede_for_node now supersede_reason a table =
     fst (sql_update
       (\<lambda>r. row_plane_name r = bind_text (ha_plane_name a) \<and>
          row_node_name r = bind_text (ha_node_name a) \<and> row_active r)
       (supersede_row now
         (if supersede_reason = []
          then ''superseded by manual resync for desired generation '' @
            to_string (ha_desired_generation a)
          else supersede_reason))
       table)"

fun EnqueueHostAssignments_from ::
  "(nat \<Rightarrow> int) \<Rightarrow> nat \<Rightarrow> HostAssignment list \<Rightarrow> string \<Rightarrow> assignment_table \<Rightarrow> assignment_table" where
  "EnqueueHostAssignments_from clock k [] supersede_reason table = table"
| "EnqueueHostAssignments_from clock k (a # as) supersede_reason table =
     EnqueueHostAssignments_from clock (k + 2) as supersede_reason
       (InsertAssignment (clock (k + 1)) a
         (supersede_for_node (clock k) supersede_reason a table))"

definition EnqueueHostAssignments ::
  "(nat \<Rightarrow> int) \<Rightarrow> HostAssignment list \<Rightarrow> string \<Rightarrow> assignment_table \<Rightarrow> assignment_table" where
  "EnqueueHostAssignments clock assignments supersede_reason table =
     EnqueueHostAssignments_from clock 0 assignments supersede_reason table"

section \<open>Queries\<close>

definition LoadHostAssignment :: "int \<Rightarrow> assignment_table \<Rightarrow> HostAssignment option res" where
  "LoadHostAssignment assignment_id table =
     (case find (\<lambda>r. row_id r = assignment_id) (tab_rows table) of
        None \<Rightarrow> Inr None
      | Some r \<Rightarrow> res_bind (ReadHostAssignment r) (\<lambda>a. Inr (Some a)))"

definition LoadHostAssignments ::
  "string option \<Rightarrow> HostAssignmentStatus option \<Rightarrow> string option \<Rightarrow> assignment_table
   \<Rightarrow> HostAssignment list res" where
  "LoadHostAssignments node status plane table =
     res_map_list ReadHostAssignment (sort_key row_id (filter (\<lambda>r.
       (case node of None \<Rightarrow> True | Some n \<Rightarrow> row_node_name r = bind_text n) \<and>
       (case status of None \<Rightarrow> True | Some s \<Rightarrow> row_status r = ToString_HostAssignmentStatus s) \<and>
       (case plane of None \<Rightarrow> True | Some p \<Rightarrow> row_plane_name r = bind_text p)) (tab_rows table)))"

section \<open>Claiming\<close>

text \<open>\<open>LIKE 'prefix%'\<close>: SQLite compares letters of the ASCII range without regard to case.\<close>

definition ascii_lower :: "char \<Rightarrow> char" where
  "ascii_lower c = (if CHR ''A'' \<le> c \<and> c \<le> CHR ''Z'' then char_of (of_char c + 32 :: nat) else c)"

definition like_prefix :: "string \<Rightarrow> string \<Rightarrow> bool" where
  "like_prefix p s \<longleftrightarrow> starts_with (map ascii_lower p) (map ascii_lower s)"

definition expire_lease :: "int \<Rightarrow> string \<Rightarrow> assignment_table \<Rightarrow> assignment_table" where
  "expire_lease now node table =
     fst (sql_update
       (\<lambda>r. row_node_name r = bind_text node \<and> row_status r = ''claimed'' \<and>
          row_updated_at r \<le> now - 60)
       (\<lambda>r. r\<lparr>
          row_status := (if row_attempt_count r \<ge> row_max_attempts r then ''failed'' else ''pending''),
          row_status_message := (if row_attempt_count r \<ge> row_max_attempts r
            then ''claimed assignment lease expired after exhausted attempts''
            else ''claimed assignment lease expired; retrying''),
          row_updated_at := now\<rparr>)
       table)"

definition expire_proxy :: "int \<Rightarrow> string \<Rightarrow> assignment_table \<Rightarrow> assignment_table" where
  "expire_proxy now node table =
     fst (sql_update
       (\<lambda>r. row_node_name r = bind_text node \<and> row_assignment_type r = ''runtime-http-proxy'' \<and>
          row_status r = ''pending'' \<and> row_updated_at r \<le> now - 45)
       (\<lambda>r. r\<lparr>row_status := ''failed'',
          row_status_message := ''runtime HTTP proxy request expired before hostd claimed it'',
          row_updated_at := now\<rparr>)
       table)"

definition claim_rank :: "assignment_row \<Rightarrow> int" where
  "claim_rank r =
     (if row_assignment_type r \<noteq> ''runtime-http-proxy'' then 0
      else if like_prefix ''runtime-http-proxy:webgateway:'' (row_plane_name r) then 30
      else if like_prefix ''runtime-http-proxy:skills:'' (row_plane_name r) then 20
      else if like_prefix ''runtime-http-proxy:knowledge-vault:'' (row_plane_name r) then 20
      else 10)"

definition claimable :: "string \<Rightarrow> assignment_row \<Rightarrow> bool" where
  "claimable node r \<longleftrightarrow> row_node_name r = bind_text node \<and> row_status r = ''pending'' \<and>
     row_attempt_count r < row_max_attempts r"

definition next_claim :: "string \<Rightarrow> assignment_table \<Rightarrow> assignment_row option" where
  "next_claim node table =
     (case sort_key (\<lambda>r. (claim_rank r, row_id r)) (filter (claimable node) (tab_rows table)) of
        [] \<Rightarrow> None
      | r # _ \<Rightarrow> Some r)"

definition claimed_progress :: string where
  "claimed_progress =
     map (\<lambda>c. if c = CHR ''`'' then CHR 0x22 else c)
       (''{`phase`:`queued`,`title`:`Assignment claimed`,`detail`:'' @
        ''`Hostd accepted the assignment and is starting work.`,`percent`:5}'')"

definition mark_claimed :: "int \<Rightarrow> int \<Rightarrow> assignment_table \<Rightarrow> assignment_table" where
  "mark_claimed now assignment_id table =
     fst (sql_update (\<lambda>r. row_id r = assignment_id \<and> row_status r = ''pending'')
       (\<lambda>r. r\<lparr>row_status := ''claimed'', row_status_message := [],
          row_progress_json := claimed_progress,
          row_attempt_count := row_attempt_count r + 1, row_updated_at := now\<rparr>)
       table)"

definition ClaimNextHostAssignment ::
  "(nat \<Rightarrow> int) \<Rightarrow> string \<Rightarrow> assignment_table \<Rightarrow> (HostAssignment option \<times> assignment_table) res" where
  "ClaimNextHostAssignment clock node table =
     (let table = expire_proxy (clock 1) node (expire_lease (clock 0) node table) in
      case next_claim node table of
        None \<Rightarrow> Inr (None, table)
      | Some r \<Rightarrow> res_bind (ReadHostAssignment r) (\<lambda>a.
          Inr (Some (a\<lparr>ha_status := HA_Claimed, ha_attempt_count := ha_attempt_count a + 1,
                 ha_progress_json := claimed_progress\<rparr>),
               mark_claimed (clock 2) (ha_id a) table)))"

section \<open>Updating single assignments\<close>

definition UpdateHostAssignmentProgress ::
  "int \<Rightarrow> int \<Rightarrow> string \<Rightarrow> assignment_table \<Rightarrow> assignment_table \<times> bool" where
  "UpdateHostAssignmentProgress now assignment_id progress_json table =
     (let (table, changes) = sql_update
        (\<lambda>r. row_id r = assignment_id \<and> row_status r = ''claimed'')
        (\<lambda>r. r\<lparr>row_progress_json := bind_text (if progress_json = [] then ''{}'' else progress_json),
           row_updated_at := now\<rparr>) table
      in (table, changes > 0))"

definition set_status ::
  "int \<Rightarrow> HostAssignmentStatus \<Rightarrow> string \<Rightarrow> assignment_row \<Rightarrow> assignment_row" where
  "set_status now status message r =
     r\<lparr>row_status := ToString_HostAssignmentStatus status, row_status_message := bind_text message,
       row_updated_at := now\<rparr>"

definition TransitionClaimedHostAssignment ::
  "int \<Rightarrow> int \<Rightarrow> HostAssignmentStatus \<Rightarrow> string \<Rightarrow> assignment_table \<Rightarrow> assignment_table \<times> bool" where
  "TransitionClaimedHostAssignment now assignment_id status message table =
     (let (table, changes) = sql_update
        (\<lambda>r. row_id r = assignment_id \<and> row_status r = ''claimed'') (set_status now status message) table
      in (table, changes > 0))"

definition RetryFailedHostAssignment ::
  "int \<Rightarrow> int \<Rightarrow> string \<Rightarrow> assignment_table \<Rightarrow> assignment_table \<times> bool" where
  "RetryFailedHostAssignment now assignment_id message table =
     (let (table, changes) = sql_update
        (\<lambda>r. row_id r = assignment_id \<and> row_status r = ''failed'')
        (\<lambda>r. r\<lparr>row_status := ''pending'', row_status_message := bind_text message,
           row_max_attempts := (if row_max_attempts r < row_attempt_count r + 1
             then row_attempt_count r + 1 else row_max_attempts r),
           row_updated_at := now\<rparr>) table
      in (table, changes > 0))"

definition UpdateHostAssignmentStatus ::
  "int \<Rightarrow> int \<Rightarrow> HostAssignmentStatus \<Rightarrow> string \<Rightarrow> assignment_table \<Rightarrow> assignment_table" where
  "UpdateHostAssignmentStatus now assignment_id status message table =
     fst (sql_update (\<lambda>r. row_id r = assignment_id) (set_status now status message) table)"

section \<open>Well-formed tables\<close>

definition row_ok :: "assignment_row \<Rightarrow> bool" where
  "row_ok r \<longleftrightarrow> row_status r \<in> range ToString_HostAssignmentStatus \<and>
     row_attempt_count r \<le> row_max_attempts r"

definition table_ok :: "assignment_table \<Rightarrow> bool" where
  "table_ok t \<longleftrightarrow> sorted_wrt (<) (map row_id (tab_rows t)) \<and>
     list_all (\<lambda>r. row_id r < tab_next_id t \<and> row_ok r) (tab_rows t)"

definition attempts_ok :: "HostAssignment \<Rightarrow> bool" where
  "attempts_ok a \<longleftrightarrow> ha_attempt_count a \<le> ha_max_attempts a"

lemma status_names [simp]:
  "''pending'' \<in> range ToString_HostAssignmentStatus" "''claimed'' \<in> range ToString_HostAssignmentStatus"
  "''failed'' \<in> range ToString_HostAssignmentStatus" "''superseded'' \<in> range ToString_HostAssignmentStatus"
  by (metis ToString_HostAssignmentStatus.simps rangeI)+

lemma Parse_ToString_HostAssignmentStatus [simp]:
  "ParseHostAssignmentStatus (ToString_HostAssignmentStatus s) = Inr s"
  by (cases s) (simp_all add: ParseHostAssignmentStatus_def)

lemma ReadHostAssignment_ok: "row_ok r \<Longrightarrow> \<exists>a. ReadHostAssignment r = Inr a"
  by (auto simp: row_ok_def ReadHostAssignment_def)

lemma sql_update_rows [simp]:
  "tab_rows (fst (sql_update p f t)) = map (\<lambda>r. if p r then f r else r) (tab_rows t)"
  "tab_next_id (fst (sql_update p f t)) = tab_next_id t"
  by (simp_all add: sql_update_def)

lemma table_ok_update:
  assumes "table_ok t" "\<And>r. row_id (f r) = row_id r" "\<And>r. r \<in> set (tab_rows t) \<Longrightarrow> p r \<Longrightarrow> row_ok r \<Longrightarrow> row_ok (f r)"
  shows "table_ok (fst (sql_update p f t))"
proof -
  have ids: "map row_id (map (\<lambda>r. if p r then f r else r) (tab_rows t)) = map row_id (tab_rows t)"
    using assms(2) by simp
  show ?thesis
    unfolding table_ok_def sql_update_rows ids
    using assms by (auto simp: table_ok_def list_all_iff)
qed

lemma table_ok_insert: "table_ok t \<Longrightarrow> attempts_ok a \<Longrightarrow> table_ok (InsertAssignment now a t)"
  by (auto simp: table_ok_def InsertAssignment_def attempts_ok_def row_ok_def sorted_wrt_append
      list_all_iff)

lemma table_ok_supersede [simp]:
  "table_ok t \<Longrightarrow> table_ok (fst (SupersedeHostAssignmentsForPlane now plane message t))"
  "table_ok t \<Longrightarrow> table_ok (supersede_for_node now reason a t)"
  unfolding SupersedeHostAssignmentsForPlane_def supersede_for_node_def
  by (auto intro!: table_ok_update simp: supersede_row_def row_ok_def)

lemma table_ok_insert_all:
  "table_ok t \<Longrightarrow> list_all attempts_ok as \<Longrightarrow> table_ok (insert_all clock k as t)"
  by (induction as arbitrary: k t) (simp_all add: table_ok_insert)

lemma table_ok_replace:
  "table_ok t \<Longrightarrow> list_all attempts_ok as \<Longrightarrow> table_ok (ReplaceHostAssignments clock as t)"
  by (cases as) (simp_all add: ReplaceHostAssignments_def table_ok_insert_all table_ok_insert)

lemma table_ok_enqueue:
  "table_ok t \<Longrightarrow> list_all attempts_ok as \<Longrightarrow>
   table_ok (EnqueueHostAssignments_from clock k as reason t)"
  by (induction as arbitrary: k t) (simp_all add: table_ok_insert)

lemma table_ok_expire [simp]:
  "table_ok t \<Longrightarrow> table_ok (expire_lease now node t)"
  "table_ok t \<Longrightarrow> table_ok (expire_proxy now node t)"
  unfolding expire_lease_def expire_proxy_def by (auto intro!: table_ok_update simp: row_ok_def)

lemma next_claim_cases:
  "case next_claim node t of
     None \<Rightarrow> filter (claimable node) (tab_rows t) = []
   | Some r \<Rightarrow> r \<in> set (tab_rows t) \<and> claimable node r \<and>
       list_all (\<lambda>r'. (claim_rank r, row_id r) \<le> (claim_rank r', row_id r'))
         (filter (claimable node) (tab_rows t))"
proof -
  let ?key = "\<lambda>r. (claim_rank r, row_id r)"
  let ?q = "filter (claimable node) (tab_rows t)"
  have set: "set (sort_key ?key ?q) = set ?q" and sorted: "sorted (map ?key (sort_key ?key ?q))"
    by simp_all
  show ?thesis
  proof (cases "sort_key ?key ?q")
    case Nil
    with set have "?q = []" by (metis empty_set set_empty)
    then show ?thesis by (simp add: next_claim_def)
  next
    case (Cons r rs)
    then have "r \<in> set ?q" "\<forall>r' \<in> set ?q. ?key r \<le> ?key r'"
      using set sorted by (auto simp: Cons)
    with Cons show ?thesis by (auto simp: next_claim_def list_all_iff)
  qed
qed

lemma table_ok_unique:
  "table_ok t \<Longrightarrow> r \<in> set (tab_rows t) \<Longrightarrow> r' \<in> set (tab_rows t) \<Longrightarrow> row_id r = row_id r' \<Longrightarrow> r = r'"
  by (auto simp: table_ok_def strict_sorted_iff distinct_map dest: inj_onD)

lemma table_ok_row_ok: "table_ok t \<Longrightarrow> r \<in> set (tab_rows t) \<Longrightarrow> row_ok r"
  by (simp add: table_ok_def list_all_iff)

lemma table_ok_mark_claimed:
  assumes "table_ok t" "r \<in> set (tab_rows t)" "claimable node r"
  shows "table_ok (mark_claimed now (row_id r) t)"
  unfolding mark_claimed_def
proof (rule table_ok_update[OF assms(1)])
  fix r' assume r': "r' \<in> set (tab_rows t)" "row_id r' = row_id r \<and> row_status r' = ''pending''" "row_ok r'"
  then have "r' = r" using table_ok_unique[OF assms(1) r'(1) assms(2)] by simp
  with r'(3) assms(3) show "row_ok (r'\<lparr>row_status := ''claimed'', row_status_message := [],
      row_progress_json := claimed_progress, row_attempt_count := row_attempt_count r' + 1,
      row_updated_at := now\<rparr>)"
    by (simp add: row_ok_def claimable_def)
qed simp

text \<open>What a claim does on a well-formed table.\<close>

definition expired :: "(nat \<Rightarrow> int) \<Rightarrow> string \<Rightarrow> assignment_table \<Rightarrow> assignment_table" where
  "expired clock node t = expire_proxy (clock 1) node (expire_lease (clock 0) node t)"

lemma table_ok_expired [simp]: "table_ok t \<Longrightarrow> table_ok (expired clock node t)"
  by (simp add: expired_def)

lemma ClaimNext_expired:
  "ClaimNextHostAssignment clock node t =
     (case next_claim node (expired clock node t) of
        None \<Rightarrow> Inr (None, expired clock node t)
      | Some r \<Rightarrow> res_bind (ReadHostAssignment r) (\<lambda>a.
          Inr (Some (a\<lparr>ha_status := HA_Claimed, ha_attempt_count := ha_attempt_count a + 1,
                 ha_progress_json := claimed_progress\<rparr>),
               mark_claimed (clock 2) (ha_id a) (expired clock node t))))"
  unfolding ClaimNextHostAssignment_def expired_def Let_def by (rule refl)

lemma claim_None:
  assumes "next_claim node (expired clock node t) = None"
  shows "ClaimNextHostAssignment clock node t = Inr (None, expired clock node t)"
  using assms by (simp add: ClaimNext_expired)

lemma claim_Some:
  assumes "table_ok t" "next_claim node (expired clock node t) = Some r"
  obtains a where "ReadHostAssignment r = Inr a" "ha_id a = row_id r"
    "ha_attempt_count a = row_attempt_count r"
    "ClaimNextHostAssignment clock node t =
       Inr (Some (a\<lparr>ha_status := HA_Claimed, ha_attempt_count := ha_attempt_count a + 1,
              ha_progress_json := claimed_progress\<rparr>),
            mark_claimed (clock 2) (row_id r) (expired clock node t))"
proof -
  have "r \<in> set (tab_rows (expired clock node t))"
    using next_claim_cases[of node "expired clock node t"] assms(2) by simp
  then obtain a where a: "ReadHostAssignment r = Inr a"
    using ReadHostAssignment_ok table_ok_row_ok assms(1) table_ok_expired by blast
  then have "ha_id a = row_id r" "ha_attempt_count a = row_attempt_count r"
    by (auto simp: ReadHostAssignment_def res_bind_Inr_iff)
  with a that assms(2) show ?thesis by (simp add: ClaimNext_expired)
qed

lemma claim_total: "table_ok t \<Longrightarrow> \<exists>res t'. ClaimNextHostAssignment clock node t = Inr (res, t')"
  by (cases "next_claim node (expired clock node t)") (auto simp: claim_None elim!: claim_Some)

lemma table_ok_claim:
  assumes "table_ok t" "ClaimNextHostAssignment clock node t = Inr (res, t')"
  shows "table_ok t'"
proof (cases "next_claim node (expired clock node t)")
  case None
  have "t' = expired clock node t" using claim_None[OF None] assms(2) by simp
  with assms(1) show ?thesis by simp
next
  case (Some r)
  have "r \<in> set (tab_rows (expired clock node t))" "claimable node r"
    using next_claim_cases[of node "expired clock node t"] Some by simp_all
  then have "table_ok (mark_claimed (clock 2) (row_id r) (expired clock node t))"
    using table_ok_mark_claimed assms(1) by simp
  with claim_Some[OF assms(1) Some] assms(2) show ?thesis by auto
qed
section \<open>Reachable tables\<close>

text \<open>
  One call of a writing operation. New assignments come with no more attempts used than
  allowed.
\<close>

inductive assignment_step :: "assignment_table \<Rightarrow> assignment_table \<Rightarrow> bool" where
  replace: "list_all attempts_ok as \<Longrightarrow> assignment_step t (ReplaceHostAssignments clock as t)"
| enqueue: "list_all attempts_ok as \<Longrightarrow> assignment_step t (EnqueueHostAssignments clock as reason t)"
| supersede: "assignment_step t (fst (SupersedeHostAssignmentsForPlane now plane message t))"
| claim: "ClaimNextHostAssignment clock node t = Inr (res, t') \<Longrightarrow> assignment_step t t'"
| progress: "assignment_step t (fst (UpdateHostAssignmentProgress now i progress t))"
| transition: "assignment_step t (fst (TransitionClaimedHostAssignment now i status message t))"
| retry: "assignment_step t (fst (RetryFailedHostAssignment now i message t))"
| update_status: "assignment_step t (UpdateHostAssignmentStatus now i status message t)"

inductive assignment_reachable :: "assignment_table \<Rightarrow> bool" where
  empty: "assignment_reachable \<lparr>tab_rows = [], tab_next_id = 1\<rparr>"
| step: "assignment_reachable t \<Longrightarrow> assignment_step t t' \<Longrightarrow> assignment_reachable t'"

lemma set_status_ok: "row_ok r \<Longrightarrow> row_ok (set_status now status message r)"
  by (simp add: row_ok_def set_status_def)

lemma row_id_set_status [simp]: "row_id (set_status now status message r) = row_id r"
  by (simp add: set_status_def)

lemma table_ok_single_row:
  assumes "table_ok t"
  shows "table_ok (fst (UpdateHostAssignmentProgress now i progress t))"
    and "table_ok (fst (TransitionClaimedHostAssignment now i status message t))"
    and "table_ok (fst (RetryFailedHostAssignment now i message t))"
    and "table_ok (UpdateHostAssignmentStatus now i status message t)"
  unfolding UpdateHostAssignmentProgress_def TransitionClaimedHostAssignment_def
    RetryFailedHostAssignment_def UpdateHostAssignmentStatus_def
    case_prod_beta' Let_def fst_conv
  by (rule table_ok_update[OF assms]; simp add: row_ok_def set_status_def)+

lemma table_ok_step: "assignment_step t t' \<Longrightarrow> table_ok t \<Longrightarrow> table_ok t'"
  by (induction rule: assignment_step.induct)
    (simp_all add: table_ok_replace table_ok_enqueue EnqueueHostAssignments_def table_ok_single_row
      table_ok_claim)

lemma table_ok_reachable: "assignment_reachable t \<Longrightarrow> table_ok t"
proof (induction rule: assignment_reachable.induct)
  case empty
  then show ?case by (simp add: table_ok_def)
next
  case (step t t')
  then show ?case by (blast intro: table_ok_step)
qed

lemma LoadHostAssignments_total:
  assumes "table_ok t"
  shows "\<exists>as. LoadHostAssignments node status plane t = Inr as"
  unfolding LoadHostAssignments_def
proof (rule res_map_list_total)
  fix r assume "r \<in> set (sort_key row_id (filter (\<lambda>r.
       (case node of None \<Rightarrow> True | Some n \<Rightarrow> row_node_name r = bind_text n) \<and>
       (case status of None \<Rightarrow> True | Some s \<Rightarrow> row_status r = ToString_HostAssignmentStatus s) \<and>
       (case plane of None \<Rightarrow> True | Some p \<Rightarrow> row_plane_name r = bind_text p)) (tab_rows t)))"
  then have "r \<in> set (tab_rows t)" by simp
  then show "\<exists>a. ReadHostAssignment r = Inr a"
    using assms by (blast intro: ReadHostAssignment_ok table_ok_row_ok)
qed

text \<open>
  \<^bold>\<open>C12.\<close> Every table the repository can produce is well formed: ids ascend and stay below the
  next id, every status text is the name of a status, no assignment has used more attempts
  than it may; and therefore queries and claims never throw.
\<close>

theorem assignment_reachable_ok:
  assumes "assignment_reachable t"
  shows "table_ok t \<and> (\<exists>as. LoadHostAssignments node status plane t = Inr as) \<and>
    (\<exists>res t'. ClaimNextHostAssignment clock node' t = Inr (res, t'))"
  using table_ok_reachable[OF assms] LoadHostAssignments_total claim_total by blast

section \<open>Which assignment is claimed\<close>

lemma find_row:
  assumes "table_ok t" "r \<in> set (tab_rows t)"
  shows "find (\<lambda>x. row_id x = row_id r) (tab_rows t) = Some r"
proof (cases "find (\<lambda>x. row_id x = row_id r) (tab_rows t)")
  case None
  with assms(2) show ?thesis by (auto simp: find_None_iff)
next
  case (Some x)
  then have "x \<in> set (tab_rows t)" "row_id x = row_id r" by (auto simp: find_Some_iff)
  with assms Some show ?thesis using table_ok_unique by metis
qed

lemma claimed_row:
  assumes "r \<in> set (tab_rows t)" "row_status r = ''pending''"
  shows "r\<lparr>row_status := ''claimed'', row_status_message := [],
      row_progress_json := claimed_progress, row_attempt_count := row_attempt_count r + 1,
      row_updated_at := now\<rparr> \<in> set (tab_rows (mark_claimed now (row_id r) t))"
  using assms by (force simp: mark_claimed_def)

lemma load_claimed:
  assumes "table_ok t" "r \<in> set (tab_rows t)" "claimable node r" "ReadHostAssignment r = Inr a"
  shows "LoadHostAssignment (row_id r) (mark_claimed now (row_id r) t) =
    Inr (Some (a\<lparr>ha_status := HA_Claimed, ha_attempt_count := ha_attempt_count a + 1,
      ha_progress_json := claimed_progress, ha_status_message := []\<rparr>))"
proof -
  let ?r = "r\<lparr>row_status := ''claimed'', row_status_message := [],
      row_progress_json := claimed_progress, row_attempt_count := row_attempt_count r + 1,
      row_updated_at := now\<rparr>"
  have "?r \<in> set (tab_rows (mark_claimed now (row_id r) t))"
    using claimed_row assms(2,3) by (simp add: claimable_def)
  from find_row[OF table_ok_mark_claimed[OF assms(1-3)] this]
  have "find (\<lambda>x. row_id x = row_id r) (tab_rows (mark_claimed now (row_id r) t)) = Some ?r" by simp
  moreover have "ReadHostAssignment ?r = Inr (a\<lparr>ha_status := HA_Claimed,
      ha_attempt_count := ha_attempt_count a + 1, ha_progress_json := claimed_progress,
      ha_status_message := []\<rparr>)"
    using assms(4) by (auto simp: ReadHostAssignment_def ParseHostAssignmentStatus_def res_bind_Inr_iff)
  ultimately show ?thesis by (simp add: LoadHostAssignment_def)
qed

text \<open>
  \<^bold>\<open>C11.\<close> A claim on a node first expires stale leases and stale proxy requests. It then returns
  nothing exactly when no pending assignment of the node has attempts left, and otherwise
  one that is least by rank and id; the stored assignment is the returned one, except
  that its status message has been cleared.
\<close>

theorem ClaimNextHostAssignment_spec:
  assumes "table_ok t"
  shows "\<exists>res t'. ClaimNextHostAssignment clock node t = Inr (res, t') \<and>
    (let queue = filter (claimable node)
       (tab_rows (expire_proxy (clock 1) node (expire_lease (clock 0) node t)))
     in case res of
          None \<Rightarrow> queue = []
        | Some a \<Rightarrow> (\<exists>r \<in> set queue. ha_id a = row_id r \<and>
            list_all (\<lambda>r'. (claim_rank r, row_id r) \<le> (claim_rank r', row_id r')) queue \<and>
            LoadHostAssignment (ha_id a) t' = Inr (Some (a\<lparr>ha_status_message := []\<rparr>))))"
proof (cases "next_claim node (expired clock node t)")
  case None
  then show ?thesis
    using claim_None[OF None] next_claim_cases[of node "expired clock node t"]
    by (simp add: Let_def expired_def)
next
  case (Some r)
  have r: "r \<in> set (tab_rows (expired clock node t))" "claimable node r"
    "list_all (\<lambda>r'. (claim_rank r, row_id r) \<le> (claim_rank r', row_id r'))
      (filter (claimable node) (tab_rows (expired clock node t)))"
    using next_claim_cases[of node "expired clock node t"] Some by simp_all
  obtain a where a: "ReadHostAssignment r = Inr a" "ha_id a = row_id r"
    "ClaimNextHostAssignment clock node t =
       Inr (Some (a\<lparr>ha_status := HA_Claimed, ha_attempt_count := ha_attempt_count a + 1,
              ha_progress_json := claimed_progress\<rparr>),
            mark_claimed (clock 2) (row_id r) (expired clock node t))"
    by (rule claim_Some[OF assms Some])
  note load = load_claimed[OF table_ok_expired[OF assms] r(1,2) a(1), of "clock 2"]
  show ?thesis
    unfolding a(3) expired_def[symmetric]
    by (intro exI conjI, rule refl)
      (use r a(2) load in \<open>auto simp: Let_def intro!: exI[of _ r]\<close>)
qed
section \<open>Leases and attempts\<close>

lemma expire_proxy_pending:
  assumes "r \<in> set (tab_rows (expire_proxy now node t))" "row_status r = ''pending''"
  shows "r \<in> set (tab_rows t)"
proof -
  let ?p = "\<lambda>r. row_node_name r = bind_text node \<and> row_assignment_type r = ''runtime-http-proxy'' \<and>
    row_status r = ''pending'' \<and> row_updated_at r \<le> now - 45"
  obtain r0 where r0: "r0 \<in> set (tab_rows t)" "r = (if ?p r0 then r0\<lparr>row_status := ''failed'',
      row_status_message := ''runtime HTTP proxy request expired before hostd claimed it'',
      row_updated_at := now\<rparr> else r0)"
    using assms(1) unfolding expire_proxy_def sql_update_rows set_map by blast
  have "\<not> ?p r0"
  proof
    assume "?p r0"
    then have "row_status r = ''failed''" unfolding r0(2) by simp
    with assms(2) show False by simp
  qed
  then show ?thesis using r0 by (simp only: if_False)
qed

lemma expire_lease_pending:
  assumes "r \<in> set (tab_rows (expire_lease now node t))" "row_status r = ''pending''"
  obtains r0 where "r0 \<in> set (tab_rows t)" "row_id r0 = row_id r"
    "row_attempt_count r0 = row_attempt_count r" "row_max_attempts r0 = row_max_attempts r"
    "row_status r0 = ''pending'' \<or> row_status r0 = ''claimed'' \<and> row_updated_at r0 \<le> now - 60"
proof -
  obtain r0 p s m where r0: "r0 \<in> set (tab_rows t)" "r = (if p then r0\<lparr>row_status := s,
      row_status_message := m, row_updated_at := now\<rparr> else r0)"
    "p \<longleftrightarrow> row_node_name r0 = bind_text node \<and> row_status r0 = ''claimed'' \<and> row_updated_at r0 \<le> now - 60"
    using assms(1) unfolding expire_lease_def sql_update_rows set_map by blast
  show ?thesis
  proof (cases p)
    case True
    with r0 show ?thesis by (intro that[of r0]) simp_all
  next
    case False
    then have "r = r0" using r0(2) by (simp only: if_False)
    with r0(1) assms(2) show ?thesis by (intro that[of r0]) simp_all
  qed
qed

lemma expired_row_origin:
  assumes "r \<in> set (tab_rows (expired clock node t))" "row_status r = ''pending''"
  obtains r0 where "r0 \<in> set (tab_rows t)" "row_id r0 = row_id r"
    "row_attempt_count r0 = row_attempt_count r" "row_max_attempts r0 = row_max_attempts r"
    "row_status r0 = ''pending'' \<or> row_status r0 = ''claimed'' \<and> row_updated_at r0 \<le> clock 0 - 60"
proof -
  have r: "r \<in> set (tab_rows (expire_lease (clock 0) node t))"
    using expire_proxy_pending assms unfolding expired_def by blast
  show ?thesis by (rule expire_lease_pending[OF r assms(2)]) (rule that)
qed

lemma claim_origin:
  assumes "table_ok t" "ClaimNextHostAssignment clock node t = Inr (Some a, t')"
  obtains r where "r \<in> set (tab_rows t)" "row_id r = ha_id a"
    "ha_attempt_count a = row_attempt_count r + 1" "ha_attempt_count a \<le> row_max_attempts r"
    "row_status r = ''pending'' \<or> row_status r = ''claimed'' \<and> row_updated_at r \<le> clock 0 - 60"
proof (cases "next_claim node (expired clock node t)")
  case None
  with claim_None[OF None] assms(2) show ?thesis by simp
next
  case (Some r)
  have r: "r \<in> set (tab_rows (expired clock node t))" "claimable node r"
    using next_claim_cases[of node "expired clock node t"] Some by simp_all
  obtain a' where a': "ha_id a' = row_id r" "ha_attempt_count a' = row_attempt_count r"
    "ClaimNextHostAssignment clock node t =
       Inr (Some (a'\<lparr>ha_status := HA_Claimed, ha_attempt_count := ha_attempt_count a' + 1,
              ha_progress_json := claimed_progress\<rparr>),
            mark_claimed (clock 2) (row_id r) (expired clock node t))"
    by (rule claim_Some[OF assms(1) Some])
  have a: "ha_id a = row_id r" "ha_attempt_count a = row_attempt_count r + 1"
    using a' assms(2) by auto
  show ?thesis
    by (rule expired_row_origin[OF r(1)]) (use r(2) a that in \<open>auto simp: claimable_def\<close>)
qed

lemma claim_leaves_claimed:
  assumes "table_ok t" "ClaimNextHostAssignment clock node t = Inr (Some a, t')"
  obtains r where "r \<in> set (tab_rows t')" "row_id r = ha_id a" "row_status r = ''claimed''"
    "row_updated_at r = clock 2"
proof (cases "next_claim node (expired clock node t)")
  case None
  with claim_None[OF None] assms(2) show ?thesis by simp
next
  case (Some r)
  have r: "r \<in> set (tab_rows (expired clock node t))" "claimable node r"
    using next_claim_cases[of node "expired clock node t"] Some by simp_all
  obtain a' where a': "ha_id a' = row_id r"
    "ClaimNextHostAssignment clock node t =
       Inr (Some (a'\<lparr>ha_status := HA_Claimed, ha_attempt_count := ha_attempt_count a' + 1,
              ha_progress_json := claimed_progress\<rparr>),
            mark_claimed (clock 2) (row_id r) (expired clock node t))"
    by (rule claim_Some[OF assms(1) Some])
  then have "ha_id a = row_id r" "t' = mark_claimed (clock 2) (row_id r) (expired clock node t)"
    using assms(2) by auto
  with claimed_row[OF r(1), of "clock 2"] r(2) that show ?thesis by (auto simp: claimable_def)
qed


definition attempts_left :: "assignment_table \<Rightarrow> int" where
  "attempts_left t = sum_list (map (\<lambda>r. row_max_attempts r - row_attempt_count r) (tab_rows t))"

lemma attempts_left_nonneg: "table_ok t \<Longrightarrow> 0 \<le> attempts_left t"
  unfolding attempts_left_def
  by (rule sum_list_nonneg) (auto simp: table_ok_def list_all_iff row_ok_def)

lemma attempts_left_expired: "attempts_left (expired clock node t) = attempts_left t"
  unfolding attempts_left_def expired_def expire_lease_def expire_proxy_def sql_update_rows map_map
  by (intro arg_cong[of _ _ sum_list] map_cong) simp_all

lemma attempts_left_mark_claimed:
  assumes "table_ok t" "r \<in> set (tab_rows t)" "claimable node r"
  shows "attempts_left (mark_claimed now (row_id r) t) = attempts_left t - 1"
proof -
  obtain xs ys where rows: "tab_rows t = xs @ r # ys" using split_list[OF assms(2)] by blast
  have "distinct (map row_id (xs @ r # ys))"
    using assms(1) unfolding table_ok_def strict_sorted_iff rows by simp
  then have "row_id r \<notin> row_id ` (set xs \<union> set ys)" by auto
  then have other: "row_id x \<noteq> row_id r" if "x \<in> set xs \<union> set ys" for x
    using that by (metis imageI)
  let ?f = "\<lambda>x. if row_id x = row_id r \<and> row_status x = ''pending''
    then x\<lparr>row_status := ''claimed'', row_status_message := [], row_progress_json := claimed_progress,
      row_attempt_count := row_attempt_count x + 1, row_updated_at := now\<rparr> else x"
  have "map ?f xs = xs" "map ?f ys = ys" using other by (auto intro!: map_idI)
  then show ?thesis
    using assms(3) by (simp add: attempts_left_def mark_claimed_def rows claimable_def)
qed

lemma attempts_left_claim:
  assumes "table_ok t" "ClaimNextHostAssignment clock node t = Inr (res, t')"
  shows "attempts_left t' = attempts_left t - (if res = None then 0 else 1)"
proof (cases "next_claim node (expired clock node t)")
  case None
  with claim_None[OF None] assms(2) have "res = None" "t' = expired clock node t" by auto
  then show ?thesis by (simp add: attempts_left_expired)
next
  case (Some r)
  have r: "r \<in> set (tab_rows (expired clock node t))" "claimable node r"
    using next_claim_cases[of node "expired clock node t"] Some by simp_all
  have "res \<noteq> None \<and> t' = mark_claimed (clock 2) (row_id r) (expired clock node t)"
    by (rule claim_Some[OF assms(1) Some]) (use assms(2) in auto)
  then show ?thesis
    using attempts_left_mark_claimed[OF table_ok_expired[OF assms(1)] r] attempts_left_expired by simp
qed

text \<open>A sequence of claims, of any nodes at any times, with the assignments they hand out.\<close>

fun claim_run ::
  "((nat \<Rightarrow> int) \<times> string) list \<Rightarrow> assignment_table \<Rightarrow> (HostAssignment list \<times> assignment_table) res" where
  "claim_run [] t = Inr ([], t)"
| "claim_run ((clock, node) # requests) t =
     res_bind (ClaimNextHostAssignment clock node t) (\<lambda>(res, t').
       res_bind (claim_run requests t') (\<lambda>(as, t'').
         Inr (case res of None \<Rightarrow> (as, t'') | Some a \<Rightarrow> (a # as, t''))))"

lemma claim_run_bound:
  "table_ok t \<Longrightarrow> \<exists>as t'. claim_run requests t = Inr (as, t') \<and> int (length as) \<le> attempts_left t"
proof (induction requests arbitrary: t)
  case Nil
  then show ?case by (simp add: attempts_left_nonneg)
next
  case (Cons request requests)
  obtain clock node where request: "request = (clock, node)" by (cases request)
  obtain res t' where claim: "ClaimNextHostAssignment clock node t = Inr (res, t')"
    using claim_total[OF Cons.prems] by blast
  obtain as t'' where rest: "claim_run requests t' = Inr (as, t'')" "int (length as) \<le> attempts_left t'"
    using Cons.IH[OF table_ok_claim[OF Cons.prems claim]] by blast
  show ?case
    using rest attempts_left_claim[OF Cons.prems claim]
    by (cases res) (simp_all add: request claim)
qed

text \<open>
  \<^bold>\<open>C16.\<close> Retrying ends: however long the hosts keep asking, and however many leases expire, the
  queue hands out no more assignments than there are attempts left in it.
\<close>

theorem claims_bounded:
  assumes "table_ok t"
  shows "\<exists>as t'. claim_run requests t = Inr (as, t') \<and> int (length as) \<le> attempts_left t"
  using assms by (rule claim_run_bound)

section \<open>One active assignment per plane and node\<close>

definition active_for :: "string \<Rightarrow> string \<Rightarrow> assignment_table \<Rightarrow> assignment_row list" where
  "active_for plane node t =
     filter (\<lambda>r. row_plane_name r = plane \<and> row_node_name r = node \<and> row_active r) (tab_rows t)"

lemma active_for_insert:
  assumes "ha_status a = HA_Pending"
  shows "length (active_for p n (InsertAssignment now a t)) = length (active_for p n t) +
    (if bind_text (ha_plane_name a) = p \<and> bind_text (ha_node_name a) = n then 1 else 0)"
  using assms by (simp add: active_for_def InsertAssignment_def row_active_def)

lemma active_for_supersede:
  "length (active_for p n (supersede_for_node now reason a t)) =
    (if bind_text (ha_plane_name a) = p \<and> bind_text (ha_node_name a) = n then 0
     else length (active_for p n t))"
proof -
  define key where "key \<longleftrightarrow> bind_text (ha_plane_name a) = p \<and> bind_text (ha_node_name a) = n"
  let ?act = "\<lambda>r. row_plane_name r = p \<and> row_node_name r = n \<and> row_active r"
  let ?sup = "\<lambda>r. row_plane_name r = bind_text (ha_plane_name a) \<and>
    row_node_name r = bind_text (ha_node_name a) \<and> row_active r"
  have row: "?act (if ?sup r then supersede_row now m r else r) \<longleftrightarrow> \<not> key \<and> ?act r" for m r
    by (cases "?sup r") (auto simp: supersede_row_def row_active_def key_def)
  have "length (filter ?act (map (\<lambda>r. if ?sup r then supersede_row now m r else r) rows)) =
      length (filter (\<lambda>r. \<not> key \<and> ?act r) rows)" for m rows
    unfolding filter_map length_map comp_def row ..
  then show ?thesis
    unfolding active_for_def supersede_for_node_def sql_update_rows key_def[symmetric] by simp
qed

lemma active_for_enqueue:
  "list_all (\<lambda>a. ha_status a = HA_Pending) as \<Longrightarrow>
   length (active_for p n (EnqueueHostAssignments_from clock k as reason t)) =
     (if list_ex (\<lambda>a. bind_text (ha_plane_name a) = p \<and> bind_text (ha_node_name a) = n) as then 1
      else length (active_for p n t))"
  by (induction as arbitrary: k t) (simp_all add: active_for_insert active_for_supersede)

text \<open>
  \<^bold>\<open>C23.\<close> Enqueueing pending assignments leaves exactly one active assignment for every plane and
  node it names, also when the batch names one twice, and leaves the active assignments of
  every other plane and node alone.
\<close>

theorem EnqueueHostAssignments_one_active:
  assumes "list_all (\<lambda>a. ha_status a = HA_Pending) as"
  shows "length (active_for p n (EnqueueHostAssignments clock as reason t)) =
    (if list_ex (\<lambda>a. bind_text (ha_plane_name a) = p \<and> bind_text (ha_node_name a) = n) as then 1
     else length (active_for p n t))"
  using active_for_enqueue[OF assms] by (simp add: EnqueueHostAssignments_def)
section \<open>A sample queue\<close>

definition sample_assignment :: "string \<Rightarrow> string \<Rightarrow> HostAssignment" where
  "sample_assignment plane node =
     \<lparr>ha_id = 0, ha_node_name = node, ha_plane_name = plane, ha_desired_generation = 1,
      ha_attempt_count = 0, ha_max_attempts = 3, ha_assignment_type = ''apply-node-state'',
      ha_desired_state_json = [], ha_artifacts_root = [], ha_status = HA_Pending,
      ha_status_message = [], ha_progress_json = []\<rparr>"

definition sample_table :: assignment_table where
  "sample_table = EnqueueHostAssignments (\<lambda>_. 0) [sample_assignment ''p'' ''n'', sample_assignment ''q'' ''n'']
     [] \<lparr>tab_rows = [], tab_next_id = 1\<rparr>"

lemma sample_table_reachable: "assignment_reachable sample_table"
  unfolding sample_table_def
  by (rule assignment_reachable.step[OF assignment_reachable.empty assignment_step.enqueue])
    (simp add: attempts_ok_def sample_assignment_def)

lemmas sample_table_ok = table_ok_reachable[OF sample_table_reachable]

theorem assignment_reachable_ok_witness:
  "table_ok sample_table \<and> (\<exists>as. LoadHostAssignments (Some ''n'') None None sample_table = Inr as)"
  using assignment_reachable_ok[OF sample_table_reachable, of "Some ''n''" None None] by blast

theorem ClaimNextHostAssignment_spec_witness:
  "\<exists>res t'. ClaimNextHostAssignment (\<lambda>_. 10) ''n'' sample_table = Inr (res, t')"
  using ClaimNextHostAssignment_spec[OF sample_table_ok, of "\<lambda>_. 10" "''n''"] by blast

theorem claims_bounded_witness:
  "\<exists>as t'. claim_run (replicate 100 (\<lambda>_. 0, ''n'')) sample_table = Inr (as, t') \<and> int (length as) \<le> 6"
proof -
  have "attempts_left sample_table = 6" by code_simp
  with claims_bounded[OF sample_table_ok, of "replicate 100 (\<lambda>_. 0, ''n'')"] show ?thesis by simp
qed

theorem EnqueueHostAssignments_one_active_witness:
  "length (active_for ''p'' ''n'' (EnqueueHostAssignments (\<lambda>_. 5)
     [sample_assignment ''p'' ''n'', sample_assignment ''p'' ''n''] [] sample_table)) = 1"
  by (subst EnqueueHostAssignments_one_active) (simp_all add: sample_assignment_def bind_text_def)

definition claimed_id :: "(HostAssignment option \<times> assignment_table) res \<Rightarrow> int option" where
  "claimed_id r = (case r of Inl _ \<Rightarrow> None | Inr p \<Rightarrow> map_option ha_id (fst p))"

definition claimed_table :: "(HostAssignment option \<times> assignment_table) res \<Rightarrow> assignment_table" where
  "claimed_table r = (case r of Inl _ \<Rightarrow> sample_table | Inr p \<Rightarrow> snd p)"

lemma claimed_idD: "claimed_id r = Some i \<Longrightarrow> \<exists>a. r = Inr (Some a, claimed_table r)"
  by (auto simp: claimed_id_def claimed_table_def split: sum.splits)

lemma sample_claims:
  "claimed_id (ClaimNextHostAssignment (\<lambda>_. 0) ''n'' sample_table) = Some 1"
  "claimed_id (ClaimNextHostAssignment (\<lambda>_. 30) ''n''
     (claimed_table (ClaimNextHostAssignment (\<lambda>_. 0) ''n'' sample_table))) = Some 2"
  by code_simp+


text \<open>
  The text names of the statuses stored in the database: the parsers accept exactly the
  printed names.
\<close>

lemma status_codec_roundtrip:
  "(ParseHostAssignmentStatus v = Inr a \<longleftrightarrow> v = ToString_HostAssignmentStatus a) \<and>
   (ParseHostObservationStatus v = Inr b \<longleftrightarrow> v = ToString_HostObservationStatus b) \<and>
   (ParseNodeAvailability v = Inr c \<longleftrightarrow> v = ToString_NodeAvailability c) \<and>
   (ParseRolloutActionStatus v = Inr d \<longleftrightarrow> v = ToString_RolloutActionStatus d)"
proof (intro conjI)
  show "ParseHostAssignmentStatus v = Inr a \<longleftrightarrow> v = ToString_HostAssignmentStatus a"
    by (cases a) (auto simp: ParseHostAssignmentStatus_def)
  show "ParseHostObservationStatus v = Inr b \<longleftrightarrow> v = ToString_HostObservationStatus b"
    by (cases b) (auto simp: ParseHostObservationStatus_def)
  show "ParseNodeAvailability v = Inr c \<longleftrightarrow> v = ToString_NodeAvailability c"
    by (cases c) (auto simp: ParseNodeAvailability_def)
  show "ParseRolloutActionStatus v = Inr d \<longleftrightarrow> v = ToString_RolloutActionStatus d"
    by (cases d) (auto simp: ParseRolloutActionStatus_def)
qed

end
