(* ===== verification/Naim_Clock.thy ===== *)
theory Naim_Clock
  imports Naim_Std_Lib
begin

text \<open>
  Time stamps in UTC. The database writes \<open>CURRENT_TIMESTAMP\<close> and the controller
  \<open>UtcNowSqlTimestamp\<close> as text in the format \<open>%Y-%m-%d %H:%M:%S\<close>; ages are computed by reading
  the text back with \<open>std::get_time\<close> and \<open>timegm\<close>. The theory models these functions of the
  standard library on the proleptic Gregorian calendar, fields as wide as libstdc++ reads
  them, and shows that reading inverts printing for the years 1970 to 9999.
\<close>

section \<open>The calendar\<close>

record tm =
  tm_year :: int
  tm_mon :: int
  tm_mday :: int
  tm_hour :: int
  tm_min :: int
  tm_sec :: int

definition leap_year :: "int \<Rightarrow> bool" where
  "leap_year y \<longleftrightarrow> y mod 4 = 0 \<and> (y mod 100 \<noteq> 0 \<or> y mod 400 = 0)"

definition year_days :: "int \<Rightarrow> int" where
  "year_days y = (if leap_year y then 366 else 365)"

definition month_days :: "int \<Rightarrow> int list" where
  "month_days y = [31, if leap_year y then 29 else 28, 31, 30, 31, 30, 31, 31, 30, 31, 30, 31]"

text \<open>Days from the epoch to the first of January.\<close>

definition days_before_year :: "int \<Rightarrow> int" where
  "days_before_year y =
     365 * (y - 1970) + ((y - 1) div 4 - (y - 1) div 100 + (y - 1) div 400 - 477)"

definition timegm :: "tm \<Rightarrow> int" where
  "timegm t =
     (days_before_year (tm_year t) + sum_list (take (nat (tm_mon t - 1)) (month_days (tm_year t))) +
        (tm_mday t - 1)) * 86400
     + tm_hour t * 3600 + tm_min t * 60 + tm_sec t"

function find_year :: "int \<Rightarrow> int \<Rightarrow> int \<times> int" where
  "find_year y d = (if d < year_days y then (y, d) else find_year (y + 1) (d - year_days y))"
  by auto
termination
  by (relation "measure (\<lambda>(y, d). nat d)") (auto simp: year_days_def split: if_splits)

declare find_year.simps [simp del]

fun find_month :: "int list \<Rightarrow> int \<Rightarrow> int \<Rightarrow> int \<times> int" where
  "find_month [] m d = (m, d)"
| "find_month (n # ns) m d = (if d < n then (m, d) else find_month ns (m + 1) (d - n))"

definition gmtime :: "int \<Rightarrow> tm" where
  "gmtime t =
     (let (y, day) = find_year 1970 (t div 86400);
          (m, d) = find_month (month_days y) 1 day;
          s = t mod 86400
      in \<lparr>tm_year = y, tm_mon = m, tm_mday = d + 1,
          tm_hour = s div 3600, tm_min = s div 60 mod 60, tm_sec = s mod 60\<rparr>)"

definition tm_ok :: "tm \<Rightarrow> bool" where
  "tm_ok t \<longleftrightarrow> 1000 \<le> tm_year t \<and> tm_year t \<le> 9999 \<and> 1 \<le> tm_mon t \<and> tm_mon t \<le> 12 \<and>
     1 \<le> tm_mday t \<and> tm_mday t \<le> 31 \<and> 0 \<le> tm_hour t \<and> tm_hour t \<le> 23 \<and>
     0 \<le> tm_min t \<and> tm_min t \<le> 59 \<and> 0 \<le> tm_sec t \<and> tm_sec t \<le> 60"

lemma div_pred:
  assumes "0 < k"
  shows "(y :: int) div k = (y - 1) div k + (if y mod k = 0 then 1 else 0)"
proof (cases "y mod k = 0")
  case True
  have "(y - 1) div k = y div k - 1"
    by (rule int_div_pos_eq[where r = "k - 1"])
      (use True assms div_mult_mod_eq[of y k] in \<open>simp_all add: algebra_simps\<close>)
  with True show ?thesis by simp
next
  case False
  have "0 \<le> y mod k" "y mod k < k" using assms by simp_all
  with False have "0 \<le> y mod k - 1" "y mod k - 1 < k" by linarith+
  moreover have "y - 1 = k * (y div k) + (y mod k - 1)" by simp
  ultimately have "(y - 1) div k = y div k" by (intro int_div_pos_eq)
  with False show ?thesis by simp
qed

lemma leap_count:
  "(b \<Longrightarrow> a) \<Longrightarrow> (c \<Longrightarrow> b) \<Longrightarrow>
   (n :: int) = d + 365 + ((if a then 1 else 0) - (if b then 1 else 0) + (if c then 1 else 0)) \<Longrightarrow>
   n = d + (if a \<and> (\<not> b \<or> c) then 366 else 365)"
  by (cases a; cases b; cases c) auto

lemma days_before_next_year: "days_before_year (y + 1) = days_before_year y + year_days y"
proof -
  have "days_before_year (y + 1) = days_before_year y + 365 +
      ((if y mod 4 = 0 then 1 else 0) - (if y mod 100 = 0 then 1 else 0) +
       (if y mod 400 = 0 then 1 else 0))"
    unfolding days_before_year_def add_diff_cancel_right' div_pred[of 4 y, simplified]
      div_pred[of 100 y, simplified] div_pred[of 400 y, simplified]
    by (simp only: algebra_simps)
  moreover have "y mod 100 = 0 \<Longrightarrow> y mod 4 = 0" "y mod 400 = 0 \<Longrightarrow> y mod 100 = 0"
    using mod_mod_cancel[of 4 100 y] mod_mod_cancel[of 100 400 y] by simp_all
  ultimately show ?thesis unfolding year_days_def leap_year_def by (intro leap_count)
qed

lemma find_year_days:
  "find_year y d = (y', d') \<Longrightarrow> 0 \<le> d \<Longrightarrow>
   y \<le> y' \<and> 0 \<le> d' \<and> d' < year_days y' \<and> days_before_year y' + d' = days_before_year y + d"
proof (induction y d arbitrary: y' d' rule: find_year.induct)
  case (1 y d)
  show ?case
  proof (cases "d < year_days y")
    case True
    with 1(2,3) show ?thesis by (subst (asm) find_year.simps) simp
  next
    case False
    with 1(2) have "find_year (y + 1) (d - year_days y) = (y', d')"
      by (subst (asm) find_year.simps) simp
    from 1(1)[OF False this] False show ?thesis by (simp add: days_before_next_year)
  qed
qed

lemma find_month_days:
  "find_month ns m d = (m', d') \<Longrightarrow> 0 \<le> d \<Longrightarrow> d < sum_list ns \<Longrightarrow>
   m \<le> m' \<and> m' < m + int (length ns) \<and> 0 \<le> d' \<and> d' < ns ! nat (m' - m) \<and>
   sum_list (take (nat (m' - m)) ns) + d' = d"
proof (induction ns m d arbitrary: m' d' rule: find_month.induct)
  case (2 n ns m d)
  show ?case
  proof (cases "d < n")
    case False
    with 2 have "m + 1 \<le> m' \<and> m' < m + 1 + int (length ns) \<and> 0 \<le> d' \<and> d' < ns ! nat (m' - (m + 1)) \<and>
        sum_list (take (nat (m' - (m + 1))) ns) + d' = d - n"
      by simp
    moreover from this have "nat (m' - m) = Suc (nat (m' - (m + 1)))" by arith
    ultimately show ?thesis by simp
  qed (use 2 in simp)
qed simp

lemma sum_month_days: "sum_list (month_days y) = year_days y"
  by (simp add: month_days_def year_days_def)

lemma month_days_le: "i < 12 \<Longrightarrow> month_days y ! i \<le> 31"
proof -
  assume "i < 12"
  then have "month_days y ! i \<in> set (month_days y)" by (intro nth_mem) (simp add: month_days_def)
  then show ?thesis by (auto simp: month_days_def split: if_splits)
qed

lemma timegm_gmtime:
  assumes "0 \<le> t"
  shows "timegm (gmtime t) = t"
proof -
  obtain y day where y: "find_year 1970 (t div 86400) = (y, day)" by (cases "find_year 1970 (t div 86400)")
  obtain m d where m: "find_month (month_days y) 1 day = (m, d)" by (cases "find_month (month_days y) 1 day")
  have "0 \<le> day" "day < sum_list (month_days y)" and days: "days_before_year y + day = t div 86400"
    using find_year_days[OF y] assms by (simp_all add: sum_month_days days_before_year_def)
  then have "sum_list (take (nat (m - 1)) (month_days y)) + d = day"
    using find_month_days[OF m] by simp
  with days have days: "days_before_year y + sum_list (take (nat (m - 1)) (month_days y)) + d = t div 86400"
    by simp
  have clock: "s div 3600 * 3600 + s div 60 mod 60 * 60 + s mod 60 = s" for s :: int
  proof -
    have "s div 3600 = s div 60 div 60" by (simp add: zdiv_zmult2_eq[symmetric])
    moreover have "s div 60 div 60 * 60 + s div 60 mod 60 = s div 60" "s div 60 * 60 + s mod 60 = s"
      by (rule div_mult_mod_eq)+
    ultimately show ?thesis by linarith
  qed
  have "timegm (gmtime t) = t div 86400 * 86400 +
      (t mod 86400 div 3600 * 3600 + t mod 86400 div 60 mod 60 * 60 + t mod 86400 mod 60)"
    unfolding days[symmetric] by (simp add: timegm_def gmtime_def Let_def y m)
  also have "\<dots> = t" unfolding clock by (rule div_mult_mod_eq)
  finally show ?thesis .
qed

lemma days_before_year_mono: "y \<le> y' \<Longrightarrow> days_before_year y \<le> days_before_year y'"
proof (induction y' rule: int_ge_induct)
  case (step i)
  then show ?case by (simp add: days_before_next_year year_days_def)
qed simp

lemma gmtime_ok:
  assumes "0 \<le> t" "t < 253402300800"
  shows "tm_ok (gmtime t)"
proof -
  obtain y day where y: "find_year 1970 (t div 86400) = (y, day)" by (cases "find_year 1970 (t div 86400)")
  obtain m d where m: "find_month (month_days y) 1 day = (m, d)" by (cases "find_month (month_days y) 1 day")
  have day: "1970 \<le> y" "0 \<le> day" "day < sum_list (month_days y)" "days_before_year y + day = t div 86400"
    using find_year_days[OF y] assms by (simp_all add: sum_month_days days_before_year_def)
  have "y \<le> 9999"
  proof (rule ccontr)
    assume "\<not> y \<le> 9999"
    then have "days_before_year 10000 \<le> days_before_year y" by (intro days_before_year_mono) simp
    moreover have "t div 86400 < 2932897" using assms by simp
    moreover have "days_before_year 10000 = 2932897" by (simp add: days_before_year_def)
    ultimately show False using day by simp
  qed
  moreover have "1 \<le> m" "m \<le> 12" "0 \<le> d" "d < month_days y ! nat (m - 1)"
    using find_month_days[OF m] day by (simp_all add: month_days_def)
  moreover from this have "nat (m - 1) < 12" by arith
  moreover from this have "month_days y ! nat (m - 1) \<le> 31" by (rule month_days_le)
  moreover have "0 \<le> t mod 86400 div 3600" "t mod 86400 div 3600 \<le> 23" "t mod 86400 mod 60 \<le> 60"
    "t mod 86400 div 60 mod 60 \<le> 59" by simp_all
  ultimately show ?thesis
    using day by (simp add: tm_ok_def gmtime_def Let_def y m)
qed

section \<open>Text\<close>

definition pad2 :: "int \<Rightarrow> string" where
  "pad2 n = [digit_char (nat n div 10), digit_char (nat n mod 10)]"

text \<open>\<open>std::put_time(&tm, "%Y-%m-%d %H:%M:%S")\<close>.\<close>

definition put_time :: "tm \<Rightarrow> string" where
  "put_time t = to_string (tm_year t) @ ''-'' @ pad2 (tm_mon t) @ ''-'' @ pad2 (tm_mday t) @ '' '' @
     pad2 (tm_hour t) @ '':'' @ pad2 (tm_min t) @ '':'' @ pad2 (tm_sec t)"

text \<open>A field of \<open>width\<close> digits with its range, and a literal character.\<close>

definition get_field :: "nat \<Rightarrow> int \<Rightarrow> int \<Rightarrow> string \<Rightarrow> (int \<times> string) option" where
  "get_field width lo hi s =
     (let digits = take width s; n = int (digits_value digits) in
      if length digits = width \<and> list_all is_digit digits \<and> lo \<le> n \<and> n \<le> hi
      then Some (n, drop width s) else None)"

definition get_literal :: "char \<Rightarrow> string \<Rightarrow> string option" where
  "get_literal c s = (case s of [] \<Rightarrow> None | d # ds \<Rightarrow> if c = d then Some ds else None)"

text \<open>
  \<open>input >> std::get_time(&tm, "%Y-%m-%d %H:%M:%S")\<close>: leading white space is skipped, text after
  the seconds is left unread.
\<close>

definition get_time :: "string \<Rightarrow> tm option" where
  "get_time s =
     Option.bind (get_field 4 0 9999 (dropWhile is_space s)) (\<lambda>(year, s).
     Option.bind (get_literal CHR ''-'' s) (\<lambda>s.
     Option.bind (get_field 2 1 12 s) (\<lambda>(mon, s).
     Option.bind (get_literal CHR ''-'' s) (\<lambda>s.
     Option.bind (get_field 2 1 31 s) (\<lambda>(mday, s).
     Option.bind (get_literal CHR '' '' s) (\<lambda>s.
     Option.bind (get_field 2 0 23 s) (\<lambda>(hour, s).
     Option.bind (get_literal CHR '':'' s) (\<lambda>s.
     Option.bind (get_field 2 0 59 s) (\<lambda>(min, s).
     Option.bind (get_literal CHR '':'' s) (\<lambda>s.
     Option.bind (get_field 2 0 60 s) (\<lambda>(sec, _).
     Some \<lparr>tm_year = year, tm_mon = mon, tm_mday = mday, tm_hour = hour, tm_min = min,
           tm_sec = sec\<rparr>)))))))))))"

text \<open>\<open>CURRENT_TIMESTAMP\<close> of the database, and \<open>UtcNowSqlTimestamp\<close> of the controller.\<close>

definition sql_timestamp :: "int \<Rightarrow> string" where
  "sql_timestamp now = put_time (gmtime now)"

lemma get_field_pad2:
  assumes "lo \<le> n" "n \<le> hi" "0 \<le> n" "n \<le> 99"
  shows "get_field 2 lo hi (pad2 n @ s) = Some (n, s)"
proof -
  have lt: "nat n div 10 < 10" "nat n mod 10 < 10" using assms by simp_all
  have "digits_value (pad2 n) = nat n"
    using lt by (simp add: pad2_def digits_value_def of_char_digit_char)
  moreover have "list_all is_digit (pad2 n)"
    using digit_char_range[OF lt(1)] digit_char_range[OF lt(2)] by (simp add: pad2_def is_digit_def)
  moreover have "take 2 (pad2 n @ s) = pad2 n" "drop 2 (pad2 n @ s) = s" "length (pad2 n) = 2"
    by (simp_all add: pad2_def)
  ultimately show ?thesis using assms by (simp add: get_field_def)
qed

lemma get_literal_Cons [simp]: "get_literal c (c # s) = Some s"
  by (simp add: get_literal_def)

lemma length_show_nat_step: "10 \<le> n \<Longrightarrow> length (show_nat n) = Suc (length (show_nat (n div 10)))"
  by (subst show_nat.simps) simp

lemma length_show_nat4:
  assumes "1000 \<le> n" "n \<le> 9999"
  shows "length (show_nat n) = 4"
proof -
  have "10 \<le> n" "10 \<le> n div 10" "10 \<le> n div 10 div 10" "n div 10 div 10 div 10 < 10"
    using assms by auto
  moreover have "k < 10 \<Longrightarrow> length (show_nat k) = 1" for k by (subst show_nat.simps) simp
  ultimately show ?thesis by (simp only: length_show_nat_step)
qed

lemma get_field_year:
  assumes "1000 \<le> y" "y \<le> 9999"
  shows "get_field 4 0 9999 (dropWhile is_space (to_string y @ s)) = Some (y, s)"
proof -
  have len: "length (to_string y) = 4" "to_string y = show_nat (nat y)"
    using assms length_show_nat4[of "nat y"] by (simp_all add: to_string_def)
  obtain c cs where c: "show_nat (nat y) = c # cs" "\<not> is_space c" by (rule show_nat_first[of "nat y"])
  then have "dropWhile is_space (to_string y @ s) = to_string y @ s" using len by simp
  moreover have "list_all is_digit (to_string y)"
    unfolding list_all_iff is_digit_def len(2) using show_nat_digits by blast
  ultimately show ?thesis
    using assms len by (simp add: get_field_def digits_value_show_nat Let_def)
qed

lemma get_time_put_time: "tm_ok t \<Longrightarrow> get_time (put_time t @ s) = Some t"
  unfolding tm_ok_def get_time_def put_time_def append_assoc append_Cons append_Nil
  by (simp add: get_field_year get_field_pad2)

text \<open>
  A time stamp that the database or the controller wrote is read back as the second it was
  written at.
\<close>

lemma timestamp_roundtrip:
  assumes "0 \<le> t" "t < 253402300800"
  shows "map_option timegm (get_time (sql_timestamp t)) = Some t"
  using get_time_put_time[OF gmtime_ok[OF assms], of "[]"] timegm_gmtime[OF assms(1)]
  by (simp add: sql_timestamp_def)

lemma sql_timestamp_nonempty [simp]: "sql_timestamp t \<noteq> []"
  by (simp add: sql_timestamp_def put_time_def)

lemma pad2_chars: "0 \<le> n \<Longrightarrow> n \<le> 99 \<Longrightarrow> CHR 0x00 \<notin> set (pad2 n)"
proof -
  assume "0 \<le> n" "n \<le> 99"
  then have "nat n div 10 < 10" "nat n mod 10 < 10" by simp_all
  from digit_char_range[OF this(1)] digit_char_range[OF this(2)] show ?thesis
    by (auto simp: pad2_def)
qed

lemma to_string_chars: "CHR 0x00 \<notin> set (to_string n)"
  using show_nat_digits[of "nat n"] show_nat_digits[of "nat (- n)"] by (auto simp: to_string_def)

lemma sql_timestamp_chars:
  assumes "0 \<le> t" "t < 253402300800"
  shows "CHR 0x00 \<notin> set (sql_timestamp t)"
  using gmtime_ok[OF assms] by (simp add: sql_timestamp_def put_time_def tm_ok_def pad2_chars to_string_chars)

end
