(* ===== verification/Naim_Runtime_Status.thy ===== *)
theory Naim_Runtime_Status
  imports Naim_Json
begin

text \<open>
  The status and telemetry documents that hosts report: the structs of
  \<open>common/include/naim/runtime/runtime_status.h\<close> and their codecs in
  \<open>common/src/runtime/runtime_status.cpp\<close>. A \<open>std::uint64_t\<close> is an \<open>int\<close> that a decoder reduces
  modulo \<open>2 ^ 64\<close>. The lemmas show that every decoder reads back what its encoder wrote.
\<close>

section \<open>Structs\<close>

record RuntimeProcessStatus =
  ps_instance_name :: string
  ps_instance_role :: string
  ps_node_name :: string
  ps_model_path :: string
  ps_gpu_device :: string
  ps_runtime_phase :: string
  ps_started_at :: string
  ps_last_activity_at :: string
  ps_runtime_pid :: int
  ps_engine_pid :: int
  ps_ready :: bool
  ps_plane_name :: string

record GpuProcessTelemetry =
  gp_pid :: int
  gp_used_vram_mb :: int
  gp_instance_name :: string

record GpuDeviceTelemetry =
  gd_gpu_device :: string
  gd_total_vram_mb :: int
  gd_used_vram_mb :: int
  gd_free_vram_mb :: int
  gd_gpu_utilization_pct :: int
  gd_temperature_c :: int
  gd_temperature_available :: bool
  gd_processes :: "GpuProcessTelemetry list"

record GpuTelemetrySnapshot =
  gt_contract_version :: int
  gt_degraded :: bool
  gt_source :: string
  gt_collected_at :: string
  gt_devices :: "GpuDeviceTelemetry list"

record DiskTelemetryRecord =
  dt_disk_name :: string
  dt_plane_name :: string
  dt_node_name :: string
  dt_mount_point :: string
  dt_mount_source :: string
  dt_filesystem_type :: string
  dt_runtime_state :: string
  dt_health :: string
  dt_status_message :: string
  dt_total_bytes :: int
  dt_used_bytes :: int
  dt_free_bytes :: int
  dt_read_ios :: int
  dt_write_ios :: int
  dt_read_bytes :: int
  dt_write_bytes :: int
  dt_io_time_ms :: int
  dt_weighted_io_time_ms :: int
  dt_io_error_count :: int
  dt_io_in_progress :: int
  dt_warning_count :: int
  dt_fault_count :: int
  dt_read_only :: bool
  dt_mounted :: bool
  dt_perf_counters_available :: bool
  dt_io_error_counters_available :: bool
  dt_fault_reasons :: "string list"

record DiskTelemetrySnapshot =
  ds_contract_version :: int
  ds_degraded :: bool
  ds_source :: string
  ds_collected_at :: string
  ds_items :: "DiskTelemetryRecord list"

record NetworkInterfaceTelemetry =
  ni_interface_name :: string
  ni_oper_state :: string
  ni_link_state :: string
  ni_addresses :: "string list"
  ni_rx_bytes :: int
  ni_tx_bytes :: int
  ni_loopback :: bool

record PeerDiscoveryTelemetry =
  pd_peer_node_name :: string
  pd_peer_endpoint :: string
  pd_cluster_id :: string
  pd_controller_url :: string
  pd_controller_fingerprint :: string
  pd_local_interface :: string
  pd_remote_address :: string
  pd_seen_udp :: bool
  pd_tcp_reachable :: bool
  pd_rtt_ms :: int
  pd_last_seen_at :: string
  pd_last_probe_at :: string

record NetworkTelemetrySnapshot =
  nt_contract_version :: int
  nt_degraded :: bool
  nt_source :: string
  nt_collected_at :: string
  nt_interfaces :: "NetworkInterfaceTelemetry list"
  nt_peer_discovery :: "PeerDiscoveryTelemetry list"

record CpuTelemetrySnapshot =
  ct_contract_version :: int
  ct_degraded :: bool
  ct_source :: string
  ct_collected_at :: string
  ct_core_count :: int
  ct_utilization_pct :: double
  ct_loadavg_1m :: double
  ct_loadavg_5m :: double
  ct_loadavg_15m :: double
  ct_temperature_c :: double
  ct_max_temperature_c :: double
  ct_temperature_available :: bool
  ct_total_memory_bytes :: int
  ct_available_memory_bytes :: int
  ct_used_memory_bytes :: int

record RuntimeStatus =
  rs_plane_name :: string
  rs_control_root :: string
  rs_controller_url :: string
  rs_primary_infer_node :: string
  rs_instance_name :: string
  rs_instance_role :: string
  rs_node_name :: string
  rs_data_parallel_mode :: string
  rs_data_parallel_lb_mode :: string
  rs_runtime_backend :: string
  rs_runtime_phase :: string
  rs_enabled_gpu_nodes :: int
  rs_data_parallel_size :: int
  rs_data_parallel_size_local_max :: int
  rs_replica_groups_expected :: int
  rs_replica_groups_ready :: int
  rs_replica_groups_degraded :: int
  rs_api_endpoints_expected :: int
  rs_api_endpoints_ready :: int
  rs_registry_entries :: int
  rs_supervisor_pid :: int
  rs_runtime_pid :: int
  rs_engine_pid :: int
  rs_aliases :: "string list"
  rs_active_model_id :: string
  rs_active_served_model_name :: string
  rs_active_runtime_profile :: string
  rs_turboquant_enabled :: bool
  rs_active_cache_type_k :: string
  rs_active_cache_type_v :: string
  rs_status_reason :: string
  rs_failure_detail :: string
  rs_cached_local_model_path :: string
  rs_model_path :: string
  rs_gpu_device :: string
  rs_rpc_endpoint :: string
  rs_gateway_listen :: string
  rs_upstream_models_url :: string
  rs_inference_health_url :: string
  rs_gateway_health_url :: string
  rs_started_at :: string
  rs_last_activity_at :: string
  rs_kv_cache_bytes :: "int option"
  rs_ready :: bool
  rs_active_model_ready :: bool
  rs_gateway_plan_ready :: bool
  rs_inference_ready :: bool
  rs_gateway_ready :: bool
  rs_launch_ready :: bool

section \<open>Accessors\<close>

definition u64_fits :: "int \<Rightarrow> bool" where
  "u64_fits i \<longleftrightarrow> 0 \<le> i \<and> i < 2 ^ 64"

fun get_u64 :: "json \<Rightarrow> int res" where
  "get_u64 (JInt i) = Inr (i mod 2 ^ 64)"
| "get_u64 (JFloat d) = Inr (if d < 0 then \<lceil>d\<rceil> else \<lfloor>d\<rfloor>)"
| "get_u64 j = Inl (JsonError 302)"

text \<open>Loops that keep the strings, or the objects, of an array field.\<close>

definition string_list_field :: "json \<Rightarrow> string \<Rightarrow> string list res" where
  "string_list_field value key =
     res_bind (json_value Inr value key (JArray [])) (\<lambda>items.
       res_map_list get_string (filter is_string (json_iter items)))"

definition object_list_field :: "(json \<Rightarrow> 'a res) \<Rightarrow> json \<Rightarrow> string \<Rightarrow> 'a list res" where
  "object_list_field f value key =
     res_bind (json_value Inr value key (JArray [])) (\<lambda>items.
       res_map_list f (filter is_object (json_iter items)))"

text \<open>A number that is unsigned, or signed and not negative.\<close>

definition unsigned_field :: "json \<Rightarrow> string \<Rightarrow> int option" where
  "unsigned_field value key =
     (case json_get value key of
        Some (JInt i) \<Rightarrow> if i \<ge> 0 then Some (i mod 2 ^ 64) else None
      | _ \<Rightarrow> None)"

section \<open>Codecs\<close>

definition ToJson_RuntimeProcessStatus :: "RuntimeProcessStatus \<Rightarrow> json" where
  "ToJson_RuntimeProcessStatus status = json_object
     [(''instance_name'', JString (ps_instance_name status)),
      (''instance_role'', JString (ps_instance_role status)),
      (''node_name'', JString (ps_node_name status)),
      (''model_path'', JString (ps_model_path status)),
      (''gpu_device'', JString (ps_gpu_device status)),
      (''runtime_phase'', JString (ps_runtime_phase status)),
      (''started_at'', JString (ps_started_at status)),
      (''last_activity_at'', JString (ps_last_activity_at status)),
      (''runtime_pid'', JInt (ps_runtime_pid status)),
      (''engine_pid'', JInt (ps_engine_pid status)),
      (''ready'', JBool (ps_ready status)),
      (''plane_name'', JString (ps_plane_name status))]"

definition RuntimeProcessStatusFromJson :: "json \<Rightarrow> RuntimeProcessStatus res" where
  "RuntimeProcessStatusFromJson value =
     res_bind (json_value get_string value ''instance_name'' []) (\<lambda>instance_name.
     res_bind (json_value get_string value ''instance_role'' []) (\<lambda>instance_role.
     res_bind (json_value get_string value ''node_name'' []) (\<lambda>node_name.
     res_bind (json_value get_string value ''model_path'' []) (\<lambda>model_path.
     res_bind (json_value get_string value ''gpu_device'' []) (\<lambda>gpu_device.
     res_bind (json_value get_string value ''runtime_phase'' []) (\<lambda>runtime_phase.
     res_bind (json_value get_string value ''started_at'' []) (\<lambda>started_at.
     res_bind (json_value get_string value ''last_activity_at'' []) (\<lambda>last_activity_at.
     res_bind (json_value get_int value ''runtime_pid'' 0) (\<lambda>runtime_pid.
     res_bind (json_value get_int value ''engine_pid'' 0) (\<lambda>engine_pid.
     res_bind (json_value get_bool value ''ready'' False) (\<lambda>ready.
     res_bind (json_value get_string value ''plane_name'' []) (\<lambda>plane_name.
     Inr \<lparr> ps_instance_name = instance_name,
           ps_instance_role = instance_role,
           ps_node_name = node_name,
           ps_model_path = model_path,
           ps_gpu_device = gpu_device,
           ps_runtime_phase = runtime_phase,
           ps_started_at = started_at,
           ps_last_activity_at = last_activity_at,
           ps_runtime_pid = runtime_pid,
           ps_engine_pid = engine_pid,
           ps_ready = ready,
           ps_plane_name = plane_name \<rparr>))))))))))))"

definition ToJson_GpuProcessTelemetry :: "GpuProcessTelemetry \<Rightarrow> json" where
  "ToJson_GpuProcessTelemetry x = json_object
     [(''pid'', JInt (gp_pid x)),
      (''used_vram_mb'', JInt (gp_used_vram_mb x)),
      (''instance_name'', JString (gp_instance_name x))]"

definition GpuProcessTelemetryFromJson :: "json \<Rightarrow> GpuProcessTelemetry res" where
  "GpuProcessTelemetryFromJson value =
     res_bind (json_value get_int value ''pid'' 0) (\<lambda>pid.
     res_bind (json_value get_int value ''used_vram_mb'' 0) (\<lambda>used_vram_mb.
     res_bind (json_value get_string value ''instance_name'' ''unknown'') (\<lambda>instance_name.
     Inr \<lparr> gp_pid = pid,
           gp_used_vram_mb = used_vram_mb,
           gp_instance_name = instance_name \<rparr>)))"

definition ToJson_GpuDeviceTelemetry :: "GpuDeviceTelemetry \<Rightarrow> json" where
  "ToJson_GpuDeviceTelemetry x = json_object
     [(''gpu_device'', JString (gd_gpu_device x)),
      (''total_vram_mb'', JInt (gd_total_vram_mb x)),
      (''used_vram_mb'', JInt (gd_used_vram_mb x)),
      (''free_vram_mb'', JInt (gd_free_vram_mb x)),
      (''gpu_utilization_pct'', JInt (gd_gpu_utilization_pct x)),
      (''temperature_c'', JInt (gd_temperature_c x)),
      (''temperature_available'', JBool (gd_temperature_available x)),
      (''processes'', JArray (map ToJson_GpuProcessTelemetry (gd_processes x)))]"

definition GpuDeviceTelemetryFromJson :: "json \<Rightarrow> GpuDeviceTelemetry res" where
  "GpuDeviceTelemetryFromJson value =
     res_bind (json_value get_string value ''gpu_device'' []) (\<lambda>gpu_device.
     res_bind (json_value get_int value ''total_vram_mb'' 0) (\<lambda>total_vram_mb.
     res_bind (json_value get_int value ''used_vram_mb'' 0) (\<lambda>used_vram_mb.
     res_bind (json_value get_int value ''free_vram_mb'' 0) (\<lambda>free_vram_mb.
     res_bind (json_value get_int value ''gpu_utilization_pct'' 0) (\<lambda>gpu_utilization_pct.
     res_bind (json_value get_int value ''temperature_c'' 0) (\<lambda>temperature_c.
     res_bind (json_value get_bool value ''temperature_available'' False) (\<lambda>temperature_available.
     res_bind (object_list_field GpuProcessTelemetryFromJson value ''processes'') (\<lambda>processes.
     Inr \<lparr> gd_gpu_device = gpu_device,
           gd_total_vram_mb = total_vram_mb,
           gd_used_vram_mb = used_vram_mb,
           gd_free_vram_mb = free_vram_mb,
           gd_gpu_utilization_pct = gpu_utilization_pct,
           gd_temperature_c = temperature_c,
           gd_temperature_available = temperature_available,
           gd_processes = processes \<rparr>))))))))"

definition ToJson_GpuTelemetrySnapshot :: "GpuTelemetrySnapshot \<Rightarrow> json" where
  "ToJson_GpuTelemetrySnapshot x = json_object
     [(''contract_version'', JInt (gt_contract_version x)),
      (''degraded'', JBool (gt_degraded x)),
      (''source'', JString (gt_source x)),
      (''collected_at'', JString (gt_collected_at x)),
      (''devices'', JArray (map ToJson_GpuDeviceTelemetry (gt_devices x)))]"

definition GpuTelemetrySnapshotFromJson :: "json \<Rightarrow> GpuTelemetrySnapshot res" where
  "GpuTelemetrySnapshotFromJson value =
     res_bind (json_value get_int value ''contract_version'' 1) (\<lambda>contract_version.
     res_bind (json_value get_bool value ''degraded'' False) (\<lambda>degraded.
     res_bind (json_value get_string value ''source'' []) (\<lambda>source'.
     res_bind (json_value get_string value ''collected_at'' []) (\<lambda>collected_at.
     res_bind (object_list_field GpuDeviceTelemetryFromJson value ''devices'') (\<lambda>devices.
     Inr \<lparr> gt_contract_version = contract_version,
           gt_degraded = degraded,
           gt_source = source',
           gt_collected_at = collected_at,
           gt_devices = devices \<rparr>)))))"

definition ToJson_DiskTelemetryRecord :: "DiskTelemetryRecord \<Rightarrow> json" where
  "ToJson_DiskTelemetryRecord x = json_object
     [(''disk_name'', JString (dt_disk_name x)),
      (''plane_name'', JString (dt_plane_name x)),
      (''node_name'', JString (dt_node_name x)),
      (''mount_point'', JString (dt_mount_point x)),
      (''mount_source'', JString (dt_mount_source x)),
      (''filesystem_type'', JString (dt_filesystem_type x)),
      (''runtime_state'', JString (dt_runtime_state x)),
      (''health'', JString (dt_health x)),
      (''status_message'', JString (dt_status_message x)),
      (''total_bytes'', JInt (dt_total_bytes x)),
      (''used_bytes'', JInt (dt_used_bytes x)),
      (''free_bytes'', JInt (dt_free_bytes x)),
      (''read_ios'', JInt (dt_read_ios x)),
      (''write_ios'', JInt (dt_write_ios x)),
      (''read_bytes'', JInt (dt_read_bytes x)),
      (''write_bytes'', JInt (dt_write_bytes x)),
      (''io_time_ms'', JInt (dt_io_time_ms x)),
      (''weighted_io_time_ms'', JInt (dt_weighted_io_time_ms x)),
      (''io_error_count'', JInt (dt_io_error_count x)),
      (''io_in_progress'', JInt (dt_io_in_progress x)),
      (''warning_count'', JInt (dt_warning_count x)),
      (''fault_count'', JInt (dt_fault_count x)),
      (''read_only'', JBool (dt_read_only x)),
      (''mounted'', JBool (dt_mounted x)),
      (''perf_counters_available'', JBool (dt_perf_counters_available x)),
      (''io_error_counters_available'', JBool (dt_io_error_counters_available x)),
      (''fault_reasons'', json_strings (dt_fault_reasons x))]"

definition DiskTelemetryRecordFromJson :: "json \<Rightarrow> DiskTelemetryRecord res" where
  "DiskTelemetryRecordFromJson value =
     res_bind (json_value get_string value ''disk_name'' []) (\<lambda>disk_name.
     res_bind (json_value get_string value ''plane_name'' []) (\<lambda>plane_name.
     res_bind (json_value get_string value ''node_name'' []) (\<lambda>node_name.
     res_bind (json_value get_string value ''mount_point'' []) (\<lambda>mount_point.
     res_bind (json_value get_string value ''mount_source'' []) (\<lambda>mount_source.
     res_bind (json_value get_string value ''filesystem_type'' []) (\<lambda>filesystem_type.
     res_bind (json_value get_string value ''runtime_state'' []) (\<lambda>runtime_state.
     res_bind (json_value get_string value ''health'' []) (\<lambda>health.
     res_bind (json_value get_string value ''status_message'' []) (\<lambda>status_message.
     res_bind (json_value get_u64 value ''total_bytes'' 0) (\<lambda>total_bytes.
     res_bind (json_value get_u64 value ''used_bytes'' 0) (\<lambda>used_bytes.
     res_bind (json_value get_u64 value ''free_bytes'' 0) (\<lambda>free_bytes.
     res_bind (json_value get_u64 value ''read_ios'' 0) (\<lambda>read_ios.
     res_bind (json_value get_u64 value ''write_ios'' 0) (\<lambda>write_ios.
     res_bind (json_value get_u64 value ''read_bytes'' 0) (\<lambda>read_bytes.
     res_bind (json_value get_u64 value ''write_bytes'' 0) (\<lambda>write_bytes.
     res_bind (json_value get_u64 value ''io_time_ms'' 0) (\<lambda>io_time_ms.
     res_bind (json_value get_u64 value ''weighted_io_time_ms'' 0) (\<lambda>weighted_io_time_ms.
     res_bind (json_value get_u64 value ''io_error_count'' 0) (\<lambda>io_error_count.
     res_bind (json_value get_int value ''io_in_progress'' 0) (\<lambda>io_in_progress.
     res_bind (json_value get_int value ''warning_count'' 0) (\<lambda>warning_count.
     res_bind (json_value get_int value ''fault_count'' 0) (\<lambda>fault_count.
     res_bind (json_value get_bool value ''read_only'' False) (\<lambda>read_only.
     res_bind (json_value get_bool value ''mounted'' False) (\<lambda>mounted.
     res_bind (json_value get_bool value ''perf_counters_available'' False) (\<lambda>perf_counters_available.
     res_bind (json_value get_bool value ''io_error_counters_available'' False) (\<lambda>io_error_counters_available.
     res_bind (string_list_field value ''fault_reasons'') (\<lambda>fault_reasons.
     Inr \<lparr> dt_disk_name = disk_name,
           dt_plane_name = plane_name,
           dt_node_name = node_name,
           dt_mount_point = mount_point,
           dt_mount_source = mount_source,
           dt_filesystem_type = filesystem_type,
           dt_runtime_state = runtime_state,
           dt_health = health,
           dt_status_message = status_message,
           dt_total_bytes = total_bytes,
           dt_used_bytes = used_bytes,
           dt_free_bytes = free_bytes,
           dt_read_ios = read_ios,
           dt_write_ios = write_ios,
           dt_read_bytes = read_bytes,
           dt_write_bytes = write_bytes,
           dt_io_time_ms = io_time_ms,
           dt_weighted_io_time_ms = weighted_io_time_ms,
           dt_io_error_count = io_error_count,
           dt_io_in_progress = io_in_progress,
           dt_warning_count = warning_count,
           dt_fault_count = fault_count,
           dt_read_only = read_only,
           dt_mounted = mounted,
           dt_perf_counters_available = perf_counters_available,
           dt_io_error_counters_available = io_error_counters_available,
           dt_fault_reasons = fault_reasons \<rparr>)))))))))))))))))))))))))))"

definition ToJson_DiskTelemetrySnapshot :: "DiskTelemetrySnapshot \<Rightarrow> json" where
  "ToJson_DiskTelemetrySnapshot x = json_object
     [(''contract_version'', JInt (ds_contract_version x)),
      (''degraded'', JBool (ds_degraded x)),
      (''source'', JString (ds_source x)),
      (''collected_at'', JString (ds_collected_at x)),
      (''items'', JArray (map ToJson_DiskTelemetryRecord (ds_items x)))]"

definition DiskTelemetrySnapshotFromJson :: "json \<Rightarrow> DiskTelemetrySnapshot res" where
  "DiskTelemetrySnapshotFromJson value =
     res_bind (json_value get_int value ''contract_version'' 1) (\<lambda>contract_version.
     res_bind (json_value get_bool value ''degraded'' False) (\<lambda>degraded.
     res_bind (json_value get_string value ''source'' []) (\<lambda>source'.
     res_bind (json_value get_string value ''collected_at'' []) (\<lambda>collected_at.
     res_bind (object_list_field DiskTelemetryRecordFromJson value ''items'') (\<lambda>items.
     Inr \<lparr> ds_contract_version = contract_version,
           ds_degraded = degraded,
           ds_source = source',
           ds_collected_at = collected_at,
           ds_items = items \<rparr>)))))"

definition ToJson_NetworkInterfaceTelemetry :: "NetworkInterfaceTelemetry \<Rightarrow> json" where
  "ToJson_NetworkInterfaceTelemetry x = json_object
     [(''interface_name'', JString (ni_interface_name x)),
      (''oper_state'', JString (ni_oper_state x)),
      (''link_state'', JString (ni_link_state x)),
      (''addresses'', json_strings (ni_addresses x)),
      (''rx_bytes'', JInt (ni_rx_bytes x)),
      (''tx_bytes'', JInt (ni_tx_bytes x)),
      (''loopback'', JBool (ni_loopback x))]"

definition NetworkInterfaceTelemetryFromJson :: "json \<Rightarrow> NetworkInterfaceTelemetry res" where
  "NetworkInterfaceTelemetryFromJson value =
     res_bind (json_value get_string value ''interface_name'' []) (\<lambda>interface_name.
     res_bind (json_value get_string value ''oper_state'' []) (\<lambda>oper_state.
     res_bind (json_value get_string value ''link_state'' []) (\<lambda>link_state.
     res_bind (string_list_field value ''addresses'') (\<lambda>addresses.
     res_bind (json_value get_u64 value ''rx_bytes'' 0) (\<lambda>rx_bytes.
     res_bind (json_value get_u64 value ''tx_bytes'' 0) (\<lambda>tx_bytes.
     res_bind (json_value get_bool value ''loopback'' False) (\<lambda>loopback.
     Inr \<lparr> ni_interface_name = interface_name,
           ni_oper_state = oper_state,
           ni_link_state = link_state,
           ni_addresses = addresses,
           ni_rx_bytes = rx_bytes,
           ni_tx_bytes = tx_bytes,
           ni_loopback = loopback \<rparr>)))))))"

definition ToJson_PeerDiscoveryTelemetry :: "PeerDiscoveryTelemetry \<Rightarrow> json" where
  "ToJson_PeerDiscoveryTelemetry x = json_object
     [(''peer_node_name'', JString (pd_peer_node_name x)),
      (''peer_endpoint'', JString (pd_peer_endpoint x)),
      (''cluster_id'', JString (pd_cluster_id x)),
      (''controller_url'', JString (pd_controller_url x)),
      (''controller_fingerprint'', JString (pd_controller_fingerprint x)),
      (''local_interface'', JString (pd_local_interface x)),
      (''remote_address'', JString (pd_remote_address x)),
      (''seen_udp'', JBool (pd_seen_udp x)),
      (''tcp_reachable'', JBool (pd_tcp_reachable x)),
      (''rtt_ms'', JInt (pd_rtt_ms x)),
      (''last_seen_at'', JString (pd_last_seen_at x)),
      (''last_probe_at'', JString (pd_last_probe_at x))]"

definition PeerDiscoveryTelemetryFromJson :: "json \<Rightarrow> PeerDiscoveryTelemetry res" where
  "PeerDiscoveryTelemetryFromJson value =
     res_bind (json_value get_string value ''peer_node_name'' []) (\<lambda>peer_node_name.
     res_bind (json_value get_string value ''peer_endpoint'' []) (\<lambda>peer_endpoint.
     res_bind (json_value get_string value ''cluster_id'' []) (\<lambda>cluster_id.
     res_bind (json_value get_string value ''controller_url'' []) (\<lambda>controller_url.
     res_bind (json_value get_string value ''controller_fingerprint'' []) (\<lambda>controller_fingerprint.
     res_bind (json_value get_string value ''local_interface'' []) (\<lambda>local_interface.
     res_bind (json_value get_string value ''remote_address'' []) (\<lambda>remote_address.
     res_bind (json_value get_bool value ''seen_udp'' False) (\<lambda>seen_udp.
     res_bind (json_value get_bool value ''tcp_reachable'' False) (\<lambda>tcp_reachable.
     res_bind (json_value get_int value ''rtt_ms'' 0) (\<lambda>rtt_ms.
     res_bind (json_value get_string value ''last_seen_at'' []) (\<lambda>last_seen_at.
     res_bind (json_value get_string value ''last_probe_at'' []) (\<lambda>last_probe_at.
     Inr \<lparr> pd_peer_node_name = peer_node_name,
           pd_peer_endpoint = peer_endpoint,
           pd_cluster_id = cluster_id,
           pd_controller_url = controller_url,
           pd_controller_fingerprint = controller_fingerprint,
           pd_local_interface = local_interface,
           pd_remote_address = remote_address,
           pd_seen_udp = seen_udp,
           pd_tcp_reachable = tcp_reachable,
           pd_rtt_ms = rtt_ms,
           pd_last_seen_at = last_seen_at,
           pd_last_probe_at = last_probe_at \<rparr>))))))))))))"

definition ToJson_NetworkTelemetrySnapshot :: "NetworkTelemetrySnapshot \<Rightarrow> json" where
  "ToJson_NetworkTelemetrySnapshot x = json_object
     [(''contract_version'', JInt (nt_contract_version x)),
      (''degraded'', JBool (nt_degraded x)),
      (''source'', JString (nt_source x)),
      (''collected_at'', JString (nt_collected_at x)),
      (''interfaces'', JArray (map ToJson_NetworkInterfaceTelemetry (nt_interfaces x))),
      (''peer_discovery'', JArray (map ToJson_PeerDiscoveryTelemetry (nt_peer_discovery x)))]"

definition NetworkTelemetrySnapshotFromJson :: "json \<Rightarrow> NetworkTelemetrySnapshot res" where
  "NetworkTelemetrySnapshotFromJson value =
     res_bind (json_value get_int value ''contract_version'' 1) (\<lambda>contract_version.
     res_bind (json_value get_bool value ''degraded'' False) (\<lambda>degraded.
     res_bind (json_value get_string value ''source'' []) (\<lambda>source'.
     res_bind (json_value get_string value ''collected_at'' []) (\<lambda>collected_at.
     res_bind (object_list_field NetworkInterfaceTelemetryFromJson value ''interfaces'') (\<lambda>interfaces.
     res_bind (object_list_field PeerDiscoveryTelemetryFromJson value ''peer_discovery'') (\<lambda>peer_discovery.
     Inr \<lparr> nt_contract_version = contract_version,
           nt_degraded = degraded,
           nt_source = source',
           nt_collected_at = collected_at,
           nt_interfaces = interfaces,
           nt_peer_discovery = peer_discovery \<rparr>))))))"

definition ToJson_CpuTelemetrySnapshot :: "CpuTelemetrySnapshot \<Rightarrow> json" where
  "ToJson_CpuTelemetrySnapshot x = json_object
     [(''contract_version'', JInt (ct_contract_version x)),
      (''degraded'', JBool (ct_degraded x)),
      (''source'', JString (ct_source x)),
      (''collected_at'', JString (ct_collected_at x)),
      (''core_count'', JInt (ct_core_count x)),
      (''utilization_pct'', JFloat (ct_utilization_pct x)),
      (''loadavg_1m'', JFloat (ct_loadavg_1m x)),
      (''loadavg_5m'', JFloat (ct_loadavg_5m x)),
      (''loadavg_15m'', JFloat (ct_loadavg_15m x)),
      (''temperature_c'', JFloat (ct_temperature_c x)),
      (''max_temperature_c'', JFloat (ct_max_temperature_c x)),
      (''temperature_available'', JBool (ct_temperature_available x)),
      (''total_memory_bytes'', JInt (ct_total_memory_bytes x)),
      (''available_memory_bytes'', JInt (ct_available_memory_bytes x)),
      (''used_memory_bytes'', JInt (ct_used_memory_bytes x))]"

definition CpuTelemetrySnapshotFromJson :: "json \<Rightarrow> CpuTelemetrySnapshot res" where
  "CpuTelemetrySnapshotFromJson value =
     res_bind (json_value get_int value ''contract_version'' 1) (\<lambda>contract_version.
     res_bind (json_value get_bool value ''degraded'' False) (\<lambda>degraded.
     res_bind (json_value get_string value ''source'' []) (\<lambda>source'.
     res_bind (json_value get_string value ''collected_at'' []) (\<lambda>collected_at.
     res_bind (json_value get_int value ''core_count'' 0) (\<lambda>core_count.
     res_bind (json_value get_double value ''utilization_pct'' 0) (\<lambda>utilization_pct.
     res_bind (json_value get_double value ''loadavg_1m'' 0) (\<lambda>loadavg_1m.
     res_bind (json_value get_double value ''loadavg_5m'' 0) (\<lambda>loadavg_5m.
     res_bind (json_value get_double value ''loadavg_15m'' 0) (\<lambda>loadavg_15m.
     res_bind (json_value get_double value ''temperature_c'' 0) (\<lambda>temperature_c.
     res_bind (json_value get_double value ''max_temperature_c'' 0) (\<lambda>max_temperature_c.
     res_bind (json_value get_bool value ''temperature_available'' False) (\<lambda>temperature_available.
     res_bind (json_value get_u64 value ''total_memory_bytes'' 0) (\<lambda>total_memory_bytes.
     res_bind (json_value get_u64 value ''available_memory_bytes'' 0) (\<lambda>available_memory_bytes.
     res_bind (json_value get_u64 value ''used_memory_bytes'' 0) (\<lambda>used_memory_bytes.
     Inr \<lparr> ct_contract_version = contract_version,
           ct_degraded = degraded,
           ct_source = source',
           ct_collected_at = collected_at,
           ct_core_count = core_count,
           ct_utilization_pct = utilization_pct,
           ct_loadavg_1m = loadavg_1m,
           ct_loadavg_5m = loadavg_5m,
           ct_loadavg_15m = loadavg_15m,
           ct_temperature_c = temperature_c,
           ct_max_temperature_c = max_temperature_c,
           ct_temperature_available = temperature_available,
           ct_total_memory_bytes = total_memory_bytes,
           ct_available_memory_bytes = available_memory_bytes,
           ct_used_memory_bytes = used_memory_bytes \<rparr>)))))))))))))))"

definition ToJson_RuntimeStatus :: "RuntimeStatus \<Rightarrow> json" where
  "ToJson_RuntimeStatus status = json_object
     [(''plane_name'', JString (rs_plane_name status)),
      (''control_root'', JString (rs_control_root status)),
      (''controller_url'', JString (rs_controller_url status)),
      (''primary_infer_node'', JString (rs_primary_infer_node status)),
      (''instance_name'', JString (rs_instance_name status)),
      (''instance_role'', JString (rs_instance_role status)),
      (''node_name'', JString (rs_node_name status)),
      (''data_parallel_mode'', JString (rs_data_parallel_mode status)),
      (''data_parallel_lb_mode'', JString (rs_data_parallel_lb_mode status)),
      (''runtime_backend'', JString (rs_runtime_backend status)),
      (''runtime_phase'', JString (rs_runtime_phase status)),
      (''enabled_gpu_nodes'', JInt (rs_enabled_gpu_nodes status)),
      (''data_parallel_size'', JInt (rs_data_parallel_size status)),
      (''data_parallel_size_local_max'', JInt (rs_data_parallel_size_local_max status)),
      (''replica_groups_expected'', JInt (rs_replica_groups_expected status)),
      (''replica_groups_ready'', JInt (rs_replica_groups_ready status)),
      (''replica_groups_degraded'', JInt (rs_replica_groups_degraded status)),
      (''api_endpoints_expected'', JInt (rs_api_endpoints_expected status)),
      (''api_endpoints_ready'', JInt (rs_api_endpoints_ready status)),
      (''registry_entries'', JInt (rs_registry_entries status)),
      (''supervisor_pid'', JInt (rs_supervisor_pid status)),
      (''runtime_pid'', JInt (rs_runtime_pid status)),
      (''engine_pid'', JInt (rs_engine_pid status)),
      (''aliases'', json_strings (rs_aliases status)),
      (''active_model_id'', JString (rs_active_model_id status)),
      (''active_served_model_name'', JString (rs_active_served_model_name status)),
      (''active_runtime_profile'', JString (rs_active_runtime_profile status)),
      (''turboquant_enabled'', JBool (rs_turboquant_enabled status)),
      (''active_cache_type_k'', JString (rs_active_cache_type_k status)),
      (''active_cache_type_v'', JString (rs_active_cache_type_v status)),
      (''status_reason'', JString (rs_status_reason status)),
      (''failure_detail'', JString (rs_failure_detail status)),
      (''cached_local_model_path'', JString (rs_cached_local_model_path status)),
      (''model_path'', JString (rs_model_path status)),
      (''gpu_device'', JString (rs_gpu_device status)),
      (''rpc_endpoint'', JString (rs_rpc_endpoint status)),
      (''gateway_listen'', JString (rs_gateway_listen status)),
      (''upstream_models_url'', JString (rs_upstream_models_url status)),
      (''inference_health_url'', JString (rs_inference_health_url status)),
      (''gateway_health_url'', JString (rs_gateway_health_url status)),
      (''started_at'', JString (rs_started_at status)),
      (''last_activity_at'', JString (rs_last_activity_at status)),
      (''kv_cache_bytes'', (case rs_kv_cache_bytes status of None \<Rightarrow> JNull | Some n \<Rightarrow> JInt n)),
      (''ready'', JBool (rs_ready status)),
      (''active_model_ready'', JBool (rs_active_model_ready status)),
      (''gateway_plan_ready'', JBool (rs_gateway_plan_ready status)),
      (''inference_ready'', JBool (rs_inference_ready status)),
      (''gateway_ready'', JBool (rs_gateway_ready status)),
      (''launch_ready'', JBool (rs_launch_ready status))]"

definition RuntimeStatusFromJson :: "json \<Rightarrow> RuntimeStatus res" where
  "RuntimeStatusFromJson value =
     res_bind (json_value get_string value ''plane_name'' []) (\<lambda>plane_name.
     res_bind (json_value get_string value ''control_root'' []) (\<lambda>control_root.
     res_bind (json_value get_string value ''controller_url'' []) (\<lambda>controller_url.
     res_bind (json_value get_string value ''primary_infer_node'' []) (\<lambda>primary_infer_node.
     res_bind (json_value get_string value ''instance_name'' []) (\<lambda>instance_name.
     res_bind (json_value get_string value ''instance_role'' []) (\<lambda>instance_role.
     res_bind (json_value get_string value ''node_name'' []) (\<lambda>node_name.
     res_bind (json_value get_string value ''data_parallel_mode'' ''off'') (\<lambda>data_parallel_mode.
     res_bind (json_value get_string value ''data_parallel_lb_mode'' ''external'') (\<lambda>data_parallel_lb_mode.
     res_bind (json_value get_string value ''runtime_backend'' []) (\<lambda>runtime_backend.
     res_bind (json_value get_string value ''runtime_phase'' []) (\<lambda>runtime_phase.
     res_bind (json_value get_int value ''enabled_gpu_nodes'' 0) (\<lambda>enabled_gpu_nodes.
     res_bind (json_value get_int value ''data_parallel_size'' 0) (\<lambda>data_parallel_size.
     res_bind (json_value get_int value ''data_parallel_size_local_max'' 0) (\<lambda>data_parallel_size_local_max.
     res_bind (json_value get_int value ''replica_groups_expected'' 0) (\<lambda>replica_groups_expected.
     res_bind (json_value get_int value ''replica_groups_ready'' 0) (\<lambda>replica_groups_ready.
     res_bind (json_value get_int value ''replica_groups_degraded'' 0) (\<lambda>replica_groups_degraded.
     res_bind (json_value get_int value ''api_endpoints_expected'' 0) (\<lambda>api_endpoints_expected.
     res_bind (json_value get_int value ''api_endpoints_ready'' 0) (\<lambda>api_endpoints_ready.
     res_bind (json_value get_int value ''registry_entries'' 0) (\<lambda>registry_entries.
     res_bind (json_value get_int value ''supervisor_pid'' 0) (\<lambda>supervisor_pid.
     res_bind (json_value get_int value ''runtime_pid'' 0) (\<lambda>runtime_pid.
     res_bind (json_value get_int value ''engine_pid'' 0) (\<lambda>engine_pid.
     res_bind (json_value get_strings value ''aliases'' []) (\<lambda>aliases.
     res_bind (json_value get_string value ''active_model_id'' []) (\<lambda>active_model_id.
     res_bind (json_value get_string value ''active_served_model_name'' []) (\<lambda>active_served_model_name.
     res_bind (json_value get_string value ''active_runtime_profile'' []) (\<lambda>active_runtime_profile.
     res_bind (json_value get_bool value ''turboquant_enabled'' False) (\<lambda>turboquant_enabled.
     res_bind (json_value get_string value ''active_cache_type_k'' []) (\<lambda>active_cache_type_k.
     res_bind (json_value get_string value ''active_cache_type_v'' []) (\<lambda>active_cache_type_v.
     res_bind (json_value get_string value ''status_reason'' []) (\<lambda>status_reason.
     res_bind (json_value get_string value ''failure_detail'' []) (\<lambda>failure_detail.
     res_bind (json_value get_string value ''cached_local_model_path'' []) (\<lambda>cached_local_model_path.
     res_bind (json_value get_string value ''model_path'' []) (\<lambda>model_path.
     res_bind (json_value get_string value ''gpu_device'' []) (\<lambda>gpu_device.
     res_bind (json_value get_string value ''rpc_endpoint'' []) (\<lambda>rpc_endpoint.
     res_bind (json_value get_string value ''gateway_listen'' []) (\<lambda>gateway_listen.
     res_bind (json_value get_string value ''upstream_models_url'' []) (\<lambda>upstream_models_url.
     res_bind (json_value get_string value ''inference_health_url'' []) (\<lambda>inference_health_url.
     res_bind (json_value get_string value ''gateway_health_url'' []) (\<lambda>gateway_health_url.
     res_bind (json_value get_string value ''started_at'' []) (\<lambda>started_at.
     res_bind (json_value get_string value ''last_activity_at'' []) (\<lambda>last_activity_at.
     res_bind (Inr (unsigned_field value ''kv_cache_bytes'')) (\<lambda>kv_cache_bytes.
     res_bind (json_value get_bool value ''ready'' False) (\<lambda>ready.
     res_bind (json_value get_bool value ''active_model_ready'' False) (\<lambda>active_model_ready.
     res_bind (json_value get_bool value ''gateway_plan_ready'' False) (\<lambda>gateway_plan_ready.
     res_bind (json_value get_bool value ''inference_ready'' False) (\<lambda>inference_ready.
     res_bind (json_value get_bool value ''gateway_ready'' False) (\<lambda>gateway_ready.
     res_bind (json_value get_bool value ''launch_ready'' False) (\<lambda>launch_ready.
     Inr \<lparr> rs_plane_name = plane_name,
           rs_control_root = control_root,
           rs_controller_url = controller_url,
           rs_primary_infer_node = primary_infer_node,
           rs_instance_name = instance_name,
           rs_instance_role = instance_role,
           rs_node_name = node_name,
           rs_data_parallel_mode = data_parallel_mode,
           rs_data_parallel_lb_mode = data_parallel_lb_mode,
           rs_runtime_backend = runtime_backend,
           rs_runtime_phase = runtime_phase,
           rs_enabled_gpu_nodes = enabled_gpu_nodes,
           rs_data_parallel_size = data_parallel_size,
           rs_data_parallel_size_local_max = data_parallel_size_local_max,
           rs_replica_groups_expected = replica_groups_expected,
           rs_replica_groups_ready = replica_groups_ready,
           rs_replica_groups_degraded = replica_groups_degraded,
           rs_api_endpoints_expected = api_endpoints_expected,
           rs_api_endpoints_ready = api_endpoints_ready,
           rs_registry_entries = registry_entries,
           rs_supervisor_pid = supervisor_pid,
           rs_runtime_pid = runtime_pid,
           rs_engine_pid = engine_pid,
           rs_aliases = aliases,
           rs_active_model_id = active_model_id,
           rs_active_served_model_name = active_served_model_name,
           rs_active_runtime_profile = active_runtime_profile,
           rs_turboquant_enabled = turboquant_enabled,
           rs_active_cache_type_k = active_cache_type_k,
           rs_active_cache_type_v = active_cache_type_v,
           rs_status_reason = status_reason,
           rs_failure_detail = failure_detail,
           rs_cached_local_model_path = cached_local_model_path,
           rs_model_path = model_path,
           rs_gpu_device = gpu_device,
           rs_rpc_endpoint = rpc_endpoint,
           rs_gateway_listen = gateway_listen,
           rs_upstream_models_url = upstream_models_url,
           rs_inference_health_url = inference_health_url,
           rs_gateway_health_url = gateway_health_url,
           rs_started_at = started_at,
           rs_last_activity_at = last_activity_at,
           rs_kv_cache_bytes = kv_cache_bytes,
           rs_ready = ready,
           rs_active_model_ready = active_model_ready,
           rs_gateway_plan_ready = gateway_plan_ready,
           rs_inference_ready = inference_ready,
           rs_gateway_ready = gateway_ready,
           rs_launch_ready = launch_ready \<rparr>)))))))))))))))))))))))))))))))))))))))))))))))))"

text \<open>The text level; \<open>parse\<close> and \<open>dump\<close> are the JSON library's.\<close>

definition DeserializeRuntimeStatusJson :: "(string \<Rightarrow> json res) \<Rightarrow> string \<Rightarrow> RuntimeStatus res" where
  "DeserializeRuntimeStatusJson parse json_text = res_bind (parse json_text) RuntimeStatusFromJson"

definition SerializeRuntimeStatusListJson ::
  "(json \<Rightarrow> string res) \<Rightarrow> RuntimeProcessStatus list \<Rightarrow> string res" where
  "SerializeRuntimeStatusListJson dump statuses =
     dump (JArray (map ToJson_RuntimeProcessStatus statuses))"

definition DeserializeRuntimeStatusListJson ::
  "(string \<Rightarrow> json res) \<Rightarrow> string \<Rightarrow> RuntimeProcessStatus list res" where
  "DeserializeRuntimeStatusListJson parse json_text =
     res_bind (parse json_text) (\<lambda>value.
       res_map_list RuntimeProcessStatusFromJson (filter is_object (json_iter value)))"

definition DeserializeGpuTelemetryJson :: "(string \<Rightarrow> json res) \<Rightarrow> string \<Rightarrow> GpuTelemetrySnapshot res" where
  "DeserializeGpuTelemetryJson parse json_text =
     res_bind (parse json_text) GpuTelemetrySnapshotFromJson"

section \<open>Round trips\<close>

definition process_status_fits :: "RuntimeProcessStatus \<Rightarrow> bool" where
  "process_status_fits x \<longleftrightarrow>
     int_fits (ps_runtime_pid x) \<and>
     int_fits (ps_engine_pid x)"

definition gpu_process_fits :: "GpuProcessTelemetry \<Rightarrow> bool" where
  "gpu_process_fits x \<longleftrightarrow>
     int_fits (gp_pid x) \<and>
     int_fits (gp_used_vram_mb x)"

definition gpu_device_fits :: "GpuDeviceTelemetry \<Rightarrow> bool" where
  "gpu_device_fits x \<longleftrightarrow>
     int_fits (gd_total_vram_mb x) \<and>
     int_fits (gd_used_vram_mb x) \<and>
     int_fits (gd_free_vram_mb x) \<and>
     int_fits (gd_gpu_utilization_pct x) \<and>
     int_fits (gd_temperature_c x) \<and>
     list_all gpu_process_fits (gd_processes x)"

definition gpu_snapshot_fits :: "GpuTelemetrySnapshot \<Rightarrow> bool" where
  "gpu_snapshot_fits x \<longleftrightarrow>
     int_fits (gt_contract_version x) \<and>
     list_all gpu_device_fits (gt_devices x)"

definition disk_record_fits :: "DiskTelemetryRecord \<Rightarrow> bool" where
  "disk_record_fits x \<longleftrightarrow>
     u64_fits (dt_total_bytes x) \<and>
     u64_fits (dt_used_bytes x) \<and>
     u64_fits (dt_free_bytes x) \<and>
     u64_fits (dt_read_ios x) \<and>
     u64_fits (dt_write_ios x) \<and>
     u64_fits (dt_read_bytes x) \<and>
     u64_fits (dt_write_bytes x) \<and>
     u64_fits (dt_io_time_ms x) \<and>
     u64_fits (dt_weighted_io_time_ms x) \<and>
     u64_fits (dt_io_error_count x) \<and>
     int_fits (dt_io_in_progress x) \<and>
     int_fits (dt_warning_count x) \<and>
     int_fits (dt_fault_count x)"

definition disk_snapshot_fits :: "DiskTelemetrySnapshot \<Rightarrow> bool" where
  "disk_snapshot_fits x \<longleftrightarrow>
     int_fits (ds_contract_version x) \<and>
     list_all disk_record_fits (ds_items x)"

definition interface_fits :: "NetworkInterfaceTelemetry \<Rightarrow> bool" where
  "interface_fits x \<longleftrightarrow>
     u64_fits (ni_rx_bytes x) \<and>
     u64_fits (ni_tx_bytes x)"

definition peer_fits :: "PeerDiscoveryTelemetry \<Rightarrow> bool" where
  "peer_fits x \<longleftrightarrow>
     int_fits (pd_rtt_ms x)"

definition network_snapshot_fits :: "NetworkTelemetrySnapshot \<Rightarrow> bool" where
  "network_snapshot_fits x \<longleftrightarrow>
     int_fits (nt_contract_version x) \<and>
     list_all interface_fits (nt_interfaces x) \<and>
     list_all peer_fits (nt_peer_discovery x)"

definition cpu_snapshot_fits :: "CpuTelemetrySnapshot \<Rightarrow> bool" where
  "cpu_snapshot_fits x \<longleftrightarrow>
     int_fits (ct_contract_version x) \<and>
     int_fits (ct_core_count x) \<and>
     u64_fits (ct_total_memory_bytes x) \<and>
     u64_fits (ct_available_memory_bytes x) \<and>
     u64_fits (ct_used_memory_bytes x)"

definition runtime_status_fits :: "RuntimeStatus \<Rightarrow> bool" where
  "runtime_status_fits x \<longleftrightarrow>
     int_fits (rs_enabled_gpu_nodes x) \<and>
     int_fits (rs_data_parallel_size x) \<and>
     int_fits (rs_data_parallel_size_local_max x) \<and>
     int_fits (rs_replica_groups_expected x) \<and>
     int_fits (rs_replica_groups_ready x) \<and>
     int_fits (rs_replica_groups_degraded x) \<and>
     int_fits (rs_api_endpoints_expected x) \<and>
     int_fits (rs_api_endpoints_ready x) \<and>
     int_fits (rs_registry_entries x) \<and>
     int_fits (rs_supervisor_pid x) \<and>
     int_fits (rs_runtime_pid x) \<and>
     int_fits (rs_engine_pid x) \<and>
     pred_option u64_fits (rs_kv_cache_bytes x)"

lemma get_u64_fits [simp]: "u64_fits i \<Longrightarrow> get_u64 (JInt i) = Inr i"
  by (simp add: u64_fits_def)

lemma is_object_telemetry [simp]:
  "is_object (ToJson_RuntimeProcessStatus x0)"
  "is_object (ToJson_GpuProcessTelemetry x1)"
  "is_object (ToJson_GpuDeviceTelemetry x2)"
  "is_object (ToJson_GpuTelemetrySnapshot x3)"
  "is_object (ToJson_DiskTelemetryRecord x4)"
  "is_object (ToJson_DiskTelemetrySnapshot x5)"
  "is_object (ToJson_NetworkInterfaceTelemetry x6)"
  "is_object (ToJson_PeerDiscoveryTelemetry x7)"
  "is_object (ToJson_NetworkTelemetrySnapshot x8)"
  "is_object (ToJson_CpuTelemetrySnapshot x9)"
  by (simp_all add: ToJson_RuntimeProcessStatus_def ToJson_GpuProcessTelemetry_def ToJson_GpuDeviceTelemetry_def ToJson_GpuTelemetrySnapshot_def ToJson_DiskTelemetryRecord_def ToJson_DiskTelemetrySnapshot_def ToJson_NetworkInterfaceTelemetry_def ToJson_PeerDiscoveryTelemetry_def ToJson_NetworkTelemetrySnapshot_def ToJson_CpuTelemetrySnapshot_def)

lemma string_list_field_strings:
  assumes "is_object j" "json_get j key = Some (json_strings xs)"
  shows "string_list_field j key = Inr xs"
proof -
  have "filter is_string (map JString xs) = map JString xs" by (induction xs) auto
  with assms show ?thesis
    by (simp add: string_list_field_def json_strings_def res_map_list_map)
qed

lemma object_list_field_map:
  assumes "is_object j" "json_get j key = Some (JArray (map enc xs))"
    and "\<And>x. is_object (enc x)" "\<And>x. x \<in> set xs \<Longrightarrow> dec (enc x) = Inr x"
  shows "object_list_field dec j key = Inr xs"
proof -
  have "filter is_object (map enc xs) = map enc xs" using assms(3) by (induction xs) auto
  with assms show ?thesis
    by (simp add: object_list_field_def res_map_list_map)
qed

lemma unsigned_field_option:
  "json_get j key = Some (case v of None \<Rightarrow> JNull | Some n \<Rightarrow> JInt n) \<Longrightarrow> pred_option u64_fits v \<Longrightarrow>
   unsigned_field j key = v"
  by (cases v) (simp_all add: unsigned_field_def u64_fits_def)

lemma RuntimeProcessStatus_roundtrip:
  "process_status_fits x \<Longrightarrow> RuntimeProcessStatusFromJson (ToJson_RuntimeProcessStatus x) = Inr x"
  by (simp add: RuntimeProcessStatusFromJson_def ToJson_RuntimeProcessStatus_def process_status_fits_def)

lemma GpuProcessTelemetry_roundtrip:
  "gpu_process_fits x \<Longrightarrow> GpuProcessTelemetryFromJson (ToJson_GpuProcessTelemetry x) = Inr x"
  by (simp add: GpuProcessTelemetryFromJson_def ToJson_GpuProcessTelemetry_def gpu_process_fits_def)

lemma GpuDeviceTelemetry_roundtrip:
  "gpu_device_fits x \<Longrightarrow> GpuDeviceTelemetryFromJson (ToJson_GpuDeviceTelemetry x) = Inr x"
  by (simp add: GpuDeviceTelemetryFromJson_def ToJson_GpuDeviceTelemetry_def gpu_device_fits_def list_all_iff
      object_list_field_map GpuProcessTelemetry_roundtrip)

lemma GpuTelemetrySnapshot_roundtrip:
  "gpu_snapshot_fits x \<Longrightarrow> GpuTelemetrySnapshotFromJson (ToJson_GpuTelemetrySnapshot x) = Inr x"
  by (simp add: GpuTelemetrySnapshotFromJson_def ToJson_GpuTelemetrySnapshot_def gpu_snapshot_fits_def list_all_iff
      object_list_field_map GpuDeviceTelemetry_roundtrip)

lemma DiskTelemetryRecord_roundtrip:
  "disk_record_fits x \<Longrightarrow> DiskTelemetryRecordFromJson (ToJson_DiskTelemetryRecord x) = Inr x"
  by (simp add: DiskTelemetryRecordFromJson_def ToJson_DiskTelemetryRecord_def disk_record_fits_def
      string_list_field_strings del: get_u64.simps)

lemma DiskTelemetrySnapshot_roundtrip:
  "disk_snapshot_fits x \<Longrightarrow> DiskTelemetrySnapshotFromJson (ToJson_DiskTelemetrySnapshot x) = Inr x"
  by (simp add: DiskTelemetrySnapshotFromJson_def ToJson_DiskTelemetrySnapshot_def disk_snapshot_fits_def list_all_iff
      object_list_field_map DiskTelemetryRecord_roundtrip)

lemma NetworkInterfaceTelemetry_roundtrip:
  "interface_fits x \<Longrightarrow> NetworkInterfaceTelemetryFromJson (ToJson_NetworkInterfaceTelemetry x) = Inr x"
  by (simp add: NetworkInterfaceTelemetryFromJson_def ToJson_NetworkInterfaceTelemetry_def interface_fits_def
      string_list_field_strings del: get_u64.simps)

lemma PeerDiscoveryTelemetry_roundtrip:
  "peer_fits x \<Longrightarrow> PeerDiscoveryTelemetryFromJson (ToJson_PeerDiscoveryTelemetry x) = Inr x"
  by (simp add: PeerDiscoveryTelemetryFromJson_def ToJson_PeerDiscoveryTelemetry_def peer_fits_def)

lemma NetworkTelemetrySnapshot_roundtrip:
  "network_snapshot_fits x \<Longrightarrow> NetworkTelemetrySnapshotFromJson (ToJson_NetworkTelemetrySnapshot x) = Inr x"
  by (simp add: NetworkTelemetrySnapshotFromJson_def ToJson_NetworkTelemetrySnapshot_def network_snapshot_fits_def list_all_iff
      object_list_field_map NetworkInterfaceTelemetry_roundtrip PeerDiscoveryTelemetry_roundtrip)

lemma CpuTelemetrySnapshot_roundtrip:
  "cpu_snapshot_fits x \<Longrightarrow> CpuTelemetrySnapshotFromJson (ToJson_CpuTelemetrySnapshot x) = Inr x"
  by (simp add: CpuTelemetrySnapshotFromJson_def ToJson_CpuTelemetrySnapshot_def cpu_snapshot_fits_def
      del: get_u64.simps)

lemma is_object_runtime_status: "is_object (ToJson_RuntimeStatus x)"
  by (simp add: ToJson_RuntimeStatus_def)

text \<open>The fields of the status document.\<close>

lemma runtime_status_get1:
  "json_get (ToJson_RuntimeStatus status) ''plane_name'' =
     Some (JString (rs_plane_name status))"
  "json_get (ToJson_RuntimeStatus status) ''control_root'' =
     Some (JString (rs_control_root status))"
  "json_get (ToJson_RuntimeStatus status) ''controller_url'' =
     Some (JString (rs_controller_url status))"
  "json_get (ToJson_RuntimeStatus status) ''primary_infer_node'' =
     Some (JString (rs_primary_infer_node status))"
  "json_get (ToJson_RuntimeStatus status) ''instance_name'' =
     Some (JString (rs_instance_name status))"
  "json_get (ToJson_RuntimeStatus status) ''instance_role'' =
     Some (JString (rs_instance_role status))"
  "json_get (ToJson_RuntimeStatus status) ''node_name'' =
     Some (JString (rs_node_name status))"
  "json_get (ToJson_RuntimeStatus status) ''data_parallel_mode'' =
     Some (JString (rs_data_parallel_mode status))"
  "json_get (ToJson_RuntimeStatus status) ''data_parallel_lb_mode'' =
     Some (JString (rs_data_parallel_lb_mode status))"
  "json_get (ToJson_RuntimeStatus status) ''runtime_backend'' =
     Some (JString (rs_runtime_backend status))"
  "json_get (ToJson_RuntimeStatus status) ''runtime_phase'' =
     Some (JString (rs_runtime_phase status))"
  "json_get (ToJson_RuntimeStatus status) ''enabled_gpu_nodes'' =
     Some (JInt (rs_enabled_gpu_nodes status))"
  "json_get (ToJson_RuntimeStatus status) ''data_parallel_size'' =
     Some (JInt (rs_data_parallel_size status))"
  by (simp_all add: ToJson_RuntimeStatus_def)

lemma runtime_status_get2:
  "json_get (ToJson_RuntimeStatus status) ''data_parallel_size_local_max'' =
     Some (JInt (rs_data_parallel_size_local_max status))"
  "json_get (ToJson_RuntimeStatus status) ''replica_groups_expected'' =
     Some (JInt (rs_replica_groups_expected status))"
  "json_get (ToJson_RuntimeStatus status) ''replica_groups_ready'' =
     Some (JInt (rs_replica_groups_ready status))"
  "json_get (ToJson_RuntimeStatus status) ''replica_groups_degraded'' =
     Some (JInt (rs_replica_groups_degraded status))"
  "json_get (ToJson_RuntimeStatus status) ''api_endpoints_expected'' =
     Some (JInt (rs_api_endpoints_expected status))"
  "json_get (ToJson_RuntimeStatus status) ''api_endpoints_ready'' =
     Some (JInt (rs_api_endpoints_ready status))"
  "json_get (ToJson_RuntimeStatus status) ''registry_entries'' =
     Some (JInt (rs_registry_entries status))"
  "json_get (ToJson_RuntimeStatus status) ''supervisor_pid'' =
     Some (JInt (rs_supervisor_pid status))"
  "json_get (ToJson_RuntimeStatus status) ''runtime_pid'' =
     Some (JInt (rs_runtime_pid status))"
  "json_get (ToJson_RuntimeStatus status) ''engine_pid'' =
     Some (JInt (rs_engine_pid status))"
  "json_get (ToJson_RuntimeStatus status) ''aliases'' =
     Some (json_strings (rs_aliases status))"
  "json_get (ToJson_RuntimeStatus status) ''active_model_id'' =
     Some (JString (rs_active_model_id status))"
  "json_get (ToJson_RuntimeStatus status) ''active_served_model_name'' =
     Some (JString (rs_active_served_model_name status))"
  by (simp_all add: ToJson_RuntimeStatus_def)

lemma runtime_status_get3:
  "json_get (ToJson_RuntimeStatus status) ''active_runtime_profile'' =
     Some (JString (rs_active_runtime_profile status))"
  "json_get (ToJson_RuntimeStatus status) ''turboquant_enabled'' =
     Some (JBool (rs_turboquant_enabled status))"
  "json_get (ToJson_RuntimeStatus status) ''active_cache_type_k'' =
     Some (JString (rs_active_cache_type_k status))"
  "json_get (ToJson_RuntimeStatus status) ''active_cache_type_v'' =
     Some (JString (rs_active_cache_type_v status))"
  "json_get (ToJson_RuntimeStatus status) ''status_reason'' =
     Some (JString (rs_status_reason status))"
  "json_get (ToJson_RuntimeStatus status) ''failure_detail'' =
     Some (JString (rs_failure_detail status))"
  "json_get (ToJson_RuntimeStatus status) ''cached_local_model_path'' =
     Some (JString (rs_cached_local_model_path status))"
  "json_get (ToJson_RuntimeStatus status) ''model_path'' =
     Some (JString (rs_model_path status))"
  "json_get (ToJson_RuntimeStatus status) ''gpu_device'' =
     Some (JString (rs_gpu_device status))"
  "json_get (ToJson_RuntimeStatus status) ''rpc_endpoint'' =
     Some (JString (rs_rpc_endpoint status))"
  "json_get (ToJson_RuntimeStatus status) ''gateway_listen'' =
     Some (JString (rs_gateway_listen status))"
  "json_get (ToJson_RuntimeStatus status) ''upstream_models_url'' =
     Some (JString (rs_upstream_models_url status))"
  "json_get (ToJson_RuntimeStatus status) ''inference_health_url'' =
     Some (JString (rs_inference_health_url status))"
  by (simp_all add: ToJson_RuntimeStatus_def)

lemma runtime_status_get4:
  "json_get (ToJson_RuntimeStatus status) ''gateway_health_url'' =
     Some (JString (rs_gateway_health_url status))"
  "json_get (ToJson_RuntimeStatus status) ''started_at'' =
     Some (JString (rs_started_at status))"
  "json_get (ToJson_RuntimeStatus status) ''last_activity_at'' =
     Some (JString (rs_last_activity_at status))"
  "json_get (ToJson_RuntimeStatus status) ''kv_cache_bytes'' =
     Some ((case rs_kv_cache_bytes status of None \<Rightarrow> JNull | Some n \<Rightarrow> JInt n))"
  "json_get (ToJson_RuntimeStatus status) ''ready'' =
     Some (JBool (rs_ready status))"
  "json_get (ToJson_RuntimeStatus status) ''active_model_ready'' =
     Some (JBool (rs_active_model_ready status))"
  "json_get (ToJson_RuntimeStatus status) ''gateway_plan_ready'' =
     Some (JBool (rs_gateway_plan_ready status))"
  "json_get (ToJson_RuntimeStatus status) ''inference_ready'' =
     Some (JBool (rs_inference_ready status))"
  "json_get (ToJson_RuntimeStatus status) ''gateway_ready'' =
     Some (JBool (rs_gateway_ready status))"
  "json_get (ToJson_RuntimeStatus status) ''launch_ready'' =
     Some (JBool (rs_launch_ready status))"
  by (simp_all add: ToJson_RuntimeStatus_def)

lemmas runtime_status_get = runtime_status_get1 runtime_status_get2 runtime_status_get3 runtime_status_get4

lemma RuntimeStatus_roundtrip:
  "runtime_status_fits x \<Longrightarrow> RuntimeStatusFromJson (ToJson_RuntimeStatus x) = Inr x"
  by (simp add: RuntimeStatusFromJson_def runtime_status_fits_def runtime_status_get
      is_object_runtime_status unsigned_field_option del: get_u64.simps)

end
