(* ===== verification/Naim_State_Json_Runtime.thy ===== *)
theory Naim_State_Json_Runtime
  imports Naim_Models Naim_Json
begin

text \<open>
  The codecs of nodes, disks, instances and worker groups,
  \<open>common/src/state/state_json_runtime_codecs.cpp\<close>. A decoder is a chain of \<open>res_bind\<close> in the
  order of the source's statements, so that the first failing accessor decides the exception.
  The lemmas show that a decoder reads back what the encoder wrote, for values whose
  integers fit an \<open>int\<close>; a node keeps its GPU devices only as the keys of its memory map.
\<close>

section \<open>Names\<close>

definition ParseDiskKind :: "string \<Rightarrow> DiskKind res" where
  "ParseDiskKind value =
     (if value = ''plane-shared'' then Inr PlaneShared
      else if value = ''infer-private'' then Inr InferPrivate
      else if value = ''worker-private'' then Inr WorkerPrivate
      else if value = ''app-private'' then Inr AppPrivate
      else if value = ''skills-private'' then Inr SkillsPrivate
      else if value = ''browsing-private'' then Inr BrowsingPrivate
      else if value = ''webgateway-private'' then Inr BrowsingPrivate
      else if value = ''interaction-private'' then Inr InteractionPrivate
      else if value = ''voice-module-private'' then Inr VoiceModulePrivate
      else if value = ''voice-maker-private'' then Inr VoiceMakerPrivate
      else Inl (RuntimeError (''unknown disk kind '' @ quoted value)))"

definition ParseInstanceRole :: "string \<Rightarrow> InstanceRole res" where
  "ParseInstanceRole value =
     (if value = ''infer'' then Inr Infer
      else if value = ''worker'' then Inr Worker
      else if value = ''app'' then Inr App
      else if value = ''skills'' then Inr Skills
      else if value = ''browsing'' then Inr Browsing
      else if value = ''webgateway'' then Inr Browsing
      else if value = ''interaction'' then Inr Interaction
      else if value = ''voice-module'' then Inr VoiceModule
      else if value = ''voice-maker'' then Inr VoiceMaker
      else Inl (RuntimeError (''unknown instance role '' @ quoted value)))"

section \<open>Encoders\<close>

definition ToJson_PublishedPort :: "PublishedPort \<Rightarrow> json" where
  "ToJson_PublishedPort port = json_object
     [(''host_ip'', JString (port_host_ip port)),
      (''host_port'', JInt (port_host_port port)),
      (''container_port'', JInt (port_container_port port))]"

definition ToJson_NodeInventory :: "NodeInventory \<Rightarrow> json" where
  "ToJson_NodeInventory node = json_object
     [(''name'', JString (node_name node)),
      (''platform'', JString (node_platform node)),
      (''execution_mode'', JString (ToString_HostExecutionMode (node_execution_mode node))),
      (''gpu_memory_mb'', json_map JInt (node_gpu_memory_mb node))]"

definition ToJson_WorkerGroupMemberSpec :: "WorkerGroupMemberSpec \<Rightarrow> json" where
  "ToJson_WorkerGroupMemberSpec member =
     json_set_opt ''memory_cap_mb'' JInt (mem_memory_cap_mb member) (json_object
     [(''name'', JString (mem_name member)),
      (''infer_instance_name'', JString (mem_infer_instance_name member)),
      (''node_name'', JString (mem_node_name member)),
      (''gpu_device'', JString (mem_gpu_device member)),
      (''rank'', JInt (mem_rank member)),
      (''replica_group_id'', JString (mem_replica_group_id member)),
      (''replica_index'', JInt (mem_replica_index member)),
      (''replica_size'', JInt (mem_replica_size member)),
      (''replica_leader'', JBool (mem_replica_leader member)),
      (''data_parallel_rank'', JInt (mem_data_parallel_rank member)),
      (''data_parallel_size'', JInt (mem_data_parallel_size member)),
      (''data_parallel_size_local'', JInt (mem_data_parallel_size_local member)),
      (''data_parallel_start_rank'', JInt (mem_data_parallel_start_rank member)),
      (''data_parallel_api_endpoint'', JBool (mem_data_parallel_api_endpoint member)),
      (''data_parallel_head_address'', JString (mem_data_parallel_head_address member)),
      (''data_parallel_rpc_port'', JInt (mem_data_parallel_rpc_port member)),
      (''rpc_port'', JInt (mem_rpc_port member)),
      (''gpu_fraction'', JFloat (mem_gpu_fraction member)),
      (''share_mode'', JString (ToString_GpuShareMode (mem_share_mode member))),
      (''priority'', JInt (mem_priority member)),
      (''preemptible'', JBool (mem_preemptible member)),
      (''enabled'', JBool (mem_enabled member)),
      (''leader'', JBool (mem_leader member))])"

definition ToJson_WorkerGroupSpec :: "WorkerGroupSpec \<Rightarrow> json" where
  "ToJson_WorkerGroupSpec g = json_object
     [(''group_id'', JString (wg_group_id g)),
      (''infer_instance_name'', JString (wg_infer_instance_name g)),
      (''distributed_backend'', JString (wg_distributed_backend g)),
      (''rendezvous_host'', JString (wg_rendezvous_host g)),
      (''rendezvous_port'', JInt (wg_rendezvous_port g)),
      (''expected_workers'', JInt (wg_expected_workers g)),
      (''worker_selection_policy'', JString (wg_worker_selection_policy g)),
      (''members'', JArray (map ToJson_WorkerGroupMemberSpec (wg_members g)))]"

definition ToJson_RuntimeGpuNode :: "RuntimeGpuNode \<Rightarrow> json" where
  "ToJson_RuntimeGpuNode g =
     json_set_opt ''memory_cap_mb'' JInt (gpu_memory_cap_mb g) (json_object
     [(''name'', JString (gpu_name g)),
      (''node_name'', JString (gpu_node_name g)),
      (''gpu_device'', JString (gpu_gpu_device g)),
      (''placement_mode'', JString (ToString_PlacementMode (gpu_placement_mode g))),
      (''share_mode'', JString (ToString_GpuShareMode (gpu_share_mode g))),
      (''gpu_fraction'', JFloat (gpu_gpu_fraction g)),
      (''priority'', JInt (gpu_priority g)),
      (''preemptible'', JBool (gpu_preemptible g)),
      (''enabled'', JBool (gpu_enabled g))])"

definition ToJson_DiskSpec :: "DiskSpec \<Rightarrow> json" where
  "ToJson_DiskSpec disk = json_object
     [(''name'', JString (disk_name disk)),
      (''kind'', JString (ToString_DiskKind (disk_kind disk))),
      (''plane_name'', JString (disk_plane_name disk)),
      (''owner_name'', JString (disk_owner_name disk)),
      (''node_name'', JString (disk_node_name disk)),
      (''host_path'', JString (disk_host_path disk)),
      (''container_path'', JString (disk_container_path disk)),
      (''size_gb'', JInt (disk_size_gb disk))]"

definition app_model_mount_json :: "AppModelMountSpec \<Rightarrow> json" where
  "app_model_mount_json mount = json_object
     [(''name'', JString (mount_name mount)),
      (''source_path'', JString (mount_source_path mount)),
      (''source_node_name'', JString (mount_source_node_name mount)),
      (''source_paths'', json_strings (mount_source_paths mount)),
      (''host_path'', JString (mount_host_path mount)),
      (''mount_path'', JString (mount_mount_path mount)),
      (''env_var'', JString (mount_env_var mount)),
      (''required'', JBool (mount_required mount))]"

definition ToJson_InstanceSpec :: "InstanceSpec \<Rightarrow> json" where
  "ToJson_InstanceSpec i =
     json_set_opt ''memory_cap_mb'' JInt (inst_memory_cap_mb i)
     (json_set_opt ''gpu_device'' JString (inst_gpu_device i) (json_object
     [(''name'', JString (inst_name i)),
      (''role'', JString (ToString_InstanceRole (inst_role i))),
      (''plane_name'', JString (inst_plane_name i)),
      (''node_name'', JString (inst_node_name i)),
      (''image'', JString (inst_image i)),
      (''command'', JString (inst_command i)),
      (''private_disk_name'', JString (inst_private_disk_name i)),
      (''shared_disk_name'', JString (inst_shared_disk_name i)),
      (''depends_on'', json_strings (inst_depends_on i)),
      (''environment'', json_map JString (inst_environment i)),
      (''labels'', json_map JString (inst_labels i)),
      (''published_ports'', JArray (map ToJson_PublishedPort (inst_published_ports i))),
      (''placement_mode'', JString (ToString_PlacementMode (inst_placement_mode i))),
      (''share_mode'', JString (ToString_GpuShareMode (inst_share_mode i))),
      (''gpu_fraction'', JFloat (inst_gpu_fraction i)),
      (''priority'', JInt (inst_priority i)),
      (''preemptible'', JBool (inst_preemptible i)),
      (''private_disk_size_gb'', JInt (inst_private_disk_size_gb i)),
      (''app_model_mounts'', JArray (map app_model_mount_json (inst_app_model_mounts i)))]))"

section \<open>Decoders\<close>

definition PublishedPortFromJson :: "json \<Rightarrow> PublishedPort res" where
  "PublishedPortFromJson value =
     res_bind (json_value get_string value ''host_ip'' ''127.0.0.1'') (\<lambda>host_ip.
     res_bind (json_value get_int value ''host_port'' 0) (\<lambda>host_port.
     res_bind (json_value get_int value ''container_port'' 0) (\<lambda>container_port.
     Inr \<lparr> port_host_ip = host_ip, port_host_port = host_port,
           port_container_port = container_port \<rparr>)))"

definition NodeInventoryFromJson :: "json \<Rightarrow> NodeInventory res" where
  "NodeInventoryFromJson value =
     res_bind (json_at get_string value ''name'') (\<lambda>name.
     res_bind (json_at get_string value ''platform'') (\<lambda>platform.
     res_bind (json_value get_string value ''execution_mode'' ''mixed'') (\<lambda>mode_name.
     res_bind (ParseHostExecutionMode mode_name) (\<lambda>execution_mode.
     res_bind (json_value get_strings value ''gpu_devices'' []) (\<lambda>gpu_devices.
     res_bind (json_value (get_map get_int) value ''gpu_memory_mb'' []) (\<lambda>gpu_memory_mb.
     Inr \<lparr> node_name = name, node_platform = platform, node_execution_mode = execution_mode,
           node_gpu_devices =
             (if gpu_devices = [] then map fst gpu_memory_mb else gpu_devices),
           node_gpu_memory_mb = gpu_memory_mb \<rparr>))))))"

definition WorkerGroupMemberSpecFromJson :: "json \<Rightarrow> WorkerGroupMemberSpec res" where
  "WorkerGroupMemberSpecFromJson value =
     res_bind (json_at get_string value ''name'') (\<lambda>name.
     res_bind (json_value get_string value ''infer_instance_name'' []) (\<lambda>infer_instance_name.
     res_bind (json_at get_string value ''node_name'') (\<lambda>node.
     res_bind (json_value get_string value ''gpu_device'' []) (\<lambda>gpu_device.
     res_bind (json_value get_int value ''rank'' 0) (\<lambda>rank.
     res_bind (json_value get_string value ''replica_group_id'' []) (\<lambda>replica_group_id.
     res_bind (json_value get_int value ''replica_index'' 0) (\<lambda>replica_index.
     res_bind (json_value get_int value ''replica_size'' 1) (\<lambda>replica_size.
     res_bind (json_value get_bool value ''leader'' False) (\<lambda>leader_default.
     res_bind (json_value get_bool value ''replica_leader'' leader_default) (\<lambda>replica_leader.
     res_bind (json_value get_int value ''data_parallel_rank'' replica_index) (\<lambda>dp_rank.
     res_bind (json_value get_int value ''data_parallel_size'' 1) (\<lambda>dp_size.
     res_bind (json_value get_int value ''data_parallel_size_local'' 1) (\<lambda>dp_size_local.
     res_bind (json_value get_int value ''data_parallel_start_rank'' dp_rank) (\<lambda>dp_start_rank.
     res_bind (json_value get_bool value ''data_parallel_api_endpoint'' replica_leader) (\<lambda>endpoint.
     res_bind (json_value get_string value ''data_parallel_head_address'' []) (\<lambda>head_address.
     res_bind (json_value get_int value ''data_parallel_rpc_port'' 0) (\<lambda>dp_rpc_port.
     res_bind (json_value get_int value ''rpc_port'' dp_rpc_port) (\<lambda>rpc_port.
     res_bind (json_value get_double value ''gpu_fraction'' 0) (\<lambda>gpu_fraction.
     res_bind (json_value get_string value ''share_mode'' ''exclusive'') (\<lambda>share_name.
     res_bind (ParseGpuShareMode share_name) (\<lambda>share_mode.
     res_bind (json_value get_int value ''priority'' 100) (\<lambda>priority.
     res_bind (json_value get_bool value ''preemptible'' False) (\<lambda>preemptible.
     res_bind (json_value get_bool value ''enabled'' True) (\<lambda>enabled.
     res_bind (json_value get_bool value ''leader'' False) (\<lambda>leader.
     res_bind (json_optional get_int value ''memory_cap_mb'') (\<lambda>memory_cap_mb.
     Inr \<lparr> mem_name = name, mem_infer_instance_name = infer_instance_name,
           mem_node_name = node, mem_gpu_device = gpu_device, mem_rpc_port = rpc_port,
           mem_rank = rank, mem_replica_group_id = replica_group_id,
           mem_replica_index = replica_index, mem_replica_size = replica_size,
           mem_replica_leader = replica_leader, mem_data_parallel_rank = dp_rank,
           mem_data_parallel_size = dp_size, mem_data_parallel_size_local = dp_size_local,
           mem_data_parallel_start_rank = dp_start_rank,
           mem_data_parallel_api_endpoint = endpoint,
           mem_data_parallel_head_address = head_address,
           mem_data_parallel_rpc_port = dp_rpc_port, mem_gpu_fraction = gpu_fraction,
           mem_share_mode = share_mode, mem_priority = priority,
           mem_preemptible = preemptible, mem_memory_cap_mb = memory_cap_mb,
           mem_enabled = enabled, mem_leader = leader \<rparr>))))))))))))))))))))))))))"

definition WorkerGroupSpecFromJson :: "json \<Rightarrow> WorkerGroupSpec res" where
  "WorkerGroupSpecFromJson value =
     res_bind (json_value get_string value ''group_id'' []) (\<lambda>group_id.
     res_bind (json_value get_string value ''infer_instance_name'' []) (\<lambda>infer_instance_name.
     res_bind (json_value get_string value ''distributed_backend'' ''llama_rpc'') (\<lambda>backend.
     res_bind (json_value get_string value ''rendezvous_host'' []) (\<lambda>rendezvous_host.
     res_bind (json_value get_int value ''rendezvous_port'' 29500) (\<lambda>rendezvous_port.
     res_bind (json_value get_int value ''expected_workers'' 0) (\<lambda>expected_workers.
     res_bind (json_value get_string value ''worker_selection_policy''
                 ''prefer-free-then-share'') (\<lambda>policy.
     res_bind (json_value Inr value ''members'' (JArray [])) (\<lambda>items.
     res_bind (res_map_list WorkerGroupMemberSpecFromJson (filter is_object (json_iter items)))
       (\<lambda>members.
     Inr \<lparr> wg_group_id = group_id, wg_infer_instance_name = infer_instance_name,
           wg_distributed_backend = backend, wg_rendezvous_host = rendezvous_host,
           wg_rendezvous_port = rendezvous_port, wg_expected_workers = expected_workers,
           wg_worker_selection_policy = policy, wg_members = members \<rparr>)))))))))"

definition RuntimeGpuNodeFromJson :: "json \<Rightarrow> RuntimeGpuNode res" where
  "RuntimeGpuNodeFromJson value =
     res_bind (json_at get_string value ''name'') (\<lambda>name.
     res_bind (json_at get_string value ''node_name'') (\<lambda>node.
     res_bind (json_value get_string value ''gpu_device'' []) (\<lambda>gpu_device.
     res_bind (json_value get_string value ''placement_mode'' ''manual'') (\<lambda>placement_name.
     res_bind (ParsePlacementMode placement_name) (\<lambda>placement_mode.
     res_bind (json_value get_string value ''share_mode'' ''exclusive'') (\<lambda>share_name.
     res_bind (ParseGpuShareMode share_name) (\<lambda>share_mode.
     res_bind (json_value get_double value ''gpu_fraction'' 0) (\<lambda>gpu_fraction.
     res_bind (json_value get_int value ''priority'' 100) (\<lambda>priority.
     res_bind (json_value get_bool value ''preemptible'' False) (\<lambda>preemptible.
     res_bind (json_optional get_int value ''memory_cap_mb'') (\<lambda>memory_cap_mb.
     res_bind (json_value get_bool value ''enabled'' True) (\<lambda>enabled.
     Inr \<lparr> gpu_name = name, gpu_node_name = node, gpu_gpu_device = gpu_device,
           gpu_placement_mode = placement_mode, gpu_share_mode = share_mode,
           gpu_gpu_fraction = gpu_fraction, gpu_priority = priority,
           gpu_preemptible = preemptible, gpu_memory_cap_mb = memory_cap_mb,
           gpu_enabled = enabled \<rparr>))))))))))))"

definition DiskSpecFromJson :: "json \<Rightarrow> DiskSpec res" where
  "DiskSpecFromJson value =
     res_bind (json_at get_string value ''name'') (\<lambda>name.
     res_bind (json_at get_string value ''kind'') (\<lambda>kind_name.
     res_bind (ParseDiskKind kind_name) (\<lambda>kind.
     res_bind (json_at get_string value ''plane_name'') (\<lambda>plane_name.
     res_bind (json_at get_string value ''owner_name'') (\<lambda>owner_name.
     res_bind (json_at get_string value ''node_name'') (\<lambda>node.
     res_bind (json_at get_string value ''host_path'') (\<lambda>host_path.
     res_bind (json_at get_string value ''container_path'') (\<lambda>container_path.
     res_bind (json_at get_int value ''size_gb'') (\<lambda>size_gb.
     Inr \<lparr> disk_name = name, disk_kind = kind, disk_plane_name = plane_name,
           disk_owner_name = owner_name, disk_node_name = node, disk_host_path = host_path,
           disk_container_path = container_path, disk_size_gb = size_gb \<rparr>)))))))))"

definition app_model_mount_from_json :: "json \<Rightarrow> AppModelMountSpec res" where
  "app_model_mount_from_json item =
     res_bind (json_value get_string item ''name'' []) (\<lambda>name.
     res_bind (json_value get_string item ''source_path'' []) (\<lambda>source_path.
     res_bind (json_value get_string item ''source_node_name'' []) (\<lambda>source_node_name.
     res_bind (json_value get_strings item ''source_paths'' []) (\<lambda>source_paths.
     res_bind (json_value get_string item ''host_path'' []) (\<lambda>host_path.
     res_bind (json_value get_string item ''mount_path'' []) (\<lambda>mount_path.
     res_bind (json_value get_string item ''env_var'' []) (\<lambda>env_var.
     res_bind (json_value get_bool item ''required'' True) (\<lambda>required.
     Inr \<lparr> mount_name = name, mount_source_path = source_path,
           mount_source_node_name = source_node_name, mount_source_paths = source_paths,
           mount_host_path = host_path, mount_mount_path = mount_path,
           mount_env_var = env_var, mount_required = required \<rparr>))))))))"

definition InstanceSpecFromJson :: "json \<Rightarrow> InstanceSpec res" where
  "InstanceSpecFromJson value =
     res_bind (json_at get_string value ''name'') (\<lambda>name.
     res_bind (json_at get_string value ''role'') (\<lambda>role_name.
     res_bind (ParseInstanceRole role_name) (\<lambda>role.
     res_bind (json_at get_string value ''plane_name'') (\<lambda>plane_name.
     res_bind (json_at get_string value ''node_name'') (\<lambda>node.
     res_bind (json_at get_string value ''image'') (\<lambda>image.
     res_bind (json_at get_string value ''command'') (\<lambda>command.
     res_bind (json_at get_string value ''private_disk_name'') (\<lambda>private_disk_name.
     res_bind (json_at get_string value ''shared_disk_name'') (\<lambda>shared_disk_name.
     res_bind (json_value get_strings value ''depends_on'' []) (\<lambda>depends_on.
     res_bind (json_value (get_map get_string) value ''environment'' []) (\<lambda>environment.
     res_bind (json_value (get_map get_string) value ''labels'' []) (\<lambda>labels.
     res_bind (json_when is_array (\<lambda>v. res_map_list PublishedPortFromJson
                 (filter is_object (json_iter v))) value ''published_ports'' []) (\<lambda>ports.
     res_bind (json_optional get_string value ''gpu_device'') (\<lambda>gpu_device.
     res_bind (case json_get value ''placement_mode'' of
                 Some v \<Rightarrow> res_bind (get_string v) ParsePlacementMode
               | None \<Rightarrow> Inr (if role = Worker \<and> value_or gpu_device [] = []
                             then Auto else Manual)) (\<lambda>placement_mode.
     res_bind (json_value get_string value ''share_mode'' ''exclusive'') (\<lambda>share_name.
     res_bind (ParseGpuShareMode share_name) (\<lambda>share_mode.
     res_bind (json_value get_double value ''gpu_fraction'' (if role = Worker then 1 else 0))
       (\<lambda>gpu_fraction.
     res_bind (json_value get_int value ''priority'' 100) (\<lambda>priority.
     res_bind (json_value get_bool value ''preemptible'' False) (\<lambda>preemptible.
     res_bind (json_optional get_int value ''memory_cap_mb'') (\<lambda>memory_cap_mb.
     res_bind (json_value get_int value ''private_disk_size_gb'' 0) (\<lambda>private_disk_size_gb.
     res_bind (json_when is_array (\<lambda>v. res_map_list app_model_mount_from_json
                 (filter is_object (json_iter v))) value ''app_model_mounts'' []) (\<lambda>mounts.
     Inr \<lparr> inst_name = name, inst_role = role, inst_plane_name = plane_name,
           inst_node_name = node, inst_image = image, inst_command = command,
           inst_private_disk_name = private_disk_name,
           inst_shared_disk_name = shared_disk_name, inst_depends_on = depends_on,
           inst_environment = environment, inst_labels = labels,
           inst_published_ports = ports, inst_gpu_device = gpu_device,
           inst_placement_mode = placement_mode, inst_share_mode = share_mode,
           inst_gpu_fraction = gpu_fraction, inst_priority = priority,
           inst_preemptible = preemptible, inst_memory_cap_mb = memory_cap_mb,
           inst_private_disk_size_gb = private_disk_size_gb,
           inst_app_model_mounts = mounts \<rparr>)))))))))))))))))))))))"

section \<open>Round trips\<close>

text \<open>The integers of a value fit the \<open>int\<close> they are read into.\<close>

definition port_fits :: "PublishedPort \<Rightarrow> bool" where
  "port_fits p \<longleftrightarrow> int_fits (port_host_port p) \<and> int_fits (port_container_port p)"

definition node_lossless :: "NodeInventory \<Rightarrow> bool" where
  "node_lossless n \<longleftrightarrow> list_all (\<lambda>(k, mb). int_fits mb) (node_gpu_memory_mb n) \<and>
     node_gpu_devices n = map fst (node_gpu_memory_mb n)"

definition member_fits :: "WorkerGroupMemberSpec \<Rightarrow> bool" where
  "member_fits m \<longleftrightarrow> int_fits (mem_rpc_port m) \<and> int_fits (mem_rank m) \<and>
     int_fits (mem_replica_index m) \<and> int_fits (mem_replica_size m) \<and>
     int_fits (mem_data_parallel_rank m) \<and> int_fits (mem_data_parallel_size m) \<and>
     int_fits (mem_data_parallel_size_local m) \<and> int_fits (mem_data_parallel_start_rank m) \<and>
     int_fits (mem_data_parallel_rpc_port m) \<and> int_fits (mem_priority m) \<and>
     pred_option int_fits (mem_memory_cap_mb m)"

definition group_fits :: "WorkerGroupSpec \<Rightarrow> bool" where
  "group_fits g \<longleftrightarrow> int_fits (wg_rendezvous_port g) \<and> int_fits (wg_expected_workers g) \<and>
     list_all member_fits (wg_members g)"

definition gpu_node_fits :: "RuntimeGpuNode \<Rightarrow> bool" where
  "gpu_node_fits g \<longleftrightarrow> int_fits (gpu_priority g) \<and> pred_option int_fits (gpu_memory_cap_mb g)"

definition instance_fits :: "InstanceSpec \<Rightarrow> bool" where
  "instance_fits i \<longleftrightarrow> list_all port_fits (inst_published_ports i) \<and> int_fits (inst_priority i) \<and>
     pred_option int_fits (inst_memory_cap_mb i) \<and> int_fits (inst_private_disk_size_gb i)"

lemma ParseDiskKind_ToString [simp]: "ParseDiskKind (ToString_DiskKind k) = Inr k"
  by (cases k) (simp_all add: ParseDiskKind_def)

lemma ParseInstanceRole_ToString [simp]: "ParseInstanceRole (ToString_InstanceRole r) = Inr r"
  by (cases r) (simp_all add: ParseInstanceRole_def)

lemma Parse_ToString_simps [simp]:
  "ParseGpuShareMode (ToString_GpuShareMode g) = Inr g"
  "ParsePlacementMode (ToString_PlacementMode p) = Inr p"
  "ParseHostExecutionMode (ToString_HostExecutionMode h) = Inr h"
  "ParsePlaneMode (ToString_PlaneMode q) = Inr q"
  by (simp_all add: ParseGpuShareMode_iff ParsePlacementMode_iff ParseHostExecutionMode_iff
      ParsePlaneMode_iff)

lemma json_optional_set_opt:
  "is_object j \<Longrightarrow> json_get j k = None \<Longrightarrow> (\<And>x. v = Some x \<Longrightarrow> get (enc x) = Inr x \<and> enc x \<noteq> JNull) \<Longrightarrow>
   json_optional get (json_set_opt k enc v j) k = Inr v"
  by (cases v) (auto simp: json_optional_def)

lemma json_optional_JInt [simp]:
  "is_object j \<Longrightarrow> json_get j k = None \<Longrightarrow> pred_option int_fits v \<Longrightarrow>
   json_optional get_int (json_set_opt k JInt v j) k = Inr v"
  by (rule json_optional_set_opt) auto

lemma json_optional_JString [simp]:
  "is_object j \<Longrightarrow> json_get j k = None \<Longrightarrow>
   json_optional get_string (json_set_opt k JString v j) k = Inr v"
  by (rule json_optional_set_opt) auto

lemma json_optional_other [simp]:
  "is_object j \<Longrightarrow> key \<noteq> k \<Longrightarrow> json_optional get (json_set_opt k enc v j) key = json_optional get j key"
  by (simp add: json_optional_def)

lemma is_object_ToJson [simp]:
  "is_object (ToJson_PublishedPort p)" "is_object (ToJson_WorkerGroupMemberSpec m)"
  "is_object (ToJson_WorkerGroupSpec g)" "is_object (app_model_mount_json a)"
  by (simp_all add: ToJson_PublishedPort_def ToJson_WorkerGroupMemberSpec_def
      ToJson_WorkerGroupSpec_def app_model_mount_json_def)

lemma PublishedPort_roundtrip: "port_fits p \<Longrightarrow> PublishedPortFromJson (ToJson_PublishedPort p) = Inr p"
  by (simp add: PublishedPortFromJson_def ToJson_PublishedPort_def port_fits_def)

lemma NodeInventory_roundtrip:
  assumes "node_lossless n"
  shows "NodeInventoryFromJson (ToJson_NodeInventory n) = Inr n"
proof -
  have "get_map get_int (json_map JInt (node_gpu_memory_mb n)) = Inr (node_gpu_memory_mb n)"
    using assms by (intro get_map_map) (auto simp: node_lossless_def list_all_iff)
  with assms show ?thesis
    by (simp add: NodeInventoryFromJson_def ToJson_NodeInventory_def node_lossless_def)
qed

lemma WorkerGroupMemberSpec_roundtrip:
  "member_fits m \<Longrightarrow> WorkerGroupMemberSpecFromJson (ToJson_WorkerGroupMemberSpec m) = Inr m"
  by (simp add: WorkerGroupMemberSpecFromJson_def ToJson_WorkerGroupMemberSpec_def member_fits_def)

lemma filter_objects [simp]: "(\<And>x. is_object (enc x)) \<Longrightarrow> filter is_object (map enc xs) = map enc xs"
  by (induction xs) auto

lemma WorkerGroupSpec_roundtrip:
  assumes "group_fits g"
  shows "WorkerGroupSpecFromJson (ToJson_WorkerGroupSpec g) = Inr g"
proof -
  have "res_map_list WorkerGroupMemberSpecFromJson (map ToJson_WorkerGroupMemberSpec (wg_members g))
      = Inr (wg_members g)"
    using assms by (intro res_map_list_map WorkerGroupMemberSpec_roundtrip)
      (auto simp: group_fits_def list_all_iff)
  with assms show ?thesis
    by (simp add: WorkerGroupSpecFromJson_def ToJson_WorkerGroupSpec_def group_fits_def)
qed

lemma RuntimeGpuNode_roundtrip:
  "gpu_node_fits g \<Longrightarrow> RuntimeGpuNodeFromJson (ToJson_RuntimeGpuNode g) = Inr g"
  by (simp add: RuntimeGpuNodeFromJson_def ToJson_RuntimeGpuNode_def gpu_node_fits_def)

lemma DiskSpec_roundtrip:
  "int_fits (disk_size_gb d) \<Longrightarrow> DiskSpecFromJson (ToJson_DiskSpec d) = Inr d"
  by (simp add: DiskSpecFromJson_def ToJson_DiskSpec_def)

lemma app_model_mount_roundtrip: "app_model_mount_from_json (app_model_mount_json a) = Inr a"
  by (simp add: app_model_mount_from_json_def app_model_mount_json_def)

lemma InstanceSpec_roundtrip:
  assumes "instance_fits i"
  shows "InstanceSpecFromJson (ToJson_InstanceSpec i) = Inr i"
proof -
  have "res_map_list PublishedPortFromJson (map ToJson_PublishedPort (inst_published_ports i))
      = Inr (inst_published_ports i)"
    using assms by (intro res_map_list_map PublishedPort_roundtrip)
      (auto simp: instance_fits_def list_all_iff)
  moreover have "res_map_list app_model_mount_from_json
      (map app_model_mount_json (inst_app_model_mounts i)) = Inr (inst_app_model_mounts i)"
    by (intro res_map_list_map app_model_mount_roundtrip)
  ultimately show ?thesis
    using assms
    by (simp add: InstanceSpecFromJson_def ToJson_InstanceSpec_def instance_fits_def json_when_def)
qed

end
