(* ===== verification/Naim_State_Json_Settings.thy ===== *)
theory Naim_State_Json_Settings
  imports Naim_State_Json_Runtime
begin

text \<open>
  The codecs of the optional settings blocks,
  \<open>common/src/state/state_json_settings_codecs.cpp\<close>: bootstrap model, interaction with its
  completion policies, skills, browsing, knowledge and the external application host. Several
  encoders leave out a field that has its default value; the lemmas show that the decoders
  put it back.
\<close>

section \<open>Encoders\<close>

definition CompletionPolicyToJson :: "CompletionPolicy \<Rightarrow> json" where
  "CompletionPolicyToJson p =
     json_set_opt ''semantic_goal'' JString (cp_semantic_goal p)
     (json_set_opt ''target_completion_tokens'' JInt (cp_target_completion_tokens p) (json_object
     [(''response_mode'', JString (cp_response_mode p)),
      (''max_tokens'', JInt (cp_max_tokens p)),
      (''max_continuations'', JInt (cp_max_continuations p)),
      (''max_total_completion_tokens'', JInt (cp_max_total_completion_tokens p)),
      (''max_elapsed_time_ms'', JInt (cp_max_elapsed_time_ms p))]))"

definition writeback_json :: "BootstrapModelSpec \<Rightarrow> json" where
  "writeback_json b =
     json_set_opt ''target_node_name'' JString (bm_writeback_target_node_name b) (json_object
     [(''enabled'', JBool (bm_writeback_enabled b)),
      (''if_missing'', JBool (bm_writeback_if_missing b))])"

definition ToJson_BootstrapModelSpec :: "BootstrapModelSpec \<Rightarrow> json" where
  "ToJson_BootstrapModelSpec b =
     json_set_opt ''sha256'' JString (bm_sha256 b)
     (json_set_opt ''target_filename'' JString (bm_target_filename b)
     (json_set_if (bm_source_urls b \<noteq> []) ''source_urls'' (json_strings (bm_source_urls b))
     (json_set_opt ''source_url'' JString (bm_source_url b)
     (json_set_if (bm_writeback_enabled b) ''writeback'' (writeback_json b)
     (json_set_if (\<not> bm_keep_source b) ''keep_source'' (JBool (bm_keep_source b))
     (json_set_opt ''quantization'' JString (bm_quantization b)
     (json_set_opt ''desired_output_format'' JString (bm_desired_output_format b)
     (json_set_opt ''source_quantization'' JString (bm_source_quantization b)
     (json_set_opt ''source_format'' JString (bm_source_format b)
     (json_set_if (bm_source_paths b \<noteq> []) ''source_paths'' (json_strings (bm_source_paths b))
     (json_set_opt ''source_node_name'' JString (bm_source_node_name b)
     (json_set_opt ''local_path'' JString (bm_local_path b)
     (json_set_opt ''served_model_name'' JString (bm_served_model_name b) (json_object
     [(''model_id'', JString (bm_model_id b)),
      (''materialization_mode'', JString (bm_materialization_mode b))]))))))))))))))"

definition ToJson_InteractionSettings :: "InteractionSettings \<Rightarrow> json" where
  "ToJson_InteractionSettings s =
     json_set_opt ''analysis_long_completion_policy'' CompletionPolicyToJson
       (is_analysis_long_completion_policy s)
     (json_set_opt ''analysis_completion_policy'' CompletionPolicyToJson
       (is_analysis_completion_policy s)
     (json_set_opt ''long_completion_policy'' CompletionPolicyToJson (is_long_completion_policy s)
     (json_set_opt ''completion_policy'' CompletionPolicyToJson (is_completion_policy s)
     (json_set_opt ''default_top_p'' JFloat (is_default_top_p s)
     (json_set_opt ''default_temperature'' JFloat (is_default_temperature s)
     (json_set_opt ''analysis_system_prompt'' JString (is_analysis_system_prompt s)
     (json_set_opt ''system_prompt'' JString (is_system_prompt s)
     (json_set_opt ''image'' JString (is_image s) (json_object
     [(''thinking_enabled'', JBool (is_thinking_enabled s)),
      (''default_response_language'', JString (is_default_response_language s)),
      (''supported_response_languages'', json_strings (is_supported_response_languages s)),
      (''follow_user_language'', JBool (is_follow_user_language s))])))))))))"

definition ToJson_SkillsSettings :: "SkillsSettings \<Rightarrow> json" where
  "ToJson_SkillsSettings s =
     json_set_if (sk_factory_skill_ids s \<noteq> []) ''factory_skill_ids''
       (json_strings (sk_factory_skill_ids s)) (json_object [(''enabled'', JBool (sk_enabled s))])"

definition ToJson_BrowsingPolicySettings :: "BrowsingPolicySettings \<Rightarrow> json" where
  "ToJson_BrowsingPolicySettings p =
     json_set_if (bp_policy_version p \<noteq> ''webgateway-v1'') ''policy_version''
       (JString (bp_policy_version p))
     (json_set_if (\<not> bp_response_review_enabled p) ''response_review_enabled''
       (JBool (bp_response_review_enabled p))
     (json_set_if (bp_blocked_targets p \<noteq> []) ''blocked_targets'' (json_strings (bp_blocked_targets p))
     (json_set_if (bp_blocked_domains p \<noteq> []) ''blocked_domains'' (json_strings (bp_blocked_domains p))
     (json_set_if (bp_allowed_domains p \<noteq> []) ''allowed_domains'' (json_strings (bp_allowed_domains p))
     (json_set_if (\<not> bp_cef_enabled p) ''cef_enabled'' (JBool (bp_cef_enabled p)) (json_object
     [(''browser_session_enabled'', JBool (bp_browser_session_enabled p)),
      (''rendered_browser_enabled'', JBool (bp_rendered_browser_enabled p)),
      (''login_enabled'', JBool (bp_login_enabled p)),
      (''max_search_results'', JInt (bp_max_search_results p)),
      (''max_fetch_bytes'', JInt (bp_max_fetch_bytes p))]))))))"

definition ToJson_BrowsingSettings :: "BrowsingSettings \<Rightarrow> json" where
  "ToJson_BrowsingSettings s =
     json_set_opt ''policy'' ToJson_BrowsingPolicySettings (bs_policy s)
       (json_object [(''enabled'', JBool (bs_enabled s))])"

definition ToJson_KnowledgeContextPolicySettings :: "KnowledgeContextPolicySettings \<Rightarrow> json" where
  "ToJson_KnowledgeContextPolicySettings p = json_object
     [(''include_graph'', JBool (kc_include_graph p)),
      (''max_graph_depth'', JInt (kc_max_graph_depth p)),
      (''token_budget'', JInt (kc_token_budget p))]"

definition ToJson_KnowledgeSettings :: "KnowledgeSettings \<Rightarrow> json" where
  "ToJson_KnowledgeSettings s = json_object
     [(''enabled'', JBool (ks_enabled s)),
      (''service_id'', JString (ks_service_id s)),
      (''selection_mode'', JString (ks_selection_mode s)),
      (''selected_knowledge_ids'', json_strings (ks_selected_knowledge_ids s)),
      (''context_policy'', ToJson_KnowledgeContextPolicySettings (ks_context_policy s))]"

definition ToJson_ExternalAppHostConfig :: "ExternalAppHostConfig \<Rightarrow> json" where
  "ToJson_ExternalAppHostConfig a =
     json_set_opt ''password'' JString (ah_password a)
     (json_set_opt ''username'' JString (ah_username a)
     (json_set_opt ''ssh_key_path'' JString (ah_ssh_key_path a)
       (json_object [(''address'', JString (ah_address a))])))"

section \<open>Decoders\<close>

definition completion_policy_from_object :: "json \<Rightarrow> CompletionPolicy res" where
  "completion_policy_from_object policy_value =
     res_bind (json_value get_string policy_value ''response_mode'' ''normal'') (\<lambda>response_mode.
     res_bind (json_value get_int policy_value ''max_tokens'' 512) (\<lambda>max_tokens.
     res_bind (json_optional get_int policy_value ''target_completion_tokens'') (\<lambda>target.
     res_bind (json_value get_int policy_value ''max_continuations'' 3) (\<lambda>max_continuations.
     res_bind (json_value get_int policy_value ''max_total_completion_tokens'' 1536) (\<lambda>max_total.
     res_bind (json_value get_int policy_value ''max_elapsed_time_ms'' 180000) (\<lambda>max_elapsed.
     res_bind (json_optional get_string policy_value ''semantic_goal'') (\<lambda>semantic_goal.
     Inr \<lparr> cp_response_mode = response_mode, cp_max_tokens = max_tokens,
           cp_target_completion_tokens = target, cp_max_continuations = max_continuations,
           cp_max_total_completion_tokens = max_total, cp_max_elapsed_time_ms = max_elapsed,
           cp_semantic_goal = semantic_goal \<rparr>)))))))"

definition CompletionPolicyFromJson :: "json \<Rightarrow> string \<Rightarrow> CompletionPolicy option res" where
  "CompletionPolicyFromJson value field_name =
     json_block completion_policy_from_object value field_name"

definition writeback_from_json :: "json \<Rightarrow> (bool \<times> bool \<times> string option) res" where
  "writeback_from_json writeback =
     res_bind (json_value get_bool writeback ''enabled'' False) (\<lambda>enabled.
     res_bind (json_value get_bool writeback ''if_missing'' True) (\<lambda>if_missing.
     res_bind (json_optional get_string writeback ''target_node_name'') (\<lambda>target.
     Inr (enabled, if_missing, target))))"

definition BootstrapModelSpecFromJson :: "json \<Rightarrow> BootstrapModelSpec res" where
  "BootstrapModelSpecFromJson value =
     res_bind (json_value get_string value ''model_id'' []) (\<lambda>model_id.
     res_bind (json_value get_string value ''materialization_mode'' ''copy'') (\<lambda>mode.
     res_bind (json_optional get_string value ''served_model_name'') (\<lambda>served_model_name.
     res_bind (json_optional get_string value ''local_path'') (\<lambda>local_path.
     res_bind (json_optional get_string value ''source_node_name'') (\<lambda>source_node_name.
     res_bind (json_when is_array get_strings value ''source_paths'' []) (\<lambda>source_paths.
     res_bind (json_optional get_string value ''source_format'') (\<lambda>source_format.
     res_bind (json_optional get_string value ''source_quantization'') (\<lambda>source_quantization.
     res_bind (json_optional get_string value ''desired_output_format'') (\<lambda>desired_output_format.
     res_bind (json_optional get_string value ''quantization'') (\<lambda>quantization.
     res_bind (json_value get_bool value ''keep_source'' True) (\<lambda>keep_source.
     res_bind (json_when is_object writeback_from_json value ''writeback'' (False, True, None))
       (\<lambda>(writeback_enabled, if_missing, writeback_target).
     res_bind (json_optional get_string value ''source_url'') (\<lambda>source_url.
     res_bind (json_when is_array get_strings value ''source_urls'' []) (\<lambda>source_urls.
     res_bind (json_optional get_string value ''target_filename'') (\<lambda>target_filename.
     res_bind (json_optional get_string value ''sha256'') (\<lambda>sha256.
     Inr \<lparr> bm_model_id = model_id, bm_served_model_name = served_model_name,
           bm_materialization_mode = mode, bm_local_path = local_path,
           bm_source_node_name = source_node_name, bm_source_paths = source_paths,
           bm_source_format = source_format, bm_source_quantization = source_quantization,
           bm_desired_output_format = desired_output_format, bm_quantization = quantization,
           bm_keep_source = keep_source, bm_writeback_enabled = writeback_enabled,
           bm_writeback_if_missing = if_missing,
           bm_writeback_target_node_name = writeback_target, bm_source_url = source_url,
           bm_source_urls = source_urls, bm_target_filename = target_filename,
           bm_sha256 = sha256 \<rparr>))))))))))))))))"

definition InteractionSettingsFromJson :: "json \<Rightarrow> InteractionSettings res" where
  "InteractionSettingsFromJson value =
     res_bind (json_optional get_string value ''image'') (\<lambda>image.
     res_bind (json_optional get_string value ''system_prompt'') (\<lambda>system_prompt.
     res_bind (json_optional get_string value ''analysis_system_prompt'') (\<lambda>analysis_prompt.
     res_bind (json_value get_bool value ''thinking_enabled'' False) (\<lambda>thinking_enabled.
     res_bind (json_optional get_double value ''default_temperature'') (\<lambda>temperature.
     res_bind (json_optional get_double value ''default_top_p'') (\<lambda>top_p.
     res_bind (json_value get_string value ''default_response_language'' ''en'') (\<lambda>language.
     res_bind (json_value get_strings value ''supported_response_languages'' []) (\<lambda>languages.
     res_bind (json_value get_bool value ''follow_user_language'' True) (\<lambda>follow.
     res_bind (CompletionPolicyFromJson value ''completion_policy'') (\<lambda>policy.
     res_bind (CompletionPolicyFromJson value ''long_completion_policy'') (\<lambda>long_policy.
     res_bind (CompletionPolicyFromJson value ''analysis_completion_policy'') (\<lambda>a_policy.
     res_bind (CompletionPolicyFromJson value ''analysis_long_completion_policy'') (\<lambda>al_policy.
     Inr \<lparr> is_image = image, is_system_prompt = system_prompt,
           is_analysis_system_prompt = analysis_prompt, is_thinking_enabled = thinking_enabled,
           is_default_temperature = temperature, is_default_top_p = top_p,
           is_default_response_language = language,
           is_supported_response_languages = languages, is_follow_user_language = follow,
           is_completion_policy = policy, is_long_completion_policy = long_policy,
           is_analysis_completion_policy = a_policy,
           is_analysis_long_completion_policy = al_policy \<rparr>)))))))))))))"

definition SkillsSettingsFromJson :: "json \<Rightarrow> SkillsSettings res" where
  "SkillsSettingsFromJson value =
     res_bind (json_value get_bool value ''enabled'' False) (\<lambda>enabled.
     res_bind (json_when is_array string_items value ''factory_skill_ids'' []) (\<lambda>ids.
     Inr \<lparr> sk_enabled = enabled, sk_factory_skill_ids = ids \<rparr>))"

definition browsing_policy_from_json :: "json \<Rightarrow> BrowsingPolicySettings res" where
  "browsing_policy_from_json policy_json =
     res_bind (json_value get_bool policy_json ''cef_enabled'' True) (\<lambda>cef_enabled.
     res_bind (json_value get_bool policy_json ''browser_session_enabled'' False) (\<lambda>session.
     res_bind (json_value get_bool policy_json ''rendered_browser_enabled'' True) (\<lambda>rendered.
     res_bind (json_value get_bool policy_json ''login_enabled'' False) (\<lambda>login.
     res_bind (json_value get_bool policy_json ''response_review_enabled'' True) (\<lambda>review.
     res_bind (json_value get_string policy_json ''policy_version'' ''webgateway-v1'') (\<lambda>version.
     res_bind (json_value get_int policy_json ''max_search_results'' 8) (\<lambda>max_search_results.
     res_bind (json_value get_int policy_json ''max_fetch_bytes'' 262144) (\<lambda>max_fetch_bytes.
     res_bind (json_when is_array string_items policy_json ''allowed_domains'' []) (\<lambda>allowed.
     res_bind (json_when is_array string_items policy_json ''blocked_domains'' []) (\<lambda>blocked.
     res_bind (json_when is_array string_items policy_json ''blocked_targets'' []) (\<lambda>targets.
     Inr \<lparr> bp_cef_enabled = cef_enabled, bp_browser_session_enabled = session,
           bp_rendered_browser_enabled = rendered, bp_login_enabled = login,
           bp_allowed_domains = allowed, bp_blocked_domains = blocked,
           bp_blocked_targets = targets, bp_response_review_enabled = review,
           bp_policy_version = version, bp_max_search_results = max_search_results,
           bp_max_fetch_bytes = max_fetch_bytes \<rparr>)))))))))))"

definition BrowsingSettingsFromJson :: "json \<Rightarrow> BrowsingSettings res" where
  "BrowsingSettingsFromJson value =
     res_bind (json_value get_bool value ''enabled'' False) (\<lambda>enabled.
     res_bind (json_block browsing_policy_from_json value ''policy'') (\<lambda>policy.
     Inr \<lparr> bs_enabled = enabled, bs_policy = policy \<rparr>))"

definition knowledge_context_policy_from_json :: "json \<Rightarrow> KnowledgeContextPolicySettings res" where
  "knowledge_context_policy_from_json policy =
     res_bind (json_value get_bool policy ''include_graph'' True) (\<lambda>include_graph.
     res_bind (json_value get_int policy ''max_graph_depth'' 1) (\<lambda>max_graph_depth.
     res_bind (json_value get_int policy ''token_budget'' 12000) (\<lambda>token_budget.
     Inr \<lparr> kc_include_graph = include_graph, kc_max_graph_depth = max_graph_depth,
           kc_token_budget = token_budget \<rparr>)))"

definition KnowledgeSettingsFromJson :: "json \<Rightarrow> KnowledgeSettings res" where
  "KnowledgeSettingsFromJson value =
     res_bind (json_value get_bool value ''enabled'' False) (\<lambda>enabled.
     res_bind (json_value get_string value ''service_id'' ''kv_default'') (\<lambda>service_id.
     res_bind (json_value get_string value ''selection_mode'' ''latest'') (\<lambda>selection_mode.
     res_bind (json_when is_array string_items value ''selected_knowledge_ids'' []) (\<lambda>ids.
     res_bind (json_when is_object knowledge_context_policy_from_json value ''context_policy''
         \<lparr> kc_include_graph = True, kc_max_graph_depth = 1, kc_token_budget = 12000 \<rparr>) (\<lambda>policy.
     Inr \<lparr> ks_enabled = enabled, ks_service_id = service_id,
           ks_selection_mode = selection_mode, ks_selected_knowledge_ids = ids,
           ks_context_policy = policy \<rparr>)))))"

definition ExternalAppHostConfigFromJson :: "json \<Rightarrow> ExternalAppHostConfig res" where
  "ExternalAppHostConfigFromJson value =
     res_bind (json_value get_string value ''address'' []) (\<lambda>address.
     res_bind (json_optional get_string value ''ssh_key_path'') (\<lambda>ssh_key_path.
     res_bind (json_optional get_string value ''username'') (\<lambda>username.
     res_bind (json_optional get_string value ''password'') (\<lambda>password.
     Inr \<lparr> ah_address = address, ah_ssh_key_path = ssh_key_path, ah_username = username,
           ah_password = password \<rparr>))))"

section \<open>Round trips\<close>

definition policy_fits :: "CompletionPolicy \<Rightarrow> bool" where
  "policy_fits p \<longleftrightarrow> int_fits (cp_max_tokens p) \<and>
     pred_option int_fits (cp_target_completion_tokens p) \<and> int_fits (cp_max_continuations p) \<and>
     int_fits (cp_max_total_completion_tokens p) \<and> int_fits (cp_max_elapsed_time_ms p)"

definition interaction_fits :: "InteractionSettings \<Rightarrow> bool" where
  "interaction_fits s \<longleftrightarrow> pred_option policy_fits (is_completion_policy s) \<and>
     pred_option policy_fits (is_long_completion_policy s) \<and>
     pred_option policy_fits (is_analysis_completion_policy s) \<and>
     pred_option policy_fits (is_analysis_long_completion_policy s)"

text \<open>The write-back fields are written only when write-back is enabled.\<close>

definition bootstrap_lossless :: "BootstrapModelSpec \<Rightarrow> bool" where
  "bootstrap_lossless b \<longleftrightarrow> bm_writeback_enabled b \<or>
     bm_writeback_if_missing b \<and> bm_writeback_target_node_name b = None"

definition browsing_fits :: "BrowsingSettings \<Rightarrow> bool" where
  "browsing_fits s \<longleftrightarrow> pred_option (\<lambda>p. int_fits (bp_max_search_results p) \<and>
     int_fits (bp_max_fetch_bytes p)) (bs_policy s)"

definition knowledge_fits :: "KnowledgeSettings \<Rightarrow> bool" where
  "knowledge_fits s \<longleftrightarrow> int_fits (kc_max_graph_depth (ks_context_policy s)) \<and>
     int_fits (kc_token_budget (ks_context_policy s))"

text \<open>How the accessors see a document built by \<open>json_set_opt\<close> and \<open>json_set_if\<close>.\<close>

lemma json_optional_JFloat [simp]:
  "is_object j \<Longrightarrow> json_get j k = None \<Longrightarrow>
   json_optional get_double (json_set_opt k JFloat v j) k = Inr v"
  by (rule json_optional_set_opt) auto

lemma json_optional_set_if [simp]:
  "is_object j \<Longrightarrow> key \<noteq> k \<Longrightarrow> json_optional get (json_set_if c k v j) key = json_optional get j key"
  by (simp add: json_optional_def)

lemma json_when_set_opt [simp]:
  "is_object j \<Longrightarrow> key \<noteq> k \<Longrightarrow> json_when t f (json_set_opt k enc v j) key d = json_when t f j key d"
  by (simp add: json_when_def)

lemma json_when_set_if [simp]:
  "is_object j \<Longrightarrow> key \<noteq> k \<Longrightarrow> json_when t f (json_set_if c k v j) key d = json_when t f j key d"
  by (simp add: json_when_def)

lemma json_when_set_if_same [simp]:
  "is_object j \<Longrightarrow> json_get j k = None \<Longrightarrow>
   json_when t f (json_set_if c k v j) k d = (if c \<and> t v then f v else Inr d)"
  by (simp add: json_when_def)

lemma json_block_other [simp]:
  "is_object j \<Longrightarrow> key \<noteq> k \<Longrightarrow> json_block f (json_set_opt k enc v j) key = json_block f j key"
  "is_object j \<Longrightarrow> key \<noteq> k \<Longrightarrow> json_block f (json_set_if c k w j) key = json_block f j key"
  by (simp_all add: json_block_def)

lemma json_block_set_opt:
  "is_object j \<Longrightarrow> json_get j k = None \<Longrightarrow>
   (\<And>x. v = Some x \<Longrightarrow> is_object (enc x) \<and> f (enc x) = Inr x) \<Longrightarrow>
   json_block f (json_set_opt k enc v j) k = Inr v"
  by (cases v) (auto simp: json_block_def json_when_def)

lemma is_object_settings [simp]:
  "is_object (CompletionPolicyToJson p)" "is_object (writeback_json b)"
  "is_object (ToJson_BootstrapModelSpec b)" "is_object (ToJson_InteractionSettings i)"
  "is_object (ToJson_SkillsSettings sk)" "is_object (ToJson_BrowsingPolicySettings bp)"
  "is_object (ToJson_BrowsingSettings bs)" "is_object (ToJson_KnowledgeContextPolicySettings kc)"
  "is_object (ToJson_KnowledgeSettings ks)" "is_object (ToJson_ExternalAppHostConfig ah)"
  by (simp_all add: CompletionPolicyToJson_def writeback_json_def ToJson_BootstrapModelSpec_def
      ToJson_InteractionSettings_def ToJson_SkillsSettings_def ToJson_BrowsingPolicySettings_def
      ToJson_BrowsingSettings_def ToJson_KnowledgeContextPolicySettings_def
      ToJson_KnowledgeSettings_def ToJson_ExternalAppHostConfig_def)

lemma completion_policy_roundtrip:
  "policy_fits p \<Longrightarrow> completion_policy_from_object (CompletionPolicyToJson p) = Inr p"
  by (simp add: completion_policy_from_object_def CompletionPolicyToJson_def policy_fits_def)

lemma CompletionPolicy_roundtrip [simp]:
  "is_object j \<Longrightarrow> json_get j k = None \<Longrightarrow> pred_option policy_fits v \<Longrightarrow>
   CompletionPolicyFromJson (json_set_opt k CompletionPolicyToJson v j) k = Inr v"
  unfolding CompletionPolicyFromJson_def
  by (rule json_block_set_opt) (auto simp: completion_policy_roundtrip)

lemma CompletionPolicyFromJson_other [simp]:
  "is_object j \<Longrightarrow> key \<noteq> k \<Longrightarrow>
   CompletionPolicyFromJson (json_set_opt k enc v j) key = CompletionPolicyFromJson j key"
  by (simp add: CompletionPolicyFromJson_def)

lemma writeback_roundtrip [simp]:
  "writeback_from_json (writeback_json b) =
     Inr (bm_writeback_enabled b, bm_writeback_if_missing b, bm_writeback_target_node_name b)"
  by (simp add: writeback_from_json_def writeback_json_def)

lemma BootstrapModelSpec_roundtrip:
  "bootstrap_lossless b \<Longrightarrow> BootstrapModelSpecFromJson (ToJson_BootstrapModelSpec b) = Inr b"
  by (cases b)
    (auto simp: BootstrapModelSpecFromJson_def ToJson_BootstrapModelSpec_def bootstrap_lossless_def
      json_when_def)

lemma InteractionSettings_roundtrip:
  "interaction_fits s \<Longrightarrow> InteractionSettingsFromJson (ToJson_InteractionSettings s) = Inr s"
  by (simp add: InteractionSettingsFromJson_def ToJson_InteractionSettings_def interaction_fits_def)

lemma SkillsSettings_roundtrip: "SkillsSettingsFromJson (ToJson_SkillsSettings s) = Inr s"
  by (simp add: SkillsSettingsFromJson_def ToJson_SkillsSettings_def)

lemma browsing_policy_roundtrip:
  "int_fits (bp_max_search_results p) \<Longrightarrow> int_fits (bp_max_fetch_bytes p) \<Longrightarrow>
   browsing_policy_from_json (ToJson_BrowsingPolicySettings p) = Inr p"
  by (cases p)
    (auto simp: browsing_policy_from_json_def ToJson_BrowsingPolicySettings_def json_when_def)

lemma BrowsingSettings_roundtrip:
  assumes "browsing_fits s"
  shows "BrowsingSettingsFromJson (ToJson_BrowsingSettings s) = Inr s"
proof -
  have "json_block browsing_policy_from_json (ToJson_BrowsingSettings s) ''policy'' = Inr (bs_policy s)"
    unfolding ToJson_BrowsingSettings_def using assms
    by (intro json_block_set_opt) (auto simp: browsing_policy_roundtrip browsing_fits_def)
  then show ?thesis
    by (simp add: BrowsingSettingsFromJson_def) (simp add: ToJson_BrowsingSettings_def)
qed

lemma KnowledgeSettings_roundtrip:
  "knowledge_fits s \<Longrightarrow> KnowledgeSettingsFromJson (ToJson_KnowledgeSettings s) = Inr s"
  by (simp add: KnowledgeSettingsFromJson_def ToJson_KnowledgeSettings_def json_when_def
      knowledge_context_policy_from_json_def knowledge_fits_def)
    (simp add: ToJson_KnowledgeContextPolicySettings_def)

lemma ExternalAppHostConfig_roundtrip:
  "ExternalAppHostConfigFromJson (ToJson_ExternalAppHostConfig a) = Inr a"
  by (simp add: ExternalAppHostConfigFromJson_def ToJson_ExternalAppHostConfig_def)

end
