(* ===== verification/Naim_State_Json.thy ===== *)
theory Naim_State_Json
  imports Naim_State_Json_Settings Naim_Worker_Group_Topology
begin

text \<open>
  The desired-state document of \<open>common/src/state/state_json.cpp\<close>: encoder, decoder with its
  defaults (normalised inference settings, a worker group completed from the GPU nodes or
  the worker instances, replica topology), the slice of a state for one node, and the
  resolution of a plane's placement target. The decoder hands a version 2 document to the
  renderer of version 2, the parameter \<open>render\<close>; \<open>parse\<close> and \<open>dump\<close> are the JSON library's.

  The lemmas show that a state read from a document is written and read back unchanged,
  that the slices of a state split its instances by node, and that a resolved state lives
  on one node.
\<close>

section \<open>Defaults of the inference settings\<close>

definition IsDesiredStateV2 :: "json \<Rightarrow> bool res" where
  "IsDesiredStateV2 value =
     (if is_object value
      then res_bind (json_value get_int value ''version'' 0) (\<lambda>version. Inr (version = 2))
      else Inr False)"

text \<open>\<open>if (x.empty()) x = fallback\<close> and \<open>if (n <= 0) n = fallback\<close>\<close>

definition if_empty :: "'a list \<Rightarrow> 'a list \<Rightarrow> 'a list" where
  "if_empty x fallback = (if x = [] then fallback else x)"

definition if_not_positive :: "int \<Rightarrow> int \<Rightarrow> int" where
  "if_not_positive n fallback = (if n \<le> 0 then fallback else n)"

definition NormalizeInferenceSettings :: "InferenceRuntimeSettings \<Rightarrow> InferenceRuntimeSettings" where
  "NormalizeInferenceSettings settings =
     (let s = settings;
          s = s\<lparr>inf_worker_group_id := if_empty (inf_worker_group_id s) ''default-worker-group''\<rparr>;
          s = s\<lparr>inf_distributed_backend := if_empty (inf_distributed_backend s)
            (if inf_runtime_engine s = ''llama.cpp'' then ''llama_rpc'' else ''local'')\<rparr>;
          s = s\<lparr>inf_data_parallel_mode := if_empty (inf_data_parallel_mode s) ''off''\<rparr>;
          s = s\<lparr>inf_data_parallel_lb_mode := if_empty (inf_data_parallel_lb_mode s) ''external''\<rparr>;
          s = s\<lparr>inf_worker_selection_policy :=
            if_empty (inf_worker_selection_policy s) ''prefer-free-then-share''\<rparr>;
          s = s\<lparr>inf_model_cache_dir := if_empty (inf_model_cache_dir s) (inf_gguf_cache_dir s)\<rparr>;
          s = s\<lparr>inf_gguf_cache_dir := if_empty (inf_gguf_cache_dir s) (inf_model_cache_dir s)\<rparr>;
          s = s\<lparr>inf_runtime_log_dir := if_empty (inf_runtime_log_dir s) (inf_infer_log_dir s)\<rparr>;
          s = s\<lparr>inf_infer_log_dir := if_empty (inf_infer_log_dir s) (inf_runtime_log_dir s)\<rparr>;
          s = s\<lparr>inf_api_port := if_not_positive (inf_api_port s) (inf_llama_port s)\<rparr>;
          s = s\<lparr>inf_llama_port := if_not_positive (inf_llama_port s) (inf_api_port s)\<rparr>;
          s = s\<lparr>inf_max_model_len := if_not_positive (inf_max_model_len s) (inf_llama_ctx_size s)\<rparr>;
          s = s\<lparr>inf_llama_ctx_size := if_not_positive (inf_llama_ctx_size s) (inf_max_model_len s)\<rparr>
      in s)"

section \<open>Placement target\<close>

definition ResolvePlacementTargetAliasValue :: "string option \<Rightarrow> string res" where
  "ResolvePlacementTargetAliasValue placement_target =
     (let target = value_or placement_target [] in
      if target = [] then Inr []
      else if target = ''local'' then Inr ''local-hostd''
      else if starts_with ''node:'' target
      then let node = drop 5 target in
           if node = [] then Inl (RuntimeError ''placement_target node alias is empty'')
           else Inr node
      else Inl (RuntimeError (''unsupported placement_target '' @ quoted target @
        '' (expected '' @ quoted ''local'' @ '' or '' @ quoted ''node:<name>'' @ '')'')))"

definition insert_nonempty :: "string \<Rightarrow> string list \<Rightarrow> string list" where
  "insert_nonempty name names = (if name = [] then names else insort_insert name names)"

definition CollectPlacementReferencedNodes :: "DesiredState \<Rightarrow> string list" where
  "CollectPlacementReferencedNodes state =
     fold insert_nonempty (map gpu_node_name (st_runtime_gpu_nodes state))
     (fold insert_nonempty (map inst_node_name (st_instances state))
     (fold insert_nonempty (map disk_node_name (st_disks state))
     (fold insert_nonempty (map node_name (st_nodes state))
     (fold insert_nonempty (map mem_node_name (wg_members (st_worker_group state)))
     (insert_nonempty (inf_primary_infer_node (st_inference state)) [])))))"

definition single_node_error :: string where
  "single_node_error = ''plane-level placement_target supports only single-node desired states''"

definition ResolvePlacementTargetAliases :: "DesiredState \<Rightarrow> DesiredState res" where
  "ResolvePlacementTargetAliases state =
     res_bind (ResolvePlacementTargetAliasValue (st_placement_target state)) (\<lambda>target.
     if target = [] then Inr state
     else if length (CollectPlacementReferencedNodes state) > 1
     then Inl (RuntimeError single_node_error)
     else Inr (state\<lparr>
       st_inference := (if inf_primary_infer_node (st_inference state) = [] then st_inference state
         else (st_inference state)\<lparr>inf_primary_infer_node := target\<rparr>),
       st_nodes := map (\<lambda>n. n\<lparr>node_name := target\<rparr>) (st_nodes state),
       st_disks := map (\<lambda>d. d\<lparr>disk_node_name := target\<rparr>) (st_disks state),
       st_instances := map (\<lambda>i. i\<lparr>inst_node_name := target\<rparr>) (st_instances state),
       st_runtime_gpu_nodes :=
         map (\<lambda>g. g\<lparr>gpu_node_name := target\<rparr>) (st_runtime_gpu_nodes state),
       st_worker_group := (st_worker_group state)\<lparr>wg_members :=
         map (\<lambda>m. m\<lparr>mem_node_name := target\<rparr>) (wg_members (st_worker_group state))\<rparr>\<rparr>))"

section \<open>Feature blocks\<close>

definition ToJson_TurboQuantFeatureSpec :: "TurboQuantFeatureSpec \<Rightarrow> json" where
  "ToJson_TurboQuantFeatureSpec t =
     json_set_opt ''cache_type_v'' JString (tq_cache_type_v t)
     (json_set_opt ''cache_type_k'' JString (tq_cache_type_k t)
       (json_object [(''enabled'', JBool (tq_enabled t))]))"

definition ToJson_ContextCompressionFeatureSpec :: "ContextCompressionFeatureSpec \<Rightarrow> json" where
  "ToJson_ContextCompressionFeatureSpec c = json_object
     [(''enabled'', JBool (cc_enabled c)),
      (''mode'', JString (cc_mode c)),
      (''target'', JString (cc_target c)),
      (''memory_priority'', JString (cc_memory_priority c))]"

text \<open>
  The model of a voice feature; the two encoders differ only in the default name and
  variable, the two decoders also in the default mount path.
\<close>

definition voice_source_json :: "AppModelMountSpec \<Rightarrow> json" where
  "voice_source_json m =
     json_set_if (mount_source_paths m \<noteq> [] \<and> mount_source_paths m \<noteq> [mount_source_path m])
       ''paths'' (json_strings (mount_source_paths m))
     (json_set_if (mount_source_node_name m \<noteq> []) ''node'' (JString (mount_source_node_name m))
       (json_object [(''type'', JString ''library''), (''path'', JString (mount_source_path m))]))"

definition voice_model_json :: "string \<Rightarrow> string \<Rightarrow> AppModelMountSpec \<Rightarrow> json" where
  "voice_model_json default_name default_env m = json_object
     [(''name'', JString (if mount_name m = [] then default_name else mount_name m)),
      (''source'', voice_source_json m),
      (''mount_path'', JString (mount_mount_path m)),
      (''env'', JString (if mount_env_var m = [] then default_env else mount_env_var m)),
      (''required'', JBool (mount_required m))]"

definition ToJson_VoiceListenerFeatureSpec :: "VoiceListenerFeatureSpec \<Rightarrow> json" where
  "ToJson_VoiceListenerFeatureSpec v =
     json_set_if (value_or (vl_image v) [] \<noteq> []) ''image'' (JString (value_or (vl_image v) []))
     (json_object
     [(''enabled'', JBool (vl_enabled v)),
      (''wake_phrase'', JString (vl_wake_phrase v)),
      (''language'', JString (vl_language v)),
      (''model'', voice_model_json ''whisper'' ''WHISPER_MODEL_PATH'' (vl_model v))])"

definition ToJson_VoiceMakerFeatureSpec :: "VoiceMakerFeatureSpec \<Rightarrow> json" where
  "ToJson_VoiceMakerFeatureSpec v =
     json_set_if (value_or (vm_image v) [] \<noteq> []) ''image'' (JString (value_or (vm_image v) []))
     (json_object
     [(''enabled'', JBool (vm_enabled v)),
      (''language'', JString (vm_language v)),
      (''voice_mode'', JString (vm_voice_mode v)),
      (''instruct'', JString (vm_instruct v)),
      (''format'', JString (vm_output_format v)),
      (''model'', voice_model_json ''omnivoice'' ''OMNIVOICE_MODEL_PATH'' (vm_model v))])"

definition ToJson_SecuredConnectionFeatureSpec :: "SecuredConnectionFeatureSpec \<Rightarrow> json" where
  "ToJson_SecuredConnectionFeatureSpec s = json_object
     [(''enabled'', JBool (sc_enabled s)), (''user_ids'', json_strings (sc_user_ids s))]"

definition turboquant_from_json :: "json \<Rightarrow> TurboQuantFeatureSpec res" where
  "turboquant_from_json j =
     res_bind (json_value get_bool j ''enabled'' False) (\<lambda>enabled.
     res_bind (json_optional get_string j ''cache_type_k'') (\<lambda>cache_type_k.
     res_bind (json_optional get_string j ''cache_type_v'') (\<lambda>cache_type_v.
     Inr \<lparr> tq_enabled = enabled, tq_cache_type_k = cache_type_k, tq_cache_type_v = cache_type_v \<rparr>)))"

definition context_compression_from_json :: "json \<Rightarrow> ContextCompressionFeatureSpec res" where
  "context_compression_from_json j =
     res_bind (json_value get_bool j ''enabled'' False) (\<lambda>enabled.
     res_bind (json_value get_string j ''mode'' ''auto'') (\<lambda>mode.
     res_bind (json_value get_string j ''target'' ''dialog_and_knowledge'') (\<lambda>target.
     res_bind (json_value get_string j ''memory_priority'' ''balanced'') (\<lambda>memory_priority.
     Inr \<lparr> cc_enabled = enabled, cc_mode = mode, cc_target = target,
           cc_memory_priority = memory_priority \<rparr>))))"

definition default_AppModelMountSpec :: AppModelMountSpec where
  "default_AppModelMountSpec =
     \<lparr> mount_name = [], mount_source_path = [], mount_source_node_name = [],
       mount_source_paths = [], mount_host_path = [], mount_mount_path = [],
       mount_env_var = [], mount_required = True \<rparr>"

definition voice_model_from_json ::
  "string \<Rightarrow> string \<Rightarrow> string \<Rightarrow> json \<Rightarrow> AppModelMountSpec res" where
  "voice_model_from_json default_name default_mount default_env model_json =
     res_bind (json_when is_object Inr model_json ''source'' (JObject [])) (\<lambda>source_json.
     res_bind (json_value get_string model_json ''name'' default_name) (\<lambda>name.
     res_bind (json_value get_string source_json ''path'' []) (\<lambda>source_path.
     res_bind (json_value get_string source_json ''node'' []) (\<lambda>source_node_name.
     res_bind (json_when is_array get_strings source_json ''paths'' []) (\<lambda>paths.
     res_bind (json_value get_string model_json ''mount_path'' default_mount) (\<lambda>mount_path.
     res_bind (json_value get_string model_json ''env'' default_env) (\<lambda>env_var.
     res_bind (json_value get_bool model_json ''required'' True) (\<lambda>required.
     Inr (default_AppModelMountSpec\<lparr> mount_name := name, mount_source_path := source_path,
       mount_source_node_name := source_node_name,
       mount_source_paths :=
         (if paths = [] \<and> source_path \<noteq> [] then [source_path] else paths),
       mount_mount_path := mount_path, mount_env_var := env_var,
       mount_required := required \<rparr>)))))))))"

definition voice_listener_from_json :: "json \<Rightarrow> VoiceListenerFeatureSpec res" where
  "voice_listener_from_json j =
     res_bind (json_value get_bool j ''enabled'' False) (\<lambda>enabled.
     res_bind (json_value get_string j ''wake_phrase'' ''Hey Jex'') (\<lambda>wake_phrase.
     res_bind (json_value get_string j ''language'' ''auto'') (\<lambda>language.
     res_bind (json_when is_string (\<lambda>v. res_bind (get_string v) (\<lambda>s. Inr (Some s))) j ''image'' None)
       (\<lambda>image.
     res_bind (json_when is_object
         (voice_model_from_json ''whisper'' ''/models/whisper/model.bin'' ''WHISPER_MODEL_PATH'')
         j ''model'' default_AppModelMountSpec) (\<lambda>model.
     Inr \<lparr> vl_enabled = enabled, vl_wake_phrase = wake_phrase, vl_language = language,
           vl_model = model, vl_image = image \<rparr>)))))"

definition voice_maker_from_json :: "json \<Rightarrow> VoiceMakerFeatureSpec res" where
  "voice_maker_from_json j =
     res_bind (json_value get_bool j ''enabled'' False) (\<lambda>enabled.
     res_bind (json_value get_string j ''language'' ''auto'') (\<lambda>language.
     res_bind (json_value get_string j ''voice_mode'' ''design'') (\<lambda>voice_mode.
     res_bind (json_value get_string j ''instruct''
         ''neutral, clear voice, medium pitch, calm style'') (\<lambda>instruct.
     res_bind (json_value get_string j ''format'' ''wav'') (\<lambda>output_format.
     res_bind (json_when is_string (\<lambda>v. res_bind (get_string v) (\<lambda>s. Inr (Some s))) j ''image'' None)
       (\<lambda>image.
     res_bind (json_when is_object
         (voice_model_from_json ''omnivoice'' ''/models/omnivoice'' ''OMNIVOICE_MODEL_PATH'')
         j ''model'' default_AppModelMountSpec) (\<lambda>model.
     Inr \<lparr> vm_enabled = enabled, vm_language = language, vm_voice_mode = voice_mode,
           vm_instruct = instruct, vm_output_format = output_format, vm_model = model,
           vm_image = image \<rparr>)))))))"

definition secured_connection_from_json :: "json \<Rightarrow> SecuredConnectionFeatureSpec res" where
  "secured_connection_from_json j =
     res_bind (json_value get_bool j ''enabled'' False) (\<lambda>enabled.
     res_bind (json_when is_array get_strings j ''user_ids'' []) (\<lambda>user_ids.
     Inr \<lparr> sc_enabled = enabled, sc_user_ids = user_ids \<rparr>))"

section \<open>Encoder\<close>

definition inference_block_json :: "InferenceRuntimeSettings \<Rightarrow> json" where
  "inference_block_json s = json_object
     [(''primary_infer_node'', JString (inf_primary_infer_node s)),
      (''runtime_engine'', JString (inf_runtime_engine s)),
      (''data_parallel_mode'', JString (inf_data_parallel_mode s)),
      (''data_parallel_lb_mode'', JString (inf_data_parallel_lb_mode s)),
      (''api_server_count'', JInt (inf_api_server_count s)),
      (''worker_group_id'', JString (inf_worker_group_id s)),
      (''distributed_backend'', JString (inf_distributed_backend s)),
      (''worker_selection_policy'', JString (inf_worker_selection_policy s)),
      (''net_if'', JString (inf_net_if s)),
      (''models_root'', JString (inf_models_root s)),
      (''model_cache_dir'', JString (inf_model_cache_dir s)),
      (''runtime_log_dir'', JString (inf_runtime_log_dir s)),
      (''api_port'', JInt (inf_api_port s)),
      (''max_model_len'', JInt (inf_max_model_len s)),
      (''tensor_parallel_size'', JInt (inf_tensor_parallel_size s)),
      (''pipeline_parallel_size'', JInt (inf_pipeline_parallel_size s)),
      (''max_num_seqs'', JInt (inf_max_num_seqs s)),
      (''gpu_memory_utilization'', JFloat (inf_gpu_memory_utilization s)),
      (''enforce_eager'', JBool (inf_enforce_eager s)),
      (''gguf_cache_dir'', JString (inf_gguf_cache_dir s)),
      (''infer_log_dir'', JString (inf_infer_log_dir s)),
      (''llama_port'', JInt (inf_llama_port s)),
      (''llama_ctx_size'', JInt (inf_llama_ctx_size s)),
      (''llama_threads'', JInt (inf_llama_threads s)),
      (''llama_gpu_layers'', JInt (inf_llama_gpu_layers s)),
      (''inference_healthcheck_retries'', JInt (inf_inference_healthcheck_retries s)),
      (''inference_healthcheck_interval_sec'', JInt (inf_inference_healthcheck_interval_sec s)),
      (''rendezvous_port'', JInt (inf_rendezvous_port s))]"

definition gateway_json :: "GatewaySettings \<Rightarrow> json" where
  "gateway_json g = json_object
     [(''listen_host'', JString (gw_listen_host g)),
      (''listen_port'', JInt (gw_listen_port g)),
      (''server_name'', JString (gw_server_name g))]"

definition has_features :: "DesiredState \<Rightarrow> bool" where
  "has_features state \<longleftrightarrow> has_value (st_turboquant state) \<or> has_value (st_context_compression state) \<or>
     has_value (st_voice_listener state) \<or> has_value (st_voice_maker state) \<or>
     has_value (st_secured_connection state)"

definition features_json :: "DesiredState \<Rightarrow> json" where
  "features_json state =
     json_set_opt ''secured_connection'' ToJson_SecuredConnectionFeatureSpec
       (st_secured_connection state)
     (json_set_opt ''voice_maker'' ToJson_VoiceMakerFeatureSpec (st_voice_maker state)
     (json_set_opt ''voice_listener'' ToJson_VoiceListenerFeatureSpec (st_voice_listener state)
     (json_set_opt ''context_compression'' ToJson_ContextCompressionFeatureSpec
       (st_context_compression state)
     (json_set_opt ''turboquant'' ToJson_TurboQuantFeatureSpec (st_turboquant state)
       (json_object [])))))"

definition secured_connection_enabled :: "DesiredState \<Rightarrow> bool" where
  "secured_connection_enabled state =
     (case st_secured_connection state of None \<Rightarrow> False | Some c \<Rightarrow> sc_enabled c)"

definition DesiredStateToJson :: "DesiredState \<Rightarrow> json" where
  "DesiredStateToJson state =
     json_set_opt ''app_host'' ToJson_ExternalAppHostConfig (st_app_host state)
     (json_set_if (has_features state) ''features'' (features_json state)
     (json_set_opt ''knowledge'' ToJson_KnowledgeSettings (st_knowledge state)
     (json_set_opt ''webgateway'' ToJson_BrowsingSettings (st_browsing state)
     (json_set_opt ''skills'' ToJson_SkillsSettings (st_skills state)
     (json_set_opt ''interaction'' ToJson_InteractionSettings (st_interaction state)
     (json_set_opt ''bootstrap_model'' ToJson_BootstrapModelSpec (st_bootstrap_model state)
     (json_set_opt ''placement_target'' JString (st_placement_target state)
     (json_set_opt ''post_deploy_script'' JString (st_post_deploy_script state) (json_object
     [(''plane_name'', JString (st_plane_name state)),
      (''plane_shared_disk_name'', JString (st_plane_shared_disk_name state)),
      (''control_root'', JString (st_control_root state)),
      (''plane_mode'', JString (ToString_PlaneMode (st_plane_mode state))),
      (''protected'', JBool (st_protected_plane state \<or> secured_connection_enabled state)),
      (''inference'', inference_block_json (st_inference state)),
      (''worker_group'', ToJson_WorkerGroupSpec (st_worker_group state)),
      (''gateway'', gateway_json (st_gateway state)),
      (''runtime_gpu_nodes'', JArray (map ToJson_RuntimeGpuNode (st_runtime_gpu_nodes state))),
      (''nodes'', JArray (map ToJson_NodeInventory (st_nodes state))),
      (''disks'', JArray (map ToJson_DiskSpec (st_disks state))),
      (''instances'', JArray (map ToJson_InstanceSpec (st_instances state)))])))))))))"

section \<open>Decoder\<close>

definition inference_from_json :: "json \<Rightarrow> InferenceRuntimeSettings res" where
  "inference_from_json j =
     (let d = default_InferenceRuntimeSettings in
     res_bind (json_value get_string j ''primary_infer_node'' (inf_primary_infer_node d)) (\<lambda>primary.
     res_bind (json_value get_string j ''runtime_engine'' (inf_runtime_engine d)) (\<lambda>engine.
     res_bind (json_value get_string j ''data_parallel_mode'' (inf_data_parallel_mode d)) (\<lambda>dp_mode.
     res_bind (json_value get_string j ''data_parallel_lb_mode'' (inf_data_parallel_lb_mode d)) (\<lambda>dp_lb.
     res_bind (json_value get_int j ''api_server_count'' (inf_api_server_count d)) (\<lambda>servers.
     res_bind (json_value get_string j ''worker_group_id'' (inf_worker_group_id d)) (\<lambda>group_id.
     res_bind (json_value get_string j ''distributed_backend'' (inf_distributed_backend d)) (\<lambda>backend.
     res_bind (json_value get_string j ''worker_selection_policy'' (inf_worker_selection_policy d)) (\<lambda>policy.
     res_bind (json_value get_string j ''net_if'' (inf_net_if d)) (\<lambda>net_if.
     res_bind (json_value get_string j ''models_root'' (inf_models_root d)) (\<lambda>models_root.
     res_bind (json_value get_string j ''model_cache_dir'' (inf_model_cache_dir d)) (\<lambda>model_cache_dir.
     res_bind (json_value get_string j ''runtime_log_dir'' (inf_runtime_log_dir d)) (\<lambda>runtime_log_dir.
     res_bind (json_value get_int j ''llama_port'' (inf_api_port d)) (\<lambda>api_port_default.
     res_bind (json_value get_int j ''api_port'' api_port_default) (\<lambda>api_port.
     res_bind (json_value get_int j ''llama_ctx_size'' (inf_max_model_len d)) (\<lambda>max_len_default.
     res_bind (json_value get_int j ''max_model_len'' max_len_default) (\<lambda>max_model_len.
     res_bind (json_value get_int j ''tensor_parallel_size'' (inf_tensor_parallel_size d)) (\<lambda>tensor.
     res_bind (json_value get_int j ''pipeline_parallel_size'' (inf_pipeline_parallel_size d)) (\<lambda>pipeline.
     res_bind (json_value get_int j ''max_num_seqs'' (inf_max_num_seqs d)) (\<lambda>max_num_seqs.
     res_bind (json_value get_double j ''gpu_memory_utilization'' (inf_gpu_memory_utilization d)) (\<lambda>util.
     res_bind (json_value get_bool j ''enforce_eager'' (inf_enforce_eager d)) (\<lambda>enforce_eager.
     res_bind (json_value get_string j ''model_cache_dir'' (inf_gguf_cache_dir d)) (\<lambda>gguf_default.
     res_bind (json_value get_string j ''gguf_cache_dir'' gguf_default) (\<lambda>gguf_cache_dir.
     res_bind (json_value get_string j ''runtime_log_dir'' (inf_infer_log_dir d)) (\<lambda>log_default.
     res_bind (json_value get_string j ''infer_log_dir'' log_default) (\<lambda>infer_log_dir.
     res_bind (json_value get_int j ''api_port'' (inf_llama_port d)) (\<lambda>llama_port_default.
     res_bind (json_value get_int j ''llama_port'' llama_port_default) (\<lambda>llama_port.
     res_bind (json_value get_int j ''max_model_len'' (inf_llama_ctx_size d)) (\<lambda>ctx_default.
     res_bind (json_value get_int j ''llama_ctx_size'' ctx_default) (\<lambda>llama_ctx_size.
     res_bind (json_value get_int j ''llama_threads'' (inf_llama_threads d)) (\<lambda>threads.
     res_bind (json_value get_int j ''llama_gpu_layers'' (inf_llama_gpu_layers d)) (\<lambda>gpu_layers.
     res_bind (json_value get_int j ''inference_healthcheck_retries''
         (inf_inference_healthcheck_retries d)) (\<lambda>retries.
     res_bind (json_value get_int j ''inference_healthcheck_interval_sec''
         (inf_inference_healthcheck_interval_sec d)) (\<lambda>interval.
     res_bind (json_value get_int j ''rendezvous_port'' (inf_rendezvous_port d)) (\<lambda>rendezvous_port.
     Inr \<lparr> inf_primary_infer_node = primary, inf_runtime_engine = engine,
           inf_data_parallel_mode = dp_mode, inf_data_parallel_lb_mode = dp_lb,
           inf_api_server_count = servers, inf_worker_group_id = group_id,
           inf_distributed_backend = backend, inf_worker_selection_policy = policy,
           inf_net_if = net_if, inf_models_root = models_root,
           inf_model_cache_dir = model_cache_dir, inf_runtime_log_dir = runtime_log_dir,
           inf_api_port = api_port, inf_max_model_len = max_model_len,
           inf_tensor_parallel_size = tensor, inf_pipeline_parallel_size = pipeline,
           inf_max_num_seqs = max_num_seqs, inf_gpu_memory_utilization = util,
           inf_enforce_eager = enforce_eager, inf_gguf_cache_dir = gguf_cache_dir,
           inf_infer_log_dir = infer_log_dir, inf_llama_port = llama_port,
           inf_llama_ctx_size = llama_ctx_size, inf_llama_threads = threads,
           inf_llama_gpu_layers = gpu_layers, inf_inference_healthcheck_retries = retries,
           inf_inference_healthcheck_interval_sec = interval,
           inf_rendezvous_port = rendezvous_port \<rparr>)))))))))))))))))))))))))))))))))))"

definition gateway_from_json :: "json \<Rightarrow> GatewaySettings res" where
  "gateway_from_json j =
     res_bind (json_value get_string j ''listen_host'' ''0.0.0.0'') (\<lambda>listen_host.
     res_bind (json_value get_int j ''listen_port'' 80) (\<lambda>listen_port.
     res_bind (json_value get_string j ''server_name'' ''_'') (\<lambda>server_name.
     Inr \<lparr> gw_listen_host = listen_host, gw_listen_port = listen_port,
           gw_server_name = server_name \<rparr>)))"

type_synonym features =
  "TurboQuantFeatureSpec option \<times> ContextCompressionFeatureSpec option \<times>
   VoiceListenerFeatureSpec option \<times> VoiceMakerFeatureSpec option \<times>
   SecuredConnectionFeatureSpec option"

definition features_from_json :: "json \<Rightarrow> features res" where
  "features_from_json features =
     res_bind (json_block turboquant_from_json features ''turboquant'') (\<lambda>turboquant.
     res_bind (json_block context_compression_from_json features ''context_compression'') (\<lambda>compression.
     res_bind (json_block voice_listener_from_json features ''voice_listener'') (\<lambda>voice_listener.
     res_bind (json_block voice_maker_from_json features ''voice_maker'') (\<lambda>voice_maker.
     res_bind (json_block secured_connection_from_json features ''secured_connection'') (\<lambda>secured.
     Inr (turboquant, compression, voice_listener, voice_maker, secured))))))"

definition browsing_block :: "json \<Rightarrow> json option" where
  "browsing_block value =
     (case json_get value ''webgateway'' of
        Some j \<Rightarrow> if is_object j then Some j else
          (case json_get value ''browsing'' of Some k \<Rightarrow> if is_object k then Some k else None | None \<Rightarrow> None)
      | None \<Rightarrow>
          (case json_get value ''browsing'' of Some k \<Rightarrow> if is_object k then Some k else None | None \<Rightarrow> None))"

text \<open>The empty fields of the worker group, from the inference settings.\<close>

definition fill_worker_group ::
  "string \<Rightarrow> InferenceRuntimeSettings \<Rightarrow> WorkerGroupSpec \<Rightarrow> WorkerGroupSpec" where
  "fill_worker_group plane_name inference worker_group =
     (let g = worker_group;
          g = g\<lparr>wg_group_id := if_empty (wg_group_id g) (inf_worker_group_id inference)\<rparr>;
          g = g\<lparr>wg_group_id := if_empty (wg_group_id g) (plane_name @ ''-workers'')\<rparr>;
          g = g\<lparr>wg_distributed_backend :=
            if_empty (wg_distributed_backend g) (inf_distributed_backend inference)\<rparr>;
          g = g\<lparr>wg_worker_selection_policy :=
            if_empty (wg_worker_selection_policy g) (inf_worker_selection_policy inference)\<rparr>;
          g = g\<lparr>wg_rendezvous_port :=
            if_not_positive (wg_rendezvous_port g) (inf_rendezvous_port inference)\<rparr>
      in g)"

text \<open>The members of a group that lists none: the GPU nodes, or else the worker instances.\<close>

definition member_of_gpu_node :: "int \<Rightarrow> RuntimeGpuNode \<Rightarrow> WorkerGroupMemberSpec" where
  "member_of_gpu_node rank g = default_WorkerGroupMemberSpec\<lparr>
     mem_name := gpu_name g, mem_node_name := gpu_node_name g, mem_gpu_device := gpu_gpu_device g,
     mem_rank := rank, mem_gpu_fraction := gpu_gpu_fraction g, mem_share_mode := gpu_share_mode g,
     mem_priority := gpu_priority g, mem_preemptible := gpu_preemptible g,
     mem_memory_cap_mb := gpu_memory_cap_mb g, mem_enabled := gpu_enabled g,
     mem_leader := (rank = 0)\<rparr>"

definition member_of_worker :: "int \<Rightarrow> InstanceSpec \<Rightarrow> WorkerGroupMemberSpec res" where
  "member_of_worker rank i =
     res_bind (let port = value_or (omap_get (inst_environment i) ''NAIM_WORKER_RPC_PORT'') []
               in if port = [] then Inr 0 else stoi port) (\<lambda>rpc_port.
     Inr (default_WorkerGroupMemberSpec\<lparr>
       mem_name := inst_name i, mem_node_name := inst_node_name i,
       mem_gpu_device := value_or (inst_gpu_device i) [], mem_rpc_port := rpc_port,
       mem_rank := rank, mem_gpu_fraction := inst_gpu_fraction i,
       mem_share_mode := inst_share_mode i, mem_priority := inst_priority i,
       mem_preemptible := inst_preemptible i, mem_memory_cap_mb := inst_memory_cap_mb i,
       mem_enabled := True, mem_leader := (rank = 0)\<rparr>))"

definition default_members :: "DesiredState \<Rightarrow> WorkerGroupMemberSpec list res" where
  "default_members state =
     (if st_runtime_gpu_nodes state \<noteq> []
      then Inr (map (\<lambda>(rank, g). member_of_gpu_node (int rank) g)
                  (enumerate 0 (st_runtime_gpu_nodes state)))
      else res_map_list (\<lambda>(rank, i). member_of_worker (int rank) i)
             (enumerate 0 (filter (\<lambda>i. inst_role i = Worker) (st_instances state))))"

definition fill_from_instances :: "DesiredState \<Rightarrow> WorkerGroupSpec \<Rightarrow> WorkerGroupSpec" where
  "fill_from_instances state worker_group =
     (let g = worker_group;
          g = g\<lparr>wg_expected_workers := if_not_positive (wg_expected_workers g)
            (DefaultWorkersPerReplica (st_inference state) (EligibleWorkerMemberCount g))\<rparr>;
          g = g\<lparr>wg_infer_instance_name := if_empty (wg_infer_instance_name g)
            (case find (\<lambda>i. inst_role i = Infer) (st_instances state) of
               None \<Rightarrow> wg_infer_instance_name g | Some i \<Rightarrow> inst_name i)\<rparr>;
          g = g\<lparr>wg_rendezvous_host := if_empty (wg_rendezvous_host g) (wg_infer_instance_name g)\<rparr>;
          g = g\<lparr>wg_members := map (\<lambda>m. m\<lparr>mem_infer_instance_name :=
            if_empty (mem_infer_instance_name m) (wg_infer_instance_name g)\<rparr>) (wg_members g)\<rparr>
      in g)"

definition finish_worker_group :: "DesiredState \<Rightarrow> WorkerGroupSpec \<Rightarrow> WorkerGroupSpec res" where
  "finish_worker_group state worker_group =
     (let g = fill_from_instances state worker_group in
      res_bind (ValidateReplicaPacking (st_inference state) g) (\<lambda>_.
      Inr (AssignReplicaTopology (st_inference state) g)))"

definition complete_worker_group :: "DesiredState \<Rightarrow> DesiredState res" where
  "complete_worker_group state =
     res_bind (if wg_members (st_worker_group state) = []
               then res_bind (default_members state) (\<lambda>members.
                 Inr ((st_worker_group state)\<lparr>wg_members := members\<rparr>))
               else Inr (st_worker_group state)) (\<lambda>g.
     res_bind (finish_worker_group state g) (\<lambda>g.
     Inr (state\<lparr>st_worker_group := g\<rparr>)))"

definition list_from_json :: "(json \<Rightarrow> 'a res) \<Rightarrow> json \<Rightarrow> string \<Rightarrow> 'a list res" where
  "list_from_json f value key =
     res_bind (json_value Inr value key (JArray [])) (\<lambda>items. res_map_list f (json_iter items))"

definition desired_state_v1_from_json :: "json \<Rightarrow> DesiredState res" where
  "desired_state_v1_from_json value =
     res_bind (json_at get_string value ''plane_name'') (\<lambda>plane_name.
     res_bind (json_at get_string value ''plane_shared_disk_name'') (\<lambda>shared_disk_name.
     res_bind (json_value get_string value ''control_root'' (''/naim/shared/control/'' @ plane_name))
       (\<lambda>control_root.
     res_bind (json_value get_string value ''plane_mode'' ''compute'') (\<lambda>mode_name.
     res_bind (ParsePlaneMode mode_name) (\<lambda>plane_mode.
     res_bind (json_value get_bool value ''protected'' False) (\<lambda>protected.
     res_bind (json_optional get_string value ''post_deploy_script'') (\<lambda>post_deploy_script.
     res_bind (json_optional get_string value ''placement_target'') (\<lambda>placement_target.
     res_bind (json_block BootstrapModelSpecFromJson value ''bootstrap_model'') (\<lambda>bootstrap_model.
     res_bind (json_block InteractionSettingsFromJson value ''interaction'') (\<lambda>interaction.
     res_bind (json_block SkillsSettingsFromJson value ''skills'') (\<lambda>skills.
     res_bind (case browsing_block value of None \<Rightarrow> Inr None
               | Some j \<Rightarrow> res_bind (BrowsingSettingsFromJson j) (\<lambda>b. Inr (Some b))) (\<lambda>browsing.
     res_bind (json_block KnowledgeSettingsFromJson value ''knowledge'') (\<lambda>knowledge.
     res_bind (json_when is_object features_from_json value ''features''
               (None, None, None, None, None))
       (\<lambda>(turboquant, compression, voice_listener, voice_maker, secured).
     res_bind (json_block ExternalAppHostConfigFromJson value ''app_host'') (\<lambda>app_host.
     res_bind (json_when is_object inference_from_json value ''inference''
               default_InferenceRuntimeSettings) (\<lambda>inference_read.
     res_bind (json_when is_object WorkerGroupSpecFromJson value ''worker_group''
               default_WorkerGroupSpec) (\<lambda>worker_group.
     res_bind (json_when is_object gateway_from_json value ''gateway'' default_GatewaySettings)
       (\<lambda>gateway.
     res_bind (list_from_json RuntimeGpuNodeFromJson value ''runtime_gpu_nodes'') (\<lambda>gpu_nodes.
     res_bind (list_from_json NodeInventoryFromJson value ''nodes'') (\<lambda>nodes.
     res_bind (list_from_json DiskSpecFromJson value ''disks'') (\<lambda>disks.
     res_bind (list_from_json InstanceSpecFromJson value ''instances'') (\<lambda>instances.
     (let inference = NormalizeInferenceSettings inference_read in
     complete_worker_group
       \<lparr> st_plane_name = plane_name, st_plane_shared_disk_name = shared_disk_name,
         st_control_root = control_root, st_plane_mode = plane_mode,
         st_protected_plane =
           (protected \<or> (case secured of None \<Rightarrow> False | Some c \<Rightarrow> sc_enabled c)),
         st_post_deploy_script = post_deploy_script, st_placement_target = placement_target,
         st_bootstrap_model = bootstrap_model, st_interaction = interaction,
         st_skills = skills, st_browsing = browsing, st_knowledge = knowledge,
         st_turboquant = turboquant, st_context_compression = compression,
         st_voice_listener = voice_listener, st_voice_maker = voice_maker,
         st_secured_connection = secured, st_app_host = app_host, st_inference = inference,
         st_worker_group = fill_worker_group plane_name inference worker_group,
         st_gateway = gateway, st_runtime_gpu_nodes = gpu_nodes, st_nodes = nodes,
         st_disks = disks, st_instances = instances \<rparr>)))))))))))))))))))))))"

definition DesiredStateFromJson :: "(json \<Rightarrow> DesiredState res) \<Rightarrow> json \<Rightarrow> DesiredState res" where
  "DesiredStateFromJson render value =
     res_bind (IsDesiredStateV2 value) (\<lambda>v2.
       if v2 then render value else desired_state_v1_from_json value)"

section \<open>Slices and text\<close>

definition SliceDesiredStateForNode :: "DesiredState \<Rightarrow> string \<Rightarrow> DesiredState res" where
  "SliceDesiredStateForNode state node =
     (let result = default_DesiredState\<lparr>
            st_plane_name := st_plane_name state,
            st_plane_shared_disk_name := st_plane_shared_disk_name state,
            st_control_root := st_control_root state, st_plane_mode := st_plane_mode state,
            st_protected_plane := st_protected_plane state,
            st_post_deploy_script := st_post_deploy_script state,
            st_placement_target := st_placement_target state,
            st_bootstrap_model := st_bootstrap_model state,
            st_interaction := st_interaction state, st_skills := st_skills state,
            st_browsing := st_browsing state, st_turboquant := st_turboquant state,
            st_context_compression := st_context_compression state,
            st_secured_connection := st_secured_connection state,
            st_app_host := st_app_host state, st_inference := st_inference state,
            st_worker_group := st_worker_group state, st_gateway := st_gateway state,
            st_runtime_gpu_nodes := st_runtime_gpu_nodes state,
            st_nodes := filter (\<lambda>n. node_name n = node) (st_nodes state),
            st_disks := filter (\<lambda>d. disk_node_name d = node) (st_disks state),
            st_instances := filter (\<lambda>i. inst_node_name i = node) (st_instances state)\<rparr>
      in if st_nodes result = []
         then Inl (RuntimeError (''node '' @ quoted node @ '' not found in desired state''))
         else Inr result)"

definition SerializeDesiredStateJson :: "(json \<Rightarrow> string res) \<Rightarrow> DesiredState \<Rightarrow> string res" where
  "SerializeDesiredStateJson dump state = dump (DesiredStateToJson state)"

text \<open>A target that cannot be resolved on several nodes is dropped.\<close>

definition resolve_or_drop_target :: "DesiredState \<Rightarrow> DesiredState res" where
  "resolve_or_drop_target state =
     (case ResolvePlacementTargetAliases state of
        Inr resolved \<Rightarrow> Inr resolved
      | Inl e \<Rightarrow>
          if has_value (st_placement_target state) \<and> e = RuntimeError single_node_error
          then Inr (state\<lparr>st_placement_target := None\<rparr>)
          else Inl e)"

definition DeserializeDesiredStateJson ::
  "(string \<Rightarrow> json res) \<Rightarrow> (json \<Rightarrow> DesiredState res) \<Rightarrow> string \<Rightarrow> DesiredState res" where
  "DeserializeDesiredStateJson parse render json_text =
     res_bind (parse json_text) (\<lambda>value.
     res_bind (DesiredStateFromJson render value) resolve_or_drop_target)"

section \<open>Round trip\<close>

text \<open>
  What a document keeps of a state: integers that fit an \<open>int\<close>, GPU devices that have a
  memory entry, the write-back settings of an enabled write-back, and a voice model with a
  name, a variable and no host path.
\<close>

definition inference_fits :: "InferenceRuntimeSettings \<Rightarrow> bool" where
  "inference_fits s \<longleftrightarrow> int_fits (inf_api_server_count s) \<and> int_fits (inf_api_port s) \<and>
     int_fits (inf_max_model_len s) \<and> int_fits (inf_tensor_parallel_size s) \<and>
     int_fits (inf_pipeline_parallel_size s) \<and> int_fits (inf_max_num_seqs s) \<and>
     int_fits (inf_llama_port s) \<and> int_fits (inf_llama_ctx_size s) \<and>
     int_fits (inf_llama_threads s) \<and> int_fits (inf_llama_gpu_layers s) \<and>
     int_fits (inf_inference_healthcheck_retries s) \<and>
     int_fits (inf_inference_healthcheck_interval_sec s) \<and> int_fits (inf_rendezvous_port s)"

definition voice_model_lossless :: "AppModelMountSpec \<Rightarrow> bool" where
  "voice_model_lossless m \<longleftrightarrow> mount_name m \<noteq> [] \<and> mount_env_var m \<noteq> [] \<and>
     mount_host_path m = [] \<and> (mount_source_paths m = [] \<longleftrightarrow> mount_source_path m = []) \<and>
     mount_source_paths m \<noteq> [[]]"

definition features_lossless :: "DesiredState \<Rightarrow> bool" where
  "features_lossless s \<longleftrightarrow>
     pred_option (\<lambda>v. voice_model_lossless (vl_model v) \<and> vl_image v \<noteq> Some []) (st_voice_listener s) \<and>
     pred_option (\<lambda>v. voice_model_lossless (vm_model v) \<and> vm_image v \<noteq> Some []) (st_voice_maker s)"

definition state_lossless :: "DesiredState \<Rightarrow> bool" where
  "state_lossless s \<longleftrightarrow> pred_option bootstrap_lossless (st_bootstrap_model s) \<and>
     pred_option interaction_fits (st_interaction s) \<and> pred_option browsing_fits (st_browsing s) \<and>
     pred_option knowledge_fits (st_knowledge s) \<and> features_lossless s \<and>
     inference_fits (st_inference s) \<and> group_fits (st_worker_group s) \<and>
     int_fits (gw_listen_port (st_gateway s)) \<and>
     list_all gpu_node_fits (st_runtime_gpu_nodes s) \<and> list_all node_lossless (st_nodes s) \<and>
     list_all (\<lambda>d. int_fits (disk_size_gb d)) (st_disks s) \<and> list_all instance_fits (st_instances s)"

lemma is_object_features [simp]:
  "is_object (ToJson_TurboQuantFeatureSpec t)" "is_object (ToJson_ContextCompressionFeatureSpec c)"
  "is_object (ToJson_VoiceListenerFeatureSpec v)" "is_object (ToJson_VoiceMakerFeatureSpec w)"
  "is_object (ToJson_SecuredConnectionFeatureSpec sc)" "is_object (voice_source_json m)"
  "is_object (voice_model_json n e m)" "is_object (features_json s)"
  "is_object (inference_block_json i)" "is_object (gateway_json g)"
  "is_object (DesiredStateToJson s)"
  by (simp_all add: ToJson_TurboQuantFeatureSpec_def ToJson_ContextCompressionFeatureSpec_def
      ToJson_VoiceListenerFeatureSpec_def ToJson_VoiceMakerFeatureSpec_def
      ToJson_SecuredConnectionFeatureSpec_def voice_source_json_def voice_model_json_def
      features_json_def inference_block_json_def gateway_json_def DesiredStateToJson_def)

lemma turboquant_roundtrip: "turboquant_from_json (ToJson_TurboQuantFeatureSpec t) = Inr t"
  by (simp add: turboquant_from_json_def ToJson_TurboQuantFeatureSpec_def)

lemma context_compression_roundtrip:
  "context_compression_from_json (ToJson_ContextCompressionFeatureSpec c) = Inr c"
  by (simp add: context_compression_from_json_def ToJson_ContextCompressionFeatureSpec_def)

lemma secured_connection_roundtrip:
  "secured_connection_from_json (ToJson_SecuredConnectionFeatureSpec c) = Inr c"
  by (simp add: secured_connection_from_json_def ToJson_SecuredConnectionFeatureSpec_def json_when_def)

lemma voice_source_get [simp]:
  "json_get (voice_source_json m) ''path'' = Some (JString (mount_source_path m))"
  "json_get (voice_source_json m) ''node'' =
     (if mount_source_node_name m = [] then None else Some (JString (mount_source_node_name m)))"
  "json_get (voice_source_json m) ''paths'' =
     (if mount_source_paths m \<noteq> [] \<and> mount_source_paths m \<noteq> [mount_source_path m]
      then Some (json_strings (mount_source_paths m)) else None)"
  by (simp_all add: voice_source_json_def)

lemma voice_model_roundtrip:
  "voice_model_lossless m \<Longrightarrow>
   voice_model_from_json name path env (voice_model_json name' env' m) = Inr m"
  by (cases m) (auto simp: voice_model_from_json_def voice_model_json_def voice_model_lossless_def
      json_when_def default_AppModelMountSpec_def)

lemma voice_listener_roundtrip:
  assumes "voice_model_lossless (vl_model v)" "vl_image v \<noteq> Some []"
  shows "voice_listener_from_json (ToJson_VoiceListenerFeatureSpec v) = Inr v"
  using assms by (cases "vl_image v")
    (simp_all add: voice_listener_from_json_def ToJson_VoiceListenerFeatureSpec_def json_when_def
      value_or_def voice_model_roundtrip)

lemma voice_maker_roundtrip:
  assumes "voice_model_lossless (vm_model v)" "vm_image v \<noteq> Some []"
  shows "voice_maker_from_json (ToJson_VoiceMakerFeatureSpec v) = Inr v"
  using assms by (cases "vm_image v")
    (simp_all add: voice_maker_from_json_def ToJson_VoiceMakerFeatureSpec_def json_when_def
      value_or_def voice_model_roundtrip)

lemma json_block_set_opt_cases:
  "is_object j \<Longrightarrow> json_get j k = None \<Longrightarrow> (\<And>x. is_object (enc x)) \<Longrightarrow>
   json_block f (json_set_opt k enc v j) k =
     (case v of None \<Rightarrow> Inr None | Some x \<Rightarrow> res_bind (f (enc x)) (\<lambda>x. Inr (Some x)))"
  by (cases v) (simp_all add: json_block_def json_when_def)

lemma features_roundtrip:
  assumes "features_lossless s"
  shows "features_from_json (features_json s) =
    Inr (st_turboquant s, st_context_compression s, st_voice_listener s, st_voice_maker s,
         st_secured_connection s)"
proof -
  have "(case st_voice_listener s of None \<Rightarrow> Inr None
      | Some x \<Rightarrow> res_bind (voice_listener_from_json (ToJson_VoiceListenerFeatureSpec x))
          (\<lambda>x. Inr (Some x))) = Inr (st_voice_listener s)"
    "(case st_voice_maker s of None \<Rightarrow> Inr None
      | Some x \<Rightarrow> res_bind (voice_maker_from_json (ToJson_VoiceMakerFeatureSpec x))
          (\<lambda>x. Inr (Some x))) = Inr (st_voice_maker s)"
    using assms by (auto simp: features_lossless_def voice_listener_roundtrip voice_maker_roundtrip
        split: option.splits)
  then show ?thesis
    by (cases "st_turboquant s"; cases "st_context_compression s"; cases "st_secured_connection s")
      (simp_all add: features_from_json_def features_json_def json_block_set_opt_cases
        turboquant_roundtrip context_compression_roundtrip secured_connection_roundtrip)
qed

lemma inference_roundtrip:
  "inference_fits s \<Longrightarrow> inference_from_json (inference_block_json s) = Inr s"
  by (simp add: inference_from_json_def inference_block_json_def inference_fits_def Let_def)

lemma gateway_roundtrip: "int_fits (gw_listen_port g) \<Longrightarrow> gateway_from_json (gateway_json g) = Inr g"
  by (simp add: gateway_from_json_def gateway_json_def)

text \<open>What the accessors of the decoder see in the document of a state.\<close>

lemma state_json_get:
  "json_get (DesiredStateToJson s) ''version'' = None"
  "json_get (DesiredStateToJson s) ''plane_name'' = Some (JString (st_plane_name s))"
  "json_get (DesiredStateToJson s) ''plane_shared_disk_name'' =
     Some (JString (st_plane_shared_disk_name s))"
  "json_get (DesiredStateToJson s) ''control_root'' = Some (JString (st_control_root s))"
  "json_get (DesiredStateToJson s) ''plane_mode'' =
     Some (JString (ToString_PlaneMode (st_plane_mode s)))"
  "json_get (DesiredStateToJson s) ''protected'' =
     Some (JBool (st_protected_plane s \<or> secured_connection_enabled s))"
  "json_get (DesiredStateToJson s) ''inference'' = Some (inference_block_json (st_inference s))"
  "json_get (DesiredStateToJson s) ''worker_group'' =
     Some (ToJson_WorkerGroupSpec (st_worker_group s))"
  "json_get (DesiredStateToJson s) ''gateway'' = Some (gateway_json (st_gateway s))"
  "json_get (DesiredStateToJson s) ''runtime_gpu_nodes'' =
     Some (JArray (map ToJson_RuntimeGpuNode (st_runtime_gpu_nodes s)))"
  "json_get (DesiredStateToJson s) ''nodes'' = Some (JArray (map ToJson_NodeInventory (st_nodes s)))"
  "json_get (DesiredStateToJson s) ''disks'' = Some (JArray (map ToJson_DiskSpec (st_disks s)))"
  "json_get (DesiredStateToJson s) ''instances'' =
     Some (JArray (map ToJson_InstanceSpec (st_instances s)))"
  "json_get (DesiredStateToJson s) ''features'' =
     (if has_features s then Some (features_json s) else None)"
  "json_get (DesiredStateToJson s) ''webgateway'' = map_option ToJson_BrowsingSettings (st_browsing s)"
  "json_get (DesiredStateToJson s) ''browsing'' = None"
  by (simp_all add: DesiredStateToJson_def)

lemma state_json_optional:
  "json_optional get_string (DesiredStateToJson s) ''post_deploy_script'' =
     Inr (st_post_deploy_script s)"
  "json_optional get_string (DesiredStateToJson s) ''placement_target'' = Inr (st_placement_target s)"
  by (simp_all add: DesiredStateToJson_def)

lemma state_json_blocks:
  "pred_option bootstrap_lossless (st_bootstrap_model s) \<Longrightarrow>
   json_block BootstrapModelSpecFromJson (DesiredStateToJson s) ''bootstrap_model'' =
     Inr (st_bootstrap_model s)"
  "pred_option interaction_fits (st_interaction s) \<Longrightarrow>
   json_block InteractionSettingsFromJson (DesiredStateToJson s) ''interaction'' =
     Inr (st_interaction s)"
  "json_block SkillsSettingsFromJson (DesiredStateToJson s) ''skills'' = Inr (st_skills s)"
  "pred_option knowledge_fits (st_knowledge s) \<Longrightarrow>
   json_block KnowledgeSettingsFromJson (DesiredStateToJson s) ''knowledge'' = Inr (st_knowledge s)"
  "json_block ExternalAppHostConfigFromJson (DesiredStateToJson s) ''app_host'' = Inr (st_app_host s)"
  by (auto simp: DesiredStateToJson_def json_block_set_opt_cases BootstrapModelSpec_roundtrip
      InteractionSettings_roundtrip SkillsSettings_roundtrip KnowledgeSettings_roundtrip
      ExternalAppHostConfig_roundtrip split: option.splits)

lemma list_from_json_map:
  assumes "is_object j" "json_get j key = Some (JArray (map enc xs))"
    and "\<And>x. x \<in> set xs \<Longrightarrow> dec (enc x) = Inr x"
  shows "list_from_json dec j key = Inr xs"
  using assms by (simp add: list_from_json_def res_map_list_map)

lemma state_json_lists:
  assumes "state_lossless s"
  shows "list_from_json RuntimeGpuNodeFromJson (DesiredStateToJson s) ''runtime_gpu_nodes'' =
      Inr (st_runtime_gpu_nodes s)"
    "list_from_json NodeInventoryFromJson (DesiredStateToJson s) ''nodes'' = Inr (st_nodes s)"
    "list_from_json DiskSpecFromJson (DesiredStateToJson s) ''disks'' = Inr (st_disks s)"
    "list_from_json InstanceSpecFromJson (DesiredStateToJson s) ''instances'' = Inr (st_instances s)"
  using assms unfolding state_lossless_def list_all_iff
  by (auto intro!: list_from_json_map simp: state_json_get RuntimeGpuNode_roundtrip
      NodeInventory_roundtrip DiskSpec_roundtrip InstanceSpec_roundtrip)

lemma state_json_browsing:
  assumes "pred_option browsing_fits (st_browsing s)"
  shows "(case browsing_block (DesiredStateToJson s) of None \<Rightarrow> Inr None
          | Some j \<Rightarrow> res_bind (BrowsingSettingsFromJson j) (\<lambda>b. Inr (Some b))) = Inr (st_browsing s)"
  using assms by (cases "st_browsing s")
    (simp_all add: browsing_block_def state_json_get BrowsingSettings_roundtrip)

lemma state_json_when:
  assumes "state_lossless s"
  shows "json_when is_object features_from_json (DesiredStateToJson s) ''features''
      (None, None, None, None, None) =
      Inr (st_turboquant s, st_context_compression s, st_voice_listener s, st_voice_maker s,
           st_secured_connection s)"
    "json_when is_object inference_from_json (DesiredStateToJson s) ''inference'' d =
      Inr (st_inference s)"
    "json_when is_object WorkerGroupSpecFromJson (DesiredStateToJson s) ''worker_group'' dg =
      Inr (st_worker_group s)"
    "json_when is_object gateway_from_json (DesiredStateToJson s) ''gateway'' dw = Inr (st_gateway s)"
  using assms unfolding state_lossless_def
  by (simp_all add: json_when_def state_json_get features_roundtrip inference_roundtrip
      WorkerGroupSpec_roundtrip gateway_roundtrip has_features_def has_value_def)

text \<open>A state that reading does not change any more.\<close>

definition state_settled :: "DesiredState \<Rightarrow> bool" where
  "state_settled s \<longleftrightarrow> NormalizeInferenceSettings (st_inference s) = st_inference s \<and>
     fill_worker_group (st_plane_name s) (st_inference s) (st_worker_group s) = st_worker_group s \<and>
     complete_worker_group s = Inr s \<and>
     (secured_connection_enabled s \<longrightarrow> st_protected_plane s)"

lemma v1_roundtrip:
  assumes "state_lossless s" "state_settled s"
  shows "desired_state_v1_from_json (DesiredStateToJson s) = Inr s"
proof -
  have lossless: "pred_option bootstrap_lossless (st_bootstrap_model s)"
      "pred_option interaction_fits (st_interaction s)" "pred_option browsing_fits (st_browsing s)"
      "pred_option knowledge_fits (st_knowledge s)"
    using assms(1) by (simp_all add: state_lossless_def)
  have protected: "st_protected_plane s \<or> secured_connection_enabled s \<or>
      (case st_secured_connection s of None \<Rightarrow> False | Some c \<Rightarrow> sc_enabled c) \<longleftrightarrow> st_protected_plane s"
    using assms(2) by (auto simp: state_settled_def secured_connection_enabled_def)
  have "complete_worker_group s = Inr s"
    using assms(2) by (simp add: state_settled_def)
  then show ?thesis
    using assms(2) unfolding desired_state_v1_from_json_def state_settled_def
    by (simp add: state_json_get state_json_optional state_json_blocks(1)[OF lossless(1)]
        state_json_blocks(2)[OF lossless(2)] state_json_blocks(3,5)
        state_json_blocks(4)[OF lossless(4)]
        state_json_browsing[OF lossless(3)] state_json_when[OF assms(1)] state_json_lists[OF assms(1)]
        protected Let_def) (cases s, simp)
qed

lemma DesiredState_roundtrip:
  assumes "state_lossless s" "state_settled s"
  shows "DesiredStateFromJson render (DesiredStateToJson s) = Inr s"
  using v1_roundtrip[OF assms]
  by (simp add: DesiredStateFromJson_def IsDesiredStateV2_def state_json_get)

section \<open>What is read is settled\<close>

lemma if_empty_again [simp]: "if_empty (if_empty x d) d = if_empty x d"
  by (simp add: if_empty_def)

lemma if_empty_chain [simp]:
  "if_empty (if_empty a b) (if_empty b (if_empty a b)) = if_empty a b"
  "if_empty (if_empty b (if_empty a b)) (if_empty a b) = if_empty b (if_empty a b)"
  by (simp_all add: if_empty_def)

lemma if_not_positive_chain [simp]:
  "if_not_positive (if_not_positive a b) (if_not_positive b (if_not_positive a b)) =
     if_not_positive a b"
  "if_not_positive (if_not_positive b (if_not_positive a b)) (if_not_positive a b) =
     if_not_positive b (if_not_positive a b)"
  "if_not_positive (if_not_positive a b) b = if_not_positive a b"
  by (simp_all add: if_not_positive_def)

lemma NormalizeInferenceSettings_idem:
  "NormalizeInferenceSettings (NormalizeInferenceSettings s) = NormalizeInferenceSettings s"
  by (rule InferenceRuntimeSettings.equality) (simp_all add: NormalizeInferenceSettings_def Let_def)

lemma if_empty_twice [simp]:
  "if_empty (if_empty (if_empty (if_empty x a) b) a) b = if_empty (if_empty x a) b"
  by (simp add: if_empty_def)

lemma fill_worker_group_idem:
  "fill_worker_group plane inference (fill_worker_group plane inference g) =
   fill_worker_group plane inference g"
  by (rule WorkerGroupSpec.equality) (simp_all add: fill_worker_group_def Let_def)

text \<open>The topology writes neither the fields the completion reads nor those it fills.\<close>

lemma assign_members_kept:
  "map mem_infer_instance_name (assign_members g L ms n) = map mem_infer_instance_name ms"
  "map mem_enabled (assign_members g L ms n) = map mem_enabled ms"
  "assign_members g L ms n = [] \<longleftrightarrow> ms = []"
  by (induction ms arbitrary: n) (auto simp: disabled_member_def)

lemma AssignReplicaTopology_fields [simp]:
  "wg_group_id (AssignReplicaTopology inference g) = wg_group_id g"
  "wg_infer_instance_name (AssignReplicaTopology inference g) = wg_infer_instance_name g"
  "wg_distributed_backend (AssignReplicaTopology inference g) = wg_distributed_backend g"
  "wg_rendezvous_host (AssignReplicaTopology inference g) = wg_rendezvous_host g"
  "wg_rendezvous_port (AssignReplicaTopology inference g) = wg_rendezvous_port g"
  "wg_expected_workers (AssignReplicaTopology inference g) = wg_expected_workers g"
  "wg_worker_selection_policy (AssignReplicaTopology inference g) = wg_worker_selection_policy g"
  by (simp_all add: AssignReplicaTopology_def)

lemma packing_valid_cong:
  assumes "map (\<lambda>m. (mem_node_name m, mem_gpu_device m)) es =
    map (\<lambda>m. (mem_node_name m, mem_gpu_device m)) fs"
  shows "packing_valid w es = packing_valid w fs"
proof -
  have len: "length es = length fs" using assms by (rule map_eq_imp_length_eq)
  have nth: "mem_node_name (es ! i) = mem_node_name (fs ! i)" if "i < length es" for i
    using arg_cong[OF assms, of "\<lambda>xs. fst (xs ! i)"] that len by simp
  have filt: "map (\<lambda>m. (mem_node_name m, mem_gpu_device m)) (filter (\<lambda>m. mem_gpu_device m \<noteq> []) xs)
      = filter (\<lambda>p. snd p \<noteq> []) (map (\<lambda>m. (mem_node_name m, mem_gpu_device m)) xs)" for xs
    by (induction xs) auto
  have "(\<forall>i<length es. mem_node_name (es ! i) \<noteq> [] \<and>
        mem_node_name (es ! i) = mem_node_name (es ! (i - i mod w))) \<longleftrightarrow>
      (\<forall>i<length fs. mem_node_name (fs ! i) \<noteq> [] \<and>
        mem_node_name (fs ! i) = mem_node_name (fs ! (i - i mod w)))"
    using nth len by (auto simp: less_imp_diff_less)
  then show ?thesis
    unfolding packing_valid_def filt assms by blast
qed

lemma map_enumerate_snd: "map (\<lambda>p. f (snd p)) (enumerate n xs) = map f xs"
  by (induction xs arbitrary: n) auto

lemma ValidateReplicaPacking_assigned:
  "ValidateReplicaPacking inference (AssignReplicaTopology inference' g) = Inr () \<longleftrightarrow>
   ValidateReplicaPacking inference g = Inr ()"
proof -
  let ?g' = "AssignReplicaTopology inference' g"
  have "map (\<lambda>m. (mem_node_name m, mem_gpu_device m)) (enabled_members ?g') =
      map (\<lambda>m. (mem_node_name m, mem_gpu_device m)) (enabled_members g)"
    by (simp add: enabled_members_assigned case_prod_beta' o_def
        map_enumerate_snd[of "\<lambda>m. (mem_node_name m, mem_gpu_device m)"])
  then have "packing_valid w (filter mem_enabled (wg_members ?g')) =
      packing_valid w (filter mem_enabled (wg_members g))" for w
    unfolding enabled_members_def by (rule packing_valid_cong)
  moreover have "EligibleWorkerMemberCount ?g' = EligibleWorkerMemberCount g"
    by (simp add: EligibleWorkerMemberCount_def AssignReplicaTopology_def assign_members_reads)
  ultimately show ?thesis
    by (simp add: ValidateReplicaPacking_ok replica_packing_ok_def WorkersPerReplica_def)
qed

lemma map_member_update_same:
  "(\<And>x. x \<in> mem_infer_instance_name ` set ms \<Longrightarrow> f x = x) \<Longrightarrow>
   map (\<lambda>m. m\<lparr>mem_infer_instance_name := f (mem_infer_instance_name m)\<rparr>) ms = ms"
  by (induction ms) auto

lemma fill_from_instances_assigned:
  "fill_from_instances s (AssignReplicaTopology inference (fill_from_instances s g)) =
   AssignReplicaTopology inference (fill_from_instances s g)"
proof -
  let ?f = "fill_from_instances s g" and ?n = "wg_infer_instance_name (fill_from_instances s g)"
  let ?ms = "wg_members (AssignReplicaTopology inference ?f)"
  have "mem_infer_instance_name ` set ?ms = mem_infer_instance_name ` set (wg_members ?f)"
    unfolding AssignReplicaTopology_def using assign_members_kept(1) by (simp flip: set_map)
  also have "\<dots> \<subseteq> range (\<lambda>x. if_empty x ?n)"
    by (auto simp: fill_from_instances_def Let_def)
  finally have members:
    "map (\<lambda>m. m\<lparr>mem_infer_instance_name := if_empty (mem_infer_instance_name m) ?n\<rparr>) ?ms = ?ms"
    by (intro map_member_update_same) auto
  have infer: "if_empty ?n (case find (\<lambda>i. inst_role i = Infer) (st_instances s) of
      None \<Rightarrow> ?n | Some i \<Rightarrow> inst_name i) = ?n"
    by (simp add: fill_from_instances_def Let_def if_empty_def split: option.splits)
  have host: "if_empty (wg_rendezvous_host ?f) ?n = wg_rendezvous_host ?f"
    by (simp add: fill_from_instances_def Let_def)
  have expected: "0 < wg_expected_workers ?f"
    by (simp add: fill_from_instances_def Let_def if_not_positive_def DefaultWorkersPerReplica_def
        max_def)
  have "fill_from_instances s (AssignReplicaTopology inference ?f) =
      (AssignReplicaTopology inference ?f)\<lparr>wg_expected_workers := wg_expected_workers ?f,
        wg_infer_instance_name := ?n, wg_rendezvous_host := wg_rendezvous_host ?f,
        wg_members := ?ms\<rparr>"
    unfolding fill_from_instances_def[of s "AssignReplicaTopology inference ?f"] Let_def
    using expected infer host members
    by (cases "find (\<lambda>i. inst_role i = Infer) (st_instances s)") (simp_all add: if_not_positive_def)
  also have "\<dots> = AssignReplicaTopology inference ?f"
    by (rule WorkerGroupSpec.equality) simp_all
  finally show ?thesis .
qed

lemma finish_worker_group_idem:
  assumes "finish_worker_group s g = Inr g'"
  shows "finish_worker_group s g' = Inr g'"
proof -
  let ?f = "fill_from_instances s g"
  have valid: "ValidateReplicaPacking (st_inference s) ?f = Inr ()"
    and g': "g' = AssignReplicaTopology (st_inference s) ?f"
    using assms by (auto simp: finish_worker_group_def Let_def res_bind_Inr_iff)
  have "ValidateReplicaPacking (st_inference s) g' = Inr ()"
    using valid by (simp add: g' ValidateReplicaPacking_assigned)
  then show ?thesis
    by (simp add: finish_worker_group_def Let_def g' fill_from_instances_assigned
        AssignReplicaTopology_idem)
qed

lemma finish_worker_group_fields:
  assumes "finish_worker_group s g = Inr g'"
  shows "wg_group_id g' = wg_group_id g" "wg_distributed_backend g' = wg_distributed_backend g"
    "wg_worker_selection_policy g' = wg_worker_selection_policy g"
    "wg_rendezvous_port g' = wg_rendezvous_port g" "wg_members g' = [] \<longleftrightarrow> wg_members g = []"
  using assms
  by (auto simp: finish_worker_group_def Let_def res_bind_Inr_iff fill_from_instances_def
      AssignReplicaTopology_def assign_members_kept(3))

lemma finish_worker_group_cong:
  "st_inference s = st_inference t \<Longrightarrow> st_instances s = st_instances t \<Longrightarrow>
   finish_worker_group s g = finish_worker_group t g"
  by (simp add: finish_worker_group_def fill_from_instances_def Let_def)

lemma complete_worker_groupE:
  assumes "complete_worker_group s = Inr t"
  obtains ms g' where "t = s\<lparr>st_worker_group := g'\<rparr>"
    "finish_worker_group s ((st_worker_group s)\<lparr>wg_members := ms\<rparr>) = Inr g'"
    "if wg_members (st_worker_group s) = [] then default_members s = Inr ms
     else ms = wg_members (st_worker_group s)"
  using assms unfolding complete_worker_group_def
  by (auto simp: res_bind_Inr_iff split: if_splits)

lemma complete_worker_group_idem:
  assumes "complete_worker_group s = Inr t"
  shows "complete_worker_group t = Inr t"
proof -
  obtain ms g' where t: "t = s\<lparr>st_worker_group := g'\<rparr>"
    and fin: "finish_worker_group s ((st_worker_group s)\<lparr>wg_members := ms\<rparr>) = Inr g'"
    and ms: "if wg_members (st_worker_group s) = [] then default_members s = Inr ms
      else ms = wg_members (st_worker_group s)"
    by (rule complete_worker_groupE[OF assms])
  have same: "finish_worker_group t g' = Inr g'"
    using finish_worker_group_idem[OF fin] finish_worker_group_cong[of t s g'] t by simp
  show ?thesis
  proof (cases "wg_members g' = []")
    case True
    then have "ms = []" using finish_worker_group_fields(5)[OF fin] by simp
    then have "default_members t = Inr []"
      using ms t by (auto simp: default_members_def split: if_splits)
    moreover have eq: "g'\<lparr>wg_members := []\<rparr> = g'"
      using True by (intro WorkerGroupSpec.equality) simp_all
    have "finish_worker_group t (g'\<lparr>wg_members := []\<rparr>) = Inr g'"
      unfolding eq by (rule same)
    ultimately show ?thesis
      using True t by (simp add: complete_worker_group_def)
  next
    case False
    then show ?thesis using same t by (simp add: complete_worker_group_def)
  qed
qed

lemma fill_worker_group_kept:
  assumes "fill_worker_group p infs g = g" "wg_group_id g' = wg_group_id g"
    "wg_distributed_backend g' = wg_distributed_backend g"
    "wg_worker_selection_policy g' = wg_worker_selection_policy g"
    "wg_rendezvous_port g' = wg_rendezvous_port g"
  shows "fill_worker_group p infs g' = g'"
proof -
  have fields: "wg_group_id (fill_worker_group p infs g) = wg_group_id g"
    "wg_distributed_backend (fill_worker_group p infs g) = wg_distributed_backend g"
    "wg_worker_selection_policy (fill_worker_group p infs g) = wg_worker_selection_policy g"
    "wg_rendezvous_port (fill_worker_group p infs g) = wg_rendezvous_port g"
    using assms(1) by simp_all
  show ?thesis
    using fields assms(2-5)
    by (intro WorkerGroupSpec.equality) (simp_all add: fill_worker_group_def Let_def)
qed

lemma complete_worker_group_settled:
  assumes "complete_worker_group s = Inr t"
    and "NormalizeInferenceSettings (st_inference s) = st_inference s"
    and "fill_worker_group (st_plane_name s) (st_inference s) (st_worker_group s) = st_worker_group s"
    and "secured_connection_enabled s \<longrightarrow> st_protected_plane s"
  shows "state_settled t"
proof -
  obtain ms g' where t: "t = s\<lparr>st_worker_group := g'\<rparr>"
    and fin: "finish_worker_group s ((st_worker_group s)\<lparr>wg_members := ms\<rparr>) = Inr g'"
    by (rule complete_worker_groupE[OF assms(1)])
  have "fill_worker_group (st_plane_name s) (st_inference s) g' = g'"
    by (rule fill_worker_group_kept[OF assms(3)]) (simp_all add: finish_worker_group_fields[OF fin])
  with assms t complete_worker_group_idem[OF assms(1)] show ?thesis
    by (simp add: state_settled_def secured_connection_enabled_def)
qed

lemma v1_settled:
  assumes "desired_state_v1_from_json j = Inr s"
  shows "state_settled s"
proof -
  obtain s0 where "complete_worker_group s0 = Inr s"
    "NormalizeInferenceSettings (st_inference s0) = st_inference s0"
    "fill_worker_group (st_plane_name s0) (st_inference s0) (st_worker_group s0) = st_worker_group s0"
    "secured_connection_enabled s0 \<longrightarrow> st_protected_plane s0"
    using assms unfolding desired_state_v1_from_json_def Let_def res_bind_Inr_iff
    by (elim exE conjE, auto simp: NormalizeInferenceSettings_idem fill_worker_group_idem
        secured_connection_enabled_def res_bind_Inr_iff)
  then show ?thesis by (rule complete_worker_group_settled)
qed

lemma DesiredStateFromJson_settled:
  assumes "DesiredStateFromJson render j = Inr s" "IsDesiredStateV2 j = Inr False"
  shows "state_settled s"
  using assms v1_settled by (simp add: DesiredStateFromJson_def)


section \<open>Placement\<close>

definition placement_names :: "DesiredState \<Rightarrow> string set" where
  "placement_names s = (insert (inf_primary_infer_node (st_inference s))
     (mem_node_name ` set (wg_members (st_worker_group s)) \<union> node_name ` set (st_nodes s) \<union>
      disk_node_name ` set (st_disks s) \<union> inst_node_name ` set (st_instances s) \<union>
      gpu_node_name ` set (st_runtime_gpu_nodes s))) - {[]}"

lemma fold_insert_nonempty:
  "sorted acc \<Longrightarrow> distinct acc \<Longrightarrow> sorted (fold insert_nonempty xs acc) \<and>
     distinct (fold insert_nonempty xs acc) \<and> set (fold insert_nonempty xs acc) = set acc \<union> (set xs - {[]})"
  by (induction xs arbitrary: acc)
    (auto simp: insert_nonempty_def set_insort_insert sorted_insort_insert distinct_insort_insert)

lemma CollectPlacementReferencedNodes_set:
  "distinct (CollectPlacementReferencedNodes s) \<and>
   set (CollectPlacementReferencedNodes s) = placement_names s"
proof -
  define xs where "xs =
      inf_primary_infer_node (st_inference s) # map mem_node_name (wg_members (st_worker_group s)) @
       map node_name (st_nodes s) @ map disk_node_name (st_disks s) @
       map inst_node_name (st_instances s) @ map gpu_node_name (st_runtime_gpu_nodes s)"
  have "CollectPlacementReferencedNodes s = fold insert_nonempty xs []"
    by (simp add: CollectPlacementReferencedNodes_def xs_def)
  moreover have "set xs - {[]} = placement_names s"
    by (auto simp: xs_def placement_names_def)
  ultimately show ?thesis
    using fold_insert_nonempty[of "[]" xs] by simp
qed

lemma CollectPlacementReferencedNodes_single:
  "length (CollectPlacementReferencedNodes s) \<le> 1 \<longleftrightarrow> (\<exists>n. placement_names s \<subseteq> {n})"
proof -
  have "card (placement_names s) = length (CollectPlacementReferencedNodes s)" "finite (placement_names s)"
    using CollectPlacementReferencedNodes_set[of s] distinct_card by (metis, metis List.finite_set)
  then show ?thesis
    by (metis card_1_singletonE card_mono finite.emptyI finite_insert is_singletonI is_singleton_altdef
        le_eq_less_or_eq less_one card_0_eq empty_subsetI subset_refl)
qed

lemma ResolvePlacementTargetAliases_names:
  assumes "ResolvePlacementTargetAliases s = Inr t"
    and "ResolvePlacementTargetAliasValue (st_placement_target s) = Inr target" "target \<noteq> []"
  shows "placement_names t \<subseteq> {target}" "st_placement_target t = st_placement_target s"
    "map (\<lambda>i. i\<lparr>inst_node_name := []\<rparr>) (st_instances t) =
     map (\<lambda>i. i\<lparr>inst_node_name := []\<rparr>) (st_instances s)"
    "\<forall>i \<in> set (st_instances t). inst_node_name i = target"
    "\<forall>n \<in> set (st_nodes t). node_name n = target"
  using assms
  by (auto simp: ResolvePlacementTargetAliases_def placement_names_def split: if_splits)

lemma map_update_same:
  "(\<And>x. x \<in> set xs \<Longrightarrow> f x = x) \<Longrightarrow> map f xs = xs"
  by (induction xs) auto

text \<open>
  \<^bold>\<open>C24.\<close> A plane with a placement target is moved to that node as a whole, or rejected because it
  names more than one node; a resolved state stays as it is.
\<close>

theorem ResolvePlacementTargetAliases_single_node:
  assumes "ResolvePlacementTargetAliasValue (st_placement_target s) = Inr target" "target \<noteq> []"
  shows "(case ResolvePlacementTargetAliases s of
      Inr t \<Rightarrow> placement_names t \<subseteq> {target} \<and> ResolvePlacementTargetAliases t = Inr t \<and>
        length (st_instances t) = length (st_instances s)
    | Inl e \<Rightarrow> e = RuntimeError single_node_error \<and> (\<nexists>n. placement_names s \<subseteq> {n}))"
proof (cases "length (CollectPlacementReferencedNodes s) > 1")
  case True
  then have "ResolvePlacementTargetAliases s = Inl (RuntimeError single_node_error)"
    using assms by (simp add: ResolvePlacementTargetAliases_def)
  with True show ?thesis
    using CollectPlacementReferencedNodes_single[of s] by auto
next
  case False
  then obtain t where t: "ResolvePlacementTargetAliases s = Inr t"
    using assms by (simp add: ResolvePlacementTargetAliases_def)
  note names = ResolvePlacementTargetAliases_names[OF t assms]
  have "length (CollectPlacementReferencedNodes t) \<le> 1"
    using names(1) CollectPlacementReferencedNodes_single by blast
  moreover have "placement_names t \<subseteq> {target}" by (rule names(1))
  ultimately have "ResolvePlacementTargetAliases t = Inr t"
    using t assms False unfolding ResolvePlacementTargetAliases_def
    by (auto simp: map_update_same o_def)
  moreover have "length (st_instances t) = length (st_instances s)"
    using names(3) by (rule map_eq_imp_length_eq)
  ultimately show ?thesis using t names(1) by simp
qed

section \<open>Slices\<close>

lemma SliceDesiredStateForNode_Inr:
  "SliceDesiredStateForNode s n = Inr t \<Longrightarrow>
     st_instances t = filter (\<lambda>i. inst_node_name i = n) (st_instances s) \<and>
     st_disks t = filter (\<lambda>d. disk_node_name d = n) (st_disks s) \<and>
     st_nodes t = filter (\<lambda>k. node_name k = n) (st_nodes s) \<and> st_nodes t \<noteq> [] \<and>
     st_worker_group t = st_worker_group s \<and> st_inference t = st_inference s \<and>
     st_plane_name t = st_plane_name s"
  by (auto simp: SliceDesiredStateForNode_def Let_def split: if_splits)

lemma SliceDesiredStateForNode_error:
  "(\<exists>e. SliceDesiredStateForNode s n = Inl e) \<longleftrightarrow> n \<notin> node_name ` set (st_nodes s)"
  by (auto simp: SliceDesiredStateForNode_def Let_def filter_empty_conv)

lemma slice_lossless:
  assumes "SliceDesiredStateForNode s n = Inr t" "state_lossless s"
  shows "state_lossless t"
  using assms
  by (auto simp: SliceDesiredStateForNode_def Let_def state_lossless_def features_lossless_def
      default_DesiredState_def list_all_iff split: if_splits)

lemma fill_from_instances_cong:
  assumes "st_inference t = st_inference s"
    and "wg_infer_instance_name g = [] \<Longrightarrow> find (\<lambda>i. inst_role i = Infer) (st_instances t) =
      find (\<lambda>i. inst_role i = Infer) (st_instances s)"
  shows "fill_from_instances t g = fill_from_instances s g"
proof (cases "wg_infer_instance_name g = []")
  case True
  with assms show ?thesis by (simp add: fill_from_instances_def)
next
  case False
  then have "if_empty (wg_infer_instance_name g) d = wg_infer_instance_name g" for d
    by (simp add: if_empty_def)
  with assms(1) show ?thesis by (simp add: fill_from_instances_def Let_def)
qed

lemma enumerate_Nil: "enumerate n xs = [] \<longleftrightarrow> xs = []"
  by (cases xs) auto

lemma default_members_Nil:
  "default_members s = Inr [] \<longleftrightarrow>
     st_runtime_gpu_nodes s = [] \<and> (\<forall>i \<in> set (st_instances s). inst_role i \<noteq> Worker)"
proof -
  have "res_map_list f xs = Inr [] \<longleftrightarrow> xs = []" for f :: "nat \<times> InstanceSpec \<Rightarrow> WorkerGroupMemberSpec res" and xs
    by (simp add: res_map_list_Inr_iff)
  then show ?thesis
    by (auto simp: default_members_def filter_empty_conv enumerate_Nil)
qed

lemma slice_completes:
  assumes "SliceDesiredStateForNode s n = Inr t" "complete_worker_group s = Inr s"
    and "[] \<notin> inst_name ` set (st_instances s)"
  shows "complete_worker_group t = Inr t"
proof -
  let ?g = "st_worker_group s"
  have t: "st_instances t = filter (\<lambda>i. inst_node_name i = n) (st_instances s)"
    "st_worker_group t = ?g" "st_inference t = st_inference s"
    "st_runtime_gpu_nodes t = st_runtime_gpu_nodes s"
    using assms(1) by (auto simp: SliceDesiredStateForNode_def Let_def split: if_splits)
  obtain ms g' where s: "s = s\<lparr>st_worker_group := g'\<rparr>"
    and fin: "finish_worker_group s (?g\<lparr>wg_members := ms\<rparr>) = Inr g'"
    and ms: "if wg_members ?g = [] then default_members s = Inr ms else ms = wg_members ?g"
    by (rule complete_worker_groupE[OF assms(2)])
  have g': "g' = ?g" using arg_cong[OF s, of st_worker_group] by simp
  have members: "ms = wg_members ?g"
    using ms finish_worker_group_fields(5)[OF fin] g' by (auto split: if_splits)
  then have "?g\<lparr>wg_members := ms\<rparr> = ?g" by (intro WorkerGroupSpec.equality) simp_all
  with fin g' have fin_s: "finish_worker_group s ?g = Inr ?g" by metis
  have "find (\<lambda>i. inst_role i = Infer) (st_instances s) = None"
    if "wg_infer_instance_name ?g = []"
  proof (rule ccontr)
    assume "find (\<lambda>i. inst_role i = Infer) (st_instances s) \<noteq> None"
    then obtain i where i: "find (\<lambda>i. inst_role i = Infer) (st_instances s) = Some i" by auto
    then have "i \<in> set (st_instances s)" by (auto simp: find_Some_iff)
    then have "inst_name i \<noteq> []" using assms(3) by force
    moreover have "wg_infer_instance_name (fill_from_instances s ?g) = inst_name i"
      using that i by (simp add: fill_from_instances_def Let_def if_empty_def)
    moreover have "wg_infer_instance_name (fill_from_instances s ?g) = wg_infer_instance_name ?g"
      using fin_s unfolding finish_worker_group_def Let_def res_bind_Inr_iff
      by (metis AssignReplicaTopology_fields(2) sum.inject(2))
    ultimately show False using that by simp
  qed
  then have "wg_infer_instance_name ?g = [] \<Longrightarrow>
      find (\<lambda>i. inst_role i = Infer) (st_instances t) = find (\<lambda>i. inst_role i = Infer) (st_instances s)"
    by (metis filter_is_subset find_None_iff subsetD t(1))
  then have "fill_from_instances t ?g = fill_from_instances s ?g"
    by (intro fill_from_instances_cong t(3))
  then have fin_t: "finish_worker_group t ?g = Inr ?g"
    using fin_s by (simp add: finish_worker_group_def Let_def t)
  have dm: "default_members t = Inr []" if "wg_members ?g = []"
    using ms members that by (auto simp: default_members_Nil t)
  show ?thesis
  proof (cases "wg_members ?g = []")
    case True
    have "?g\<lparr>wg_members := []\<rparr> = ?g" using True by (intro WorkerGroupSpec.equality) simp_all
    with fin_t have "finish_worker_group t (?g\<lparr>wg_members := []\<rparr>) = Inr ?g" by metis
    with True dm t show ?thesis by (simp add: complete_worker_group_def)
  next
    case False
    with fin_t t show ?thesis by (simp add: complete_worker_group_def)
  qed
qed

lemma slice_settled:
  assumes "SliceDesiredStateForNode s n = Inr t" "state_settled s"
    and "[] \<notin> inst_name ` set (st_instances s)"
  shows "state_settled t"
  using assms slice_completes[OF assms(1) _ assms(3)]
  by (auto simp: state_settled_def SliceDesiredStateForNode_def Let_def secured_connection_enabled_def
      split: if_splits)

lemma resolve_or_drop_target_fixed:
  "resolve_or_drop_target s = Inr s \<longleftrightarrow> ResolvePlacementTargetAliases s = Inr s"
proof
  assume fixed: "resolve_or_drop_target s = Inr s"
  show "ResolvePlacementTargetAliases s = Inr s"
  proof (cases "ResolvePlacementTargetAliases s")
    case (Inl e)
    with fixed have "s\<lparr>st_placement_target := None\<rparr> = s" "has_value (st_placement_target s)"
      by (auto simp: resolve_or_drop_target_def split: if_splits)
    then show ?thesis
      by (metis DesiredState.select_convs(7) DesiredState.surjective DesiredState.update_convs(7)
          has_value_def)
  qed (use fixed in \<open>simp add: resolve_or_drop_target_def\<close>)
qed (simp add: resolve_or_drop_target_def)

lemma slice_resolved:
  assumes "SliceDesiredStateForNode s n = Inr t" "ResolvePlacementTargetAliases s = Inr s"
  shows "ResolvePlacementTargetAliases t = Inr t"
proof -
  have t: "st_placement_target t = st_placement_target s" "st_inference t = st_inference s"
    "st_worker_group t = st_worker_group s" "st_runtime_gpu_nodes t = st_runtime_gpu_nodes s"
    "set (st_nodes t) \<subseteq> set (st_nodes s)" "set (st_disks t) \<subseteq> set (st_disks s)"
    "set (st_instances t) \<subseteq> set (st_instances s)"
    using assms(1) by (auto simp: SliceDesiredStateForNode_def Let_def split: if_splits)
  obtain target where target: "ResolvePlacementTargetAliasValue (st_placement_target s) = Inr target"
    using assms(2) by (auto simp: ResolvePlacementTargetAliases_def res_bind_Inr_iff)
  show ?thesis
  proof (cases "target = []")
    case True
    then show ?thesis using target t by (simp add: ResolvePlacementTargetAliases_def)
  next
    case False
    let ?same = "\<lambda>u. placement_names u \<subseteq> {target} \<and>
      (\<forall>k \<in> set (st_nodes u). node_name k = target) \<and>
      (\<forall>d \<in> set (st_disks u). disk_node_name d = target) \<and>
      (\<forall>i \<in> set (st_instances u). inst_node_name i = target) \<and>
      (\<forall>g \<in> set (st_runtime_gpu_nodes u). gpu_node_name g = target) \<and>
      (\<forall>m \<in> set (wg_members (st_worker_group u)). mem_node_name m = target)"
    have fixed: "ResolvePlacementTargetAliases u = Inr u"
      if "?same u" "ResolvePlacementTargetAliasValue (st_placement_target u) = Inr target" for u
    proof -
      have "\<not> length (CollectPlacementReferencedNodes u) > 1"
        using that(1) CollectPlacementReferencedNodes_single[of u] by (auto simp: not_less)
      with that False show ?thesis
        by (auto simp: ResolvePlacementTargetAliases_def placement_names_def map_update_same)
    qed
    have "ResolvePlacementTargetAliases s = Inr v \<Longrightarrow> ?same v" for v
      using target False
      by (auto simp: ResolvePlacementTargetAliases_def placement_names_def split: if_splits)
    then have "?same s" using assms(2) by blast
    then have "?same t" using t by (auto simp: placement_names_def)
    then show ?thesis using fixed target t(1) by simp
  qed
qed

text \<open>
  The host works on exactly the slice the controller cut for it: what a host reads from the
  serialised slice of a settled state is the slice, with all instances of its node and no
  others.
\<close>

lemma slice_received:
  assumes "state_settled s" "state_lossless s" "resolve_or_drop_target s = Inr s"
    and "[] \<notin> inst_name ` set (st_instances s)"
    and "SliceDesiredStateForNode s n = Inr t"
    and "SerializeDesiredStateJson dump t = Inr payload"
    and "\<And>j payload. dump j = Inr payload \<Longrightarrow> parse payload = Inr j"
  shows "DeserializeDesiredStateJson parse render payload = Inr t \<and>
    st_instances t = filter (\<lambda>i. inst_node_name i = n) (st_instances s)"
proof -
  have "DesiredStateFromJson render (DesiredStateToJson t) = Inr t"
    using assms slice_settled slice_lossless by (blast intro: DesiredState_roundtrip)
  moreover have "parse payload = Inr (DesiredStateToJson t)"
    using assms(6,7) by (simp add: SerializeDesiredStateJson_def)
  moreover have "resolve_or_drop_target t = Inr t"
    using assms(3,5) slice_resolved by (simp add: resolve_or_drop_target_fixed)
  ultimately show ?thesis
    using SliceDesiredStateForNode_Inr[OF assms(5)] by (simp add: DeserializeDesiredStateJson_def)
qed

section \<open>Samples\<close>

definition sample_document :: json where
  "sample_document = json_object
     [(''plane_name'', JString ''p''), (''plane_shared_disk_name'', JString ''d''),
      (''inference'', json_object [(''worker_group_id'', JString ''w'')]),
      (''nodes'', JArray [json_object [(''name'', JString ''n1''), (''platform'', JString ''linux'')]])]"

definition sample_settled :: DesiredState where
  "sample_settled = default_DesiredState\<lparr>st_plane_name := ''p'', st_plane_shared_disk_name := ''d'',
     st_control_root := ''/naim/shared/control/p'',
     st_inference := default_InferenceRuntimeSettings\<lparr>inf_worker_group_id := ''w''\<rparr>,
     st_worker_group := default_WorkerGroupSpec\<lparr>wg_group_id := ''w'', wg_expected_workers := 1\<rparr>,
     st_nodes := [default_NodeInventory\<lparr>node_name := ''n1'', node_platform := ''linux''\<rparr>]\<rparr>"

lemma default_inference_fields:
  "inf_distributed_backend default_InferenceRuntimeSettings = ''llama_rpc''"
  "inf_data_parallel_mode default_InferenceRuntimeSettings = ''off''"
  "inf_data_parallel_lb_mode default_InferenceRuntimeSettings = ''external''"
  "inf_worker_selection_policy default_InferenceRuntimeSettings = ''prefer-free-then-share''"
  "inf_model_cache_dir default_InferenceRuntimeSettings = ''/naim/shared/models/cache''"
  "inf_gguf_cache_dir default_InferenceRuntimeSettings = ''/naim/shared/models/gguf''"
  "inf_runtime_log_dir default_InferenceRuntimeSettings = ''/naim/shared/logs/infer''"
  "inf_infer_log_dir default_InferenceRuntimeSettings = ''/naim/shared/logs/infer''"
  "inf_api_port default_InferenceRuntimeSettings = 8000"
  "inf_llama_port default_InferenceRuntimeSettings = 8000"
  "inf_max_model_len default_InferenceRuntimeSettings = 8192"
  "inf_llama_ctx_size default_InferenceRuntimeSettings = 8192"
  by (simp_all add: default_InferenceRuntimeSettings_def)

lemma if_empty_nonempty: "x \<noteq> [] \<Longrightarrow> if_empty x d = x"
  by (simp add: if_empty_def)

lemma if_not_positive_positive: "0 < n \<Longrightarrow> if_not_positive n d = n"
  by (simp add: if_not_positive_def)

lemma sample_inference:
  "NormalizeInferenceSettings (default_InferenceRuntimeSettings\<lparr>inf_worker_group_id := ''w''\<rparr>) =
   default_InferenceRuntimeSettings\<lparr>inf_worker_group_id := ''w''\<rparr>"
  by (rule InferenceRuntimeSettings.equality)
    (simp_all add: NormalizeInferenceSettings_def Let_def default_inference_fields
      if_empty_nonempty if_not_positive_positive)

lemma sample_filled:
  "fill_worker_group ''p'' (default_InferenceRuntimeSettings\<lparr>inf_worker_group_id := ''w''\<rparr>)
     default_WorkerGroupSpec = default_WorkerGroupSpec\<lparr>wg_group_id := ''w''\<rparr>"
  by (rule WorkerGroupSpec.equality)
    (simp_all add: fill_worker_group_def Let_def default_InferenceRuntimeSettings_def
      default_WorkerGroupSpec_def if_empty_def if_not_positive_def)

lemma sample_finished:
  "finish_worker_group sample_settled (default_WorkerGroupSpec\<lparr>wg_group_id := ''w'', wg_members := []\<rparr>) =
   Inr (default_WorkerGroupSpec\<lparr>wg_group_id := ''w'', wg_expected_workers := 1\<rparr>)"
  by (simp add: finish_worker_group_def fill_from_instances_def Let_def sample_settled_def
      default_DesiredState_def default_WorkerGroupSpec_def if_empty_def if_not_positive_def
      DefaultWorkersPerReplica_def EligibleWorkerMemberCount_def AssignReplicaTopology_def
      ValidateReplicaPacking_def DataParallelEnabled_def CanonicalDataParallelMode_def
      default_InferenceRuntimeSettings_def)

lemma sample_completed:
  "complete_worker_group (sample_settled\<lparr>st_worker_group :=
     default_WorkerGroupSpec\<lparr>wg_group_id := ''w''\<rparr>\<rparr>) = Inr sample_settled"
proof -
  let ?s = "sample_settled\<lparr>st_worker_group := default_WorkerGroupSpec\<lparr>wg_group_id := ''w''\<rparr>\<rparr>"
  have "default_members ?s = Inr []"
    by (simp add: default_members_Nil sample_settled_def default_DesiredState_def)
  moreover have "finish_worker_group ?s = finish_worker_group sample_settled"
    by (intro ext finish_worker_group_cong) simp_all
  moreover have "wg_members (st_worker_group ?s) = []"
    by (simp add: default_WorkerGroupSpec_def)
  ultimately show ?thesis
    using sample_finished by (simp add: complete_worker_group_def) (simp add: sample_settled_def)
qed

lemma sample_inference_read:
  "inference_from_json (json_object [(''worker_group_id'', JString ''w'')]) =
   Inr (default_InferenceRuntimeSettings\<lparr>inf_worker_group_id := ''w''\<rparr>)"
  by (simp add: inference_from_json_def Let_def)

lemma sample_node_read:
  "NodeInventoryFromJson (json_object [(''name'', JString ''n1''), (''platform'', JString ''linux'')]) =
   Inr (default_NodeInventory\<lparr>node_name := ''n1'', node_platform := ''linux''\<rparr>)"
  by (simp add: NodeInventoryFromJson_def ParseHostExecutionMode_def default_NodeInventory_def)

lemma sample_document_read:
  "desired_state_v1_from_json sample_document = Inr sample_settled"
  "IsDesiredStateV2 sample_document = Inr False"
proof -
  have j: "is_object sample_document" "json_get sample_document key =
      (if key = ''plane_name'' then Some (JString ''p'')
       else if key = ''plane_shared_disk_name'' then Some (JString ''d'')
       else if key = ''inference'' then Some (json_object [(''worker_group_id'', JString ''w'')])
       else if key = ''nodes'' then Some (JArray
         [json_object [(''name'', JString ''n1''), (''platform'', JString ''linux'')]])
       else None)" for key
    by (auto simp: sample_document_def)
  show "IsDesiredStateV2 sample_document = Inr False"
    by (simp add: IsDesiredStateV2_def j)
  have s0: "sample_settled\<lparr>st_worker_group := default_WorkerGroupSpec\<lparr>wg_group_id := ''w''\<rparr>\<rparr> =
    \<lparr> st_plane_name = ''p'', st_plane_shared_disk_name = ''d'',
      st_control_root = ''/naim/shared/control/p'', st_plane_mode = Compute,
      st_protected_plane = False, st_post_deploy_script = None, st_placement_target = None,
      st_bootstrap_model = None, st_interaction = None, st_skills = None, st_browsing = None,
      st_knowledge = None, st_turboquant = None, st_context_compression = None,
      st_voice_listener = None, st_voice_maker = None, st_secured_connection = None,
      st_app_host = None,
      st_inference = default_InferenceRuntimeSettings\<lparr>inf_worker_group_id := ''w''\<rparr>,
      st_worker_group = default_WorkerGroupSpec\<lparr>wg_group_id := ''w''\<rparr>,
      st_gateway = default_GatewaySettings, st_runtime_gpu_nodes = [],
      st_nodes = [default_NodeInventory\<lparr>node_name := ''n1'', node_platform := ''linux''\<rparr>],
      st_disks = [], st_instances = [] \<rparr>"
    by (simp add: sample_settled_def default_DesiredState_def)
  show "desired_state_v1_from_json sample_document = Inr sample_settled"
    using sample_completed unfolding s0 desired_state_v1_from_json_def
    by (simp add: j json_optional_def json_block_def json_when_def browsing_block_def
        list_from_json_def ParsePlaneMode_def sample_inference_read sample_node_read Let_def
        sample_inference sample_filled)
qed

lemma sample_lossless: "state_lossless sample_settled"
  by (simp add: state_lossless_def features_lossless_def sample_settled_def default_DesiredState_def
      inference_fits_def group_fits_def node_lossless_def default_InferenceRuntimeSettings_def
      default_WorkerGroupSpec_def default_GatewaySettings_def default_NodeInventory_def int_fits_def)


definition sample_target :: DesiredState where
  "sample_target = sample_settled\<lparr>st_placement_target := Some ''node:n2''\<rparr>"

theorem ResolvePlacementTargetAliases_single_node_witness:
  "\<exists>t. ResolvePlacementTargetAliases sample_target = Inr t \<and> placement_names t \<subseteq> {''n2''}"
proof -
  have target: "ResolvePlacementTargetAliasValue (st_placement_target sample_target) = Inr ''n2''"
    by (simp add: sample_target_def ResolvePlacementTargetAliasValue_def value_or_def starts_with_def)
  have "placement_names sample_target \<subseteq> {''n1''}"
    by (simp add: sample_target_def sample_settled_def placement_names_def default_DesiredState_def
        default_InferenceRuntimeSettings_def default_WorkerGroupSpec_def default_NodeInventory_def)
  then show ?thesis
    using ResolvePlacementTargetAliases_single_node[OF target] by (auto split: sum.splits)
qed

lemma sample_settled_ok:
  "state_settled sample_settled" "resolve_or_drop_target sample_settled = Inr sample_settled"
  "SliceDesiredStateForNode sample_settled ''n1'' = Inr sample_settled"
  "st_instances sample_settled = []" "st_plane_name sample_settled = ''p''"
  "map node_name (st_nodes sample_settled) = [''n1'']"
  using sample_document_read v1_settled
  by (blast, simp_all add: resolve_or_drop_target_fixed ResolvePlacementTargetAliases_def
      ResolvePlacementTargetAliasValue_def sample_settled_def default_DesiredState_def value_or_def
      SliceDesiredStateForNode_def default_NodeInventory_def)

text \<open>A GPU without a memory entry does not survive the document.\<close>

lemma gpu_without_memory_lost:
  "NodeInventoryFromJson (ToJson_NodeInventory
     (default_NodeInventory\<lparr>node_name := ''n1'', node_gpu_devices := [''0'']\<rparr>)) =
   Inr (default_NodeInventory\<lparr>node_name := ''n1''\<rparr>)"
  by (simp add: NodeInventoryFromJson_def ToJson_NodeInventory_def default_NodeInventory_def
      ParseHostExecutionMode_def json_map_def)

end
