(* ===== verification/Naim_Runtime_Support.thy ===== *)
theory Naim_Runtime_Support
  imports Naim_Clock Naim_Runtime_Status Naim_State_Json Naim_Assignment_Repository
    Naim_Scheduling_Policy
begin

text \<open>
  What the controller services know of the hosts: availability overrides, observations and
  their age (\<open>controller_runtime_support_service.cpp\<close>), the observations that belong to a plane
  (\<open>plane_observation_matcher.cpp\<close>), and the assignments that realise a plane on its nodes
  (\<open>plane_realization_service.cpp\<close>; the functions that write files are left out).

  \<open>controller_env\<close> holds what the services take from outside: one reading of the clock per
  call, the parser and the two printers of the JSON library (indented and compact), the renderer and projector of version 2
  documents, and the environment variable with the host name of the controller.
\<close>

record controller_env =
  env_now :: int
  env_parse :: "string \<Rightarrow> json res"
  env_dump :: "json \<Rightarrow> string res"
  env_dump_compact :: "json \<Rightarrow> string res"
  env_render_v2 :: "json \<Rightarrow> DesiredState res"
  env_project_v2 :: "DesiredState \<Rightarrow> json res"
  env_internal_host :: "string option"

record HostObservation =
  ho_node_name :: string
  ho_plane_name :: string
  ho_applied_generation :: "int option"
  ho_last_assignment_id :: "int option"
  ho_status :: HostObservationStatus
  ho_status_message :: string
  ho_observed_state_json :: string
  ho_runtime_status_json :: string
  ho_instance_runtime_json :: string
  ho_gpu_telemetry_json :: string
  ho_disk_telemetry_json :: string
  ho_network_telemetry_json :: string
  ho_cpu_telemetry_json :: string
  ho_heartbeat_at :: string

record NodeAvailabilityOverride =
  nao_node_name :: string
  nao_availability :: NodeAvailability
  nao_status_message :: string
  nao_updated_at :: string

section \<open>Availability and age\<close>

definition BuildAvailabilityOverrideMap ::
  "NodeAvailabilityOverride list \<Rightarrow> (string, NodeAvailabilityOverride) omap" where
  "BuildAvailabilityOverrideMap overrides =
     fold (\<lambda>o'. omap_emplace (nao_node_name o') o') overrides []"

definition ResolveNodeAvailability ::
  "(string, NodeAvailabilityOverride) omap \<Rightarrow> string \<Rightarrow> NodeAvailability" where
  "ResolveNodeAvailability overrides node =
     (case omap_get overrides node of None \<Rightarrow> NA_Active | Some o' \<Rightarrow> nao_availability o')"

definition FindHostObservationForNode :: "HostObservation list \<Rightarrow> string \<Rightarrow> HostObservation option" where
  "FindHostObservationForNode observations node =
     find (\<lambda>observation. ho_node_name observation = node) observations"

definition HeartbeatAgeSeconds :: "controller_env \<Rightarrow> string \<Rightarrow> int option" where
  "HeartbeatAgeSeconds env heartbeat_at =
     (if heartbeat_at = [] then None
      else case get_time heartbeat_at of
        None \<Rightarrow> None
      | Some heartbeat_tm \<Rightarrow>
          let heartbeat_time = timegm heartbeat_tm in
          if heartbeat_time < 0 then None else Some (env_now env - heartbeat_time))"

definition TimestampAgeSeconds :: "controller_env \<Rightarrow> string \<Rightarrow> int option" where
  "TimestampAgeSeconds env timestamp = HeartbeatAgeSeconds env timestamp"

definition UtcNowSqlTimestamp :: "controller_env \<Rightarrow> string" where
  "UtcNowSqlTimestamp env = sql_timestamp (env_now env)"

definition HealthFromAge :: "int option \<Rightarrow> int \<Rightarrow> string" where
  "HealthFromAge age_seconds stale_after_seconds =
     (case age_seconds of
        None \<Rightarrow> ''unknown''
      | Some age \<Rightarrow> if age > stale_after_seconds then ''stale'' else ''online'')"

definition ParseRuntimeStatus :: "controller_env \<Rightarrow> HostObservation \<Rightarrow> RuntimeStatus option res" where
  "ParseRuntimeStatus env observation =
     (if ho_runtime_status_json observation = [] then Inr None
      else res_bind (DeserializeRuntimeStatusJson (env_parse env) (ho_runtime_status_json observation))
        (\<lambda>status. Inr (Some status)))"

definition ParseInstanceRuntimeStatuses ::
  "controller_env \<Rightarrow> HostObservation \<Rightarrow> RuntimeProcessStatus list res" where
  "ParseInstanceRuntimeStatuses env observation =
     (if ho_instance_runtime_json observation = [] then Inr []
      else DeserializeRuntimeStatusListJson (env_parse env) (ho_instance_runtime_json observation))"

definition ParseGpuTelemetry :: "controller_env \<Rightarrow> HostObservation \<Rightarrow> GpuTelemetrySnapshot option res" where
  "ParseGpuTelemetry env observation =
     (if ho_gpu_telemetry_json observation = [] then Inr None
      else res_bind (DeserializeGpuTelemetryJson (env_parse env) (ho_gpu_telemetry_json observation))
        (\<lambda>snapshot. Inr (Some snapshot)))"

definition IsNodeSchedulable :: "NodeAvailability \<Rightarrow> bool" where
  "IsNodeSchedulable availability \<longleftrightarrow> availability = NA_Active"

definition ObservedSchedulingGateReason ::
  "controller_env \<Rightarrow> HostObservation list \<Rightarrow> string \<Rightarrow> int \<Rightarrow> string option res" where
  "ObservedSchedulingGateReason env observations node stale_after_seconds =
     (case FindHostObservationForNode observations node of
        None \<Rightarrow> Inr None
      | Some observation \<Rightarrow>
          if ho_status observation = HO_Failed then Inr (Some ''failed'')
          else if HealthFromAge (HeartbeatAgeSeconds env (ho_heartbeat_at observation))
              stale_after_seconds = ''stale''
          then Inr (Some ''stale'')
          else res_bind (ParseRuntimeStatus env observation) (\<lambda>runtime_status.
            if (case runtime_status of None \<Rightarrow> False | Some s \<Rightarrow> rs_runtime_phase s = ''failed'')
            then Inr (Some ''runtime-failed'')
            else res_bind (ParseGpuTelemetry env observation) (\<lambda>gpu_telemetry.
              if (case gpu_telemetry of None \<Rightarrow> False | Some t \<Rightarrow> gt_degraded t)
              then Inr (Some ''telemetry-degraded'')
              else Inr None)))"

section \<open>Observations of a plane\<close>

definition RuntimeInstancePrefixes :: "string list" where
  "RuntimeInstancePrefixes =
     [''infer-'', ''worker-'', ''skills-'', ''app-'', ''webgateway-'', ''browsing-'']"

definition MatchesPlaneInstanceName :: "string \<Rightarrow> string \<Rightarrow> string list \<Rightarrow> bool" where
  "MatchesPlaneInstanceName instance_name plane_name plane_instance_names \<longleftrightarrow>
     (if plane_name = [] then True
      else if plane_instance_names \<noteq> [] then instance_name \<in> set plane_instance_names
      else list_ex (\<lambda>prefix. instance_name = prefix @ plane_name \<or>
          starts_with (prefix @ plane_name @ ''-'') instance_name) RuntimeInstancePrefixes)"

definition CollectPlaneInstanceNames :: "DesiredState \<Rightarrow> string \<Rightarrow> string list" where
  "CollectPlaneInstanceNames observed_state plane_name =
     fold (\<lambda>i names. if inst_plane_name i = plane_name then insort_insert (inst_name i) names else names)
       (st_instances observed_state) []"

definition plane_node_names :: "DesiredState \<Rightarrow> string list" where
  "plane_node_names state =
     fold insert_nonempty (map disk_node_name (st_disks state))
       (fold insert_nonempty (map inst_node_name (st_instances state)) [])"

definition FilterObservedStateForPlane :: "DesiredState \<Rightarrow> string \<Rightarrow> DesiredState" where
  "FilterObservedStateForPlane observed_state plane_name =
     (let filtered = observed_state\<lparr>
            st_plane_name := plane_name,
            st_disks := filter (\<lambda>d. disk_plane_name d = plane_name) (st_disks observed_state),
            st_instances := filter (\<lambda>i. inst_plane_name i = plane_name) (st_instances observed_state)\<rparr>;
          names = CollectPlaneInstanceNames filtered plane_name;
          group = st_worker_group filtered;
          members = filter (\<lambda>m. MatchesPlaneInstanceName (mem_name m) plane_name names \<or>
            MatchesPlaneInstanceName (mem_infer_instance_name m) plane_name names) (wg_members group);
          nodes = plane_node_names filtered
      in filtered\<lparr>
           st_worker_group := group\<lparr>
             wg_members := members,
             wg_expected_workers := int (length (filter mem_enabled members)),
             wg_infer_instance_name :=
               (if MatchesPlaneInstanceName (wg_infer_instance_name group) plane_name names
                then wg_infer_instance_name group
                else case find (\<lambda>i. inst_role i = Infer) (st_instances filtered) of
                  Some i \<Rightarrow> inst_name i | None \<Rightarrow> [])\<rparr>,
           st_runtime_gpu_nodes := filter (\<lambda>g. MatchesPlaneInstanceName (gpu_name g) plane_name names)
             (st_runtime_gpu_nodes filtered),
           st_nodes := (if nodes = [] then st_nodes filtered
             else filter (\<lambda>n. node_name n \<in> set nodes) (st_nodes filtered)),
           st_plane_shared_disk_name :=
             (case find (\<lambda>d. disk_kind d = PlaneShared) (st_disks filtered) of
                Some d \<Rightarrow> disk_name d | None \<Rightarrow> [])\<rparr>)"

definition HasPlaneEntities :: "DesiredState \<Rightarrow> bool" where
  "HasPlaneEntities state \<longleftrightarrow> st_instances state \<noteq> [] \<or> st_disks state \<noteq> [] \<or>
     wg_members (st_worker_group state) \<noteq> [] \<or> st_runtime_gpu_nodes state \<noteq> []"

definition ParseObservedStateForPlane ::
  "controller_env \<Rightarrow> HostObservation \<Rightarrow> string option \<Rightarrow> DesiredState option res" where
  "ParseObservedStateForPlane env observation plane_name =
     (if ho_observed_state_json observation = [] then Inr None
      else res_bind (DeserializeDesiredStateJson (env_parse env) (env_render_v2 env)
          (ho_observed_state_json observation)) (\<lambda>observed_state.
        case plane_name of
          None \<Rightarrow> Inr (Some observed_state)
        | Some plane \<Rightarrow>
            let filtered = FilterObservedStateForPlane observed_state plane in
            if st_plane_name observed_state = plane \<or> HasPlaneEntities filtered
            then Inr (Some filtered) else Inr None))"

definition ObservationMatchesPlane :: "controller_env \<Rightarrow> HostObservation \<Rightarrow> string \<Rightarrow> bool res" where
  "ObservationMatchesPlane env observation plane_name =
     (if ho_plane_name observation = plane_name then Inr True
      else res_bind (ParseObservedStateForPlane env observation (Some plane_name)) (\<lambda>observed_state.
        if has_value observed_state then Inr True
        else if ho_instance_runtime_json observation = [] then Inr False
        else case DeserializeRuntimeStatusListJson (env_parse env) (ho_instance_runtime_json observation) of
          Inl _ \<Rightarrow> Inr False
        | Inr statuses \<Rightarrow>
            Inr (list_ex (\<lambda>s. MatchesPlaneInstanceName (ps_instance_name s) plane_name []) statuses)))"

fun FilterHostObservationsForPlane ::
  "controller_env \<Rightarrow> HostObservation list \<Rightarrow> string \<Rightarrow> HostObservation list res" where
  "FilterHostObservationsForPlane env [] plane_name = Inr []"
| "FilterHostObservationsForPlane env (observation # observations) plane_name =
     res_bind (ObservationMatchesPlane env observation plane_name) (\<lambda>matches.
     res_bind (FilterHostObservationsForPlane env observations plane_name) (\<lambda>result.
       Inr (if matches then observation # result else result)))"

definition FilterRuntimeStatusForPlane ::
  "RuntimeStatus option \<Rightarrow> string option \<Rightarrow> string list \<Rightarrow> RuntimeStatus option" where
  "FilterRuntimeStatusForPlane runtime_status plane_name names =
     (case (runtime_status, plane_name) of
        (Some status, Some plane) \<Rightarrow>
          if rs_plane_name status \<noteq> [] \<and> rs_plane_name status \<noteq> plane then None
          else if rs_instance_name status \<noteq> [] \<and>
              \<not> MatchesPlaneInstanceName (rs_instance_name status) plane names then None
          else Some status
      | _ \<Rightarrow> runtime_status)"

definition FilterInstanceRuntimeStatusesForPlane ::
  "RuntimeProcessStatus list \<Rightarrow> string option \<Rightarrow> string list \<Rightarrow> RuntimeProcessStatus list" where
  "FilterInstanceRuntimeStatusesForPlane statuses plane_name names =
     (case plane_name of
        None \<Rightarrow> statuses
      | Some plane \<Rightarrow>
          filter (\<lambda>s. MatchesPlaneInstanceName (ps_instance_name s) plane names) statuses)"

definition FilterGpuTelemetryForPlane ::
  "GpuTelemetrySnapshot option \<Rightarrow> string option \<Rightarrow> string list \<Rightarrow> GpuTelemetrySnapshot option" where
  "FilterGpuTelemetryForPlane snapshot plane_name names =
     (case (snapshot, plane_name) of
        (Some s, Some plane) \<Rightarrow> Some (s\<lparr>gt_devices := map (\<lambda>d. d\<lparr>gd_processes :=
          filter (\<lambda>p. gp_instance_name p = ''unknown'' \<or>
            MatchesPlaneInstanceName (gp_instance_name p) plane names) (gd_processes d)\<rparr>) (gt_devices s)\<rparr>)
      | _ \<Rightarrow> snapshot)"

definition FilterDiskTelemetryForPlane ::
  "DiskTelemetrySnapshot option \<Rightarrow> string option \<Rightarrow> DiskTelemetrySnapshot option" where
  "FilterDiskTelemetryForPlane snapshot plane_name =
     (case (snapshot, plane_name) of
        (Some s, Some plane) \<Rightarrow> Some (s\<lparr>ds_items := filter (\<lambda>i. dt_plane_name i = plane) (ds_items s)\<rparr>)
      | _ \<Rightarrow> snapshot)"

end
