(* ===== verification/Naim_Scheduler_Repository.thy ===== *)
theory Naim_Scheduler_Repository
  imports Naim_Runtime_Support
begin

text \<open>
  \<open>common/src/state/scheduler_repository.cpp\<close>: the table of rollout actions and the three tables
  in which the scheduler keeps the state of the active action of a plane and the history of
  workers and nodes. The latter have one row per key; \<open>INSERT ... ON CONFLICT DO UPDATE\<close> is
  \<open>upsert_row\<close>, with the update of the conflicting row as an argument. \<open>CURRENT_TIMESTAMP\<close> is the
  clock of the call.
\<close>

section \<open>Tables with a key\<close>

definition upsert_row :: "('r \<Rightarrow> string) \<Rightarrow> ('r \<Rightarrow> 'r \<Rightarrow> 'r) \<Rightarrow> 'r \<Rightarrow> 'r list \<Rightarrow> 'r list" where
  "upsert_row key merge row rows =
     (if list_ex (\<lambda>r. key r = key row) rows
      then map (\<lambda>r. if key r = key row then merge r row else r) rows
      else rows @ [row])"

definition load_row :: "('r \<Rightarrow> string) \<Rightarrow> string \<Rightarrow> 'r list \<Rightarrow> 'r option" where
  "load_row key k rows = find (\<lambda>r. key r = k) rows"

definition delete_row :: "('r \<Rightarrow> string) \<Rightarrow> string \<Rightarrow> 'r list \<Rightarrow> 'r list" where
  "delete_row key k rows = filter (\<lambda>r. key r \<noteq> k) rows"

text \<open>
  What the services rely on: a row is found under its key after an upsert, other rows are not
  touched, and keys stay unique.
\<close>

locale keyed_table =
  fixes key :: "'r \<Rightarrow> string" and merge :: "'r \<Rightarrow> 'r \<Rightarrow> 'r"
  assumes key_merge: "key (merge old new) = key new"
begin

lemma load_upsert_same:
  "load_row key (key row) (upsert_row key merge row rows) =
   Some (case load_row key (key row) rows of None \<Rightarrow> row | Some old \<Rightarrow> merge old row)"
proof (cases "list_ex (\<lambda>r. key r = key row) rows")
  case True
  then have "load_row key (key row) (map (\<lambda>r. if key r = key row then merge r row else r) rows) =
      Some (case load_row key (key row) rows of None \<Rightarrow> row | Some old \<Rightarrow> merge old row)"
    by (induction rows) (auto simp: load_row_def key_merge)
  with True show ?thesis by (simp add: upsert_row_def)
next
  case False
  then have "load_row key (key row) rows = None"
    by (auto simp: load_row_def find_None_iff list_ex_iff)
  moreover have "load_row key (key row) (rows @ [row]) = Some row"
    using False by (induction rows) (auto simp: load_row_def)
  ultimately show ?thesis using False by (simp add: upsert_row_def)
qed

lemma load_upsert_other:
  "k \<noteq> key row \<Longrightarrow> load_row key k (upsert_row key merge row rows) = load_row key k rows"
proof (cases "list_ex (\<lambda>r. key r = key row) rows")
  case True
  assume "k \<noteq> key row"
  then have "load_row key k (map (\<lambda>r. if key r = key row then merge r row else r) rows) =
      load_row key k rows"
    by (induction rows) (auto simp: load_row_def key_merge)
  with True show ?thesis by (simp add: upsert_row_def)
next
  case False
  assume "k \<noteq> key row"
  then have "load_row key k (rows @ [row]) = load_row key k rows"
    by (induction rows) (auto simp: load_row_def)
  with False show ?thesis by (simp add: upsert_row_def)
qed

lemma upsert_distinct:
  assumes "distinct (map key rows)"
  shows "distinct (map key (upsert_row key merge row rows))"
proof (cases "list_ex (\<lambda>r. key r = key row) rows")
  case True
  have "map key (map (\<lambda>r. if key r = key row then merge r row else r) rows) = map key rows"
    by (simp add: key_merge)
  with assms True show ?thesis by (simp only: upsert_row_def if_True)
next
  case False
  with assms show ?thesis by (auto simp: upsert_row_def list_ex_iff)
qed

lemma load_delete: "load_row key k (delete_row key k rows) = None"
  by (auto simp: load_row_def delete_row_def find_None_iff)

end

section \<open>Scheduler runtime\<close>

record SchedulerPlaneRuntime =
  spr_plane_name :: string
  spr_active_action :: string
  spr_active_worker_name :: string
  spr_phase :: string
  spr_action_generation :: int
  spr_stable_samples :: int
  spr_rollback_attempt_count :: int
  spr_source_node_name :: string
  spr_source_gpu_device :: string
  spr_target_node_name :: string
  spr_target_gpu_device :: string
  spr_previous_state_json :: string
  spr_status_message :: string
  spr_started_at :: string
  spr_updated_at :: string

record SchedulerWorkerRuntime =
  swr_plane_name :: string
  swr_worker_name :: string
  swr_last_move_at :: string
  swr_last_eviction_at :: string
  swr_last_verified_generation :: "int option"
  swr_last_scheduler_phase :: string
  swr_last_status_message :: string
  swr_manual_intervention_required :: bool
  swr_updated_at :: string

record SchedulerNodeRuntime =
  snr_plane_name :: string
  snr_node_name :: string
  snr_last_move_at :: string
  snr_last_verified_generation :: "int option"
  snr_updated_at :: string

definition default_SchedulerWorkerRuntime :: SchedulerWorkerRuntime where
  "default_SchedulerWorkerRuntime = \<lparr>swr_plane_name = [], swr_worker_name = [],
     swr_last_move_at = [], swr_last_eviction_at = [], swr_last_verified_generation = None,
     swr_last_scheduler_phase = [], swr_last_status_message = [],
     swr_manual_intervention_required = False, swr_updated_at = []\<rparr>"

definition default_SchedulerNodeRuntime :: SchedulerNodeRuntime where
  "default_SchedulerNodeRuntime = \<lparr>snr_plane_name = [], snr_node_name = [],
     snr_last_move_at = [], snr_last_verified_generation = None, snr_updated_at = []\<rparr>"

text \<open>\<open>COALESCE(NULLIF(a, ''), b)\<close>.\<close>

definition coalesce_text :: "string \<Rightarrow> string \<Rightarrow> string" where
  "coalesce_text a b = (if a = [] then b else a)"

definition plane_runtime_row :: "string \<Rightarrow> SchedulerPlaneRuntime \<Rightarrow> SchedulerPlaneRuntime" where
  "plane_runtime_row now r =
     \<lparr>spr_plane_name = bind_text (spr_plane_name r),
      spr_active_action = bind_text (spr_active_action r),
      spr_active_worker_name = bind_text (spr_active_worker_name r),
      spr_phase = bind_text (spr_phase r),
      spr_action_generation = spr_action_generation r, spr_stable_samples = spr_stable_samples r,
      spr_rollback_attempt_count = spr_rollback_attempt_count r,
      spr_source_node_name = bind_text (spr_source_node_name r),
      spr_source_gpu_device = bind_text (spr_source_gpu_device r),
      spr_target_node_name = bind_text (spr_target_node_name r),
      spr_target_gpu_device = bind_text (spr_target_gpu_device r),
      spr_previous_state_json = bind_text (spr_previous_state_json r),
      spr_status_message = bind_text (spr_status_message r),
      spr_started_at = coalesce_text (bind_text (spr_started_at r)) now, spr_updated_at = now\<rparr>"

definition merge_plane_runtime :: "SchedulerPlaneRuntime \<Rightarrow> SchedulerPlaneRuntime \<Rightarrow> SchedulerPlaneRuntime" where
  "merge_plane_runtime old excluded =
     excluded\<lparr>spr_started_at := coalesce_text (spr_started_at excluded) (spr_started_at old)\<rparr>"

definition UpsertSchedulerPlaneRuntime ::
  "controller_env \<Rightarrow> SchedulerPlaneRuntime \<Rightarrow> SchedulerPlaneRuntime list \<Rightarrow> SchedulerPlaneRuntime list" where
  "UpsertSchedulerPlaneRuntime env runtime rows =
     upsert_row spr_plane_name merge_plane_runtime
       (plane_runtime_row (sql_timestamp (env_now env)) runtime) rows"

definition LoadSchedulerPlaneRuntime ::
  "string \<Rightarrow> SchedulerPlaneRuntime list \<Rightarrow> SchedulerPlaneRuntime option" where
  "LoadSchedulerPlaneRuntime plane rows = load_row spr_plane_name (bind_text plane) rows"

definition ClearSchedulerPlaneRuntime ::
  "string \<Rightarrow> SchedulerPlaneRuntime list \<Rightarrow> SchedulerPlaneRuntime list" where
  "ClearSchedulerPlaneRuntime plane rows = delete_row spr_plane_name (bind_text plane) rows"

definition worker_runtime_row :: "string \<Rightarrow> SchedulerWorkerRuntime \<Rightarrow> SchedulerWorkerRuntime" where
  "worker_runtime_row now r =
     \<lparr>swr_plane_name = bind_text (swr_plane_name r), swr_worker_name = bind_text (swr_worker_name r),
      swr_last_move_at = bind_text (swr_last_move_at r),
      swr_last_eviction_at = bind_text (swr_last_eviction_at r),
      swr_last_verified_generation = swr_last_verified_generation r,
      swr_last_scheduler_phase = bind_text (swr_last_scheduler_phase r),
      swr_last_status_message = bind_text (swr_last_status_message r),
      swr_manual_intervention_required = swr_manual_intervention_required r,
      swr_updated_at = now\<rparr>"

definition UpsertSchedulerWorkerRuntime ::
  "controller_env \<Rightarrow> SchedulerWorkerRuntime \<Rightarrow> SchedulerWorkerRuntime list \<Rightarrow> SchedulerWorkerRuntime list" where
  "UpsertSchedulerWorkerRuntime env runtime rows =
     upsert_row swr_worker_name (\<lambda>old excluded. excluded)
       (worker_runtime_row (sql_timestamp (env_now env)) runtime) rows"

definition LoadSchedulerWorkerRuntime ::
  "string \<Rightarrow> SchedulerWorkerRuntime list \<Rightarrow> SchedulerWorkerRuntime option" where
  "LoadSchedulerWorkerRuntime worker rows = load_row swr_worker_name (bind_text worker) rows"

definition LoadSchedulerWorkerRuntimes ::
  "string option \<Rightarrow> SchedulerWorkerRuntime list \<Rightarrow> SchedulerWorkerRuntime list" where
  "LoadSchedulerWorkerRuntimes plane rows =
     sort_key swr_worker_name
       (filter (\<lambda>r. case plane of None \<Rightarrow> True | Some p \<Rightarrow> swr_plane_name r = bind_text p) rows)"

definition node_runtime_row :: "string \<Rightarrow> SchedulerNodeRuntime \<Rightarrow> SchedulerNodeRuntime" where
  "node_runtime_row now r =
     \<lparr>snr_plane_name = bind_text (snr_plane_name r), snr_node_name = bind_text (snr_node_name r),
      snr_last_move_at = bind_text (snr_last_move_at r),
      snr_last_verified_generation = snr_last_verified_generation r, snr_updated_at = now\<rparr>"

definition UpsertSchedulerNodeRuntime ::
  "controller_env \<Rightarrow> SchedulerNodeRuntime \<Rightarrow> SchedulerNodeRuntime list \<Rightarrow> SchedulerNodeRuntime list" where
  "UpsertSchedulerNodeRuntime env runtime rows =
     upsert_row snr_node_name (\<lambda>old excluded. excluded)
       (node_runtime_row (sql_timestamp (env_now env)) runtime) rows"

definition LoadSchedulerNodeRuntime ::
  "string \<Rightarrow> SchedulerNodeRuntime list \<Rightarrow> SchedulerNodeRuntime option" where
  "LoadSchedulerNodeRuntime node rows = load_row snr_node_name (bind_text node) rows"

definition LoadSchedulerNodeRuntimes ::
  "string option \<Rightarrow> SchedulerNodeRuntime list \<Rightarrow> SchedulerNodeRuntime list" where
  "LoadSchedulerNodeRuntimes plane rows =
     sort_key snr_node_name
       (filter (\<lambda>r. case plane of None \<Rightarrow> True | Some p \<Rightarrow> snr_plane_name r = bind_text p) rows)"

interpretation plane_runtime: keyed_table spr_plane_name merge_plane_runtime
  by unfold_locales (simp add: merge_plane_runtime_def)

interpretation worker_runtime: keyed_table swr_worker_name "\<lambda>old excluded. excluded"
  by unfold_locales simp

interpretation node_runtime: keyed_table snr_node_name "\<lambda>old excluded. excluded"
  by unfold_locales simp

section \<open>Rollout actions\<close>

record RolloutActionRecord =
  rar_id :: int
  rar_plane_name :: string
  rar_desired_generation :: int
  rar_step :: int
  rar_worker_name :: string
  rar_action :: string
  rar_target_node_name :: string
  rar_target_gpu_device :: string
  rar_victim_worker_names :: "string list"
  rar_reason :: string
  rar_status :: RolloutActionStatus
  rar_status_message :: string

record rollout_row =
  ror_id :: int
  ror_plane_name :: string
  ror_desired_generation :: int
  ror_step :: int
  ror_worker_name :: string
  ror_action :: string
  ror_target_node_name :: string
  ror_target_gpu_device :: string
  ror_victim_worker_names_json :: string
  ror_reason :: string
  ror_status :: string
  ror_status_message :: string
  ror_updated_at :: string

record rollout_table =
  rot_rows :: "rollout_row list"
  rot_next_id :: int

definition DeserializeStringArray :: "controller_env \<Rightarrow> string \<Rightarrow> string list res" where
  "DeserializeStringArray env json_text =
     (if json_text = [] then Inr []
      else res_bind (env_parse env json_text) (\<lambda>parsed.
        case parsed of
          JArray items \<Rightarrow> Inr (concat (map (\<lambda>item. case item of JString s \<Rightarrow> [s] | _ \<Rightarrow> []) items))
        | _ \<Rightarrow> Inr []))"

definition SerializeStringArray :: "controller_env \<Rightarrow> string list \<Rightarrow> string res" where
  "SerializeStringArray env values = env_dump_compact env (json_strings values)"

definition insert_rollout_action ::
  "controller_env \<Rightarrow> string \<Rightarrow> int \<Rightarrow> SchedulerRolloutAction \<Rightarrow> rollout_table \<Rightarrow> rollout_table res" where
  "insert_rollout_action env plane generation a table =
     res_bind (SerializeStringArray env (ra_victim_worker_names a)) (\<lambda>victims. Inr
       \<lparr>rot_rows = rot_rows table @
          [\<lparr>ror_id = rot_next_id table, ror_plane_name = bind_text plane,
            ror_desired_generation = generation, ror_step = ra_step a,
            ror_worker_name = bind_text (ra_worker_name a), ror_action = bind_text (ra_action a),
            ror_target_node_name = bind_text (ra_target_node_name a),
            ror_target_gpu_device = bind_text (ra_target_gpu_device a),
            ror_victim_worker_names_json = bind_text victims, ror_reason = bind_text (ra_reason a),
            ror_status = ToString_RolloutActionStatus RA_Pending, ror_status_message = [],
            ror_updated_at = sql_timestamp (env_now env)\<rparr>],
        rot_next_id = rot_next_id table + 1\<rparr>)"

fun insert_rollout_actions ::
  "controller_env \<Rightarrow> string \<Rightarrow> int \<Rightarrow> SchedulerRolloutAction list \<Rightarrow> rollout_table \<Rightarrow> rollout_table res" where
  "insert_rollout_actions env plane generation [] table = Inr table"
| "insert_rollout_actions env plane generation (a # as) table =
     res_bind (insert_rollout_action env plane generation a table)
       (insert_rollout_actions env plane generation as)"

text \<open>The transaction is rolled back when an insertion throws, so only a result changes the table.\<close>

definition ReplaceRolloutActions ::
  "controller_env \<Rightarrow> string \<Rightarrow> int \<Rightarrow> SchedulerRolloutAction list \<Rightarrow> rollout_table \<Rightarrow> rollout_table res" where
  "ReplaceRolloutActions env plane generation actions table =
     insert_rollout_actions env plane generation actions
       (table\<lparr>rot_rows := filter (\<lambda>r. ror_plane_name r \<noteq> bind_text plane) (rot_rows table)\<rparr>)"

definition ReadRolloutAction :: "controller_env \<Rightarrow> rollout_row \<Rightarrow> RolloutActionRecord res" where
  "ReadRolloutAction env r =
     res_bind (DeserializeStringArray env (ror_victim_worker_names_json r)) (\<lambda>victims.
     res_bind (ParseRolloutActionStatus (ror_status r)) (\<lambda>status. Inr
       \<lparr>rar_id = ror_id r, rar_plane_name = ror_plane_name r,
        rar_desired_generation = ror_desired_generation r, rar_step = ror_step r,
        rar_worker_name = ror_worker_name r, rar_action = ror_action r,
        rar_target_node_name = ror_target_node_name r,
        rar_target_gpu_device = ror_target_gpu_device r, rar_victim_worker_names = victims,
        rar_reason = ror_reason r, rar_status = status,
        rar_status_message = ror_status_message r\<rparr>))"

definition LoadRolloutActions ::
  "controller_env \<Rightarrow> string option \<Rightarrow> string option \<Rightarrow> RolloutActionStatus option \<Rightarrow> rollout_table
   \<Rightarrow> RolloutActionRecord list res" where
  "LoadRolloutActions env plane target_node status table =
     res_map_list (ReadRolloutAction env)
       (sort_key (\<lambda>r. (ror_plane_name r, ror_desired_generation r, ror_step r, ror_id r))
         (filter (\<lambda>r.
           (case plane of None \<Rightarrow> True | Some p \<Rightarrow> ror_plane_name r = bind_text p) \<and>
           (case target_node of None \<Rightarrow> True | Some n \<Rightarrow> ror_target_node_name r = bind_text n) \<and>
           (case status of None \<Rightarrow> True | Some s \<Rightarrow> ror_status r = ToString_RolloutActionStatus s))
           (rot_rows table)))"

definition UpdateRolloutActionStatus ::
  "controller_env \<Rightarrow> int \<Rightarrow> RolloutActionStatus \<Rightarrow> string \<Rightarrow> rollout_table \<Rightarrow> rollout_table \<times> bool" where
  "UpdateRolloutActionStatus env action_id status message table =
     (table\<lparr>rot_rows := map (\<lambda>r. if ror_id r = action_id
        then r\<lparr>ror_status := ToString_RolloutActionStatus status,
               ror_status_message := bind_text message,
               ror_updated_at := sql_timestamp (env_now env)\<rparr>
        else r) (rot_rows table)\<rparr>,
      length (filter (\<lambda>r. ror_id r = action_id) (rot_rows table)) = 1)"

end
