(* ===== verification/Naim_Scheduler_Domain.thy ===== *)
theory Naim_Scheduler_Domain
  imports Naim_Scheduler_Repository
begin

text \<open>
  The decisions of the scheduler (\<open>controller/src/scheduler/scheduler_domain_service.cpp\<close> and
  the summaries of \<open>scheduler_view_service.cpp\<close>): how far each rollout has come, whether the
  cluster has converged, and for every placement recommendation whether the move is proposed,
  deferred or held. The support object that the service is given
  (\<open>scheduler_domain_support.cpp\<close>) forwards to the functions of \<open>Naim_Runtime_Support\<close>.
\<close>

datatype SchedulerRolloutPhase =
    Planned | EvictionEnqueued | EvictionApplied | RetryReady | RetryMaterialized
  | HostFailed | HostStale | RuntimeFailed | RolloutApplied

fun ToString_SchedulerRolloutPhase :: "SchedulerRolloutPhase \<Rightarrow> string" where
  "ToString_SchedulerRolloutPhase Planned = ''planned''"
| "ToString_SchedulerRolloutPhase EvictionEnqueued = ''eviction-enqueued''"
| "ToString_SchedulerRolloutPhase EvictionApplied = ''eviction-applied''"
| "ToString_SchedulerRolloutPhase RetryReady = ''retry-ready''"
| "ToString_SchedulerRolloutPhase RetryMaterialized = ''retry-materialized''"
| "ToString_SchedulerRolloutPhase HostFailed = ''host-failed''"
| "ToString_SchedulerRolloutPhase HostStale = ''host-stale''"
| "ToString_SchedulerRolloutPhase RuntimeFailed = ''runtime-failed''"
| "ToString_SchedulerRolloutPhase RolloutApplied = ''rollout-applied''"

record RolloutLifecycleEntry =
  rle_worker_name :: string
  rle_desired_generation :: int
  rle_phase :: SchedulerRolloutPhase
  rle_action_id :: "int option"
  rle_target_node_name :: string
  rle_target_gpu_device :: string
  rle_victim_worker_names :: "string list"
  rle_detail :: string

record RebalancePlanEntry =
  rpe_worker_name :: string
  rpe_placement_mode :: PlacementMode
  rpe_current_node_name :: string
  rpe_current_gpu_device :: string
  rpe_target_node_name :: string
  rpe_target_gpu_device :: string
  rpe_rebalance_class :: string
  rpe_decision :: string
  rpe_state :: string
  rpe_action :: string
  rpe_score :: int
  rpe_preemption_required :: bool
  rpe_victim_worker_names :: "string list"
  rpe_gate_reason :: string

record RebalanceControllerGateSummary =
  rcg_cluster_ready :: bool
  rcg_active_rollout_count :: int
  rcg_blocking_assignment_count :: int
  rcg_unconverged_node_count :: int
  rcg_active_rollout_workers :: "string list"
  rcg_blocking_assignment_nodes :: "string list"
  rcg_unconverged_nodes :: "string list"

record SchedulerRuntimeView =
  srv_plane_runtime :: "SchedulerPlaneRuntime option"
  srv_worker_runtime_by_name :: "(string, SchedulerWorkerRuntime) omap"
  srv_node_runtime_by_name :: "(string, SchedulerNodeRuntime) omap"

record SchedulerDomainPolicyConfig =
  dpc_default_stale_after_seconds :: int
  dpc_minimum_safe_direct_rebalance_score :: int
  dpc_worker_minimum_residency_seconds :: int
  dpc_node_cooldown_after_move_seconds :: int
  dpc_compute_pressure_utilization_threshold_pct :: int
  dpc_observed_move_vram_reserve_mb :: int

definition default_SchedulerDomainPolicyConfig :: SchedulerDomainPolicyConfig where
  "default_SchedulerDomainPolicyConfig = \<lparr>dpc_default_stale_after_seconds = 300,
     dpc_minimum_safe_direct_rebalance_score = 100, dpc_worker_minimum_residency_seconds = 300,
     dpc_node_cooldown_after_move_seconds = 60,
     dpc_compute_pressure_utilization_threshold_pct = 85,
     dpc_observed_move_vram_reserve_mb = 1024\<rparr>"

section \<open>Queries\<close>

definition FindLatestHostAssignmentForNodeGeneration ::
  "HostAssignment list \<Rightarrow> string \<Rightarrow> int \<Rightarrow> HostAssignment option" where
  "FindLatestHostAssignmentForNodeGeneration assignments node generation =
     fold (\<lambda>a result. if ha_node_name a \<noteq> node \<or> ha_desired_generation a \<noteq> generation
       then result else Some a) assignments None"

definition AssignmentReferencesRolloutAction :: "HostAssignment \<Rightarrow> int \<Rightarrow> bool" where
  "AssignmentReferencesRolloutAction a action_id \<longleftrightarrow>
     contains_substring (''rollout_action_id='' @ to_string action_id) (ha_status_message a)"

definition HasRolloutEvictionAssignments :: "HostAssignment list \<Rightarrow> int \<Rightarrow> bool" where
  "HasRolloutEvictionAssignments assignments action_id \<longleftrightarrow>
     list_ex (\<lambda>a. ha_assignment_type a = ''evict-workers'' \<and>
       AssignmentReferencesRolloutAction a action_id) assignments"

fun eviction_assignments_applied :: "HostAssignment list \<Rightarrow> int \<Rightarrow> bool \<Rightarrow> bool" where
  "eviction_assignments_applied [] action_id found = found"
| "eviction_assignments_applied (a # as) action_id found =
     (if ha_assignment_type a \<noteq> ''evict-workers'' \<or> \<not> AssignmentReferencesRolloutAction a action_id
      then eviction_assignments_applied as action_id found
      else if ha_status a \<noteq> HA_Applied then False
      else eviction_assignments_applied as action_id True)"

definition AreRolloutEvictionAssignmentsApplied :: "HostAssignment list \<Rightarrow> int \<Rightarrow> bool" where
  "AreRolloutEvictionAssignmentsApplied assignments action_id =
     eviction_assignments_applied assignments action_id False"

definition FindRolloutLifecycleEntry ::
  "RolloutLifecycleEntry list \<Rightarrow> string \<Rightarrow> RolloutLifecycleEntry option" where
  "FindRolloutLifecycleEntry entries worker = find (\<lambda>e. rle_worker_name e = worker) entries"

definition RolloutPhaseBlocksRebalance :: "SchedulerRolloutPhase \<Rightarrow> bool" where
  "RolloutPhaseBlocksRebalance phase \<longleftrightarrow> phase \<noteq> RolloutApplied"

definition HostAssignmentBlocksRebalance :: "HostAssignment \<Rightarrow> bool" where
  "HostAssignmentBlocksRebalance a \<longleftrightarrow> ha_status a = HA_Pending \<or> ha_status a = HA_Claimed"

definition NodeHasBlockingHostAssignment :: "HostAssignment list \<Rightarrow> string \<Rightarrow> bool" where
  "NodeHasBlockingHostAssignment assignments node \<longleftrightarrow>
     list_ex (\<lambda>a. ha_node_name a = node \<and> HostAssignmentBlocksRebalance a) assignments"

definition FindWorkerInstance :: "DesiredState \<Rightarrow> string \<Rightarrow> InstanceSpec option" where
  "FindWorkerInstance state worker =
     find (\<lambda>i. inst_role i = Worker \<and> inst_name i = worker) (st_instances state)"

definition FindObservedGpuDeviceTelemetry ::
  "controller_env \<Rightarrow> HostObservation list \<Rightarrow> string \<Rightarrow> string \<Rightarrow> GpuDeviceTelemetry option res" where
  "FindObservedGpuDeviceTelemetry env observations node gpu_device =
     (case FindHostObservationForNode observations node of
        None \<Rightarrow> Inr None
      | Some observation \<Rightarrow> res_bind (ParseGpuTelemetry env observation) (\<lambda>telemetry.
          case telemetry of
            None \<Rightarrow> Inr None
          | Some t \<Rightarrow> Inr (find (\<lambda>d. gd_gpu_device d = gpu_device) (gt_devices t))))"

definition ObservedGpuDeviceHasForeignProcess ::
  "controller_env \<Rightarrow> HostObservation list \<Rightarrow> string \<Rightarrow> string \<Rightarrow> string \<Rightarrow> bool res" where
  "ObservedGpuDeviceHasForeignProcess env observations node gpu_device worker =
     res_bind (FindObservedGpuDeviceTelemetry env observations node gpu_device) (\<lambda>device.
       case device of
         None \<Rightarrow> Inr False
       | Some d \<Rightarrow> Inr (list_ex (\<lambda>p. gp_instance_name p \<noteq> worker \<and> gp_instance_name p \<noteq> ''unknown'')
           (gd_processes d)))"

definition ObservedGpuPlacementGateReason ::
  "controller_env \<Rightarrow> SchedulerDomainPolicyConfig \<Rightarrow> HostObservation list \<Rightarrow> InstanceSpec \<Rightarrow> string
   \<Rightarrow> string \<Rightarrow> bool \<Rightarrow> string option res" where
  "ObservedGpuPlacementGateReason env config observations worker target_node target_gpu moving =
     res_bind (FindObservedGpuDeviceTelemetry env observations target_node target_gpu) (\<lambda>device.
       case device of
         None \<Rightarrow> Inr None
       | Some d \<Rightarrow>
           if (case inst_memory_cap_mb worker of
                 None \<Rightarrow> False
               | Some cap \<Rightarrow> gd_free_vram_mb d < cap + dpc_observed_move_vram_reserve_mb config)
           then Inr (Some ''observed-insufficient-vram'')
           else if moving \<and>
               gd_gpu_utilization_pct d \<ge> dpc_compute_pressure_utilization_threshold_pct config
           then res_bind (ObservedGpuDeviceHasForeignProcess env observations target_node target_gpu
               (inst_name worker)) (\<lambda>foreign.
             Inr (if foreign then Some ''compute-pressure'' else None))
           else Inr None)"

section \<open>Rollout lifecycle\<close>

definition rollout_action_less :: "RolloutActionRecord \<Rightarrow> RolloutActionRecord \<Rightarrow> bool" where
  "rollout_action_less l r \<longleftrightarrow>
     (if rar_step l \<noteq> rar_step r then rar_step l < rar_step r else rar_id l < rar_id r)"

definition rollout_actions_by_worker ::
  "int \<Rightarrow> RolloutActionRecord list \<Rightarrow> (string, RolloutActionRecord list) omap" where
  "rollout_actions_by_worker generation actions =
     fold (\<lambda>a m. if rar_desired_generation a = generation
       then omap_modify (rar_worker_name a) [] (\<lambda>as. as @ [a]) m else m) actions []"

definition eviction_phase ::
  "HostAssignment list \<Rightarrow> RolloutActionRecord \<Rightarrow> SchedulerRolloutPhase \<times> string" where
  "eviction_phase assignments evict =
     (case rar_status evict of
        RA_Pending \<Rightarrow> (Planned, ''awaiting eviction enqueue'')
      | RA_Acknowledged \<Rightarrow>
          if AreRolloutEvictionAssignmentsApplied assignments (rar_id evict)
          then (EvictionApplied, ''eviction assignments applied'')
          else if HasRolloutEvictionAssignments assignments (rar_id evict)
          then (EvictionEnqueued, ''eviction assignments enqueued'')
          else (EvictionEnqueued, if rar_status_message evict = [] then ''eviction acknowledged''
            else rar_status_message evict)
      | RA_ReadyToRetry \<Rightarrow> (EvictionApplied, ''eviction completed''))"

definition rollout_entry ::
  "int \<Rightarrow> HostAssignment list \<Rightarrow> string \<Rightarrow> RolloutActionRecord list \<Rightarrow> RolloutLifecycleEntry option" where
  "rollout_entry generation assignments worker actions =
     (let actions = std_sort rollout_action_less actions;
          evict = find (\<lambda>a. rar_action a = ''evict-best-effort'') actions;
          retry = find (\<lambda>a. rar_action a = ''retry-placement'') actions
      in case (case retry of Some a \<Rightarrow> Some a | None \<Rightarrow> evict) of
           None \<Rightarrow> None
         | Some target \<Rightarrow>
             let (phase, detail) =
                   (case evict of None \<Rightarrow> (Planned, []) | Some e \<Rightarrow> eviction_phase assignments e);
                 entry = \<lparr>rle_worker_name = worker, rle_desired_generation = generation,
                   rle_phase = phase, rle_action_id = map_option rar_id evict,
                   rle_target_node_name = rar_target_node_name target,
                   rle_target_gpu_device = rar_target_gpu_device target,
                   rle_victim_worker_names =
                     (case evict of None \<Rightarrow> [] | Some e \<Rightarrow> rar_victim_worker_names e),
                   rle_detail = detail\<rparr>
             in Some (case retry of
                  Some r \<Rightarrow> if rar_status r = RA_ReadyToRetry
                    then entry\<lparr>rle_phase := RetryReady, rle_action_id := Some (rar_id r),
                      rle_detail := ''retry placement can be materialized''\<rparr>
                    else entry
                | None \<Rightarrow> entry))"

definition retry_materialized :: "InstanceSpec \<Rightarrow> bool" where
  "retry_materialized i \<longleftrightarrow>
     omap_get (inst_labels i) ''naim.placement.action'' = Some ''materialized-retry-placement'' \<and>
     omap_get (inst_labels i) ''naim.placement.decision'' = Some ''applied''"

definition materialized_phase ::
  "controller_env \<Rightarrow> SchedulerDomainPolicyConfig \<Rightarrow> int \<Rightarrow> HostAssignment list \<Rightarrow> HostObservation list
   \<Rightarrow> string \<Rightarrow> (SchedulerRolloutPhase \<times> string) res" where
  "materialized_phase env config generation assignments observations node =
     (let pending =
            (case FindLatestHostAssignmentForNodeGeneration assignments node generation of
               Some a \<Rightarrow> (RetryMaterialized,
                 ''target node assignment status='' @ ToString_HostAssignmentStatus (ha_status a))
             | None \<Rightarrow> (RetryMaterialized, ''materialized in desired state''))
      in case FindHostObservationForNode observations node of
           None \<Rightarrow> Inr pending
         | Some observation \<Rightarrow>
             if ho_status observation = HO_Failed
             then Inr (HostFailed, ''target node observation failed'')
             else if HealthFromAge (HeartbeatAgeSeconds env (ho_heartbeat_at observation))
                 (dpc_default_stale_after_seconds config) = ''stale''
             then Inr (HostStale, ''target node observation stale'')
             else res_bind (ParseRuntimeStatus env observation) (\<lambda>status.
               if (case status of None \<Rightarrow> False | Some s \<Rightarrow> rs_runtime_phase s = ''failed'')
               then Inr (RuntimeFailed, ''target runtime reported failed phase'')
               else if ho_status observation = HO_Applied \<and>
                   (case ho_applied_generation observation of None \<Rightarrow> False | Some g \<Rightarrow> g \<ge> generation)
               then Inr (RolloutApplied, ''target node observed desired generation applied'')
               else Inr pending))"

definition materialized_entry ::
  "controller_env \<Rightarrow> SchedulerDomainPolicyConfig \<Rightarrow> int \<Rightarrow> HostAssignment list \<Rightarrow> HostObservation list
   \<Rightarrow> InstanceSpec \<Rightarrow> RolloutLifecycleEntry res" where
  "materialized_entry env config generation assignments observations i =
     res_bind (materialized_phase env config generation assignments observations (inst_node_name i))
       (\<lambda>(phase, detail). Inr
         \<lparr>rle_worker_name = inst_name i, rle_desired_generation = generation, rle_phase = phase,
          rle_action_id = None, rle_target_node_name = inst_node_name i,
          rle_target_gpu_device = value_or (inst_gpu_device i) [], rle_victim_worker_names = [],
          rle_detail = detail\<rparr>)"

definition lifecycle_less :: "RolloutLifecycleEntry \<Rightarrow> RolloutLifecycleEntry \<Rightarrow> bool" where
  "lifecycle_less l r \<longleftrightarrow> rle_worker_name l < rle_worker_name r"

definition BuildRolloutLifecycleEntries ::
  "controller_env \<Rightarrow> SchedulerDomainPolicyConfig \<Rightarrow> DesiredState \<Rightarrow> int \<Rightarrow> RolloutActionRecord list
   \<Rightarrow> HostAssignment list \<Rightarrow> HostObservation list \<Rightarrow> RolloutLifecycleEntry list res" where
  "BuildRolloutLifecycleEntries env config desired_state generation rollout_actions assignments
     observations =
     (let actions_by_worker = rollout_actions_by_worker generation rollout_actions;
          entries = List.map_filter (\<lambda>(worker, actions).
            rollout_entry generation assignments worker actions) actions_by_worker
      in res_bind (res_map_list (materialized_entry env config generation assignments observations)
           (filter (\<lambda>i. inst_role i = Worker \<and> retry_materialized i \<and>
              omap_get actions_by_worker (inst_name i) = None) (st_instances desired_state)))
         (\<lambda>materialized. Inr (std_sort lifecycle_less (entries @ materialized))))"

section \<open>The controller gate\<close>

definition unconverged ::
  "controller_env \<Rightarrow> (string, NodeAvailabilityOverride) omap \<Rightarrow> int \<Rightarrow> HostObservation list \<Rightarrow> int
   \<Rightarrow> string \<Rightarrow> bool" where
  "unconverged env overrides generation observations stale_after_seconds node \<longleftrightarrow>
     IsNodeSchedulable (ResolveNodeAvailability overrides node) \<and>
     (case FindHostObservationForNode observations node of
        None \<Rightarrow> True
      | Some observation \<Rightarrow>
          ho_status observation = HO_Failed \<or>
          HealthFromAge (HeartbeatAgeSeconds env (ho_heartbeat_at observation)) stale_after_seconds
            \<noteq> ''online'' \<or>
          ho_applied_generation observation \<noteq> Some generation)"

definition insert_names :: "string list \<Rightarrow> string list \<Rightarrow> string list" where
  "insert_names names acc = fold insort_insert names acc"

definition BuildRebalanceControllerGateSummary ::
  "controller_env \<Rightarrow> DesiredState \<Rightarrow> int \<Rightarrow> NodeAvailabilityOverride list \<Rightarrow> RolloutLifecycleEntry list
   \<Rightarrow> HostAssignment list \<Rightarrow> SchedulerRuntimeView \<Rightarrow> HostObservation list \<Rightarrow> int
   \<Rightarrow> RebalanceControllerGateSummary" where
  "BuildRebalanceControllerGateSummary env desired_state generation availability_overrides lifecycle
     assignments scheduler_runtime observations stale_after_seconds =
     (let rollouts = insert_names (map rle_worker_name
            (filter (\<lambda>e. RolloutPhaseBlocksRebalance (rle_phase e)) lifecycle)) [];
          rollouts = (case srv_plane_runtime scheduler_runtime of
              Some r \<Rightarrow> if spr_active_action r \<noteq> [] \<and> spr_active_worker_name r \<noteq> []
                then insort_insert (spr_active_worker_name r) rollouts else rollouts
            | None \<Rightarrow> rollouts);
          blocking = insert_names (map ha_node_name (filter HostAssignmentBlocksRebalance assignments)) [];
          overrides = BuildAvailabilityOverrideMap availability_overrides;
          nodes = insert_names (filter (unconverged env overrides generation observations
            stale_after_seconds) (map node_name (st_nodes desired_state))) []
      in \<lparr>rcg_cluster_ready = (length rollouts = 0 \<and> length blocking = 0 \<and> length nodes = 0),
          rcg_active_rollout_count = int (length rollouts),
          rcg_blocking_assignment_count = int (length blocking),
          rcg_unconverged_node_count = int (length nodes),
          rcg_active_rollout_workers = rollouts, rcg_blocking_assignment_nodes = blocking,
          rcg_unconverged_nodes = nodes\<rparr>)"

section \<open>Rebalance plan\<close>

definition hold_entry ::
  "string \<Rightarrow> string \<Rightarrow> string \<Rightarrow> RebalancePlanEntry \<Rightarrow> RebalancePlanEntry" where
  "hold_entry rebalance_class state gate_reason entry =
     entry\<lparr>rpe_rebalance_class := rebalance_class, rpe_decision := ''hold'', rpe_state := state,
       rpe_gate_reason := gate_reason\<rparr>"

definition initial_entry :: "InstanceSpec \<Rightarrow> WorkerPlacementRecommendation \<Rightarrow> RebalancePlanEntry" where
  "initial_entry worker recommendation =
     \<lparr>rpe_worker_name = wpr_worker_name recommendation,
      rpe_placement_mode = inst_placement_mode worker,
      rpe_current_node_name = wpr_current_node_name recommendation,
      rpe_current_gpu_device = wpr_current_gpu_device recommendation,
      rpe_target_node_name = [], rpe_target_gpu_device = [], rpe_rebalance_class = [],
      rpe_decision = [], rpe_state = [], rpe_action = [], rpe_score = 0,
      rpe_preemption_required = False, rpe_victim_worker_names = [], rpe_gate_reason = []\<rparr>"

definition candidate_insufficient :: "PlacementCandidate \<Rightarrow> bool" where
  "candidate_insufficient c \<longleftrightarrow>
     pc_action c = ''insufficient-memory'' \<or> pc_action c = ''insufficient-fraction''"

definition select_candidate ::
  "(string, NodeAvailabilityOverride) omap \<Rightarrow> bool \<Rightarrow> WorkerPlacementRecommendation
   \<Rightarrow> PlacementCandidate option" where
  "select_candidate overrides source_requires_exit recommendation =
     (let candidates = wpr_candidates recommendation;
          drain = (if source_requires_exit
            then find (\<lambda>c. \<not> candidate_insufficient c \<and>
              pc_node_name c \<noteq> wpr_current_node_name recommendation \<and>
              IsNodeSchedulable (ResolveNodeAvailability overrides (pc_node_name c))) candidates
            else None);
          sufficient = (case drain of
              Some c \<Rightarrow> Some c
            | None \<Rightarrow> find (\<lambda>c. \<not> candidate_insufficient c) candidates)
      in case sufficient of
           Some c \<Rightarrow> Some c
         | None \<Rightarrow> (case candidates of [] \<Rightarrow> None | c # _ \<Rightarrow> Some c))"

text \<open>The holds that do not depend on a candidate, in the order in which they are tested.\<close>

definition runtime_hold ::
  "SchedulerRuntimeView \<Rightarrow> RebalancePlanEntry \<Rightarrow> RebalancePlanEntry option" where
  "runtime_hold runtime entry =
     (let worker = rpe_worker_name entry in
      if (case omap_get (srv_worker_runtime_by_name runtime) worker of
            None \<Rightarrow> False | Some r \<Rightarrow> swr_manual_intervention_required r)
      then Some (hold_entry ''gated'' ''manual-intervention-required'' ''manual-intervention-required'' entry)
      else case srv_plane_runtime runtime of
        Some r \<Rightarrow>
          if spr_active_action r \<noteq> [] \<and> spr_active_worker_name r = worker
          then Some (hold_entry ''gated''
            (if spr_phase r = [] then ''active-scheduler-action'' else spr_phase r)
            (spr_active_action r)
            (entry\<lparr>rpe_target_node_name := spr_target_node_name r,
              rpe_target_gpu_device := spr_target_gpu_device r\<rparr>))
          else if spr_active_action r \<noteq> [] \<and> spr_active_worker_name r \<noteq> worker
          then Some (hold_entry ''gated'' ''active-scheduler-action'' (spr_active_action r) entry)
          else None
      | None \<Rightarrow> None)"

definition rollout_hold ::
  "RolloutLifecycleEntry list \<Rightarrow> RebalancePlanEntry \<Rightarrow> RebalancePlanEntry option" where
  "rollout_hold lifecycle entry =
     (case FindRolloutLifecycleEntry lifecycle (rpe_worker_name entry) of
        Some e \<Rightarrow> if RolloutPhaseBlocksRebalance (rle_phase e)
          then Some (hold_entry ''rollout-class'' ''active-rollout''
            (ToString_SchedulerRolloutPhase (rle_phase e))
            (entry\<lparr>rpe_target_node_name := rle_target_node_name e,
              rpe_target_gpu_device := rle_target_gpu_device e\<rparr>))
          else None
      | None \<Rightarrow> None)"

definition younger_than :: "int option \<Rightarrow> int \<Rightarrow> bool" where
  "younger_than age seconds \<longleftrightarrow> (case age of None \<Rightarrow> False | Some a \<Rightarrow> a < seconds)"

definition worker_move_age :: "controller_env \<Rightarrow> SchedulerRuntimeView \<Rightarrow> string \<Rightarrow> int option" where
  "worker_move_age env runtime worker =
     (case omap_get (srv_worker_runtime_by_name runtime) worker of
        None \<Rightarrow> None | Some r \<Rightarrow> TimestampAgeSeconds env (swr_last_move_at r))"

definition node_move_age :: "controller_env \<Rightarrow> SchedulerRuntimeView \<Rightarrow> string \<Rightarrow> int option" where
  "node_move_age env runtime node =
     (case omap_get (srv_node_runtime_by_name runtime) node of
        None \<Rightarrow> None | Some r \<Rightarrow> TimestampAgeSeconds env (snr_last_move_at r))"

definition residency_hold ::
  "controller_env \<Rightarrow> SchedulerDomainPolicyConfig \<Rightarrow> SchedulerRuntimeView \<Rightarrow> RebalancePlanEntry
   \<Rightarrow> RebalancePlanEntry option" where
  "residency_hold env config runtime entry =
     (case worker_move_age env runtime (rpe_worker_name entry) of
        Some age \<Rightarrow> if age < dpc_worker_minimum_residency_seconds config
          then Some (hold_entry ''stable'' ''min-residency''
            (''min-residency('' @ to_string age @ ''<'' @
              to_string (dpc_worker_minimum_residency_seconds config) @ '')'') entry)
          else None
      | None \<Rightarrow> None)"

definition cooldown_hold ::
  "controller_env \<Rightarrow> SchedulerDomainPolicyConfig \<Rightarrow> SchedulerRuntimeView \<Rightarrow> RebalancePlanEntry
   \<Rightarrow> RebalancePlanEntry option" where
  "cooldown_hold env config runtime entry =
     (let cooldown = dpc_node_cooldown_after_move_seconds config;
          source = younger_than (node_move_age env runtime (rpe_current_node_name entry)) cooldown;
          target = younger_than (node_move_age env runtime (rpe_target_node_name entry)) cooldown
      in if source \<or> target
         then Some (hold_entry ''gated'' ''cooldown''
           (if source \<and> target then ''cooldown-source-and-target''
            else if source then ''cooldown-source'' else ''cooldown-target'') entry)
         else None)"

definition availability_hold ::
  "(string, NodeAvailabilityOverride) omap \<Rightarrow> bool \<Rightarrow> RebalancePlanEntry \<Rightarrow> RebalancePlanEntry option" where
  "availability_hold overrides source_requires_exit entry =
     (let target = ResolveNodeAvailability overrides (rpe_target_node_name entry) in
      if source_requires_exit \<and> rpe_target_node_name entry = rpe_current_node_name entry
      then Some (hold_entry ''gated'' ''draining-source'' ''no-active-drain-target'' entry)
      else if \<not> IsNodeSchedulable target
      then Some (hold_entry ''gated'' ''gated-target''
        (if target = NA_Draining then ''draining-target'' else ''unavailable-target'') entry)
      else None)"

definition assignment_hold ::
  "HostAssignment list \<Rightarrow> RebalancePlanEntry \<Rightarrow> RebalancePlanEntry option" where
  "assignment_hold assignments entry =
     (let source = NodeHasBlockingHostAssignment assignments (rpe_current_node_name entry);
          target = NodeHasBlockingHostAssignment assignments (rpe_target_node_name entry)
      in if source \<or> target
         then Some (hold_entry ''gated'' ''assignment-in-flight''
           (if source \<and> target then ''source-and-target-node-busy''
            else if source then ''source-node-busy'' else ''target-node-busy'') entry)
         else None)"

definition decide_candidate ::
  "SchedulerDomainPolicyConfig \<Rightarrow> bool \<Rightarrow> PlacementCandidate \<Rightarrow> RebalancePlanEntry \<Rightarrow> RebalancePlanEntry" where
  "decide_candidate config source_requires_exit candidate entry =
     (let minimum = dpc_minimum_safe_direct_rebalance_score config in
      if pc_preemption_required candidate
      then entry\<lparr>rpe_rebalance_class := ''rollout-class'', rpe_decision := ''defer'',
        rpe_state := (if source_requires_exit then ''drain-preemption'' else ''deferred-preemption'')\<rparr>
      else if pc_score candidate < minimum
      then hold_entry ''stable'' ''below-threshold''
        (''score-below-threshold('' @ to_string (pc_score candidate) @ ''<'' @
          to_string minimum @ '')'') entry
      else if pc_same_node candidate \<and> pc_action candidate = ''upgrade-to-exclusive''
      then entry\<lparr>rpe_rebalance_class := ''safe-direct'', rpe_decision := ''propose'',
        rpe_state := ''ready-in-place-upgrade''\<rparr>
      else if pc_same_node candidate
      then hold_entry ''stable'' ''stay'' [] entry
      else entry\<lparr>rpe_rebalance_class := ''safe-direct'', rpe_decision := ''propose'',
        rpe_state := (if source_requires_exit then ''ready-drain-move'' else ''ready-move'')\<rparr>)"

definition gate_or_decide ::
  "controller_env \<Rightarrow> SchedulerDomainPolicyConfig \<Rightarrow> HostObservation list \<Rightarrow> int \<Rightarrow> InstanceSpec \<Rightarrow> bool
   \<Rightarrow> PlacementCandidate \<Rightarrow> RebalancePlanEntry \<Rightarrow> RebalancePlanEntry res" where
  "gate_or_decide env config observations stale_after_seconds worker source_requires_exit candidate
     entry =
     res_bind (ObservedSchedulingGateReason env observations (pc_node_name candidate) stale_after_seconds)
       (\<lambda>gate_reason.
         case gate_reason of
           Some reason \<Rightarrow> Inr (hold_entry ''gated'' ''gated-target'' reason entry)
         | None \<Rightarrow> res_bind (ObservedGpuPlacementGateReason env config observations worker
               (pc_node_name candidate) (pc_gpu_device candidate)
               (pc_node_name candidate \<noteq> rpe_current_node_name entry \<or>
                pc_gpu_device candidate \<noteq> rpe_current_gpu_device entry))
             (\<lambda>gpu_gate_reason.
               case gpu_gate_reason of
                 Some reason \<Rightarrow> Inr (hold_entry ''gated'' ''gated-target'' reason entry)
               | None \<Rightarrow> Inr (decide_candidate config source_requires_exit candidate entry)))"

definition candidate_entry :: "PlacementCandidate \<Rightarrow> RebalancePlanEntry \<Rightarrow> RebalancePlanEntry" where
  "candidate_entry c entry =
     entry\<lparr>rpe_target_node_name := pc_node_name c, rpe_target_gpu_device := pc_gpu_device c,
       rpe_action := pc_action c, rpe_score := pc_score c,
       rpe_preemption_required := pc_preemption_required c,
       rpe_victim_worker_names := pc_preemption_victims c\<rparr>"

text \<open>The first hold of a list that applies.\<close>

fun first_hold :: "(RebalancePlanEntry \<Rightarrow> RebalancePlanEntry option) list \<Rightarrow> RebalancePlanEntry
   \<Rightarrow> RebalancePlanEntry option" where
  "first_hold [] entry = None"
| "first_hold (h # hs) entry = (case h entry of Some e \<Rightarrow> Some e | None \<Rightarrow> first_hold hs entry)"

definition plan_entry ::
  "controller_env \<Rightarrow> SchedulerDomainPolicyConfig \<Rightarrow> (string, NodeAvailabilityOverride) omap
   \<Rightarrow> RolloutLifecycleEntry list \<Rightarrow> HostAssignment list \<Rightarrow> SchedulerRuntimeView \<Rightarrow> HostObservation list
   \<Rightarrow> int \<Rightarrow> InstanceSpec \<Rightarrow> WorkerPlacementRecommendation \<Rightarrow> RebalancePlanEntry res" where
  "plan_entry env config overrides lifecycle assignments runtime observations stale_after_seconds
     worker recommendation =
     (let source_requires_exit =
            ResolveNodeAvailability overrides (wpr_current_node_name recommendation) \<noteq> NA_Active;
          entry = initial_entry worker recommendation
      in case first_hold [runtime_hold runtime, rollout_hold lifecycle] entry of
           Some held \<Rightarrow> Inr held
         | None \<Rightarrow>
             case select_candidate overrides source_requires_exit recommendation of
               None \<Rightarrow> Inr (if source_requires_exit
                 then hold_entry ''gated'' ''draining-source'' ''no-active-drain-target'' entry
                 else hold_entry ''no-candidate'' ''no-candidate'' [] entry)
             | Some candidate \<Rightarrow>
                 let entry = candidate_entry candidate entry in
                 case first_hold [residency_hold env config runtime, cooldown_hold env config runtime,
                     availability_hold overrides source_requires_exit, assignment_hold assignments] entry of
                   Some held \<Rightarrow> Inr held
                 | None \<Rightarrow> gate_or_decide env config observations stale_after_seconds worker
                     source_requires_exit candidate entry)"

definition plan_filter ::
  "string option \<Rightarrow> InstanceSpec \<Rightarrow> WorkerPlacementRecommendation \<Rightarrow> bool" where
  "plan_filter node_name_filter worker recommendation \<longleftrightarrow>
     inst_placement_mode worker \<noteq> Manual \<and>
     (case node_name_filter of
        None \<Rightarrow> True
      | Some n \<Rightarrow> inst_node_name worker = n \<or>
          list_ex (\<lambda>c. pc_node_name c = n) (wpr_candidates recommendation))"

definition plan_entry_less :: "RebalancePlanEntry \<Rightarrow> RebalancePlanEntry \<Rightarrow> bool" where
  "plan_entry_less l r \<longleftrightarrow>
     (if rpe_worker_name l \<noteq> rpe_worker_name r then rpe_worker_name l < rpe_worker_name r
      else rpe_target_node_name l < rpe_target_node_name r)"

definition BuildRebalancePlanEntries ::
  "controller_env \<Rightarrow> SchedulerDomainPolicyConfig \<Rightarrow> DesiredState \<Rightarrow> SchedulingPolicyReport
   \<Rightarrow> NodeAvailabilityOverride list \<Rightarrow> RolloutLifecycleEntry list \<Rightarrow> HostAssignment list
   \<Rightarrow> SchedulerRuntimeView \<Rightarrow> HostObservation list \<Rightarrow> int \<Rightarrow> string option
   \<Rightarrow> RebalancePlanEntry list res" where
  "BuildRebalancePlanEntries env config state report availability_overrides lifecycle assignments
     runtime observations stale_after_seconds node_name_filter =
     res_bind (res_map_list (\<lambda>(worker, recommendation).
         plan_entry env config (BuildAvailabilityOverrideMap availability_overrides) lifecycle
           assignments runtime observations stale_after_seconds worker recommendation)
         (List.map_filter (\<lambda>recommendation.
           case FindWorkerInstance state (wpr_worker_name recommendation) of
             None \<Rightarrow> None
           | Some worker \<Rightarrow> if plan_filter node_name_filter worker recommendation
               then Some (worker, recommendation) else None)
           (rep_placement_recommendations report)))
       (\<lambda>entries. Inr (std_sort plan_entry_less entries))"

section \<open>Summaries\<close>

record RebalancePolicySummary =
  rps_actionable_count :: int
  rps_safe_direct_count :: int
  rps_rollout_class_count :: int
  rps_gated_count :: int
  rps_blocked_active_rollout_count :: int
  rps_assignment_busy_count :: int
  rps_observation_gated_count :: int
  rps_stable_hold_count :: int
  rps_below_threshold_count :: int
  rps_propose_count :: int
  rps_hold_count :: int
  rps_defer_count :: int
  rps_no_candidate_count :: int
  rps_actionable_workers :: "string list"
  rps_safe_direct_workers :: "string list"
  rps_rollout_class_workers :: "string list"
  rps_gated_workers :: "string list"
  rps_blocked_active_rollout_workers :: "string list"
  rps_assignment_busy_workers :: "string list"
  rps_observation_gated_workers :: "string list"
  rps_stable_hold_workers :: "string list"
  rps_below_threshold_workers :: "string list"
  rps_proposed_workers :: "string list"
  rps_held_workers :: "string list"
  rps_deferred_workers :: "string list"
  rps_no_candidate_workers :: "string list"

definition empty_policy_summary :: RebalancePolicySummary where
  "empty_policy_summary = \<lparr>rps_actionable_count = 0, rps_safe_direct_count = 0,
     rps_rollout_class_count = 0, rps_gated_count = 0, rps_blocked_active_rollout_count = 0,
     rps_assignment_busy_count = 0, rps_observation_gated_count = 0, rps_stable_hold_count = 0,
     rps_below_threshold_count = 0, rps_propose_count = 0, rps_hold_count = 0, rps_defer_count = 0,
     rps_no_candidate_count = 0, rps_actionable_workers = [], rps_safe_direct_workers = [],
     rps_rollout_class_workers = [], rps_gated_workers = [],
     rps_blocked_active_rollout_workers = [], rps_assignment_busy_workers = [],
     rps_observation_gated_workers = [], rps_stable_hold_workers = [],
     rps_below_threshold_workers = [], rps_proposed_workers = [], rps_held_workers = [],
     rps_deferred_workers = [], rps_no_candidate_workers = []\<rparr>"

definition gated_states :: "string list" where
  "gated_states = [''assignment-in-flight'', ''gated-target'', ''draining-source'',
     ''manual-intervention-required'', ''active-scheduler-action'', ''cooldown'', ''min-residency'']"

definition add_held :: "RebalancePlanEntry \<Rightarrow> RebalancePolicySummary \<Rightarrow> RebalancePolicySummary" where
  "add_held e s =
     (let w = [rpe_worker_name e];
          s = (if rpe_state e = ''active-rollout''
            then s\<lparr>rps_rollout_class_count := rps_rollout_class_count s + 1,
                   rps_blocked_active_rollout_count := rps_blocked_active_rollout_count s + 1,
                   rps_rollout_class_workers := rps_rollout_class_workers s @ w,
                   rps_blocked_active_rollout_workers := rps_blocked_active_rollout_workers s @ w\<rparr>
            else if rpe_state e \<in> set gated_states
            then let s = s\<lparr>rps_gated_count := rps_gated_count s + 1,
                           rps_gated_workers := rps_gated_workers s @ w\<rparr>
              in if rpe_state e = ''assignment-in-flight''
                 then s\<lparr>rps_assignment_busy_count := rps_assignment_busy_count s + 1,
                        rps_assignment_busy_workers := rps_assignment_busy_workers s @ w\<rparr>
                 else if rpe_state e = ''gated-target''
                 then s\<lparr>rps_observation_gated_count := rps_observation_gated_count s + 1,
                        rps_observation_gated_workers := rps_observation_gated_workers s @ w\<rparr>
                 else s
            else let s = (if rpe_state e = ''below-threshold''
                  then s\<lparr>rps_below_threshold_count := rps_below_threshold_count s + 1,
                         rps_below_threshold_workers := rps_below_threshold_workers s @ w\<rparr>
                  else s)
              in s\<lparr>rps_stable_hold_count := rps_stable_hold_count s + 1,
                   rps_stable_hold_workers := rps_stable_hold_workers s @ w\<rparr>)
      in s\<lparr>rps_hold_count := rps_hold_count s + 1, rps_held_workers := rps_held_workers s @ w\<rparr>)"

definition add_plan_entry :: "RebalancePlanEntry \<Rightarrow> RebalancePolicySummary \<Rightarrow> RebalancePolicySummary" where
  "add_plan_entry e s =
     (let w = [rpe_worker_name e] in
      if rpe_state e = ''no-candidate''
      then s\<lparr>rps_gated_count := rps_gated_count s + 1,
             rps_no_candidate_count := rps_no_candidate_count s + 1,
             rps_gated_workers := rps_gated_workers s @ w,
             rps_no_candidate_workers := rps_no_candidate_workers s @ w\<rparr>
      else if rpe_decision e = ''propose''
      then s\<lparr>rps_actionable_count := rps_actionable_count s + 1,
             rps_safe_direct_count := rps_safe_direct_count s + 1,
             rps_propose_count := rps_propose_count s + 1,
             rps_actionable_workers := rps_actionable_workers s @ w,
             rps_safe_direct_workers := rps_safe_direct_workers s @ w,
             rps_proposed_workers := rps_proposed_workers s @ w\<rparr>
      else if rpe_decision e = ''defer''
      then s\<lparr>rps_rollout_class_count := rps_rollout_class_count s + 1,
             rps_defer_count := rps_defer_count s + 1,
             rps_rollout_class_workers := rps_rollout_class_workers s @ w,
             rps_deferred_workers := rps_deferred_workers s @ w\<rparr>
      else add_held e s)"

definition BuildRebalancePolicySummary :: "RebalancePlanEntry list \<Rightarrow> RebalancePolicySummary" where
  "BuildRebalancePolicySummary entries = fold add_plan_entry entries empty_policy_summary"

record RebalanceIterationBudgetSummary =
  rib_current_iteration :: int
  rib_max_iterations :: int
  rib_exhausted :: bool

definition BuildRebalanceIterationBudgetSummary :: "int \<Rightarrow> int \<Rightarrow> RebalanceIterationBudgetSummary" where
  "BuildRebalanceIterationBudgetSummary current_iteration max_iterations =
     \<lparr>rib_current_iteration = current_iteration, rib_max_iterations = max_iterations,
      rib_exhausted = (current_iteration \<ge> max_iterations)\<rparr>"

record RebalanceLoopStatusSummary =
  rls_state :: string
  rls_reason :: string

definition BuildRebalanceLoopStatusSummary ::
  "RebalanceControllerGateSummary \<Rightarrow> RebalanceIterationBudgetSummary \<Rightarrow> RebalancePolicySummary
   \<Rightarrow> RebalanceLoopStatusSummary" where
  "BuildRebalanceLoopStatusSummary gate budget policy =
     (let summary = (\<lambda>state reason. \<lparr>rls_state = state, rls_reason = reason\<rparr>) in
      if \<not> rcg_cluster_ready gate
      then summary ''waiting-for-convergence''
        (if rcg_unconverged_node_count gate > 0
         then ''unconverged-nodes='' @ to_string (rcg_unconverged_node_count gate)
         else if rcg_blocking_assignment_count gate > 0
         then ''blocking-assignments='' @ to_string (rcg_blocking_assignment_count gate)
         else ''active-rollouts='' @ to_string (rcg_active_rollout_count gate))
      else if rib_exhausted budget \<and> rps_actionable_count policy > 0
      then summary ''complete'' (''rebalance-iteration-limit='' @
        to_string (rib_current_iteration budget) @ ''/'' @ to_string (rib_max_iterations budget))
      else if rps_rollout_class_count policy > 0
      then summary ''waiting-for-rollout''
        (''rollout-class-workers='' @ to_string (rps_rollout_class_count policy))
      else if rps_actionable_count policy > 0
      then summary ''actionable'' (''safe-direct-workers='' @ to_string (rps_actionable_count policy))
      else summary ''complete''
        (if rps_below_threshold_count policy > 0
         then ''remaining-moves-below-threshold='' @ to_string (rps_below_threshold_count policy)
         else if rps_no_candidate_count policy > 0
         then ''no-candidate-workers='' @ to_string (rps_no_candidate_count policy)
         else ''no-actionable-rebalance''))"

end
