(* ===== verification/Naim_Plane_Realization.thy ===== *)
theory Naim_Plane_Realization
  imports Naim_Runtime_Support Naim_Execution_Plan Naim_Planner Naim_Compose_Renderer
begin

text \<open>
  \<open>controller/src/plane/plane_realization_service.cpp\<close>: the files and the host assignments that
  realise a desired state on its nodes. The file system is a map from paths to contents that
  the operations update; failing file operations are not modelled.
\<close>

type_synonym files = "(string, string) omap"

definition BuildComposePlanMap ::
  "controller_env \<Rightarrow> DesiredState \<Rightarrow> (string, NodeComposePlan) omap res" where
  "BuildComposePlanMap env state =
     res_bind (BuildNodeComposePlans (env_internal_host env) state) (\<lambda>plans.
       Inr (fold (\<lambda>plan. omap_emplace (ncp_node_name plan) plan) plans []))"

definition WriteTextFile :: "string \<Rightarrow> string \<Rightarrow> files \<Rightarrow> files" where
  "WriteTextFile path contents files = omap_put path contents files"

definition RemoveFileIfExists :: "string \<Rightarrow> files \<Rightarrow> files" where
  "RemoveFileIfExists path files = omap_erase path files"

definition InferRuntimeArtifactPath :: "string \<Rightarrow> string \<Rightarrow> string" where
  "InferRuntimeArtifactPath artifacts_root plane_name =
     path_append (path_append artifacts_root plane_name) ''infer-runtime.json''"

definition InferRuntimeArtifactPathForInstance :: "string \<Rightarrow> string \<Rightarrow> string \<Rightarrow> string" where
  "InferRuntimeArtifactPathForInstance artifacts_root plane_name infer_instance_name =
     path_append (path_append artifacts_root plane_name)
       (InferRuntimeConfigRelativePath infer_instance_name)"

definition BuildRolloutActionsByTargetNode ::
  "SchedulingPolicyReport \<Rightarrow> (string, SchedulerRolloutAction list) omap" where
  "BuildRolloutActionsByTargetNode report =
     fold (\<lambda>action. omap_modify (ra_target_node_name action) [] (\<lambda>actions. actions @ [action]))
       (rep_rollout_actions report) []"

definition BuildStoppedPlaneNodeState :: "DesiredState \<Rightarrow> string \<Rightarrow> DesiredState res" where
  "BuildStoppedPlaneNodeState desired_state node =
     res_bind (SliceDesiredStateForNode desired_state node) (\<lambda>state. Inr (state\<lparr>st_instances := []\<rparr>))"

definition BuildDeletedPlaneNodeState :: "DesiredState \<Rightarrow> string \<Rightarrow> DesiredState res" where
  "BuildDeletedPlaneNodeState desired_state node =
     res_bind (SliceDesiredStateForNode desired_state node) (\<lambda>state.
       Inr (state\<lparr>st_instances := [], st_disks := [], st_plane_shared_disk_name := [],
         st_control_root := []\<rparr>))"

section \<open>Files\<close>

fun compose_artifact_operations ::
  "(string, NodeComposePlan) omap \<Rightarrow> (string \<times> HostOperation) list \<Rightarrow> files \<Rightarrow> files \<times> unit res" where
  "compose_artifact_operations plans [] files = (files, Inr ())"
| "compose_artifact_operations plans ((node, operation) # operations) files =
     (case op_kind operation of
        WriteComposeFile \<Rightarrow>
          (case omap_get plans node of
             None \<Rightarrow> (files, Inl (RuntimeError (''missing compose plan for node '' @ quoted node)))
           | Some plan \<Rightarrow> compose_artifact_operations plans operations
               (WriteTextFile (op_target operation) (RenderComposeYaml plan) files))
      | RemoveComposeFile \<Rightarrow>
          compose_artifact_operations plans operations
            (RemoveFileIfExists (op_target operation) files)
      | _ \<Rightarrow> compose_artifact_operations plans operations files)"

definition MaterializeComposeArtifacts ::
  "controller_env \<Rightarrow> DesiredState \<Rightarrow> NodeExecutionPlan list \<Rightarrow> files \<Rightarrow> files \<times> unit res" where
  "MaterializeComposeArtifacts env desired_state host_plans files =
     (case BuildComposePlanMap env desired_state of
        Inl e \<Rightarrow> (files, Inl e)
      | Inr plans \<Rightarrow> compose_artifact_operations plans
          (concat (map (\<lambda>plan. map (Pair (nep_node_name plan)) (nep_operations plan)) host_plans)) files)"

fun infer_artifacts ::
  "controller_env \<Rightarrow> DesiredState \<Rightarrow> string \<Rightarrow> InstanceSpec list \<Rightarrow> bool \<Rightarrow> files \<Rightarrow> files \<times> unit res" where
  "infer_artifacts env desired_state artifacts_root [] wrote_primary files = (files, Inr ())"
| "infer_artifacts env desired_state artifacts_root (i # is) wrote_primary files =
     (if inst_role i \<noteq> Infer then infer_artifacts env desired_state artifacts_root is wrote_primary files
      else case RenderInferRuntimeConfigJsonForInstance (env_dump env) desired_state (inst_name i) of
        Inl e \<Rightarrow> (files, Inl e)
      | Inr contents \<Rightarrow>
          let files = WriteTextFile (InferRuntimeArtifactPathForInstance artifacts_root
                (st_plane_name desired_state) (inst_name i)) contents files;
              files = (if wrote_primary then files
                else WriteTextFile (InferRuntimeArtifactPath artifacts_root (st_plane_name desired_state))
                  contents files)
          in infer_artifacts env desired_state artifacts_root is True files)"

definition MaterializeInferRuntimeArtifact ::
  "controller_env \<Rightarrow> DesiredState \<Rightarrow> string \<Rightarrow> files \<Rightarrow> files \<times> unit res" where
  "MaterializeInferRuntimeArtifact env desired_state artifacts_root files =
     infer_artifacts env desired_state artifacts_root (st_instances desired_state) False files"

section \<open>Assignments\<close>

definition default_HostAssignment :: HostAssignment where
  "default_HostAssignment = \<lparr>ha_id = 0, ha_node_name = [], ha_plane_name = [],
     ha_desired_generation = 0, ha_attempt_count = 0, ha_max_attempts = 3,
     ha_assignment_type = [], ha_desired_state_json = [], ha_artifacts_root = [],
     ha_status = HA_Pending, ha_status_message = [], ha_progress_json = ''{}''\<rparr>"

definition rollout_pending_message :: "string \<Rightarrow> SchedulerRolloutAction list \<Rightarrow> string" where
  "rollout_pending_message node actions =
     ''scheduler rollout actions pending on target node '' @ node @ '' for workers '' @
     JoinStrings (fold insert_nonempty (map ra_worker_name actions) []) '',''"

definition node_assignment ::
  "controller_env \<Rightarrow> DesiredState \<Rightarrow> string \<Rightarrow> int \<Rightarrow> (string, SchedulerRolloutAction list) omap \<Rightarrow> string
   \<Rightarrow> HostAssignment res" where
  "node_assignment env desired_state artifacts_root desired_generation rollout_actions node =
     res_bind (SliceDesiredStateForNode desired_state node) (\<lambda>slice.
     res_bind (SerializeDesiredStateJson (env_dump env) slice) (\<lambda>payload.
       Inr (default_HostAssignment\<lparr>
         ha_node_name := node, ha_plane_name := st_plane_name desired_state,
         ha_desired_generation := desired_generation, ha_assignment_type := ''apply-node-state'',
         ha_desired_state_json := payload, ha_artifacts_root := artifacts_root,
         ha_status := HA_Pending,
         ha_status_message :=
           (case omap_get rollout_actions node of
              Some (a # as) \<Rightarrow> rollout_pending_message node (a # as)
            | _ \<Rightarrow> [])\<rparr>)))"

fun build_host_assignments ::
  "controller_env \<Rightarrow> int \<Rightarrow> (string, NodeAvailabilityOverride) omap \<Rightarrow> HostObservation list
   \<Rightarrow> (string \<Rightarrow> HostAssignment res) \<Rightarrow> NodeInventory list \<Rightarrow> HostAssignment list res" where
  "build_host_assignments env stale_after overrides observations build [] = Inr []"
| "build_host_assignments env stale_after overrides observations build (node # nodes) =
     (if \<not> IsNodeSchedulable (ResolveNodeAvailability overrides (node_name node))
      then build_host_assignments env stale_after overrides observations build nodes
      else res_bind (ObservedSchedulingGateReason env observations (node_name node) stale_after)
        (\<lambda>reason.
          if has_value reason
          then build_host_assignments env stale_after overrides observations build nodes
          else res_bind (build (node_name node)) (\<lambda>assignment.
            res_bind (build_host_assignments env stale_after overrides observations build nodes)
              (\<lambda>assignments. Inr (assignment # assignments)))))"

definition BuildHostAssignments ::
  "controller_env \<Rightarrow> int \<Rightarrow> DesiredState \<Rightarrow> string \<Rightarrow> int \<Rightarrow> NodeAvailabilityOverride list
   \<Rightarrow> HostObservation list \<Rightarrow> SchedulingPolicyReport option \<Rightarrow> HostAssignment list res" where
  "BuildHostAssignments env default_stale_after_seconds desired_state artifacts_root
     desired_generation availability_overrides observations scheduling_report =
     build_host_assignments env default_stale_after_seconds
       (BuildAvailabilityOverrideMap availability_overrides) observations
       (node_assignment env desired_state artifacts_root desired_generation
         (case scheduling_report of None \<Rightarrow> [] | Some report \<Rightarrow> BuildRolloutActionsByTargetNode report))
       (st_nodes desired_state)"

definition lifecycle_assignment ::
  "controller_env \<Rightarrow> DesiredState \<Rightarrow> string \<Rightarrow> int \<Rightarrow> string \<Rightarrow> string \<Rightarrow> (string \<Rightarrow> DesiredState res) \<Rightarrow> string
   \<Rightarrow> HostAssignment res" where
  "lifecycle_assignment env desired_state artifacts_root desired_generation type message build node =
     res_bind (build node) (\<lambda>state.
     res_bind (SerializeDesiredStateJson (env_dump env) state) (\<lambda>payload.
       Inr (default_HostAssignment\<lparr>
         ha_node_name := node, ha_plane_name := st_plane_name desired_state,
         ha_desired_generation := desired_generation, ha_assignment_type := type,
         ha_desired_state_json := payload, ha_artifacts_root := artifacts_root,
         ha_status := HA_Pending, ha_status_message := message\<rparr>)))"

definition BuildStopPlaneAssignments ::
  "controller_env \<Rightarrow> DesiredState \<Rightarrow> int \<Rightarrow> string \<Rightarrow> NodeAvailabilityOverride list
   \<Rightarrow> HostAssignment list res" where
  "BuildStopPlaneAssignments env desired_state desired_generation artifacts_root
     availability_overrides =
     (let overrides = BuildAvailabilityOverrideMap availability_overrides in
      res_map_list (lifecycle_assignment env desired_state artifacts_root desired_generation
          ''stop-plane-state'' ''plane stop lifecycle transition''
          (BuildStoppedPlaneNodeState desired_state))
        (filter (\<lambda>node. IsNodeSchedulable (ResolveNodeAvailability overrides node))
          (map node_name (st_nodes desired_state))))"

definition BuildDeletePlaneAssignments ::
  "controller_env \<Rightarrow> DesiredState \<Rightarrow> int \<Rightarrow> string \<Rightarrow> HostAssignment list res" where
  "BuildDeletePlaneAssignments env desired_state desired_generation artifacts_root =
     res_map_list (lifecycle_assignment env desired_state artifacts_root desired_generation
         ''delete-plane-state'' ''plane delete lifecycle transition''
         (BuildDeletedPlaneNodeState desired_state))
       (map node_name (st_nodes desired_state))"

definition FindLatestHostAssignmentForNode :: "HostAssignment list \<Rightarrow> string \<Rightarrow> HostAssignment option" where
  "FindLatestHostAssignmentForNode assignments node =
     fold (\<lambda>a result. if ha_node_name a \<noteq> node then result else Some a) assignments None"

definition FindLatestHostAssignmentForPlane :: "HostAssignment list \<Rightarrow> string \<Rightarrow> HostAssignment option" where
  "FindLatestHostAssignmentForPlane assignments plane =
     fold (\<lambda>a result. if ha_plane_name a \<noteq> plane then result else Some a) assignments None"

section \<open>Properties\<close>

lemma fold_last_matching:
  "fold (\<lambda>a result. if p a then Some a else result) xs init =
   (case filter p xs of [] \<Rightarrow> init | y # ys \<Rightarrow> Some (last (y # ys)))"
  by (induction xs arbitrary: init) (auto split: list.splits)

lemma FindLatestHostAssignment_last:
  "FindLatestHostAssignmentForNode as n =
     (case filter (\<lambda>a. ha_node_name a = n) as of [] \<Rightarrow> None | y # ys \<Rightarrow> Some (last (y # ys)))"
  "FindLatestHostAssignmentForPlane as p =
     (case filter (\<lambda>a. ha_plane_name a = p) as of [] \<Rightarrow> None | y # ys \<Rightarrow> Some (last (y # ys)))"
proof -
  have "FindLatestHostAssignmentForNode as n =
      fold (\<lambda>a result. if ha_node_name a = n then Some a else result) as None"
    "FindLatestHostAssignmentForPlane as p =
      fold (\<lambda>a result. if ha_plane_name a = p then Some a else result) as None"
    unfolding FindLatestHostAssignmentForNode_def FindLatestHostAssignmentForPlane_def
    by (intro fold_cong refl ext; simp)+
  then show "FindLatestHostAssignmentForNode as n =
     (case filter (\<lambda>a. ha_node_name a = n) as of [] \<Rightarrow> None | y # ys \<Rightarrow> Some (last (y # ys)))"
    "FindLatestHostAssignmentForPlane as p =
     (case filter (\<lambda>a. ha_plane_name a = p) as of [] \<Rightarrow> None | y # ys \<Rightarrow> Some (last (y # ys)))"
    unfolding fold_last_matching by simp_all
qed

text \<open>The nodes that receive an assignment.\<close>

definition dispatchable ::
  "controller_env \<Rightarrow> int \<Rightarrow> NodeAvailabilityOverride list \<Rightarrow> HostObservation list \<Rightarrow> string \<Rightarrow> bool" where
  "dispatchable env stale_after overrides observations node \<longleftrightarrow>
     IsNodeSchedulable (ResolveNodeAvailability (BuildAvailabilityOverrideMap overrides) node) \<and>
     ObservedSchedulingGateReason env observations node stale_after = Inr None"

lemma build_host_assignments_Inr:
  assumes "build_host_assignments env stale_after overrides observations build nodes = Inr as"
  shows "list_all2 (\<lambda>n a. build n = Inr a)
    (filter (\<lambda>n. IsNodeSchedulable (ResolveNodeAvailability overrides n) \<and>
        ObservedSchedulingGateReason env observations n stale_after = Inr None) (map node_name nodes)) as"
  using assms
  by (induction nodes arbitrary: as)
    (auto simp: res_bind_Inr_iff has_value_def split: if_splits)

lemma BuildHostAssignments_Inr:
  assumes "BuildHostAssignments env stale_after s artifacts_root generation overrides observations report = Inr as"
  shows "list_all2 (\<lambda>n a. \<exists>slice. SliceDesiredStateForNode s n = Inr slice \<and>
      SerializeDesiredStateJson (env_dump env) slice = Inr (ha_desired_state_json a) \<and>
      ha_node_name a = n \<and> ha_plane_name a = st_plane_name s \<and>
      ha_desired_generation a = generation \<and> ha_assignment_type a = ''apply-node-state'' \<and>
      ha_status a = HA_Pending \<and> ha_attempt_count a = 0 \<and> ha_max_attempts a = 3 \<and>
      ha_artifacts_root a = artifacts_root)
    (filter (dispatchable env stale_after overrides observations) (map node_name (st_nodes s))) as"
proof -
  have "dispatchable env stale_after overrides observations = (\<lambda>n.
      IsNodeSchedulable (ResolveNodeAvailability (BuildAvailabilityOverrideMap overrides) n) \<and>
      ObservedSchedulingGateReason env observations n stale_after = Inr None)"
    by (simp add: dispatchable_def fun_eq_iff)
  with build_host_assignments_Inr[OF assms[unfolded BuildHostAssignments_def]] show ?thesis
    by (auto elim!: list_all2_mono simp: node_assignment_def res_bind_Inr_iff default_HostAssignment_def)
qed


definition sample_env :: controller_env where
  "sample_env = \<lparr>env_now = 1700000000,
     env_parse = (\<lambda>text'. if text' = ''doc'' then Inr (DesiredStateToJson sample_settled) else Inl (JsonError 101)),
     env_dump = (\<lambda>j. if j = DesiredStateToJson sample_settled then Inr ''doc'' else Inl (JsonError 316)),
     env_dump_compact = (\<lambda>j. Inr ''[]''),
     env_render_v2 = (\<lambda>j. Inl (JsonError 302)), env_project_v2 = (\<lambda>s. Inr (DesiredStateToJson s)),
     env_internal_host = None\<rparr>"

lemma sample_env_json: "env_dump sample_env j = Inr payload \<Longrightarrow> env_parse sample_env payload = Inr j"
  by (auto simp: sample_env_def split: if_splits)


end
