(* ===== verification/Naim_Scheduler_Execution.thy ===== *)
theory Naim_Scheduler_Execution
  imports Naim_Scheduler_Domain Naim_Plane_Realization
begin

text \<open>
  \<open>controller/src/scheduler/scheduler_execution_support.cpp\<close>: how the scheduler changes a
  desired state (evicting workers, moving a worker), which eviction assignments it sends, and
  how it decides from the observations that a move has been carried out.
\<close>

section \<open>Changing the desired state\<close>

definition RolloutActionTag :: "int \<Rightarrow> string" where
  "RolloutActionTag action_id = ''rollout_action_id='' @ to_string action_id"

definition FindPriorRolloutActionForWorker ::
  "RolloutActionRecord list \<Rightarrow> RolloutActionRecord \<Rightarrow> string \<Rightarrow> RolloutActionRecord option" where
  "FindPriorRolloutActionForWorker actions action requested_action_name =
     fold (\<lambda>candidate result.
       if rar_desired_generation candidate \<noteq> rar_desired_generation action \<or>
          rar_worker_name candidate \<noteq> rar_worker_name action \<or>
          rar_step candidate \<ge> rar_step action \<or> rar_action candidate \<noteq> requested_action_name
       then result else Some candidate) actions None"

definition RemoveWorkerFromDesiredState :: "string \<Rightarrow> DesiredState \<Rightarrow> DesiredState" where
  "RemoveWorkerFromDesiredState worker state = state\<lparr>
     st_instances := map (\<lambda>i. i\<lparr>inst_depends_on := filter (\<lambda>d. d \<noteq> worker) (inst_depends_on i)\<rparr>)
       (filter (\<lambda>i. inst_name i \<noteq> worker) (st_instances state)),
     st_runtime_gpu_nodes := filter (\<lambda>g. gpu_name g \<noteq> worker) (st_runtime_gpu_nodes state),
     st_disks := filter (\<lambda>d. \<not> (disk_kind d = WorkerPrivate \<and> disk_owner_name d = worker))
       (st_disks state)\<rparr>"

text \<open>\<open>std::find_if\<close> and an update through the iterator: the first match changes.\<close>

fun update_first :: "('a \<Rightarrow> bool) \<Rightarrow> ('a \<Rightarrow> 'a) \<Rightarrow> 'a list \<Rightarrow> 'a list" where
  "update_first p f [] = []"
| "update_first p f (x # xs) = (if p x then f x # xs else x # update_first p f xs)"

definition is_worker_named :: "string \<Rightarrow> InstanceSpec \<Rightarrow> bool" where
  "is_worker_named worker i \<longleftrightarrow> inst_role i = Worker \<and> inst_name i = worker"

definition move_private_disk :: "string \<Rightarrow> string \<Rightarrow> DiskSpec list \<Rightarrow> DiskSpec list" where
  "move_private_disk worker target_node disks =
     update_first (\<lambda>d. disk_kind d = WorkerPrivate \<and> disk_owner_name d = worker)
       (\<lambda>d. d\<lparr>disk_node_name := target_node\<rparr>) disks"

definition worker_missing_error :: "string \<Rightarrow> cpp_error" where
  "worker_missing_error worker =
     RuntimeError (''worker '' @ quoted worker @ '' not found in desired state'')"

definition retry_labels :: "string \<Rightarrow> (string, string) omap \<Rightarrow> (string, string) omap" where
  "retry_labels target_node labels =
     omap_erase ''naim.preemption.victims'' (omap_erase ''naim.placement.defer_reason''
       (omap_erase ''naim.placement.next_target'' (omap_erase ''naim.placement.next_action''
         (omap_put ''naim.placement.decision'' ''applied''
           (omap_put ''naim.placement.action'' ''materialized-retry-placement''
             (omap_put ''naim.placement'' ''auto'' (omap_put ''naim.node'' target_node labels)))))))"

definition retry_instance :: "RolloutActionRecord \<Rightarrow> InstanceSpec \<Rightarrow> InstanceSpec" where
  "retry_instance action i = i\<lparr>
     inst_node_name := rar_target_node_name action,
     inst_gpu_device := Some (rar_target_gpu_device action),
     inst_share_mode := Exclusive, inst_gpu_fraction := 1,
     inst_labels := retry_labels (rar_target_node_name action) (inst_labels i)\<rparr>"

definition MaterializeRetryPlacementAction ::
  "RolloutActionRecord \<Rightarrow> string list \<Rightarrow> DesiredState \<Rightarrow> DesiredState res" where
  "MaterializeRetryPlacementAction action victim_worker_names state =
     (let state = fold RemoveWorkerFromDesiredState victim_worker_names state;
          worker = rar_worker_name action
      in if \<not> list_ex (is_worker_named worker) (st_instances state)
         then Inl (worker_missing_error worker)
         else Inr (state\<lparr>
           st_instances := update_first (is_worker_named worker) (retry_instance action)
             (st_instances state),
           st_runtime_gpu_nodes := update_first (\<lambda>g. gpu_name g = worker)
             (\<lambda>g. g\<lparr>gpu_node_name := rar_target_node_name action,
                gpu_gpu_device := rar_target_gpu_device action,
                gpu_share_mode := Exclusive, gpu_gpu_fraction := 1\<rparr>) (st_runtime_gpu_nodes state),
           st_disks := move_private_disk worker (rar_target_node_name action) (st_disks state)\<rparr>))"

definition rebalance_environment ::
  "RebalancePlanEntry \<Rightarrow> (string, string) omap \<Rightarrow> (string, string) omap" where
  "rebalance_environment entry environment =
     (let environment = omap_put ''NAIM_NODE_NAME'' (rpe_target_node_name entry) environment in
      if rpe_target_gpu_device entry \<noteq> []
      then omap_put ''NAIM_GPU_DEVICE'' (rpe_target_gpu_device entry) environment
      else omap_erase ''NAIM_GPU_DEVICE'' environment)"

definition rebalance_labels ::
  "RebalancePlanEntry \<Rightarrow> (string, string) omap \<Rightarrow> (string, string) omap" where
  "rebalance_labels entry labels =
     (let labels = omap_erase ''naim.placement.defer_reason''
            (omap_erase ''naim.placement.next_target'' (omap_erase ''naim.placement.next_action''
              (omap_put ''naim.placement.decision'' ''applied''
                (omap_put ''naim.placement.score'' (to_string (rpe_score entry))
                  (omap_put ''naim.placement.action'' (''materialized-rebalance-'' @ rpe_action entry)
                    (omap_put ''naim.placement'' ''auto''
                      (omap_put ''naim.node'' (rpe_target_node_name entry) labels)))))))
      in if rpe_victim_worker_names entry \<noteq> []
         then omap_put ''naim.preemption.victims'' (JoinStrings (rpe_victim_worker_names entry) '','') labels
         else omap_erase ''naim.preemption.victims'' labels)"

definition rebalance_instance :: "RebalancePlanEntry \<Rightarrow> InstanceSpec \<Rightarrow> InstanceSpec" where
  "rebalance_instance entry i =
     (let upgrade = (rpe_action entry = ''upgrade-to-exclusive'') in
      i\<lparr>inst_node_name := rpe_target_node_name entry,
        inst_gpu_device := Some (rpe_target_gpu_device entry),
        inst_environment := rebalance_environment entry (inst_environment i),
        inst_share_mode := (if upgrade then Exclusive else inst_share_mode i),
        inst_gpu_fraction := (if upgrade then 1 else inst_gpu_fraction i),
        inst_labels := rebalance_labels entry (inst_labels i)\<rparr>)"

definition rebalance_gpu_node :: "RebalancePlanEntry \<Rightarrow> RuntimeGpuNode \<Rightarrow> RuntimeGpuNode" where
  "rebalance_gpu_node entry g =
     (let upgrade = (rpe_action entry = ''upgrade-to-exclusive'') in
      g\<lparr>gpu_node_name := rpe_target_node_name entry, gpu_gpu_device := rpe_target_gpu_device entry,
        gpu_share_mode := (if upgrade then Exclusive else gpu_share_mode g),
        gpu_gpu_fraction := (if upgrade then 1 else gpu_gpu_fraction g)\<rparr>)"

definition MaterializeRebalancePlanEntry :: "RebalancePlanEntry \<Rightarrow> DesiredState \<Rightarrow> DesiredState res" where
  "MaterializeRebalancePlanEntry entry state =
     (let worker = rpe_worker_name entry in
      if \<not> list_ex (is_worker_named worker) (st_instances state)
      then Inl (worker_missing_error worker)
      else Inr (state\<lparr>
        st_instances := update_first (is_worker_named worker) (rebalance_instance entry)
          (st_instances state),
        st_runtime_gpu_nodes := update_first (\<lambda>g. gpu_name g = worker) (rebalance_gpu_node entry)
          (st_runtime_gpu_nodes state),
        st_disks := move_private_disk worker (rpe_target_node_name entry) (st_disks state)\<rparr>))"

section \<open>Evictions\<close>

fun victims_by_node ::
  "DesiredState \<Rightarrow> int \<Rightarrow> string list \<Rightarrow> (string, string list) omap \<Rightarrow> (string, string list) omap res" where
  "victims_by_node state action_id [] acc = Inr acc"
| "victims_by_node state action_id (victim # victims) acc =
     (case find (is_worker_named victim) (st_instances state) of
        None \<Rightarrow> Inl (RuntimeError (''victim worker '' @ quoted victim @
          '' not found in desired state for rollout action id='' @ to_string action_id))
      | Some i \<Rightarrow> victims_by_node state action_id victims
          (omap_modify (inst_node_name i) [] (\<lambda>ws. ws @ [victim]) acc))"

definition eviction_message :: "RolloutActionRecord \<Rightarrow> int \<Rightarrow> string list \<Rightarrow> string" where
  "eviction_message action required_memory_cap_mb victim_workers =
     RolloutActionTag (rar_id action) @ '' evict workers for rollout worker='' @
     rar_worker_name action @ '' target_gpu='' @ rar_target_gpu_device action @
     '' required_memory_cap_mb='' @ to_string required_memory_cap_mb @ '' victims='' @
     JoinStrings victim_workers '',''"

definition eviction_assignment ::
  "controller_env \<Rightarrow> string \<Rightarrow> DesiredState \<Rightarrow> DesiredState \<Rightarrow> int \<Rightarrow> RolloutActionRecord
   \<Rightarrow> HostAssignment list \<Rightarrow> int \<Rightarrow> string \<times> string list \<Rightarrow> HostAssignment res" where
  "eviction_assignment env default_artifacts_root desired_state eviction_state generation action
     existing required_memory_cap_mb = (\<lambda>(node, victim_workers).
     res_bind (SliceDesiredStateForNode eviction_state node) (\<lambda>slice.
     res_bind (SerializeDesiredStateJson (env_dump env) slice) (\<lambda>payload.
       Inr (default_HostAssignment\<lparr>
         ha_node_name := node, ha_plane_name := st_plane_name desired_state,
         ha_desired_generation := generation, ha_assignment_type := ''evict-workers'',
         ha_desired_state_json := payload,
         ha_artifacts_root :=
           (case FindLatestHostAssignmentForNode existing node of
              Some a \<Rightarrow> ha_artifacts_root a
            | None \<Rightarrow> (case FindLatestHostAssignmentForPlane existing (st_plane_name desired_state) of
                Some a \<Rightarrow> ha_artifacts_root a
              | None \<Rightarrow> default_artifacts_root)),
         ha_status := HA_Pending,
         ha_status_message := eviction_message action required_memory_cap_mb victim_workers\<rparr>))))"

definition BuildEvictionAssignmentsForAction ::
  "controller_env \<Rightarrow> string \<Rightarrow> DesiredState \<Rightarrow> int \<Rightarrow> RolloutActionRecord \<Rightarrow> HostAssignment list
   \<Rightarrow> HostAssignment list res" where
  "BuildEvictionAssignmentsForAction env default_artifacts_root desired_state generation action
     existing =
     (if rar_action action \<noteq> ''evict-best-effort''
      then Inl (RuntimeError (''rollout action id='' @ to_string (rar_id action) @
        '' is not an evict-best-effort action''))
      else if rar_victim_worker_names action = []
      then Inl (RuntimeError (''rollout action id='' @ to_string (rar_id action) @
        '' has no victim workers to evict''))
      else res_bind (victims_by_node desired_state (rar_id action) (rar_victim_worker_names action) [])
        (\<lambda>by_node.
          let required_memory_cap_mb =
                (case find (is_worker_named (rar_worker_name action)) (st_instances desired_state) of
                   None \<Rightarrow> 0 | Some i \<Rightarrow> value_or (inst_memory_cap_mb i) 0);
              eviction_state = fold RemoveWorkerFromDesiredState (rar_victim_worker_names action)
                desired_state
          in res_map_list (eviction_assignment env default_artifacts_root desired_state eviction_state
               generation action existing required_memory_cap_mb) by_node))"

section \<open>Verification\<close>

record SchedulerExecutionVerificationConfig =
  sev_verification_timeout_seconds :: int
  sev_verification_stable_samples_required :: int

record SchedulerVerificationResult =
  svr_converged :: bool
  svr_stable :: bool
  svr_timed_out :: bool
  svr_next_stable_samples :: int
  svr_detail :: string

definition FindInstanceRuntimeStatus ::
  "RuntimeProcessStatus list \<Rightarrow> string \<Rightarrow> string \<Rightarrow> RuntimeProcessStatus option" where
  "FindInstanceRuntimeStatus statuses instance_name gpu_device =
     find (\<lambda>s. ps_instance_name s = instance_name \<and> ps_gpu_device s = gpu_device) statuses"

definition TelemetryShowsOwnedProcess :: "GpuTelemetrySnapshot option \<Rightarrow> string \<Rightarrow> string \<Rightarrow> bool" where
  "TelemetryShowsOwnedProcess telemetry gpu_device instance_name \<longleftrightarrow>
     (case telemetry of
        None \<Rightarrow> False
      | Some t \<Rightarrow> list_ex (\<lambda>d. gd_gpu_device d = gpu_device \<and>
          list_ex (\<lambda>p. gp_instance_name p = instance_name) (gd_processes d)) (gt_devices t))"

definition rollback_mode :: "SchedulerPlaneRuntime \<Rightarrow> bool" where
  "rollback_mode r \<longleftrightarrow> spr_phase r = ''rollback-applied'' \<or> spr_phase r = ''rollback-planned''"

definition expected_node :: "SchedulerPlaneRuntime \<Rightarrow> string" where
  "expected_node r = (if rollback_mode r then spr_source_node_name r else spr_target_node_name r)"

definition expected_gpu :: "SchedulerPlaneRuntime \<Rightarrow> string" where
  "expected_gpu r = (if rollback_mode r then spr_source_gpu_device r else spr_target_gpu_device r)"

definition cleared_node :: "SchedulerPlaneRuntime \<Rightarrow> string" where
  "cleared_node r = (if rollback_mode r then spr_target_node_name r else spr_source_node_name r)"

definition cleared_gpu :: "SchedulerPlaneRuntime \<Rightarrow> string" where
  "cleared_gpu r = (if rollback_mode r then spr_target_gpu_device r else spr_source_gpu_device r)"

definition runtime_ready :: "RuntimeProcessStatus option \<Rightarrow> bool" where
  "runtime_ready status \<longleftrightarrow>
     (case status of
        None \<Rightarrow> False
      | Some s \<Rightarrow> ps_ready s \<and> (ps_runtime_phase s = ''running'' \<or> ps_runtime_phase s = ''ready'' \<or>
          ps_runtime_phase s = ''loaded''))"

definition source_cleared ::
  "controller_env \<Rightarrow> SchedulerPlaneRuntime \<Rightarrow> HostObservation list \<Rightarrow> bool res" where
  "source_cleared env r observations =
     (case FindHostObservationForNode observations (cleared_node r) of
        None \<Rightarrow> Inr True
      | Some observation \<Rightarrow>
          res_bind (ParseInstanceRuntimeStatuses env observation) (\<lambda>statuses.
          res_bind (ParseGpuTelemetry env observation) (\<lambda>telemetry.
            Inr (FindInstanceRuntimeStatus statuses (spr_active_worker_name r) (cleared_gpu r) = None \<and>
              \<not> TelemetryShowsOwnedProcess telemetry (cleared_gpu r) (spr_active_worker_name r)))))"

definition yes_no :: "bool \<Rightarrow> string" where
  "yes_no b = (if b then ''yes'' else ''no'')"

definition observe_move ::
  "controller_env \<Rightarrow> SchedulerExecutionVerificationConfig \<Rightarrow> SchedulerPlaneRuntime
   \<Rightarrow> HostObservation list \<Rightarrow> SchedulerVerificationResult res" where
  "observe_move env config r observations =
     (let result = \<lparr>svr_converged = False, svr_stable = False, svr_timed_out = False,
            svr_next_stable_samples = 0, svr_detail = []\<rparr>
      in case FindHostObservationForNode observations (expected_node r) of
           None \<Rightarrow> Inr (result\<lparr>svr_detail := ''missing-target-observation''\<rparr>)
         | Some target \<Rightarrow>
             res_bind (ParseInstanceRuntimeStatuses env target) (\<lambda>statuses.
             res_bind (ParseGpuTelemetry env target) (\<lambda>telemetry.
             res_bind (source_cleared env r observations) (\<lambda>cleared.
               let applied = (case ho_applied_generation target of
                       None \<Rightarrow> False | Some g \<Rightarrow> g \<ge> spr_action_generation r);
                   ready = runtime_ready
                     (FindInstanceRuntimeStatus statuses (spr_active_worker_name r) (expected_gpu r));
                   owned = TelemetryShowsOwnedProcess telemetry (expected_gpu r)
                     (spr_active_worker_name r);
                   samples = spr_stable_samples r + 1
               in Inr (if applied \<and> ready \<and> owned \<and> cleared
                  then result\<lparr>svr_converged := True, svr_next_stable_samples := samples,
                    svr_stable := (samples \<ge> sev_verification_stable_samples_required config),
                    svr_detail := ''verified-sample''\<rparr>
                  else result\<lparr>svr_detail :=
                    ''target_generation_applied='' @ yes_no applied @
                    '' target_runtime_ready='' @ yes_no ready @
                    '' target_gpu_owned='' @ yes_no owned @
                    '' source_cleared='' @ yes_no cleared\<rparr>)))))"

definition EvaluateSchedulerActionVerification ::
  "controller_env \<Rightarrow> SchedulerExecutionVerificationConfig \<Rightarrow> SchedulerPlaneRuntime
   \<Rightarrow> HostObservation list \<Rightarrow> SchedulerVerificationResult res" where
  "EvaluateSchedulerActionVerification env config r observations =
     res_bind (observe_move env config r observations) (\<lambda>result.
       Inr (result\<lparr>svr_timed_out :=
         (case TimestampAgeSeconds env (spr_started_at r) of
            None \<Rightarrow> False | Some age \<Rightarrow> age \<ge> sev_verification_timeout_seconds config)\<rparr>))"

section \<open>History\<close>

definition MarkWorkerMoveVerified ::
  "controller_env \<Rightarrow> SchedulerPlaneRuntime \<Rightarrow> SchedulerWorkerRuntime list \<times> SchedulerNodeRuntime list
   \<Rightarrow> SchedulerWorkerRuntime list \<times> SchedulerNodeRuntime list" where
  "MarkWorkerMoveVerified env r = (\<lambda>(workers, nodes).
     (let now = UtcNowSqlTimestamp env;
          current = value_or (LoadSchedulerWorkerRuntime (spr_active_worker_name r) workers)
            default_SchedulerWorkerRuntime;
          workers = UpsertSchedulerWorkerRuntime env (current\<lparr>
            swr_plane_name := spr_plane_name r, swr_worker_name := spr_active_worker_name r,
            swr_last_move_at := now, swr_last_verified_generation := Some (spr_action_generation r),
            swr_last_scheduler_phase := ''verified'',
            swr_last_status_message := (if spr_phase r = ''rollback-applied''
              then ''rollback verification succeeded'' else ''move verification succeeded''),
            swr_manual_intervention_required := False\<rparr>) workers;
          nodes = fold (\<lambda>node nodes.
              if node = [] then nodes
              else UpsertSchedulerNodeRuntime env
                ((value_or (LoadSchedulerNodeRuntime node nodes) default_SchedulerNodeRuntime)\<lparr>
                  snr_plane_name := spr_plane_name r, snr_node_name := node, snr_last_move_at := now,
                  snr_last_verified_generation := Some (spr_action_generation r)\<rparr>) nodes)
            [spr_source_node_name r, spr_target_node_name r] nodes
      in (workers, nodes)))"

definition MarkWorkersEvicted ::
  "controller_env \<Rightarrow> string \<Rightarrow> string list \<Rightarrow> SchedulerWorkerRuntime list \<Rightarrow> SchedulerWorkerRuntime list" where
  "MarkWorkersEvicted env plane worker_names rows =
     fold (\<lambda>worker rows.
       if worker = [] then rows
       else UpsertSchedulerWorkerRuntime env
         ((value_or (LoadSchedulerWorkerRuntime worker rows) default_SchedulerWorkerRuntime)\<lparr>
           swr_plane_name := plane, swr_worker_name := worker,
           swr_last_eviction_at := UtcNowSqlTimestamp env,
           swr_last_scheduler_phase := ''evicted'', swr_last_status_message := ''eviction verified''\<rparr>)
         rows) worker_names rows"

end
