(* ===== verification/Naim_Controller_Store.thy ===== *)
theory Naim_Controller_Store
  imports Naim_Scheduler_Execution
begin

text \<open>
  The database of the controller as the scheduler sees it: planes with their desired-state
  document (\<open>plane_repository.cpp\<close>, \<open>desired_state_repository.cpp\<close>), observations
  (\<open>observation_repository.cpp\<close>), availability overrides (\<open>node_availability_repository.cpp\<close>) and
  events (\<open>event_repository.cpp\<close>), next to the tables of \<open>Naim_Assignment_Repository\<close> and
  \<open>Naim_Scheduler_Repository\<close>.

  A plane stores its desired state as a version 2 document, printed from a JSON object. The
  tables that repeat the state in columns are read only for a plane whose document is the empty
  text; \<open>db_columns\<close> is what that reader returns. Those tables, the skill bindings, the runtime
  states of disks and violated constraints of the database, such as two disks of one name, are
  not modelled. The status of an observation and the availability of an override are kept as
  values: their only writers print them and the readers parse the printed name.
\<close>

section \<open>Tables\<close>

record PlaneRecord =
  pl_name :: string
  pl_shared_disk_name :: string
  pl_control_root :: string
  pl_artifacts_root :: string
  pl_plane_mode :: string
  pl_generation :: int
  pl_applied_generation :: int
  pl_rebalance_iteration :: int
  pl_state :: string
  pl_created_at :: string

record plane_row = PlaneRecord +
  pl_desired_state_json :: string

record EventRecord =
  ev_id :: int
  ev_plane_name :: string
  ev_node_name :: string
  ev_worker_name :: string
  ev_assignment_id :: "int option"
  ev_rollout_action_id :: "int option"
  ev_category :: string
  ev_event_type :: string
  ev_severity :: string
  ev_message :: string
  ev_payload_json :: string
  ev_created_at :: string

record store =
  db_planes :: "plane_row list"
  db_columns :: "string \<Rightarrow> DesiredState res"
  db_assignments :: assignment_table
  db_observations :: "HostObservation list"
  db_overrides :: "NodeAvailabilityOverride list"
  db_rollouts :: rollout_table
  db_plane_runtime :: "SchedulerPlaneRuntime list"
  db_worker_runtime :: "SchedulerWorkerRuntime list"
  db_node_runtime :: "SchedulerNodeRuntime list"
  db_events :: "EventRecord list"
  db_next_event_id :: int
  db_files :: files

section \<open>Planes\<close>

definition find_plane :: "string \<Rightarrow> plane_row list \<Rightarrow> plane_row option" where
  "find_plane plane rows = load_row pl_name (bind_text plane) rows"

definition LoadPlaneRebalanceIteration :: "string \<Rightarrow> plane_row list \<Rightarrow> int option" where
  "LoadPlaneRebalanceIteration plane rows = map_option pl_rebalance_iteration (find_plane plane rows)"

definition LoadPlanes :: "plane_row list \<Rightarrow> PlaneRecord list" where
  "LoadPlanes rows = map PlaneRecord.truncate (sort_key pl_name rows)"

definition LoadPlane :: "string \<Rightarrow> plane_row list \<Rightarrow> PlaneRecord option" where
  "LoadPlane plane rows = map_option PlaneRecord.truncate (find_plane plane rows)"

definition update_planes ::
  "string \<Rightarrow> (plane_row \<Rightarrow> plane_row) \<Rightarrow> plane_row list \<Rightarrow> plane_row list \<times> bool" where
  "update_planes plane f rows =
     (map (\<lambda>r. if pl_name r = bind_text plane then f r else r) rows,
      list_ex (\<lambda>r. pl_name r = bind_text plane) rows)"

definition UpdatePlaneState :: "string \<Rightarrow> string \<Rightarrow> plane_row list \<Rightarrow> plane_row list \<times> bool" where
  "UpdatePlaneState plane state rows = update_planes plane (\<lambda>r. r\<lparr>pl_state := bind_text state\<rparr>) rows"

definition UpdatePlaneAppliedGeneration :: "string \<Rightarrow> int \<Rightarrow> plane_row list \<Rightarrow> plane_row list \<times> bool" where
  "UpdatePlaneAppliedGeneration plane generation rows =
     update_planes plane (\<lambda>r. r\<lparr>pl_applied_generation := generation\<rparr>) rows"

definition UpdatePlaneArtifactsRoot :: "string \<Rightarrow> string \<Rightarrow> plane_row list \<Rightarrow> plane_row list \<times> bool" where
  "UpdatePlaneArtifactsRoot plane artifacts_root rows =
     update_planes plane (\<lambda>r. r\<lparr>pl_artifacts_root := bind_text artifacts_root\<rparr>) rows"

definition clear_observation_plane :: "string \<Rightarrow> HostObservation \<Rightarrow> HostObservation" where
  "clear_observation_plane plane o' =
     (if ho_plane_name o' = bind_text plane
      then o'\<lparr>ho_plane_name := [], ho_applied_generation := None, ho_last_assignment_id := None\<rparr>
      else o')"

definition DeletePlane :: "string \<Rightarrow> store \<Rightarrow> store" where
  "DeletePlane plane s =
     (let p = bind_text plane in s\<lparr>
        db_assignments := (db_assignments s)\<lparr>tab_rows :=
          filter (\<lambda>r. row_plane_name r \<noteq> p) (tab_rows (db_assignments s))\<rparr>,
        db_rollouts := (db_rollouts s)\<lparr>rot_rows :=
          filter (\<lambda>r. ror_plane_name r \<noteq> p) (rot_rows (db_rollouts s))\<rparr>,
        db_events := filter (\<lambda>e. ev_plane_name e \<noteq> p) (db_events s),
        db_plane_runtime := filter (\<lambda>r. spr_plane_name r \<noteq> p) (db_plane_runtime s),
        db_worker_runtime := filter (\<lambda>r. swr_plane_name r \<noteq> p) (db_worker_runtime s),
        db_node_runtime := filter (\<lambda>r. snr_plane_name r \<noteq> p) (db_node_runtime s),
        db_observations := map (clear_observation_plane plane) (db_observations s),
        db_planes := filter (\<lambda>r. pl_name r \<noteq> p) (db_planes s)\<rparr>)"

section \<open>Desired states\<close>

definition EnsureControlRoot :: "DesiredState \<Rightarrow> DesiredState" where
  "EnsureControlRoot state =
     (if st_control_root state = []
      then state\<lparr>st_control_root := ''/naim/shared/control/'' @ st_plane_name state\<rparr> else state)"

definition plane_newer :: "plane_row \<Rightarrow> plane_row \<Rightarrow> bool" where
  "plane_newer l r \<longleftrightarrow> pl_created_at r < pl_created_at l \<or>
     pl_created_at l = pl_created_at r \<and> pl_name l < pl_name r"

definition LoadLatestPlaneName :: "plane_row list \<Rightarrow> string option" where
  "LoadLatestPlaneName rows = (case std_sort plane_newer rows of [] \<Rightarrow> None | r # _ \<Rightarrow> Some (pl_name r))"

definition LoadDesiredStateFromJson ::
  "controller_env \<Rightarrow> plane_row list \<Rightarrow> string \<Rightarrow> DesiredState option res" where
  "LoadDesiredStateFromJson env rows plane =
     (case find_plane plane rows of
        None \<Rightarrow> Inr None
      | Some r \<Rightarrow>
          if pl_desired_state_json r = [] then Inr None
          else res_bind (DeserializeDesiredStateJson (env_parse env) (env_render_v2 env)
              (pl_desired_state_json r)) (\<lambda>state. Inr (Some (EnsureControlRoot state))))"

definition LoadDesiredStateOf :: "controller_env \<Rightarrow> store \<Rightarrow> string \<Rightarrow> DesiredState option res" where
  "LoadDesiredStateOf env s plane =
     res_bind (LoadDesiredStateFromJson env (db_planes s) plane) (\<lambda>state.
       case state of
         Some st \<Rightarrow> Inr (Some st)
       | None \<Rightarrow> (case find_plane plane (db_planes s) of
           None \<Rightarrow> Inr None
         | Some _ \<Rightarrow> res_bind (db_columns s plane) (\<lambda>st. Inr (Some st))))"

definition LoadDesiredState :: "controller_env \<Rightarrow> store \<Rightarrow> DesiredState option res" where
  "LoadDesiredState env s =
     (case LoadLatestPlaneName (db_planes s) of
        None \<Rightarrow> Inr None | Some plane \<Rightarrow> LoadDesiredStateOf env s plane)"

definition LoadDesiredGenerationOf :: "string \<Rightarrow> store \<Rightarrow> int option" where
  "LoadDesiredGenerationOf plane s = map_option pl_generation (find_plane plane (db_planes s))"

definition LoadDesiredGeneration :: "store \<Rightarrow> int option" where
  "LoadDesiredGeneration s =
     (case LoadLatestPlaneName (db_planes s) of
        None \<Rightarrow> None | Some plane \<Rightarrow> LoadDesiredGenerationOf plane s)"

definition LoadRebalanceIteration :: "store \<Rightarrow> int option" where
  "LoadRebalanceIteration s =
     (case LoadLatestPlaneName (db_planes s) of
        None \<Rightarrow> None | Some plane \<Rightarrow> LoadPlaneRebalanceIteration plane (db_planes s))"

definition new_plane_row :: "controller_env \<Rightarrow> DesiredState \<Rightarrow> int \<Rightarrow> int \<Rightarrow> string \<Rightarrow> plane_row" where
  "new_plane_row env state generation rebalance_iteration document =
     \<lparr>pl_name = bind_text (st_plane_name state),
      pl_shared_disk_name = bind_text (st_plane_shared_disk_name state),
      pl_control_root = bind_text (if st_control_root state = []
        then ''/naim/shared/control/'' @ st_plane_name state else st_control_root state),
      pl_artifacts_root = [], pl_plane_mode = ToString_PlaneMode (st_plane_mode state),
      pl_generation = generation, pl_applied_generation = 0,
      pl_rebalance_iteration = rebalance_iteration, pl_state = ''stopped'',
      pl_created_at = sql_timestamp (env_now env), pl_desired_state_json = bind_text document\<rparr>"

definition merge_plane :: "plane_row \<Rightarrow> plane_row \<Rightarrow> plane_row" where
  "merge_plane old excluded = excluded\<lparr>
     pl_artifacts_root := pl_artifacts_root old,
     pl_applied_generation := pl_applied_generation old,
     pl_state := (if pl_state old = ''deleting'' \<or> pl_state old = ''running''
       then pl_state old else pl_state excluded),
     pl_created_at := pl_created_at old\<rparr>"

text \<open>The transaction writes nothing when the document cannot be produced.\<close>

definition ReplaceDesiredState ::
  "controller_env \<Rightarrow> DesiredState \<Rightarrow> int \<Rightarrow> int \<Rightarrow> plane_row list \<Rightarrow> plane_row list res" where
  "ReplaceDesiredState env state generation rebalance_iteration rows =
     res_bind (env_project_v2 env state) (\<lambda>projected.
     res_bind (env_dump env projected) (\<lambda>document.
       Inr (upsert_row pl_name merge_plane
         (new_plane_row env state generation rebalance_iteration document) rows)))"

interpretation plane_table: keyed_table "pl_name :: plane_row \<Rightarrow> string" merge_plane
  by unfold_locales (simp add: merge_plane_def)

section \<open>Observations and overrides\<close>

definition observation_row :: "controller_env \<Rightarrow> HostObservation \<Rightarrow> HostObservation" where
  "observation_row env o' =
     \<lparr>ho_node_name = bind_text (ho_node_name o'), ho_plane_name = bind_text (ho_plane_name o'),
      ho_applied_generation = ho_applied_generation o',
      ho_last_assignment_id = ho_last_assignment_id o', ho_status = ho_status o',
      ho_status_message = bind_text (ho_status_message o'),
      ho_observed_state_json = bind_text (ho_observed_state_json o'),
      ho_runtime_status_json = bind_text (ho_runtime_status_json o'),
      ho_instance_runtime_json = bind_text (ho_instance_runtime_json o'),
      ho_gpu_telemetry_json = bind_text (ho_gpu_telemetry_json o'),
      ho_disk_telemetry_json = bind_text (ho_disk_telemetry_json o'),
      ho_network_telemetry_json = bind_text (ho_network_telemetry_json o'),
      ho_cpu_telemetry_json = bind_text (ho_cpu_telemetry_json o'),
      ho_heartbeat_at = sql_timestamp (env_now env)\<rparr>"

definition UpsertHostObservation ::
  "controller_env \<Rightarrow> HostObservation \<Rightarrow> HostObservation list \<Rightarrow> HostObservation list" where
  "UpsertHostObservation env observation rows =
     upsert_row ho_node_name (\<lambda>old excluded. excluded) (observation_row env observation) rows"

definition LoadHostObservation :: "string \<Rightarrow> HostObservation list \<Rightarrow> HostObservation option" where
  "LoadHostObservation node rows = load_row ho_node_name (bind_text node) rows"

definition LoadHostObservations ::
  "string option \<Rightarrow> string option \<Rightarrow> HostObservation list \<Rightarrow> HostObservation list" where
  "LoadHostObservations node plane rows =
     sort_key ho_node_name (filter (\<lambda>o'.
       (case node of None \<Rightarrow> True | Some n \<Rightarrow> ho_node_name o' = bind_text n) \<and>
       (case plane of None \<Rightarrow> True | Some p \<Rightarrow> ho_plane_name o' = bind_text p)) rows)"

definition UpsertNodeAvailabilityOverride ::
  "controller_env \<Rightarrow> NodeAvailabilityOverride \<Rightarrow> NodeAvailabilityOverride list
   \<Rightarrow> NodeAvailabilityOverride list" where
  "UpsertNodeAvailabilityOverride env o' rows =
     upsert_row nao_node_name (\<lambda>old excluded. excluded)
       \<lparr>nao_node_name = bind_text (nao_node_name o'), nao_availability = nao_availability o',
        nao_status_message = bind_text (nao_status_message o'),
        nao_updated_at = sql_timestamp (env_now env)\<rparr> rows"

definition LoadNodeAvailabilityOverride ::
  "string \<Rightarrow> NodeAvailabilityOverride list \<Rightarrow> NodeAvailabilityOverride option" where
  "LoadNodeAvailabilityOverride node rows = load_row nao_node_name (bind_text node) rows"

definition LoadNodeAvailabilityOverrides ::
  "string option \<Rightarrow> NodeAvailabilityOverride list \<Rightarrow> NodeAvailabilityOverride list" where
  "LoadNodeAvailabilityOverrides node rows =
     sort_key nao_node_name
       (filter (\<lambda>o'. case node of None \<Rightarrow> True | Some n \<Rightarrow> nao_node_name o' = bind_text n) rows)"

interpretation observation_table: keyed_table ho_node_name "\<lambda>old excluded. excluded"
  by unfold_locales simp

interpretation override_table: keyed_table nao_node_name "\<lambda>old excluded. excluded"
  by unfold_locales simp

section \<open>Events\<close>

definition AppendEvent :: "controller_env \<Rightarrow> EventRecord \<Rightarrow> store \<Rightarrow> store" where
  "AppendEvent env e s = s\<lparr>
     db_events := db_events s @
       [\<lparr>ev_id = db_next_event_id s, ev_plane_name = bind_text (ev_plane_name e),
         ev_node_name = bind_text (ev_node_name e), ev_worker_name = bind_text (ev_worker_name e),
         ev_assignment_id = ev_assignment_id e, ev_rollout_action_id = ev_rollout_action_id e,
         ev_category = bind_text (ev_category e), ev_event_type = bind_text (ev_event_type e),
         ev_severity = bind_text (ev_severity e), ev_message = bind_text (ev_message e),
         ev_payload_json = bind_text (ev_payload_json e),
         ev_created_at = sql_timestamp (env_now env)\<rparr>],
     db_next_event_id := db_next_event_id s + 1\<rparr>"

definition LoadEvents ::
  "string option \<Rightarrow> string option \<Rightarrow> string option \<Rightarrow> string option \<Rightarrow> int \<Rightarrow> int option \<Rightarrow> bool
   \<Rightarrow> EventRecord list \<Rightarrow> EventRecord list" where
  "LoadEvents plane node worker category limit since_id ascending rows =
     (let matches = (\<lambda>filter' value. case filter' of None \<Rightarrow> True | Some v \<Rightarrow> value = bind_text v);
          selected = sort_key ev_id (filter (\<lambda>e. matches plane (ev_plane_name e) \<and>
            matches node (ev_node_name e) \<and> matches worker (ev_worker_name e) \<and>
            matches category (ev_category e) \<and>
            (case since_id of None \<Rightarrow> True | Some i \<Rightarrow> ev_id e > i)) rows)
      in take (nat (if limit > 0 then limit else 100)) (if ascending then selected else rev selected))"

section \<open>Operations on the store\<close>

text \<open>
  An operation of a service takes the store and returns a result or the exception that left
  it, with the store at that moment: what was written before an exception stays written.
\<close>

type_synonym 'a action = "store \<Rightarrow> 'a res \<times> store"

definition act_return :: "'a \<Rightarrow> 'a action" where
  "act_return x = (\<lambda>s. (Inr x, s))"

definition act_throw :: "cpp_error \<Rightarrow> 'a action" where
  "act_throw e = (\<lambda>s. (Inl e, s))"

definition act_bind :: "'a action \<Rightarrow> ('a \<Rightarrow> 'b action) \<Rightarrow> 'b action" where
  "act_bind m f = (\<lambda>s. case m s of (Inl e, s') \<Rightarrow> (Inl e, s') | (Inr x, s') \<Rightarrow> f x s')"

definition act_then :: "unit action \<Rightarrow> 'b action \<Rightarrow> 'b action" where
  "act_then m k = act_bind m (\<lambda>_. k)"

definition act_lift :: "'a res \<Rightarrow> 'a action" where
  "act_lift r = (\<lambda>s. (r, s))"

definition act_read :: "(store \<Rightarrow> 'a res) \<Rightarrow> 'a action" where
  "act_read q = (\<lambda>s. (q s, s))"

definition act_update :: "(store \<Rightarrow> store) \<Rightarrow> unit action" where
  "act_update f = (\<lambda>s. (Inr (), f s))"

text \<open>A transaction that is rolled back when it throws.\<close>

definition act_commit :: "(store \<Rightarrow> store res) \<Rightarrow> unit action" where
  "act_commit f = (\<lambda>s. case f s of Inl e \<Rightarrow> (Inl e, s) | Inr s' \<Rightarrow> (Inr (), s'))"

fun act_seq :: "unit action list \<Rightarrow> unit action" where
  "act_seq [] = act_return ()"
| "act_seq (m # ms) = act_then m (act_seq ms)"

definition act_files :: "(files \<Rightarrow> files \<times> unit res) \<Rightarrow> unit action" where
  "act_files f = (\<lambda>s. case f (db_files s) of (files, r) \<Rightarrow> (r, s\<lparr>db_files := files\<rparr>))"

definition append_event ::
  "controller_env \<Rightarrow> string \<Rightarrow> string \<Rightarrow> string \<Rightarrow> json \<Rightarrow> string \<Rightarrow> string \<Rightarrow> string \<Rightarrow> int option
   \<Rightarrow> int option \<Rightarrow> string \<Rightarrow> unit action" where
  "append_event env category event_type message payload plane node worker assignment_id
     rollout_action_id severity =
     act_bind (act_lift (env_dump_compact env payload)) (\<lambda>payload_json.
       act_update (AppendEvent env
         \<lparr>ev_id = 0, ev_plane_name = plane, ev_node_name = node, ev_worker_name = worker,
          ev_assignment_id = assignment_id, ev_rollout_action_id = rollout_action_id,
          ev_category = category, ev_event_type = event_type, ev_severity = severity,
          ev_message = message, ev_payload_json = payload_json, ev_created_at = []\<rparr>))"

end
