(* ===== verification/Naim_Host_Reconciliation.thy ===== *)
theory Naim_Host_Reconciliation
  imports Naim_Controller_Store
begin

text \<open>
  \<open>controller/src/host/host_assignment_reconciliation_service.cpp\<close>: claimed assignments that a
  newer assignment replaced are marked superseded, and those whose effect the host has already
  reported are marked applied. Every tick of the scheduler starts with it.
\<close>

record ReconciliationResult =
  rr_applied :: int
  rr_superseded :: int

definition LoadClaimedApplyAssignments :: "string option \<Rightarrow> store \<Rightarrow> HostAssignment list res" where
  "LoadClaimedApplyAssignments plane s =
     res_bind (LoadHostAssignments None (Some HA_Claimed) plane (db_assignments s)) (\<lambda>assignments.
       Inr (filter (\<lambda>a. ha_assignment_type a = ''apply-node-state'') assignments))"

definition BuildPlaneNames :: "HostAssignment list \<Rightarrow> string list" where
  "BuildPlaneNames assignments = fold insort_insert (map ha_plane_name assignments) []"

definition BuildLatestAssignmentsByNode :: "HostAssignment list \<Rightarrow> (string, HostAssignment) omap" where
  "BuildLatestAssignmentsByNode assignments =
     fold (\<lambda>a latest.
       case omap_get latest (ha_node_name a) of
         None \<Rightarrow> omap_put (ha_node_name a) a latest
       | Some b \<Rightarrow> if ha_id a > ha_id b then omap_put (ha_node_name a) a latest else latest)
       assignments []"

definition FindObservationForNode :: "HostObservation list \<Rightarrow> string \<Rightarrow> HostObservation option" where
  "FindObservationForNode observations node = find (\<lambda>o'. ho_node_name o' = node) observations"

definition ShouldSupersedeClaimedAssignment ::
  "HostAssignment \<Rightarrow> (string, HostAssignment) omap \<Rightarrow> bool" where
  "ShouldSupersedeClaimedAssignment a latest \<longleftrightarrow>
     (case omap_get latest (ha_node_name a) of None \<Rightarrow> False | Some b \<Rightarrow> ha_id b \<noteq> ha_id a)"

definition ShouldMarkClaimedAssignmentApplied ::
  "HostAssignment \<Rightarrow> PlaneRecord option \<Rightarrow> HostObservation option \<Rightarrow> bool" where
  "ShouldMarkClaimedAssignmentApplied a plane observation \<longleftrightarrow>
     (case (plane, observation) of
        (Some p, Some o') \<Rightarrow>
          pl_applied_generation p \<ge> ha_desired_generation a \<and>
          ho_plane_name o' = ha_plane_name a \<and> ho_status o' = HO_Applied \<and>
          (case ho_last_assignment_id o' of None \<Rightarrow> False | Some i \<Rightarrow> i \<ge> ha_id a) \<and>
          (case ho_applied_generation o' of None \<Rightarrow> False | Some g \<Rightarrow> g \<ge> ha_desired_generation a)
      | _ \<Rightarrow> False)"

definition superseded_message :: string where
  "superseded_message =
     ''superseded by controller reconciliation after a newer assignment replaced it''"

definition applied_message :: string where
  "applied_message = ''marked applied by controller reconciliation after plane convergence''"

definition reconcile_assignment ::
  "controller_env \<Rightarrow> PlaneRecord option \<Rightarrow> (string, HostAssignment) omap \<Rightarrow> HostObservation list
   \<Rightarrow> HostAssignment \<Rightarrow> assignment_table \<times> ReconciliationResult
   \<Rightarrow> assignment_table \<times> ReconciliationResult" where
  "reconcile_assignment env plane latest observations a = (\<lambda>(table, result).
     if ShouldSupersedeClaimedAssignment a latest
     then let (table, changed) = TransitionClaimedHostAssignment (env_now env) (ha_id a) HA_Superseded
            superseded_message table
       in (table, if changed then result\<lparr>rr_superseded := rr_superseded result + 1\<rparr> else result)
     else if ShouldMarkClaimedAssignmentApplied a plane
       (FindObservationForNode observations (ha_node_name a))
     then let (table, changed) = TransitionClaimedHostAssignment (env_now env) (ha_id a) HA_Applied
            applied_message table
       in (table, if changed then result\<lparr>rr_applied := rr_applied result + 1\<rparr> else result)
     else (table, result))"

definition ReconcilePlane ::
  "controller_env \<Rightarrow> string \<Rightarrow> HostAssignment list \<Rightarrow> HostObservation list \<Rightarrow> ReconciliationResult action" where
  "ReconcilePlane env plane_name claimed observations = (\<lambda>s.
     case LoadHostAssignments None None (Some plane_name) (db_assignments s) of
       Inl e \<Rightarrow> (Inl e, s)
     | Inr assignments \<Rightarrow>
         let (table, result) = fold
               (reconcile_assignment env (LoadPlane plane_name (db_planes s))
                 (BuildLatestAssignmentsByNode assignments) observations)
               (filter (\<lambda>a. ha_plane_name a = plane_name) claimed)
               (db_assignments s, \<lparr>rr_applied = 0, rr_superseded = 0\<rparr>)
         in (Inr result, s\<lparr>db_assignments := table\<rparr>))"

fun reconcile_planes ::
  "controller_env \<Rightarrow> HostAssignment list \<Rightarrow> HostObservation list \<Rightarrow> string list \<Rightarrow> ReconciliationResult
   \<Rightarrow> ReconciliationResult action" where
  "reconcile_planes env claimed observations [] result = act_return result"
| "reconcile_planes env claimed observations (plane # planes) result =
     act_bind (ReconcilePlane env plane claimed observations) (\<lambda>r.
       reconcile_planes env claimed observations planes
         \<lparr>rr_applied = rr_applied result + rr_applied r,
          rr_superseded = rr_superseded result + rr_superseded r\<rparr>)"

definition Reconcile :: "controller_env \<Rightarrow> string option \<Rightarrow> ReconciliationResult action" where
  "Reconcile env plane_name =
     act_bind (act_read (LoadClaimedApplyAssignments plane_name)) (\<lambda>claimed.
       if claimed = [] then act_return \<lparr>rr_applied = 0, rr_superseded = 0\<rparr>
       else act_bind (act_read (\<lambda>s. Inr (LoadHostObservations None None (db_observations s))))
         (\<lambda>observations. reconcile_planes env claimed observations (BuildPlaneNames claimed)
           \<lparr>rr_applied = 0, rr_superseded = 0\<rparr>))"

end
