(* ===== verification/Naim_Scheduler_Service.thy ===== *)
theory Naim_Scheduler_Service
  imports Naim_Host_Reconciliation
begin

text \<open>
  \<open>controller/src/scheduler/scheduler_service.cpp\<close> with the two loaders of
  \<open>controller/src/read_model/state_aggregate_loader.cpp\<close> it uses: the operations of the scheduler
  on the store, from one tick to the operations an operator can call. Every operation of the
  source opens the same database again; here they share the store. What they print is not
  modelled.
\<close>

section \<open>Configuration\<close>

record SchedulerServiceConfig =
  ssc_artifacts_root :: string
  ssc_default_artifacts_root :: string
  ssc_default_stale_after_seconds :: int
  ssc_maximum_rebalance_iterations :: int
  ssc_policy :: SchedulerDomainPolicyConfig
  ssc_verification :: SchedulerExecutionVerificationConfig

definition default_service_config :: "string \<Rightarrow> SchedulerServiceConfig" where
  "default_service_config artifacts_root =
     \<lparr>ssc_artifacts_root = artifacts_root, ssc_default_artifacts_root = ''var/artifacts'',
      ssc_default_stale_after_seconds = 300, ssc_maximum_rebalance_iterations = 1,
      ssc_policy = default_SchedulerDomainPolicyConfig,
      ssc_verification = \<lparr>sev_verification_timeout_seconds = 45,
        sev_verification_stable_samples_required = 3\<rparr>\<rparr>"

section \<open>Loading\<close>

definition LoadSchedulerRuntimeView :: "DesiredState option \<Rightarrow> store \<Rightarrow> SchedulerRuntimeView" where
  "LoadSchedulerRuntimeView desired_state s =
     (case desired_state of
        None \<Rightarrow> \<lparr>srv_plane_runtime = None, srv_worker_runtime_by_name = [],
          srv_node_runtime_by_name = []\<rparr>
      | Some state \<Rightarrow>
          \<lparr>srv_plane_runtime = LoadSchedulerPlaneRuntime (st_plane_name state) (db_plane_runtime s),
           srv_worker_runtime_by_name = fold (\<lambda>r. omap_emplace (swr_worker_name r) r)
             (LoadSchedulerWorkerRuntimes (Some (st_plane_name state)) (db_worker_runtime s)) [],
           srv_node_runtime_by_name = fold (\<lambda>r. omap_emplace (snr_node_name r) r)
             (LoadSchedulerNodeRuntimes (Some (st_plane_name state)) (db_node_runtime s)) []\<rparr>)"

definition load_state_for ::
  "controller_env \<Rightarrow> string option \<Rightarrow> store \<Rightarrow> DesiredState option res" where
  "load_state_for env plane_name s =
     (case plane_name of None \<Rightarrow> LoadDesiredState env s | Some p \<Rightarrow> LoadDesiredStateOf env s p)"

definition load_generation_for :: "string option \<Rightarrow> store \<Rightarrow> int option" where
  "load_generation_for plane_name s =
     (case plane_name of None \<Rightarrow> LoadDesiredGeneration s | Some p \<Rightarrow> LoadDesiredGenerationOf p s)"

definition plane_observations ::
  "controller_env \<Rightarrow> string \<Rightarrow> store \<Rightarrow> HostObservation list res" where
  "plane_observations env plane s =
     FilterHostObservationsForPlane env (LoadHostObservations None None (db_observations s)) plane"

definition plane_rollout_actions ::
  "controller_env \<Rightarrow> string \<Rightarrow> store \<Rightarrow> RolloutActionRecord list res" where
  "plane_rollout_actions env plane s = LoadRolloutActions env (Some plane) None None (db_rollouts s)"

record RolloutActionsViewData =
  rav_plane_name :: "string option"
  rav_node_name :: "string option"
  rav_desired_state :: "DesiredState option"
  rav_desired_generation :: "int option"
  rav_actions :: "RolloutActionRecord list"
  rav_scheduler_runtime :: "SchedulerRuntimeView option"
  rav_lifecycle :: "RolloutLifecycleEntry list"
  rav_gated_worker_count :: int
  rav_gated_node_count :: int

definition rollout_view_lifecycle ::
  "controller_env \<Rightarrow> SchedulerDomainPolicyConfig \<Rightarrow> DesiredState option \<Rightarrow> int option
   \<Rightarrow> RolloutActionRecord list \<Rightarrow> store \<Rightarrow> RolloutLifecycleEntry list res" where
  "rollout_view_lifecycle env config desired_state desired_generation actions s =
     (case (desired_state, desired_generation) of
        (Some state, Some generation) \<Rightarrow>
          res_bind (LoadHostAssignments None None (Some (st_plane_name state)) (db_assignments s))
            (\<lambda>assignments.
          res_bind (plane_observations env (st_plane_name state) s) (\<lambda>observations.
            BuildRolloutLifecycleEntries env config state generation actions assignments observations))
      | _ \<Rightarrow> Inr [])"

definition LoadRolloutActionsViewData ::
  "controller_env \<Rightarrow> SchedulerDomainPolicyConfig \<Rightarrow> string option \<Rightarrow> string option \<Rightarrow> store
   \<Rightarrow> RolloutActionsViewData res" where
  "LoadRolloutActionsViewData env config node_filter plane_name s =
     res_bind (load_state_for env plane_name s) (\<lambda>desired_state.
       let desired_generation = load_generation_for plane_name s in
       res_bind (LoadRolloutActions env
           (case desired_state of Some state \<Rightarrow> Some (st_plane_name state) | None \<Rightarrow> plane_name)
           node_filter None (db_rollouts s)) (\<lambda>actions.
       res_bind (rollout_view_lifecycle env config desired_state desired_generation actions s)
         (\<lambda>lifecycle. Inr
           \<lparr>rav_plane_name = plane_name, rav_node_name = node_filter,
            rav_desired_state = desired_state, rav_desired_generation = desired_generation,
            rav_actions = actions,
            rav_scheduler_runtime = map_option (\<lambda>_. LoadSchedulerRuntimeView desired_state s)
              desired_state,
            rav_lifecycle = lifecycle,
            rav_gated_worker_count =
              int (length (fold insort_insert (map rar_worker_name actions) [])),
            rav_gated_node_count =
              int (length (fold insort_insert (map rar_target_node_name actions) []))\<rparr>)))"

record RebalancePlanViewData =
  rpv_desired_state :: DesiredState
  rpv_desired_generation :: int
  rpv_rebalance_entries :: "RebalancePlanEntry list"
  rpv_controller_gate_summary :: RebalanceControllerGateSummary
  rpv_iteration_budget_summary :: RebalanceIterationBudgetSummary
  rpv_policy_summary :: RebalancePolicySummary
  rpv_loop_status :: RebalanceLoopStatusSummary
  rpv_scheduler_runtime :: SchedulerRuntimeView

text \<open>The view of a plane with a desired state; without one the source returns an empty view.\<close>

definition rebalance_plan_view ::
  "controller_env \<Rightarrow> SchedulerServiceConfig \<Rightarrow> string option \<Rightarrow> int \<Rightarrow> string option \<Rightarrow> store \<Rightarrow> DesiredState
   \<Rightarrow> RebalancePlanViewData res" where
  "rebalance_plan_view env config node_filter stale_after_seconds plane_name s state =
     (let plane = st_plane_name state;
          generation = value_or (load_generation_for plane_name s) 0;
          overrides = LoadNodeAvailabilityOverrides None (db_overrides s);
          runtime = LoadSchedulerRuntimeView (Some state) s
      in res_bind (plane_observations env plane s) (\<lambda>observations.
         res_bind (LoadHostAssignments None None (Some plane) (db_assignments s)) (\<lambda>assignments.
         res_bind (plane_rollout_actions env plane s) (\<lambda>actions.
         res_bind (BuildRolloutLifecycleEntries env (ssc_policy config) state generation actions
             assignments observations) (\<lambda>lifecycle.
         res_bind (BuildRebalancePlanEntries env (ssc_policy config) state
             (EvaluateSchedulingPolicy state) overrides lifecycle assignments runtime observations
             stale_after_seconds node_filter) (\<lambda>entries.
           let gate = BuildRebalanceControllerGateSummary env state generation overrides lifecycle
                 assignments runtime observations stale_after_seconds;
               budget = BuildRebalanceIterationBudgetSummary (value_or (LoadRebalanceIteration s) 0)
                 (ssc_maximum_rebalance_iterations config);
               policy = BuildRebalancePolicySummary entries
           in Inr \<lparr>rpv_desired_state = state, rpv_desired_generation = generation,
             rpv_rebalance_entries = entries, rpv_controller_gate_summary = gate,
             rpv_iteration_budget_summary = budget, rpv_policy_summary = policy,
             rpv_loop_status = BuildRebalanceLoopStatusSummary gate budget policy,
             rpv_scheduler_runtime = runtime\<rparr>))))))"

definition LoadRebalancePlanViewData ::
  "controller_env \<Rightarrow> SchedulerServiceConfig \<Rightarrow> string option \<Rightarrow> int \<Rightarrow> string option \<Rightarrow> store
   \<Rightarrow> RebalancePlanViewData option res" where
  "LoadRebalancePlanViewData env config node_filter stale_after_seconds plane_name s =
     res_bind (load_state_for env plane_name s) (\<lambda>desired_state.
       case desired_state of
         None \<Rightarrow> Inr None
       | Some state \<Rightarrow> res_bind (rebalance_plan_view env config node_filter stale_after_seconds
             plane_name s state) (\<lambda>view. Inr (Some view)))"

section \<open>Realising a desired state\<close>

definition FindRolloutActionById :: "RolloutActionRecord list \<Rightarrow> int \<Rightarrow> RolloutActionRecord option" where
  "FindRolloutActionById actions action_id = find (\<lambda>a. rar_id a = action_id) actions"

text \<open>The desired state and generation of the latest plane; most operations need both.\<close>

definition no_state_error :: cpp_error where
  "no_state_error = RuntimeError ''no desired state found in controller db''"

definition load_current ::
  "controller_env \<Rightarrow> (DesiredState \<times> int) option action" where
  "load_current env = act_read (\<lambda>s.
     res_bind (LoadDesiredState env s) (\<lambda>state.
       case (state, LoadDesiredGeneration s) of
         (Some st, Some generation) \<Rightarrow> Inr (Some (st, generation))
       | _ \<Rightarrow> Inr None))"

definition require_current :: "controller_env \<Rightarrow> (DesiredState \<times> int) action" where
  "require_current env = act_bind (load_current env) (\<lambda>current.
     case current of None \<Rightarrow> act_throw no_state_error | Some c \<Rightarrow> act_return c)"

definition replace_desired_state ::
  "controller_env \<Rightarrow> DesiredState \<Rightarrow> int \<Rightarrow> int \<Rightarrow> unit action" where
  "replace_desired_state env state generation iteration = act_commit (\<lambda>s.
     res_bind (ReplaceDesiredState env state generation iteration (db_planes s)) (\<lambda>rows.
       Inr (s\<lparr>db_planes := rows\<rparr>)))"

definition replace_rollout_actions ::
  "controller_env \<Rightarrow> string \<Rightarrow> int \<Rightarrow> SchedulerRolloutAction list \<Rightarrow> unit action" where
  "replace_rollout_actions env plane generation actions = act_commit (\<lambda>s.
     res_bind (ReplaceRolloutActions env plane generation actions (db_rollouts s)) (\<lambda>table.
       Inr (s\<lparr>db_rollouts := table\<rparr>)))"

definition replace_host_assignments ::
  "controller_env \<Rightarrow> SchedulerServiceConfig \<Rightarrow> DesiredState \<Rightarrow> int \<Rightarrow> NodeAvailabilityOverride list
   \<Rightarrow> HostObservation list \<Rightarrow> unit action" where
  "replace_host_assignments env config state generation overrides observations = act_commit (\<lambda>s.
     res_bind (BuildHostAssignments env (ssc_default_stale_after_seconds config) state
         (ssc_artifacts_root config) generation overrides observations
         (Some (EvaluateSchedulingPolicy state))) (\<lambda>assignments.
       Inr (s\<lparr>db_assignments :=
         ReplaceHostAssignments (\<lambda>_. env_now env) assignments (db_assignments s)\<rparr>)))"

definition upsert_plane_runtime :: "controller_env \<Rightarrow> SchedulerPlaneRuntime \<Rightarrow> unit action" where
  "upsert_plane_runtime env runtime = act_update (\<lambda>s.
     s\<lparr>db_plane_runtime := UpsertSchedulerPlaneRuntime env runtime (db_plane_runtime s)\<rparr>)"

definition clear_plane_runtime :: "string \<Rightarrow> unit action" where
  "clear_plane_runtime plane = act_update (\<lambda>s.
     s\<lparr>db_plane_runtime := ClearSchedulerPlaneRuntime plane (db_plane_runtime s)\<rparr>)"

definition update_rollout_status ::
  "controller_env \<Rightarrow> int \<Rightarrow> RolloutActionStatus \<Rightarrow> string \<Rightarrow> bool action" where
  "update_rollout_status env action_id status message = (\<lambda>s.
     case UpdateRolloutActionStatus env action_id status message (db_rollouts s) of
       (table, found) \<Rightarrow> (Inr found, s\<lparr>db_rollouts := table\<rparr>))"

definition set_rollout_status ::
  "controller_env \<Rightarrow> int \<Rightarrow> RolloutActionStatus \<Rightarrow> string \<Rightarrow> unit action" where
  "set_rollout_status env action_id status message =
     act_bind (update_rollout_status env action_id status message) (\<lambda>_. act_return ())"

definition enqueue_evictions ::
  "controller_env \<Rightarrow> SchedulerServiceConfig \<Rightarrow> DesiredState \<Rightarrow> int \<Rightarrow> RolloutActionRecord
   \<Rightarrow> HostAssignment list action" where
  "enqueue_evictions env config state generation action =
     act_bind (act_read (\<lambda>s. LoadHostAssignments None None None (db_assignments s))) (\<lambda>existing.
     act_bind (act_lift (BuildEvictionAssignmentsForAction env (ssc_default_artifacts_root config)
         state generation action existing)) (\<lambda>assignments.
     act_then (act_update (\<lambda>s. s\<lparr>db_assignments := EnqueueHostAssignments (\<lambda>_. env_now env)
         assignments (''superseded by rollout eviction action id='' @ to_string (rar_id action))
         (db_assignments s)\<rparr>))
     (act_return assignments)))"

section \<open>Rebalancing\<close>

definition rebalance_runtime ::
  "string \<Rightarrow> int \<Rightarrow> RebalancePlanEntry \<Rightarrow> string \<Rightarrow> SchedulerPlaneRuntime" where
  "rebalance_runtime plane generation entry previous_state_json =
     \<lparr>spr_plane_name = plane, spr_active_action = ''rebalance'',
      spr_active_worker_name = rpe_worker_name entry, spr_phase = ''verifying-move'',
      spr_action_generation = generation, spr_stable_samples = 0, spr_rollback_attempt_count = 0,
      spr_source_node_name = rpe_current_node_name entry,
      spr_source_gpu_device = rpe_current_gpu_device entry,
      spr_target_node_name = rpe_target_node_name entry,
      spr_target_gpu_device = rpe_target_gpu_device entry,
      spr_previous_state_json = previous_state_json,
      spr_status_message = ''awaiting post-move verification'',
      spr_started_at = [], spr_updated_at = []\<rparr>"

definition rebalance_payload :: "int \<Rightarrow> RebalancePlanEntry \<Rightarrow> json" where
  "rebalance_payload generation entry = json_object
     [(''desired_generation'', JInt generation),
      (''source_node'', JString (rpe_current_node_name entry)),
      (''source_gpu'', JString (rpe_current_gpu_device entry)),
      (''target_node'', JString (rpe_target_node_name entry)),
      (''target_gpu'', JString (rpe_target_gpu_device entry)),
      (''action'', JString (rpe_action entry)), (''score'', JInt (rpe_score entry))]"

definition materialize_rebalance ::
  "controller_env \<Rightarrow> SchedulerServiceConfig \<Rightarrow> DesiredState \<Rightarrow> int \<Rightarrow> int \<Rightarrow> HostObservation list
   \<Rightarrow> RebalancePlanEntry \<Rightarrow> unit action" where
  "materialize_rebalance env config state generation iteration observations entry =
     act_bind (act_lift (MaterializeRebalancePlanEntry entry state)) (\<lambda>updated.
     act_then (act_lift (RequireSchedulingPolicy updated))
     (let next_generation = generation + 1 in
      act_bind (act_read (\<lambda>s. Inr (LoadNodeAvailabilityOverrides None (db_overrides s)))) (\<lambda>overrides.
      act_bind (act_lift (BuildNodeExecutionPlans (env_dump env) (Some state) updated
          (ssc_artifacts_root config))) (\<lambda>host_plans.
      act_seq
        [act_files (MaterializeComposeArtifacts env updated host_plans),
         act_files (MaterializeInferRuntimeArtifact env updated (ssc_artifacts_root config)),
         replace_desired_state env updated next_generation (iteration + 1),
         replace_rollout_actions env (st_plane_name updated) next_generation
           (rep_rollout_actions (EvaluateSchedulingPolicy updated)),
         replace_host_assignments env config updated next_generation overrides observations,
         act_bind (act_lift (SerializeDesiredStateJson (env_dump env) state)) (\<lambda>previous.
           upsert_plane_runtime env
             (rebalance_runtime (st_plane_name updated) next_generation entry previous)),
         append_event env ''scheduler'' ''rebalance-materialized''
           ''materialized safe-direct rebalance proposal''
           (rebalance_payload next_generation entry) (st_plane_name updated)
           (rpe_target_node_name entry) (rpe_worker_name entry) None None ''info'']))))"

definition view_entries :: "RebalancePlanViewData option \<Rightarrow> RebalancePlanEntry list" where
  "view_entries view = (case view of None \<Rightarrow> [] | Some v \<Rightarrow> rpv_rebalance_entries v)"

definition view_exhausted :: "RebalancePlanViewData option \<Rightarrow> bool" where
  "view_exhausted view =
     (case view of None \<Rightarrow> False | Some v \<Rightarrow> rib_exhausted (rpv_iteration_budget_summary v))"

definition view_cluster_ready :: "RebalancePlanViewData option \<Rightarrow> bool" where
  "view_cluster_ready view =
     (case view of None \<Rightarrow> True | Some v \<Rightarrow> rcg_cluster_ready (rpv_controller_gate_summary v))"

definition budget_error :: "RebalancePlanViewData option \<Rightarrow> cpp_error" where
  "budget_error view = RuntimeError (''rebalance iteration budget exhausted ('' @
     (case view of None \<Rightarrow> ''0/0'' | Some v \<Rightarrow>
       to_string (rib_current_iteration (rpv_iteration_budget_summary v)) @ ''/'' @
       to_string (rib_max_iterations (rpv_iteration_budget_summary v))) @
     ''); apply a fresh bundle or rollout generation before materializing another direct rebalance'')"

definition ApplyRebalanceProposal ::
  "controller_env \<Rightarrow> SchedulerServiceConfig \<Rightarrow> string \<Rightarrow> unit action" where
  "ApplyRebalanceProposal env config worker =
     act_bind (require_current env) (\<lambda>(state, generation).
     act_bind (act_read (\<lambda>s. Inr (value_or (LoadRebalanceIteration s) 0))) (\<lambda>iteration.
     act_bind (act_read (\<lambda>s. Inr (LoadHostObservations None None (db_observations s)))) (\<lambda>observations.
     act_bind (act_read (LoadRebalancePlanViewData env config None
         (ssc_default_stale_after_seconds config) (Some (st_plane_name state)))) (\<lambda>view.
       case find (\<lambda>e. rpe_worker_name e = worker) (view_entries view) of
         None \<Rightarrow> act_throw (RuntimeError
           (''no rebalance plan entry found for worker '' @ quoted worker))
       | Some entry \<Rightarrow>
           if rpe_decision entry \<noteq> ''propose''
           then act_throw (RuntimeError (''worker '' @ quoted worker @
             '' is not actionable for rebalance; current decision='' @ rpe_decision entry @
             '' state='' @ rpe_state entry))
           else if view_exhausted view then act_throw (budget_error view)
           else materialize_rebalance env config state generation iteration observations entry))))"

definition proposal_less :: "RebalancePlanEntry \<Rightarrow> RebalancePlanEntry \<Rightarrow> bool" where
  "proposal_less l r \<longleftrightarrow>
     (if rpe_score l \<noteq> rpe_score r then rpe_score l > rpe_score r
      else rpe_worker_name l < rpe_worker_name r)"

definition actionable_entries :: "RebalancePlanEntry list \<Rightarrow> RebalancePlanEntry list" where
  "actionable_entries entries =
     filter (\<lambda>e. rpe_decision e = ''propose'' \<and> rpe_rebalance_class e = ''safe-direct'') entries"

definition ReconcileRebalanceProposals ::
  "controller_env \<Rightarrow> SchedulerServiceConfig \<Rightarrow> unit action" where
  "ReconcileRebalanceProposals env config =
     act_bind (require_current env) (\<lambda>(state, generation).
     act_bind (act_read (LoadRebalancePlanViewData env config None
         (ssc_default_stale_after_seconds config) (Some (st_plane_name state)))) (\<lambda>view.
       if \<not> view_cluster_ready view then act_return ()
       else case std_sort proposal_less (actionable_entries (view_entries view)) of
         [] \<Rightarrow> act_return ()
       | best # _ \<Rightarrow>
           if view_exhausted view then act_return ()
           else ApplyRebalanceProposal env config (rpe_worker_name best)))"

section \<open>Rollouts\<close>

definition rollout_missing_error :: "int \<Rightarrow> cpp_error" where
  "rollout_missing_error action_id =
     RuntimeError (''rollout action id='' @ to_string action_id @ '' not found'')"

definition rollout_error :: "int \<Rightarrow> string \<Rightarrow> cpp_error" where
  "rollout_error action_id reason =
     RuntimeError (''rollout action id='' @ to_string action_id @ reason)"

definition SetRolloutActionStatus ::
  "controller_env \<Rightarrow> int \<Rightarrow> RolloutActionStatus \<Rightarrow> string option \<Rightarrow> unit action" where
  "SetRolloutActionStatus env action_id status status_message =
     act_bind (update_rollout_status env action_id status (value_or status_message [])) (\<lambda>found.
       if \<not> found then act_throw (rollout_missing_error action_id)
       else act_bind (act_read (\<lambda>s. LoadRolloutActions env None None None (db_rollouts s))) (\<lambda>actions.
         case FindRolloutActionById actions action_id of
           None \<Rightarrow> act_return ()
         | Some a \<Rightarrow> append_event env ''rollout-action'' ''status-updated''
             ''updated rollout action status''
             (json_object [(''status'', JString (ToString_RolloutActionStatus status)),
                (''status_message'', JString (value_or status_message [])),
                (''action'', JString (rar_action a)), (''step'', JInt (rar_step a))])
             (rar_plane_name a) (rar_target_node_name a) (rar_worker_name a) None (Some action_id)
             ''info''))"

definition SetRolloutActionStatusText ::
  "controller_env \<Rightarrow> int \<Rightarrow> string \<Rightarrow> string option \<Rightarrow> unit action" where
  "SetRolloutActionStatusText env action_id requested_status message =
     act_bind (act_lift (ParseRolloutActionStatus requested_status)) (\<lambda>status.
       SetRolloutActionStatus env action_id status message)"

definition eviction_enqueued_message :: "HostAssignment list \<Rightarrow> string" where
  "eviction_enqueued_message assignments =
     ''eviction assignments enqueued on nodes '' @
     JoinStrings (fold insort_insert (map ha_node_name assignments) []) '',''"

definition EnqueueRolloutEviction ::
  "controller_env \<Rightarrow> SchedulerServiceConfig \<Rightarrow> int \<Rightarrow> unit action" where
  "EnqueueRolloutEviction env config action_id =
     act_bind (require_current env) (\<lambda>(state, generation).
     act_bind (act_read (plane_rollout_actions env (st_plane_name state))) (\<lambda>actions.
       case FindRolloutActionById actions action_id of
         None \<Rightarrow> act_throw (rollout_missing_error action_id)
       | Some action \<Rightarrow>
           if rar_desired_generation action \<noteq> generation
           then act_throw (rollout_error action_id
             ('' does not belong to current desired generation '' @ to_string generation))
           else if rar_action action \<noteq> ''evict-best-effort''
           then act_throw (rollout_error action_id '' is not an evict-best-effort action'')
           else if rar_status action \<noteq> RA_Pending \<and> rar_status action \<noteq> RA_Acknowledged
           then act_throw (rollout_error action_id ('' cannot enqueue eviction from status='' @
             ToString_RolloutActionStatus (rar_status action)))
           else act_bind (enqueue_evictions env config state generation action) (\<lambda>assignments.
             let message = eviction_enqueued_message assignments in
             act_then (set_rollout_status env action_id RA_Acknowledged message)
               (append_event env ''rollout-action'' ''eviction-enqueued'' message
                 (json_object [(''victims'', json_strings (rar_victim_worker_names action)),
                    (''target_node'', JString (rar_target_node_name action)),
                    (''target_gpu'', JString (rar_target_gpu_device action))])
                 (st_plane_name state) (rar_target_node_name action) (rar_worker_name action)
                 None (Some action_id) ''info''))))"

text \<open>The steps that must be complete before a retry, and the victims of the last eviction.\<close>

fun prior_victims ::
  "RolloutActionRecord \<Rightarrow> RolloutActionRecord list \<Rightarrow> string list \<Rightarrow> string list res" where
  "prior_victims action [] victims = Inr victims"
| "prior_victims action (c # cs) victims =
     (if rar_desired_generation c \<noteq> rar_desired_generation action \<or>
         rar_worker_name c \<noteq> rar_worker_name action \<or> rar_step c \<ge> rar_step action
      then prior_victims action cs victims
      else if rar_status c \<noteq> RA_ReadyToRetry
      then Inl (RuntimeError (''prior rollout step id='' @ to_string (rar_id c) @
        '' is not ready-to-retry''))
      else prior_victims action cs
        (if rar_action c = ''evict-best-effort'' then rar_victim_worker_names c else victims))"

definition materialize_retry ::
  "controller_env \<Rightarrow> SchedulerServiceConfig \<Rightarrow> DesiredState \<Rightarrow> int \<Rightarrow> RolloutActionRecord \<Rightarrow> string list
   \<Rightarrow> unit action" where
  "materialize_retry env config state generation action victims =
     act_bind (act_lift (MaterializeRetryPlacementAction action victims state)) (\<lambda>updated.
     act_then (act_lift (RequireSchedulingPolicy updated))
     (let next_generation = generation + 1 in
      act_bind (act_read (\<lambda>s. Inr (LoadNodeAvailabilityOverrides None (db_overrides s)))) (\<lambda>overrides.
      act_bind (act_read (\<lambda>s. Inr (LoadHostObservations None None (db_observations s)))) (\<lambda>observations.
      act_seq
        [replace_desired_state env updated next_generation 0,
         clear_plane_runtime (st_plane_name updated),
         replace_rollout_actions env (st_plane_name updated) next_generation
           (rep_rollout_actions (EvaluateSchedulingPolicy updated)),
         replace_host_assignments env config updated next_generation overrides observations,
         append_event env ''rollout-action'' ''retry-placement-applied''
           ''materialized ready rollout action''
           (json_object [(''desired_generation'', JInt next_generation),
              (''target_node'', JString (rar_target_node_name action)),
              (''target_gpu'', JString (rar_target_gpu_device action)),
              (''victims'', json_strings victims)])
           (st_plane_name updated) (rar_target_node_name action) (rar_worker_name action) None
           (Some (rar_id action)) ''info'']))))"

definition ApplyReadyRolloutAction ::
  "controller_env \<Rightarrow> SchedulerServiceConfig \<Rightarrow> int \<Rightarrow> unit action" where
  "ApplyReadyRolloutAction env config action_id =
     act_bind (require_current env) (\<lambda>(state, generation).
     act_bind (act_read (plane_rollout_actions env (st_plane_name state))) (\<lambda>actions.
       case FindRolloutActionById actions action_id of
         None \<Rightarrow> act_throw (rollout_missing_error action_id)
       | Some action \<Rightarrow>
           if rar_status action \<noteq> RA_ReadyToRetry
           then act_throw (rollout_error action_id ('' is not ready-to-retry; current status='' @
             ToString_RolloutActionStatus (rar_status action)))
           else if rar_action action \<noteq> ''retry-placement''
           then act_throw (rollout_error action_id '' is not a retry-placement action'')
           else act_bind (act_lift (prior_victims action actions [])) (\<lambda>victims.
             materialize_retry env config state generation action victims)))"

definition reconcile_eviction ::
  "controller_env \<Rightarrow> SchedulerServiceConfig \<Rightarrow> DesiredState \<Rightarrow> int \<Rightarrow> RolloutActionRecord \<Rightarrow> unit action" where
  "reconcile_eviction env config state generation action =
     (if rar_status action = RA_Pending
      then act_bind (enqueue_evictions env config state generation action) (\<lambda>_.
        set_rollout_status env (rar_id action) RA_Acknowledged
          ''controller-managed eviction assignments enqueued'')
      else if rar_status action = RA_Acknowledged
      then act_bind (act_read (\<lambda>s. LoadHostAssignments None None None (db_assignments s)))
        (\<lambda>assignments.
          if AreRolloutEvictionAssignmentsApplied assignments (rar_id action)
          then act_then (set_rollout_status env (rar_id action) RA_ReadyToRetry
              ''eviction assignments applied'')
            (act_update (\<lambda>s. s\<lparr>db_worker_runtime := MarkWorkersEvicted env (st_plane_name state)
              (rar_victim_worker_names action) (db_worker_runtime s)\<rparr>))
          else act_return ())
      else act_return ())"

text \<open>The id of the retry to materialise, when the action has become ready.\<close>

definition reconcile_retry ::
  "controller_env \<Rightarrow> DesiredState \<Rightarrow> int \<Rightarrow> int option action" where
  "reconcile_retry env state action_id =
     (let load = act_read (plane_rollout_actions env (st_plane_name state)) in
      act_bind load (\<lambda>actions.
        case FindRolloutActionById actions action_id of
          None \<Rightarrow> act_return None
        | Some current \<Rightarrow>
            act_bind (case FindPriorRolloutActionForWorker actions current ''evict-best-effort'' of
                Some prior \<Rightarrow>
                  if rar_status current = RA_Pending \<and> rar_status prior = RA_ReadyToRetry
                  then act_then (set_rollout_status env (rar_id current) RA_ReadyToRetry
                      ''preceding eviction completed'')
                    (act_bind load (\<lambda>actions. act_return (FindRolloutActionById actions action_id)))
                  else act_return (Some current)
              | None \<Rightarrow> act_return (Some current))
            (\<lambda>current. act_return (case current of
                Some c \<Rightarrow> if rar_status c = RA_ReadyToRetry then Some (rar_id c) else None
              | None \<Rightarrow> None))))"

fun reconcile_rollouts ::
  "controller_env \<Rightarrow> SchedulerServiceConfig \<Rightarrow> DesiredState \<Rightarrow> int \<Rightarrow> RolloutActionRecord list
   \<Rightarrow> int option action" where
  "reconcile_rollouts env config state generation [] = act_return None"
| "reconcile_rollouts env config state generation (action # actions) =
     (if rar_action action = ''evict-best-effort''
      then act_then (reconcile_eviction env config state generation action)
        (reconcile_rollouts env config state generation actions)
      else if rar_action action \<noteq> ''retry-placement''
      then reconcile_rollouts env config state generation actions
      else act_bind (reconcile_retry env state (rar_id action)) (\<lambda>ready.
        case ready of
          Some action_id \<Rightarrow> act_return (Some action_id)
        | None \<Rightarrow> reconcile_rollouts env config state generation actions))"

text \<open>The views that are loaded for printing may throw.\<close>

definition load_rollout_report ::
  "controller_env \<Rightarrow> SchedulerServiceConfig \<Rightarrow> string \<Rightarrow> unit action" where
  "load_rollout_report env config plane =
     act_bind (act_read (plane_rollout_actions env plane)) (\<lambda>_.
     act_bind (load_current env) (\<lambda>current.
       case current of
         None \<Rightarrow> act_return ()
       | Some (state, _) \<Rightarrow>
           act_bind (act_read (LoadRolloutActionsViewData env (ssc_policy config) None
             (Some (st_plane_name state)))) (\<lambda>_. act_return ())))"

definition ReconcileRolloutActions ::
  "controller_env \<Rightarrow> SchedulerServiceConfig \<Rightarrow> unit action" where
  "ReconcileRolloutActions env config =
     act_bind (require_current env) (\<lambda>(state, generation).
     act_bind (act_read (plane_rollout_actions env (st_plane_name state))) (\<lambda>all_actions.
       case filter (\<lambda>a. rar_desired_generation a = generation) all_actions of
         [] \<Rightarrow> act_return ()
       | actions \<Rightarrow>
           act_bind (reconcile_rollouts env config state generation actions) (\<lambda>ready.
             case ready of
               Some action_id \<Rightarrow> ApplyReadyRolloutAction env config action_id
             | None \<Rightarrow> load_rollout_report env config (st_plane_name state))))"

section \<open>The active action\<close>

definition action_payload :: "SchedulerPlaneRuntime \<Rightarrow> json" where
  "action_payload r = json_object [(''worker'', JString (spr_active_worker_name r)),
     (''generation'', JInt (spr_action_generation r)), (''phase'', JString (spr_phase r))]"

definition scheduler_event ::
  "controller_env \<Rightarrow> string \<Rightarrow> string \<Rightarrow> json \<Rightarrow> string \<Rightarrow> SchedulerPlaneRuntime \<Rightarrow> string \<Rightarrow> unit action" where
  "scheduler_event env event_type message payload plane r severity =
     append_event env ''scheduler'' event_type message payload plane (spr_target_node_name r)
       (spr_active_worker_name r) None None severity"

definition apply_rollback ::
  "controller_env \<Rightarrow> SchedulerServiceConfig \<Rightarrow> int \<Rightarrow> SchedulerPlaneRuntime \<Rightarrow> unit action" where
  "apply_rollback env config generation runtime =
     (if spr_previous_state_json runtime = []
      then act_throw (RuntimeError ''rollback-planned action has no previous desired state payload'')
      else act_bind (act_lift (DeserializeDesiredStateJson (env_parse env) (env_render_v2 env)
          (spr_previous_state_json runtime))) (\<lambda>state.
        act_then (act_lift (RequireSchedulingPolicy state))
        (act_bind (act_read (\<lambda>s. Inr (LoadNodeAvailabilityOverrides None (db_overrides s)))) (\<lambda>overrides.
         act_bind (act_read (\<lambda>s. Inr (LoadHostObservations None None (db_observations s))))
           (\<lambda>observations.
           let rollback_generation = generation + 1;
               updated = runtime\<lparr>spr_phase := ''rollback-applied'',
                 spr_action_generation := rollback_generation, spr_stable_samples := 0,
                 spr_rollback_attempt_count := 1, spr_started_at := UtcNowSqlTimestamp env,
                 spr_status_message := ''rollback materialized after verification timeout''\<rparr>
           in act_seq
             [replace_desired_state env state rollback_generation 0,
              replace_rollout_actions env (st_plane_name state) rollback_generation
                (rep_rollout_actions (EvaluateSchedulingPolicy state)),
              replace_host_assignments env config state rollback_generation overrides observations,
              upsert_plane_runtime env updated,
              scheduler_event env ''rollback-applied'' (spr_status_message updated)
                (action_payload updated) (st_plane_name state) updated ''info''])))))"

text \<open>The worker's history after a verification that timed out.\<close>

definition record_failure ::
  "controller_env \<Rightarrow> SchedulerPlaneRuntime \<Rightarrow> string \<Rightarrow> string \<Rightarrow> bool \<Rightarrow> unit action" where
  "record_failure env r phase detail manual = act_update (\<lambda>s. s\<lparr>db_worker_runtime :=
     UpsertSchedulerWorkerRuntime env
       ((value_or (LoadSchedulerWorkerRuntime (spr_active_worker_name r) (db_worker_runtime s))
          default_SchedulerWorkerRuntime)\<lparr>
         swr_plane_name := spr_plane_name r, swr_worker_name := spr_active_worker_name r,
         swr_last_scheduler_phase := phase, swr_last_status_message := detail,
         swr_manual_intervention_required := manual\<rparr>) (db_worker_runtime s)\<rparr>)"

definition finish_verified ::
  "controller_env \<Rightarrow> SchedulerPlaneRuntime \<Rightarrow> string \<Rightarrow> unit action" where
  "finish_verified env r detail = act_seq
     [act_update (\<lambda>s. case MarkWorkerMoveVerified env r (db_worker_runtime s, db_node_runtime s) of
        (workers, nodes) \<Rightarrow> s\<lparr>db_worker_runtime := workers, db_node_runtime := nodes\<rparr>),
      scheduler_event env ''move-verified'' detail
        (json_object [(''worker'', JString (spr_active_worker_name r)),
          (''generation'', JInt (spr_action_generation r)), (''phase'', JString (spr_phase r)),
          (''stable_samples'', JInt (spr_stable_samples r))]) (spr_plane_name r) r ''info'',
      clear_plane_runtime (spr_plane_name r)]"

definition plan_rollback ::
  "controller_env \<Rightarrow> SchedulerPlaneRuntime \<Rightarrow> string \<Rightarrow> unit action" where
  "plan_rollback env r detail =
     (let updated = r\<lparr>spr_phase := ''rollback-planned'', spr_stable_samples := 0,
            spr_started_at := UtcNowSqlTimestamp env,
            spr_status_message := ''verification timed out; rollback planned''\<rparr>
      in act_seq [record_failure env r ''failed-verification'' detail False,
           upsert_plane_runtime env updated,
           scheduler_event env ''rollback-planned'' detail (action_payload updated)
             (spr_plane_name updated) updated ''warning''])"

definition require_intervention ::
  "controller_env \<Rightarrow> SchedulerPlaneRuntime \<Rightarrow> string \<Rightarrow> unit action" where
  "require_intervention env r detail = act_seq
     [record_failure env r ''manual-intervention-required'' detail True,
      scheduler_event env ''manual-intervention-required'' detail (action_payload r)
        (spr_plane_name r) r ''error'',
      clear_plane_runtime (spr_plane_name r)]"

definition verify_action ::
  "controller_env \<Rightarrow> SchedulerPlaneRuntime \<Rightarrow> SchedulerVerificationResult \<Rightarrow> unit action" where
  "verify_action env runtime verification =
     (let detail = svr_detail verification;
          updated = runtime\<lparr>spr_stable_samples := svr_next_stable_samples verification,
            spr_status_message := detail\<rparr>
      in if svr_stable verification then finish_verified env updated detail
         else if \<not> svr_timed_out verification then upsert_plane_runtime env updated
         else if spr_rollback_attempt_count updated = 0 \<and> spr_previous_state_json updated \<noteq> []
         then plan_rollback env updated detail
         else require_intervention env updated detail)"

definition AdvanceActiveSchedulerAction ::
  "controller_env \<Rightarrow> SchedulerServiceConfig \<Rightarrow> unit action" where
  "AdvanceActiveSchedulerAction env config =
     act_bind (load_current env) (\<lambda>current.
       case current of
         None \<Rightarrow> act_return ()
       | Some (state, generation) \<Rightarrow>
           act_bind (act_read (\<lambda>s. Inr
             (LoadSchedulerPlaneRuntime (st_plane_name state) (db_plane_runtime s)))) (\<lambda>runtime.
             case runtime of
               None \<Rightarrow> act_return ()
             | Some r \<Rightarrow>
                 if spr_active_action r = [] then act_return ()
                 else if spr_phase r = ''rollback-planned'' then apply_rollback env config generation r
                 else act_bind (act_read (\<lambda>s. EvaluateSchedulerActionVerification env
                     (ssc_verification config) r
                     (LoadHostObservations None None (db_observations s))))
                   (verify_action env r)))"

section \<open>The tick\<close>

text \<open>
  The flag \<open>has_active_rollout\<close> of the source is not kept: it is set only when there are rollout
  actions, and then the tick has returned before the flag is read.
\<close>

definition SchedulerTick :: "controller_env \<Rightarrow> SchedulerServiceConfig \<Rightarrow> unit action" where
  "SchedulerTick env config =
     act_bind (Reconcile env None) (\<lambda>_.
     act_bind (load_current env) (\<lambda>current.
       case current of
         None \<Rightarrow> act_return ()
       | Some (state, generation) \<Rightarrow>
           act_bind (act_read (\<lambda>s. Inr
             (LoadSchedulerPlaneRuntime (st_plane_name state) (db_plane_runtime s)))) (\<lambda>runtime.
             if (case runtime of None \<Rightarrow> False | Some r \<Rightarrow> spr_active_action r \<noteq> [])
             then AdvanceActiveSchedulerAction env config
             else act_bind (act_read (plane_rollout_actions env (st_plane_name state))) (\<lambda>actions.
               if actions \<noteq> [] then ReconcileRolloutActions env config
               else ReconcileRebalanceProposals env config))))"

end
