(* ===== verification/Naim_Host_Reconciliation_Props.thy ===== *)
theory Naim_Host_Reconciliation_Props
  imports Naim_Host_Reconciliation
begin

text \<open>
  What the reconciliation of claimed assignments may change: it always returns on a well-formed
  table, and every change is justified by a newer assignment or by what plane and host report.
\<close>

section \<open>Symbolic execution of operations\<close>

lemma act_run:
  "act_return x s = (Inr x, s)" "act_throw e s = (Inl e, s)" "act_lift r s = (r, s)"
  "act_read q s = (q s, s)" "act_update f s = (Inr (), f s)"
  "act_then m k s = act_bind m (\<lambda>_. k) s"
  by (simp_all add: act_return_def act_throw_def act_lift_def act_read_def act_update_def act_then_def)

lemma act_bind_run: "m s = (Inr x, s') \<Longrightarrow> act_bind m f s = f x s'"
  by (simp add: act_bind_def)

lemma act_seq_run: "m s = (Inr (), s') \<Longrightarrow> act_seq (m # ms) s = act_seq ms s'"
  by (simp add: act_run act_bind_run)

lemma act_seq_done: "act_seq [] s = (Inr (), s)"
  by (simp add: act_run)

section \<open>The latest assignment of a node\<close>

lemma latest_fold:
  fixes m :: "(string, HostAssignment) omap"
  defines "step \<equiv> \<lambda>a latest. case omap_get latest (ha_node_name a) of
         None \<Rightarrow> omap_put (ha_node_name a) a latest
       | Some b \<Rightarrow> if ha_id a > ha_id b then omap_put (ha_node_name a) a latest else latest"
  assumes "\<And>n b. omap_get m n = Some b \<Longrightarrow> ha_node_name b = n \<and> b \<in> set bs"
    and "\<And>b. b \<in> set bs \<Longrightarrow> \<exists>c. omap_get m (ha_node_name b) = Some c \<and> ha_id b \<le> ha_id c"
  shows "(omap_get (fold step as m) n = Some b \<longrightarrow> ha_node_name b = n \<and> b \<in> set bs \<union> set as) \<and>
    (\<forall>b \<in> set bs \<union> set as. \<exists>c. omap_get (fold step as m) (ha_node_name b) = Some c \<and> ha_id b \<le> ha_id c)"
  using assms(2,3)
proof (induction as arbitrary: m bs)
  case (Cons a as)
  let ?m = "step a m"
  have 1: "ha_node_name b = n \<and> b \<in> set (a # bs)" if "omap_get ?m n = Some b" for n b
    using that Cons.prems(1)[of n b] by (auto simp: step_def split: option.splits if_splits)
  have 2: "\<exists>c. omap_get ?m (ha_node_name b) = Some c \<and> ha_id b \<le> ha_id c" if "b \<in> set (a # bs)" for b
  proof (cases "ha_node_name b = ha_node_name a")
    case True
    then show ?thesis
      using that Cons.prems(2)[of b]
      by (cases "omap_get m (ha_node_name a)") (fastforce simp: step_def)+
  next
    case False
    then show ?thesis using that Cons.prems(2)[of b] by (auto simp: step_def split: option.splits)
  qed
  from Cons.IH[of ?m "a # bs", OF 1 2] show ?case by auto
qed auto

lemma BuildLatestAssignmentsByNode_spec:
  assumes "a \<in> set as"
  obtains b where "omap_get (BuildLatestAssignmentsByNode as) (ha_node_name a) = Some b"
    "b \<in> set as" "ha_node_name b = ha_node_name a"
    "\<And>c. c \<in> set as \<Longrightarrow> ha_node_name c = ha_node_name a \<Longrightarrow> ha_id c \<le> ha_id b"
proof -
  let ?m = "BuildLatestAssignmentsByNode as"
  have 1: "omap_get ?m n = Some b \<Longrightarrow> ha_node_name b = n \<and> b \<in> set as" for n b
    using latest_fold[of "[]" "[]" as n b] by (simp add: BuildLatestAssignmentsByNode_def)
  have 2: "c \<in> set as \<Longrightarrow> \<exists>b. omap_get ?m (ha_node_name c) = Some b \<and> ha_id c \<le> ha_id b" for c
    using latest_fold[of "[]" "[]" as "[]" c] by (simp add: BuildLatestAssignmentsByNode_def)
  obtain b where b: "omap_get ?m (ha_node_name a) = Some b" using 2[OF assms] by blast
  have "ha_id c \<le> ha_id b" if "c \<in> set as" "ha_node_name c = ha_node_name a" for c
    using 2[OF that(1)] that(2) b by simp
  with that[OF b] 1[OF b] show ?thesis by blast
qed

section \<open>What a reconciliation does to a row\<close>

definition replaced :: "assignment_row list \<Rightarrow> assignment_row \<Rightarrow> bool" where
  "replaced rows r \<longleftrightarrow> list_ex (\<lambda>r2. row_plane_name r2 = row_plane_name r \<and>
     row_node_name r2 = row_node_name r \<and> row_id r < row_id r2) rows"

definition converged_row :: "store \<Rightarrow> assignment_row \<Rightarrow> bool" where
  "converged_row s r \<longleftrightarrow>
     (case LoadPlane (row_plane_name r) (db_planes s) of
        None \<Rightarrow> False
      | Some p \<Rightarrow> row_desired_generation r \<le> pl_applied_generation p) \<and>
     (case find (\<lambda>o'. ho_node_name o' = row_node_name r)
         (LoadHostObservations None None (db_observations s)) of
        None \<Rightarrow> False
      | Some o' \<Rightarrow> ho_plane_name o' = row_plane_name r \<and> ho_status o' = HO_Applied \<and>
          (case ho_last_assignment_id o' of None \<Rightarrow> False | Some i \<Rightarrow> row_id r \<le> i) \<and>
          (case ho_applied_generation o' of None \<Rightarrow> False | Some g \<Rightarrow> row_desired_generation r \<le> g))"

definition settle_row :: "controller_env \<Rightarrow> store \<Rightarrow> assignment_row \<Rightarrow> assignment_row" where
  "settle_row env s r =
     (if row_status r \<noteq> ''claimed'' \<or> row_assignment_type r \<noteq> ''apply-node-state'' then r
      else if replaced (tab_rows (db_assignments s)) r
      then set_status (env_now env) HA_Superseded superseded_message r
      else if converged_row s r then set_status (env_now env) HA_Applied applied_message r
      else r)"

definition settled_rows :: "controller_env \<Rightarrow> store \<Rightarrow> int set \<Rightarrow> assignment_table" where
  "settled_rows env s ids = (db_assignments s)\<lparr>tab_rows :=
     map (\<lambda>r. if row_id r \<in> ids then settle_row env s r else r) (tab_rows (db_assignments s))\<rparr>"

lemma settle_row_keeps [simp]:
  "row_id (settle_row env s r) = row_id r" "row_plane_name (settle_row env s r) = row_plane_name r"
  "row_node_name (settle_row env s r) = row_node_name r"
  by (simp_all add: settle_row_def set_status_def)

lemma settled_rows_none: "settled_rows env s {} = db_assignments s"
  by (simp add: settled_rows_def)

lemma table_ok_settled:
  assumes "table_ok (db_assignments s)"
  shows "table_ok (settled_rows env s ids)"
proof -
  have "row_ok r \<Longrightarrow> row_ok (settle_row env s r)" for r
    by (simp add: settle_row_def set_status_ok)
  moreover have "map row_id (map (\<lambda>r. if row_id r \<in> ids then settle_row env s r else r) rows) = map row_id rows"
    for rows by simp
  ultimately show ?thesis
    using assms unfolding table_ok_def settled_rows_def by (auto simp: list_all_iff simp del: map_map)
qed

section \<open>One assignment\<close>

lemma res_map_list_images:
  assumes "res_map_list f xs = Inr ys"
  shows "x \<in> set xs \<Longrightarrow> \<exists>y \<in> set ys. f x = Inr y" "y \<in> set ys \<Longrightarrow> \<exists>x \<in> set xs. f x = Inr y"
  using assms by (auto simp: res_map_list_Inr_iff list_all2_conv_all_nth in_set_conv_nth)
    (metis nth_mem)

lemma ReadHostAssignment_fields:
  "ReadHostAssignment r = Inr a \<Longrightarrow> ha_id a = row_id r \<and> ha_node_name a = row_node_name r \<and>
   ha_plane_name a = row_plane_name r \<and> ha_desired_generation a = row_desired_generation r \<and>
   ha_assignment_type a = row_assignment_type r"
  by (auto simp: ReadHostAssignment_def res_bind_Inr_iff)

lemma loaded_settled:
  assumes "LoadHostAssignments None None (Some plane) (settled_rows env s ids) = Inr as"
  shows "b \<in> set as \<Longrightarrow> \<exists>r \<in> set (tab_rows (db_assignments s)). row_id r = ha_id b \<and>
      row_node_name r = ha_node_name b \<and> row_plane_name r = bind_text plane"
    and "r \<in> set (tab_rows (db_assignments s)) \<Longrightarrow> row_plane_name r = bind_text plane \<Longrightarrow>
      \<exists>b \<in> set as. ha_id b = row_id r \<and> ha_node_name b = row_node_name r"
proof -
  note images = res_map_list_images[OF assms[unfolded LoadHostAssignments_def]]
  show "\<exists>r \<in> set (tab_rows (db_assignments s)). row_id r = ha_id b \<and>
      row_node_name r = ha_node_name b \<and> row_plane_name r = bind_text plane" if b: "b \<in> set as"
  proof -
    obtain x where x: "x \<in> set (tab_rows (settled_rows env s ids))" "row_plane_name x = bind_text plane"
      "ReadHostAssignment x = Inr b"
      using images(2)[OF b] by auto
    with ReadHostAssignment_fields[OF x(3)] show ?thesis
      by (auto simp: settled_rows_def split: if_splits)
  qed
  show "\<exists>b \<in> set as. ha_id b = row_id r \<and> ha_node_name b = row_node_name r"
    if r: "r \<in> set (tab_rows (db_assignments s))" "row_plane_name r = bind_text plane"
  proof -
    define x where "x = (if row_id r \<in> ids then settle_row env s r else r)"
    have keys: "row_id x = row_id r" "row_node_name x = row_node_name r" "row_plane_name x = bind_text plane"
      using r(2) by (simp_all add: x_def)
    have "x \<in> set (tab_rows (settled_rows env s ids))"
      using r(1) unfolding settled_rows_def x_def by (auto intro!: imageI)
    with keys(3) obtain b where "b \<in> set as" "ReadHostAssignment x = Inr b"
      using images(1)[of x] by auto
    with ReadHostAssignment_fields[of x b] keys show ?thesis by auto
  qed
qed

text \<open>The assignments that a reconciliation starts from.\<close>

definition claimed_from :: "store \<Rightarrow> HostAssignment \<Rightarrow> bool" where
  "claimed_from s a \<longleftrightarrow> list_ex (\<lambda>r. ReadHostAssignment r = Inr a \<and> row_status r = ''claimed'' \<and>
     row_assignment_type r = ''apply-node-state'' \<and> bind_text (row_plane_name r) = row_plane_name r)
     (tab_rows (db_assignments s))"

lemma supersede_iff_replaced:
  assumes "LoadHostAssignments None None (Some (row_plane_name r)) (settled_rows env s ids) = Inr as"
    and "r \<in> set (tab_rows (db_assignments s))" "bind_text (row_plane_name r) = row_plane_name r"
    and "ReadHostAssignment r = Inr a"
  shows "ShouldSupersedeClaimedAssignment a (BuildLatestAssignmentsByNode as) \<longleftrightarrow>
    replaced (tab_rows (db_assignments s)) r"
proof -
  note loaded = loaded_settled[OF assms(1), unfolded assms(3)]
  note fields = ReadHostAssignment_fields[OF assms(4)]
  obtain own where own: "own \<in> set as" "ha_id own = row_id r" "ha_node_name own = row_node_name r"
    using loaded(2)[OF assms(2)] by auto
  obtain b where b: "omap_get (BuildLatestAssignmentsByNode as) (ha_node_name own) = Some b"
    "b \<in> set as" "ha_node_name b = ha_node_name own"
    "\<And>c. c \<in> set as \<Longrightarrow> ha_node_name c = ha_node_name own \<Longrightarrow> ha_id c \<le> ha_id b"
    using BuildLatestAssignmentsByNode_spec[OF own(1)] by blast
  have "ShouldSupersedeClaimedAssignment a (BuildLatestAssignmentsByNode as) \<longleftrightarrow> ha_id b \<noteq> row_id r"
    using b(1) own(3) fields by (simp add: ShouldSupersedeClaimedAssignment_def)
  also have "\<dots> \<longleftrightarrow> row_id r < ha_id b" using b(4)[OF own(1)] own(2) by auto
  also have "\<dots> \<longleftrightarrow> replaced (tab_rows (db_assignments s)) r"
  proof
    assume "row_id r < ha_id b"
    with loaded(1)[OF b(2)] b(3) own(3) show "replaced (tab_rows (db_assignments s)) r"
      by (auto simp: replaced_def list_ex_iff)
  next
    assume "replaced (tab_rows (db_assignments s)) r"
    then obtain r2 where r2: "r2 \<in> set (tab_rows (db_assignments s))" "row_plane_name r2 = row_plane_name r"
      "row_node_name r2 = row_node_name r" "row_id r < row_id r2"
      by (auto simp: replaced_def list_ex_iff)
    with loaded(2)[OF r2(1,2)] b(4) own(3) show "row_id r < ha_id b" by fastforce
  qed
  finally show ?thesis .
qed

lemma mark_iff_converged:
  assumes "ReadHostAssignment r = Inr a"
  shows "ShouldMarkClaimedAssignmentApplied a (LoadPlane (row_plane_name r) (db_planes s))
      (FindObservationForNode (LoadHostObservations None None (db_observations s)) (ha_node_name a)) \<longleftrightarrow>
    converged_row s r"
  using ReadHostAssignment_fields[OF assms]
  by (auto simp: ShouldMarkClaimedAssignmentApplied_def converged_row_def FindObservationForNode_def
      split: option.splits)

lemma transition_settles:
  assumes "table_ok (db_assignments s)" "r \<in> set (tab_rows (db_assignments s))" "row_status r = ''claimed''"
    and "status \<noteq> HA_Claimed" "settle_row env s r = set_status (env_now env) status message r"
  shows "fst (TransitionClaimedHostAssignment (env_now env) (row_id r) status message
      (settled_rows env s ids)) = settled_rows env s (insert (row_id r) ids)"
proof -
  have "ToString_HostAssignmentStatus status \<noteq> ''claimed''" using assms(4) by (cases status) simp_all
  then have "(if row_id y = row_id r \<and> row_status y = ''claimed'' then set_status (env_now env) status message y else y) =
      (if row_id x \<in> insert (row_id r) ids then settle_row env s x else x)"
    if "x \<in> set (tab_rows (db_assignments s))" "y = (if row_id x \<in> ids then settle_row env s x else x)" for x y
    using table_ok_unique[OF assms(1) that(1) assms(2)] that(2) assms(3,5)
    by (cases "row_id x = row_id r") (auto simp: set_status_def)
  then show ?thesis
    by (simp add: TransitionClaimedHostAssignment_def case_prod_beta' Let_def settled_rows_def)
qed

lemma settled_rows_unchanged:
  assumes "table_ok (db_assignments s)" "r \<in> set (tab_rows (db_assignments s))" "settle_row env s r = r"
  shows "settled_rows env s (insert (row_id r) ids) = settled_rows env s ids"
proof -
  have "(if row_id x \<in> insert (row_id r) ids then settle_row env s x else x) =
      (if row_id x \<in> ids then settle_row env s x else x)"
    if "x \<in> set (tab_rows (db_assignments s))" for x
    using table_ok_unique[OF assms(1) that assms(2)] assms(3) by (cases "row_id x = row_id r") auto
  then show ?thesis by (simp add: settled_rows_def)
qed

lemma reconcile_assignment_settles:
  assumes "table_ok (db_assignments s)" "claimed_from s a"
    and "LoadHostAssignments None None (Some (ha_plane_name a)) (settled_rows env s ids0) = Inr as"
    and "fst tr = settled_rows env s ids"
  shows "fst (reconcile_assignment env (LoadPlane (ha_plane_name a) (db_planes s))
    (BuildLatestAssignmentsByNode as) (LoadHostObservations None None (db_observations s)) a tr) =
    settled_rows env s (insert (ha_id a) ids)"
proof -
  obtain r where r: "r \<in> set (tab_rows (db_assignments s))" "ReadHostAssignment r = Inr a"
    "row_status r = ''claimed''" "row_assignment_type r = ''apply-node-state''"
    "bind_text (row_plane_name r) = row_plane_name r"
    using assms(2) by (auto simp: claimed_from_def list_ex_iff)
  note fields = ReadHostAssignment_fields[OF r(2)]
  note sup = supersede_iff_replaced[OF assms(3)[unfolded conjunct1[OF conjunct2[OF conjunct2[OF fields]]]]
      r(1,5,2)]
  note mark = mark_iff_converged[OF r(2), of s]
  note settles = transition_settles[OF assms(1) r(1,3)]
  show ?thesis
    using fields sup mark assms(4) r(3,4) settles[of HA_Superseded env superseded_message ids]
      settles[of HA_Applied env applied_message ids] settled_rows_unchanged[OF assms(1) r(1), of env ids]
    by (cases tr) (auto simp: reconcile_assignment_def settle_row_def case_prod_beta' Let_def)
qed

section \<open>A whole reconciliation\<close>

lemma reconcile_fold_settles:
  assumes "table_ok (db_assignments s)" "list_all (claimed_from s) claimed"
    and "list_all (\<lambda>a. ha_plane_name a = plane) claimed"
    and "LoadHostAssignments None None (Some plane) (settled_rows env s ids0) = Inr as"
    and "fst tr = settled_rows env s ids"
  shows "fst (fold (reconcile_assignment env (LoadPlane plane (db_planes s))
    (BuildLatestAssignmentsByNode as) (LoadHostObservations None None (db_observations s))) claimed tr) =
    settled_rows env s (ids \<union> ha_id ` set claimed)"
  using assms(2,3,5)
proof (induction claimed arbitrary: tr ids)
  case (Cons a claimed)
  let ?f = "reconcile_assignment env (LoadPlane plane (db_planes s))
    (BuildLatestAssignmentsByNode as) (LoadHostObservations None None (db_observations s))"
  have "fst (?f a tr) = settled_rows env s (insert (ha_id a) ids)"
    using reconcile_assignment_settles[OF assms(1), of a env ids0 as tr ids] Cons.prems assms(4) by simp
  with Cons.IH[of "?f a tr" "insert (ha_id a) ids"] Cons.prems show ?case by simp
qed simp

lemma ReconcilePlane_settles:
  assumes "table_ok (db_assignments s)" "list_all (claimed_from s) claimed"
  shows "\<exists>result. ReconcilePlane env plane claimed (LoadHostObservations None None (db_observations s))
      (s\<lparr>db_assignments := settled_rows env s ids\<rparr>) =
    (Inr result, s\<lparr>db_assignments := settled_rows env s
       (ids \<union> ha_id ` {a \<in> set claimed. ha_plane_name a = plane})\<rparr>)"
proof -
  obtain as where as: "LoadHostAssignments None None (Some plane) (settled_rows env s ids) = Inr as"
    using LoadHostAssignments_total table_ok_settled[OF assms(1)] by blast
  let ?start = "(settled_rows env s ids, \<lparr>rr_applied = 0, rr_superseded = 0\<rparr>)"
  have "fst (fold (reconcile_assignment env (LoadPlane plane (db_planes s))
      (BuildLatestAssignmentsByNode as) (LoadHostObservations None None (db_observations s)))
      (filter (\<lambda>a. ha_plane_name a = plane) claimed) ?start) =
    settled_rows env s (ids \<union> ha_id ` {a \<in> set claimed. ha_plane_name a = plane})"
    using reconcile_fold_settles[OF assms(1) _ _ as, of "filter (\<lambda>a. ha_plane_name a = plane) claimed" ?start ids]
      assms(2) by (simp add: list_all_iff)
  with as show ?thesis by (simp add: ReconcilePlane_def case_prod_beta' Let_def)
qed

lemma reconcile_planes_settles:
  assumes "table_ok (db_assignments s)" "list_all (claimed_from s) claimed"
  shows "\<exists>result'. reconcile_planes env claimed (LoadHostObservations None None (db_observations s))
      planes result (s\<lparr>db_assignments := settled_rows env s ids\<rparr>) =
    (Inr result', s\<lparr>db_assignments := settled_rows env s
       (ids \<union> ha_id ` {a \<in> set claimed. ha_plane_name a \<in> set planes})\<rparr>)"
proof (induction planes arbitrary: ids result)
  case Nil
  then show ?case by (simp add: act_run)
next
  case (Cons plane planes)
  obtain r where "ReconcilePlane env plane claimed (LoadHostObservations None None (db_observations s))
      (s\<lparr>db_assignments := settled_rows env s ids\<rparr>) =
    (Inr r, s\<lparr>db_assignments := settled_rows env s
       (ids \<union> ha_id ` {a \<in> set claimed. ha_plane_name a = plane})\<rparr>)"
    using ReconcilePlane_settles[OF assms] by blast
  moreover have "ids \<union> ha_id ` {a \<in> set claimed. ha_plane_name a = plane} \<union>
      ha_id ` {a \<in> set claimed. ha_plane_name a \<in> set planes} =
    ids \<union> ha_id ` {a \<in> set claimed. ha_plane_name a \<in> set (plane # planes)}"
    by auto
  ultimately show ?case
    using Cons.IH[of _ "ids \<union> ha_id ` {a \<in> set claimed. ha_plane_name a = plane}"]
    by (simp add: act_bind_def)
qed

lemma BuildPlaneNames_set: "set (BuildPlaneNames claimed) = ha_plane_name ` set claimed"
proof -
  have "set (fold insort_insert xs ys) = set xs \<union> set ys" for xs ys :: "string list"
    by (induction xs arbitrary: ys) (auto simp: set_insort_insert)
  then show ?thesis by (simp add: BuildPlaneNames_def)
qed

definition plane_texts :: "assignment_table \<Rightarrow> bool" where
  "plane_texts t \<longleftrightarrow> list_all (\<lambda>r. bind_text (row_plane_name r) = row_plane_name r) (tab_rows t)"

definition in_plane :: "string option \<Rightarrow> assignment_row \<Rightarrow> bool" where
  "in_plane plane r \<longleftrightarrow> (case plane of None \<Rightarrow> True | Some p \<Rightarrow> row_plane_name r = bind_text p)"

lemma LoadClaimedApplyAssignments_spec:
  assumes "table_ok (db_assignments s)" "plane_texts (db_assignments s)"
  obtains claimed where "LoadClaimedApplyAssignments plane s = Inr claimed"
    "list_all (claimed_from s) claimed"
    "ha_id ` set claimed = row_id ` {r \<in> set (tab_rows (db_assignments s)). in_plane plane r \<and>
       row_status r = ''claimed'' \<and> row_assignment_type r = ''apply-node-state''}"
proof -
  obtain loaded where l: "LoadHostAssignments None (Some HA_Claimed) plane (db_assignments s) = Inr loaded"
    using LoadHostAssignments_total[OF assms(1)] by blast
  note images = res_map_list_images[OF l[unfolded LoadHostAssignments_def]]
  let ?claimed = "filter (\<lambda>a. ha_assignment_type a = ''apply-node-state'') loaded"
  show ?thesis
  proof (rule that[of ?claimed])
    show "LoadClaimedApplyAssignments plane s = Inr ?claimed"
      using l by (simp add: LoadClaimedApplyAssignments_def)
    show "list_all (claimed_from s) ?claimed"
      using images(2) assms(2) ReadHostAssignment_fields
      by (fastforce simp: list_all_iff list_ex_iff claimed_from_def plane_texts_def)
    show "ha_id ` set ?claimed = row_id ` {r \<in> set (tab_rows (db_assignments s)). in_plane plane r \<and>
       row_status r = ''claimed'' \<and> row_assignment_type r = ''apply-node-state''}" (is "?L = ?R")
    proof
      show "?L \<subseteq> ?R"
        using images(2) ReadHostAssignment_fields by (fastforce simp: in_plane_def image_iff)
      show "?R \<subseteq> ?L"
        using images(1) ReadHostAssignment_fields by (fastforce simp: in_plane_def image_iff)
    qed
  qed
qed

lemma settled_rows_claimed:
  assumes "table_ok (db_assignments s)"
    and "ids = row_id ` {r \<in> set (tab_rows (db_assignments s)). in_plane plane r \<and>
       row_status r = ''claimed'' \<and> row_assignment_type r = ''apply-node-state''}"
  shows "settled_rows env s ids = (db_assignments s)\<lparr>tab_rows :=
    map (\<lambda>r. if in_plane plane r then settle_row env s r else r) (tab_rows (db_assignments s))\<rparr>"
proof -
  have "(if row_id r \<in> ids then settle_row env s r else r) =
      (if in_plane plane r then settle_row env s r else r)"
    if "r \<in> set (tab_rows (db_assignments s))" for r
    using table_ok_unique[OF assms(1) _ that] that assms(2) by (auto simp: settle_row_def)
  then show ?thesis by (simp add: settled_rows_def)
qed

lemma Reconcile_settles:
  assumes "table_ok (db_assignments s)" "plane_texts (db_assignments s)"
  shows "\<exists>result. Reconcile env plane s = (Inr result, s\<lparr>db_assignments := (db_assignments s)\<lparr>tab_rows :=
    map (\<lambda>r. if in_plane plane r then settle_row env s r else r) (tab_rows (db_assignments s))\<rparr>\<rparr>)"
proof -
  obtain claimed where c: "LoadClaimedApplyAssignments plane s = Inr claimed" "list_all (claimed_from s) claimed"
    "ha_id ` set claimed = row_id ` {r \<in> set (tab_rows (db_assignments s)). in_plane plane r \<and>
       row_status r = ''claimed'' \<and> row_assignment_type r = ''apply-node-state''}"
    using LoadClaimedApplyAssignments_spec[OF assms] by blast
  note rows = settled_rows_claimed[OF assms(1) c(3), of env]
  have "\<exists>result. Reconcile env plane s = (Inr result, s\<lparr>db_assignments := settled_rows env s (ha_id ` set claimed)\<rparr>)"
  proof (cases "claimed = []")
    case True
    with c(1) show ?thesis by (simp add: Reconcile_def act_bind_def act_run settled_rows_none)
  next
    case False
    have "{a \<in> set claimed. ha_plane_name a \<in> set (BuildPlaneNames claimed)} = set claimed"
      by (auto simp: BuildPlaneNames_set)
    with c(1) False show ?thesis
      using reconcile_planes_settles[OF assms(1) c(2), of env "BuildPlaneNames claimed"
          "\<lparr>rr_applied = 0, rr_superseded = 0\<rparr>" "{}"]
      by (simp add: Reconcile_def act_bind_def act_run settled_rows_none)
  qed
  then show ?thesis by (simp only: rows)
qed

text \<open>Plane names are stored without NUL, so that a query finds them again.\<close>

lemma bind_text_idem [simp]: "bind_text (bind_text x) = bind_text x"
  unfolding bind_text_def takeWhile_eq_all_conv by (auto dest: set_takeWhileD)

lemma plane_texts_update:
  assumes "plane_texts t" "\<And>r. row_plane_name (f r) = row_plane_name r"
  shows "plane_texts (fst (sql_update p f t))"
  using assms by (auto simp: plane_texts_def list_all_iff)

lemma plane_texts_insert: "plane_texts t \<Longrightarrow> plane_texts (InsertAssignment now a t)"
  by (simp add: plane_texts_def InsertAssignment_def bind_text_idem)

lemma plane_texts_supersede:
  "plane_texts t \<Longrightarrow> plane_texts (fst (SupersedeHostAssignmentsForPlane now plane message t))"
  "plane_texts t \<Longrightarrow> plane_texts (supersede_for_node now reason a t)"
  unfolding SupersedeHostAssignmentsForPlane_def supersede_for_node_def
  by (auto intro!: plane_texts_update simp: supersede_row_def)

lemma plane_texts_insert_all: "plane_texts t \<Longrightarrow> plane_texts (insert_all clock k as t)"
  by (induction as arbitrary: k t) (simp_all add: plane_texts_insert)

lemma plane_texts_replace: "plane_texts t \<Longrightarrow> plane_texts (ReplaceHostAssignments clock as t)"
  by (cases as)
    (simp_all add: ReplaceHostAssignments_def plane_texts_insert_all plane_texts_insert plane_texts_supersede)

lemma plane_texts_enqueue:
  "plane_texts t \<Longrightarrow> plane_texts (EnqueueHostAssignments_from clock k as reason t)"
  by (induction as arbitrary: k t) (simp_all add: plane_texts_insert plane_texts_supersede)

lemma plane_texts_claim:
  assumes "plane_texts t" "ClaimNextHostAssignment clock node t = Inr (res, t')"
  shows "plane_texts t'"
proof -
  have "plane_texts (expired clock node t)"
    unfolding expired_def expire_proxy_def expire_lease_def by (intro plane_texts_update assms(1)) simp_all
  moreover from this have "plane_texts (mark_claimed now i (expired clock node t))" for now i
    unfolding mark_claimed_def by (rule plane_texts_update) simp
  ultimately show ?thesis
    using assms(2) by (auto simp: ClaimNext_expired res_bind_Inr_iff split: option.splits)
qed

lemma plane_texts_single_row:
  assumes "plane_texts t"
  shows "plane_texts (fst (UpdateHostAssignmentProgress now i progress t))"
    and "plane_texts (fst (TransitionClaimedHostAssignment now i status message t))"
    and "plane_texts (fst (RetryFailedHostAssignment now i message t))"
    and "plane_texts (UpdateHostAssignmentStatus now i status message t)"
  unfolding UpdateHostAssignmentProgress_def TransitionClaimedHostAssignment_def
    RetryFailedHostAssignment_def UpdateHostAssignmentStatus_def
    case_prod_beta' Let_def fst_conv
  by (rule plane_texts_update[OF assms]; simp add: set_status_def)+

lemma plane_texts_reachable: "assignment_reachable t \<Longrightarrow> plane_texts t"
proof (induction rule: assignment_reachable.induct)
  case empty
  then show ?case by (simp add: plane_texts_def)
next
  case (step t t')
  from step(2,3) show ?case
    by (induction rule: assignment_step.induct)
      (simp_all add: plane_texts_replace plane_texts_enqueue EnqueueHostAssignments_def
        plane_texts_supersede plane_texts_single_row plane_texts_claim)
qed

section \<open>Reconciliation always returns\<close>

lemma reconcile_assignment_ok:
  "table_ok (fst tr) \<Longrightarrow> table_ok (fst (reconcile_assignment env plane latest observations a tr))"
  by (auto simp: reconcile_assignment_def case_prod_beta' Let_def table_ok_single_row)

lemma reconcile_fold_ok:
  "table_ok (fst tr) \<Longrightarrow> table_ok (fst (fold (reconcile_assignment env plane latest observations) as tr))"
  by (induction as arbitrary: tr) (simp_all add: reconcile_assignment_ok)

lemma ReconcilePlane_total:
  assumes "table_ok (db_assignments s)"
  shows "\<exists>result table. ReconcilePlane env plane claimed observations s =
    (Inr result, s\<lparr>db_assignments := table\<rparr>) \<and> table_ok table"
proof -
  obtain as where "LoadHostAssignments None None (Some plane) (db_assignments s) = Inr as"
    using LoadHostAssignments_total[OF assms] by blast
  then show ?thesis
    using reconcile_fold_ok[of "(db_assignments s, \<lparr>rr_applied = 0, rr_superseded = 0\<rparr>)"] assms
    by (simp add: ReconcilePlane_def case_prod_beta' Let_def) blast
qed

lemma reconcile_planes_total:
  "table_ok (db_assignments s) \<Longrightarrow> \<exists>result' table. reconcile_planes env claimed observations planes result s =
    (Inr result', s\<lparr>db_assignments := table\<rparr>) \<and> table_ok table"
proof (induction planes arbitrary: s result)
  case Nil
  then show ?case by (auto simp: act_run intro!: exI[of _ "db_assignments s"])
next
  case (Cons plane planes)
  obtain r table where "ReconcilePlane env plane claimed observations s =
      (Inr r, s\<lparr>db_assignments := table\<rparr>)" "table_ok table"
    using ReconcilePlane_total[OF Cons.prems] by blast
  with Cons.IH[of "s\<lparr>db_assignments := table\<rparr>"] show ?case by (simp add: act_bind_def)
qed

lemma Reconcile_total:
  assumes "table_ok (db_assignments s)"
  obtains result table where "Reconcile env None s = (Inr result, s\<lparr>db_assignments := table\<rparr>)"
    "table_ok table"
proof -
  obtain claimed where c: "LoadClaimedApplyAssignments None s = Inr claimed"
    using LoadHostAssignments_total[OF assms, of None "Some HA_Claimed" None]
    by (auto simp: LoadClaimedApplyAssignments_def)
  show ?thesis
  proof (cases "claimed = []")
    case True
    with c assms show ?thesis
      by (intro that[of "\<lparr>rr_applied = 0, rr_superseded = 0\<rparr>" "db_assignments s"])
        (simp_all add: Reconcile_def act_bind_def act_run)
  next
    case False
    obtain result table where "reconcile_planes env claimed (LoadHostObservations None None (db_observations s))
        (BuildPlaneNames claimed) \<lparr>rr_applied = 0, rr_superseded = 0\<rparr> s =
        (Inr result, s\<lparr>db_assignments := table\<rparr>)" "table_ok table"
      using reconcile_planes_total[OF assms] by blast
    with c False show ?thesis
      by (intro that[of result table]) (simp_all add: Reconcile_def act_bind_def act_run)
  qed
qed

section \<open>The effect of a reconciliation\<close>

text \<open>
  \<^bold>\<open>C7.\<close> Reconciliation of claimed assignments returns on every table the repository can produce and
  changes nothing but the assignment table. There it treats each row of the selected planes on
  its own: a claimed assignment that applies a node state is marked superseded exactly when the
  plane has a newer assignment for the same node, and otherwise marked applied exactly when the
  plane and the host both report its generation; every other row stays as it is.
\<close>

theorem reconciliation_settles:
  assumes "assignment_reachable (db_assignments s)"
  shows "\<exists>result. Reconcile env plane s = (Inr result, s\<lparr>db_assignments := (db_assignments s)\<lparr>tab_rows :=
    map (\<lambda>r. if in_plane plane r then settle_row env s r else r) (tab_rows (db_assignments s))\<rparr>\<rparr>)"
  using Reconcile_settles[OF table_ok_reachable[OF assms] plane_texts_reachable[OF assms]] .

text \<open>A queue whose first assignment was claimed, with a host that reports it applied.\<close>

definition reported_table :: assignment_table where
  "reported_table = claimed_table (ClaimNextHostAssignment (\<lambda>_. 0) ''n'' sample_table)"

definition reported_store :: store where
  "reported_store =
     \<lparr>db_planes = [\<lparr>pl_name = ''p'', pl_shared_disk_name = [], pl_control_root = [], pl_artifacts_root = [],
        pl_plane_mode = ''compute'', pl_generation = 1, pl_applied_generation = 1,
        pl_rebalance_iteration = 0, pl_state = ''running'', pl_created_at = [],
        pl_desired_state_json = []\<rparr>],
      db_columns = (\<lambda>_. Inl (RuntimeError [])), db_assignments = reported_table,
      db_observations = [\<lparr>ho_node_name = ''n'', ho_plane_name = ''p'', ho_applied_generation = Some 1,
        ho_last_assignment_id = Some 1, ho_status = HO_Applied, ho_status_message = [],
        ho_observed_state_json = [], ho_runtime_status_json = [], ho_instance_runtime_json = [],
        ho_gpu_telemetry_json = [], ho_disk_telemetry_json = [], ho_network_telemetry_json = [],
        ho_cpu_telemetry_json = [], ho_heartbeat_at = []\<rparr>],
      db_overrides = [], db_rollouts = \<lparr>rot_rows = [], rot_next_id = 1\<rparr>, db_plane_runtime = [],
      db_worker_runtime = [], db_node_runtime = [], db_events = [], db_next_event_id = 1, db_files = []\<rparr>"

definition reporting_controller :: controller_env where
  "reporting_controller = \<lparr>env_now = 30, env_parse = (\<lambda>_. Inl (JsonError 101)),
     env_dump = (\<lambda>_. Inr []), env_dump_compact = (\<lambda>_. Inr []),
     env_render_v2 = (\<lambda>_. Inl (JsonError 302)), env_project_v2 = (\<lambda>_. Inl (JsonError 302)),
     env_internal_host = None\<rparr>"

lemma reported_reachable: "assignment_reachable (db_assignments reported_store)"
proof -
  obtain a where "ClaimNextHostAssignment (\<lambda>_. 0) ''n'' sample_table = Inr (Some a, reported_table)"
    using claimed_idD[OF sample_claims(1)] unfolding reported_table_def by blast
  then show ?thesis
    unfolding reported_store_def
    using assignment_reachable.step[OF sample_table_reachable assignment_step.claim] by simp
qed

theorem reconciliation_settles_witness:
  "\<exists>result t. Reconcile reporting_controller None reported_store =
     (Inr result, reported_store\<lparr>db_assignments := t\<rparr>) \<and>
     map row_status (tab_rows reported_table) = [''claimed'', ''pending''] \<and>
     map row_status (tab_rows t) = [''applied'', ''pending'']"
proof -
  define t where "t = (db_assignments reported_store)\<lparr>tab_rows :=
    map (\<lambda>r. if in_plane None r then settle_row reporting_controller reported_store r else r)
      (tab_rows (db_assignments reported_store))\<rparr>"
  have "map row_status (tab_rows reported_table) = [''claimed'', ''pending'']"
    by code_simp
  moreover have "map row_status (tab_rows t) = [''applied'', ''pending'']"
    unfolding t_def by code_simp
  moreover obtain result where "Reconcile reporting_controller None reported_store =
      (Inr result, reported_store\<lparr>db_assignments := t\<rparr>)"
    using reconciliation_settles[OF reported_reachable, of reporting_controller None]
    unfolding t_def by (rule exE)
  ultimately show ?thesis by (intro exI[of _ result] exI[of _ t] conjI)
qed

end
