(* ===== verification/Naim_Scheduler_Liveness.thy ===== *)
theory Naim_Scheduler_Liveness
  imports Naim_Scheduler_Service Naim_Host_Reconciliation_Props
begin

text \<open>
  The active action of a plane ends. A move that is never verified times out, is rolled back,
  and when the rollback is not verified either, is handed to an operator: once every tick comes
  at least the verification timeout after the one before, three ticks are enough. The hosts may
  change observations, assignments and events between the ticks as they like, as long as the
  controller can read them.
\<close>

section \<open>What the hosts may do\<close>

definition observation_readable :: "controller_env \<Rightarrow> HostObservation \<Rightarrow> bool" where
  "observation_readable env o' \<longleftrightarrow>
     (\<exists>x. ParseRuntimeStatus env o' = Inr x) \<and> (\<exists>x. ParseInstanceRuntimeStatuses env o' = Inr x) \<and>
     (\<exists>x. ParseGpuTelemetry env o' = Inr x)"

definition store_readable :: "controller_env \<Rightarrow> store \<Rightarrow> bool" where
  "store_readable env s \<longleftrightarrow>
     list_all (observation_readable env) (db_observations s) \<and> table_ok (db_assignments s)"

definition host_activity :: "store \<Rightarrow> store \<Rightarrow> bool" where
  "host_activity s s' \<longleftrightarrow> (\<exists>observations assignments events event_id.
     s' = s\<lparr>db_observations := observations, db_assignments := assignments, db_events := events,
       db_next_event_id := event_id\<rparr>)"

text \<open>The printers of the JSON library accept every document, as they do on valid UTF-8.\<close>

definition documents_print :: "controller_env \<Rightarrow> bool" where
  "documents_print env \<longleftrightarrow>
     (\<forall>j. \<exists>x. env_dump env j = Inr x) \<and> (\<forall>j. \<exists>x. env_dump_compact env j = Inr x)"

text \<open>
  The state that an action would be rolled back to: it can be read and is admitted, and the
  version 2 document it is stored as can be read again.
\<close>

definition restorable :: "controller_env \<Rightarrow> string \<Rightarrow> string \<Rightarrow> bool" where
  "restorable env plane document \<longleftrightarrow>
     (\<exists>state projected stored restored.
        DeserializeDesiredStateJson (env_parse env) (env_render_v2 env) document = Inr state \<and>
        st_plane_name state = plane \<and> RequireSchedulingPolicy state = Inr () \<and>
        env_project_v2 env state = Inr projected \<and> env_dump env projected = Inr stored \<and>
        bind_text stored = stored \<and> stored \<noteq> [] \<and>
        DeserializeDesiredStateJson (env_parse env) (env_render_v2 env) stored = Inr restored \<and>
        st_plane_name restored = plane)"

text \<open>The plane that the scheduler works on, with a desired state of its own name.\<close>

definition scheduled_plane :: "controller_env \<Rightarrow> string \<Rightarrow> store \<Rightarrow> bool" where
  "scheduled_plane env plane s \<longleftrightarrow>
     LoadLatestPlaneName (db_planes s) = Some plane \<and> bind_text plane = plane \<and>
     (\<exists>state. LoadDesiredState env s = Inr (Some state) \<and> st_plane_name state = plane)"

lemma env_now_irrelevant [simp]:
  "observation_readable (env\<lparr>env_now := t\<rparr>) = observation_readable env"
  "store_readable (env\<lparr>env_now := t\<rparr>) = store_readable env"
  "documents_print (env\<lparr>env_now := t\<rparr>) = documents_print env"
  "restorable (env\<lparr>env_now := t\<rparr>) = restorable env"
  "scheduled_plane (env\<lparr>env_now := t\<rparr>) = scheduled_plane env"
  by (auto simp: fun_eq_iff observation_readable_def store_readable_def documents_print_def
      restorable_def scheduled_plane_def ParseRuntimeStatus_def ParseInstanceRuntimeStatuses_def
      ParseGpuTelemetry_def LoadDesiredState_def LoadDesiredStateOf_def LoadDesiredStateFromJson_def
      list_all_iff split: option.splits)

lemma scheduled_plane_cong:
  assumes "db_planes s' = db_planes s" "db_columns s' = db_columns s"
  shows "scheduled_plane env plane s' = scheduled_plane env plane s"
proof -
  have "LoadDesiredStateOf env s' = LoadDesiredStateOf env s"
    by (intro ext) (simp only: LoadDesiredStateOf_def assms)
  then have "LoadDesiredState env s' = LoadDesiredState env s"
    by (simp only: LoadDesiredState_def assms)
  with assms show ?thesis by (simp add: scheduled_plane_def)
qed

lemma scheduled_plane_load:
  assumes "scheduled_plane env plane s"
  obtains state generation where "load_current env s = (Inr (Some (state, generation)), s)"
    "st_plane_name state = plane"
proof -
  obtain state where st: "LoadDesiredState env s = Inr (Some state)" "st_plane_name state = plane"
    and latest: "LoadLatestPlaneName (db_planes s) = Some plane"
    using assms by (auto simp: scheduled_plane_def)
  then have "find_plane plane (db_planes s) \<noteq> None"
    by (cases "find_plane plane (db_planes s)")
      (auto simp: LoadDesiredState_def LoadDesiredStateOf_def LoadDesiredStateFromJson_def)
  then obtain generation where "LoadDesiredGeneration s = Some generation"
    using latest by (auto simp: LoadDesiredGeneration_def LoadDesiredGenerationOf_def)
  with st show thesis by (intro that[of state generation]) (simp_all add: load_current_def act_run)
qed

section \<open>Verification always returns\<close>

lemma timestamp_age:
  assumes "0 \<le> t" "t < 253402300800"
  shows "TimestampAgeSeconds env (sql_timestamp t) = Some (env_now env - t)"
proof -
  obtain m where "get_time (sql_timestamp t) = Some m" "timegm m = t"
    using timestamp_roundtrip[OF assms] by auto
  then show ?thesis using assms(1) by (simp add: TimestampAgeSeconds_def HeartbeatAgeSeconds_def Let_def)
qed

lemma FindHostObservationForNode_readable:
  "list_all (observation_readable env) obs \<Longrightarrow> FindHostObservationForNode obs n = Some o' \<Longrightarrow>
   observation_readable env o'"
  by (auto simp: FindHostObservationForNode_def find_Some_iff list_all_length)

lemma LoadHostObservations_readable:
  "list_all (observation_readable env) obs \<Longrightarrow>
   list_all (observation_readable env) (LoadHostObservations n p obs)"
  by (auto simp: LoadHostObservations_def list_all_iff)

lemma source_cleared_total:
  "list_all (observation_readable env) obs \<Longrightarrow> \<exists>c. source_cleared env r obs = Inr c"
  using FindHostObservationForNode_readable[of env obs "cleared_node r"]
  by (cases "FindHostObservationForNode obs (cleared_node r)")
    (auto simp: source_cleared_def observation_readable_def)

lemma observe_move_total:
  assumes "list_all (observation_readable env) obs"
  shows "\<exists>v. observe_move env config r obs = Inr v"
proof (cases "FindHostObservationForNode obs (expected_node r)")
  case (Some target)
  with FindHostObservationForNode_readable[OF assms Some] source_cleared_total[OF assms, of r]
  show ?thesis by (auto simp: observe_move_def observation_readable_def Let_def)
qed (simp add: observe_move_def Let_def)

lemma verification_total:
  assumes "list_all (observation_readable env) obs"
  obtains v where "EvaluateSchedulerActionVerification env config r obs = Inr v"
    "svr_timed_out v = (case TimestampAgeSeconds env (spr_started_at r) of
       None \<Rightarrow> False | Some age \<Rightarrow> age \<ge> sev_verification_timeout_seconds config)"
proof -
  obtain v where "observe_move env config r obs = Inr v"
    using observe_move_total[OF assms] by blast
  then show thesis
    by (intro that[of "v\<lparr>svr_timed_out := (case TimestampAgeSeconds env (spr_started_at r) of
       None \<Rightarrow> False | Some age \<Rightarrow> age \<ge> sev_verification_timeout_seconds config)\<rparr>"])
      (simp_all add: EvaluateSchedulerActionVerification_def)
qed

section \<open>One tick\<close>

definition plane_runtime_of :: "string \<Rightarrow> store \<Rightarrow> SchedulerPlaneRuntime option" where
  "plane_runtime_of plane s = LoadSchedulerPlaneRuntime plane (db_plane_runtime s)"

text \<open>An action under way, as a row of the table holds it.\<close>

definition action_row :: "SchedulerPlaneRuntime \<Rightarrow> bool" where
  "action_row r \<longleftrightarrow> spr_active_action r \<noteq> [] \<and> bind_text (spr_active_action r) = spr_active_action r \<and>
     bind_text (spr_previous_state_json r) = spr_previous_state_json r"

lemma plane_runtime_of_name:
  "plane_runtime_of plane s = Some r \<Longrightarrow> spr_plane_name r = bind_text plane"
  by (auto simp: plane_runtime_of_def LoadSchedulerPlaneRuntime_def load_row_def find_Some_iff)

lemma event_total:
  assumes "documents_print env"
  shows "\<exists>s'. scheduler_event env event_type message payload plane r severity s = (Inr (), s') \<and>
    db_planes s' = db_planes s \<and> db_columns s' = db_columns s \<and>
    db_plane_runtime s' = db_plane_runtime s"
proof -
  obtain x where "env_dump_compact env payload = Inr x"
    using assms by (auto simp: documents_print_def)
  then show ?thesis
    by (simp add: scheduler_event_def append_event_def act_bind_def act_run AppendEvent_def)
qed

lemma runtime_row_text:
  "0 \<le> t \<Longrightarrow> t < 253402300800 \<Longrightarrow> bind_text (sql_timestamp t) = sql_timestamp t"
  using sql_timestamp_chars[of t] by (auto simp: bind_text_def takeWhile_eq_all_conv)

lemma upsert_runtime_load:
  assumes "spr_plane_name r = plane" "bind_text plane = plane"
  shows "LoadSchedulerPlaneRuntime plane (UpsertSchedulerPlaneRuntime env r rows) =
    Some (plane_runtime_row (sql_timestamp (env_now env)) r)"
proof -
  let ?row = "plane_runtime_row (sql_timestamp (env_now env)) r"
  have "spr_started_at ?row \<noteq> []" by (simp add: plane_runtime_row_def coalesce_text_def)
  then have merge: "merge_plane_runtime old ?row = ?row" for old
    by (simp add: merge_plane_runtime_def coalesce_text_def)
  have key: "spr_plane_name ?row = plane" by (simp add: plane_runtime_row_def assms)
  show ?thesis
    using plane_runtime.load_upsert_same[of ?row rows]
    by (simp add: LoadSchedulerPlaneRuntime_def UpsertSchedulerPlaneRuntime_def key assms(2) merge
        split: option.splits)
qed

lemma clear_runtime_load:
  "bind_text plane = plane \<Longrightarrow>
   LoadSchedulerPlaneRuntime plane (ClearSchedulerPlaneRuntime plane rows) = None"
  by (simp add: LoadSchedulerPlaneRuntime_def ClearSchedulerPlaneRuntime_def plane_runtime.load_delete)

lemma tick_active:
  assumes "scheduled_plane env plane s" "store_readable env s"
    and "plane_runtime_of plane s = Some r" "spr_active_action r \<noteq> []"
  obtains table generation where "SchedulerTick env config s =
    (if spr_phase r = ''rollback-planned'' then apply_rollback env config generation r
     else act_bind (act_read (\<lambda>s. EvaluateSchedulerActionVerification env (ssc_verification config) r
         (LoadHostObservations None None (db_observations s)))) (verify_action env r))
    (s\<lparr>db_assignments := table\<rparr>)"
proof -
  obtain result table where rec: "Reconcile env None s = (Inr result, s\<lparr>db_assignments := table\<rparr>)"
    using Reconcile_total[of s] assms(2) unfolding store_readable_def by metis
  let ?s = "s\<lparr>db_assignments := table\<rparr>"
  have "scheduled_plane env plane ?s"
    using assms(1) scheduled_plane_cong[of ?s s env plane] by simp
  then obtain state generation where cur: "load_current env ?s = (Inr (Some (state, generation)), ?s)"
    "st_plane_name state = plane"
    by (rule scheduled_plane_load)
  show thesis
    using rec cur assms(3,4)
    by (intro that[of generation table])
      (simp add: SchedulerTick_def AdvanceActiveSchedulerAction_def act_bind_def act_run
        plane_runtime_of_def)
qed

lemma tick_verifies:
  assumes "scheduled_plane env plane s" "store_readable env s"
    and "plane_runtime_of plane s = Some r" "spr_active_action r \<noteq> []"
    and "spr_phase r \<noteq> ''rollback-planned''"
    and "EvaluateSchedulerActionVerification env (ssc_verification config) r
      (LoadHostObservations None None (db_observations s)) = Inr v"
  shows "\<exists>table. SchedulerTick env config s = verify_action env r v (s\<lparr>db_assignments := table\<rparr>)"
proof -
  obtain table generation where "SchedulerTick env config s =
    (if spr_phase r = ''rollback-planned'' then apply_rollback env config generation r
     else act_bind (act_read (\<lambda>s. EvaluateSchedulerActionVerification env (ssc_verification config) r
         (LoadHostObservations None None (db_observations s)))) (verify_action env r))
    (s\<lparr>db_assignments := table\<rparr>)"
    by (rule tick_active[OF assms(1-4)])
  with assms(5,6) show ?thesis by (intro exI[of _ table]) (simp add: act_bind_def act_run)
qed

text \<open>The outcome of a tick for an action that has timed out.\<close>

definition rollback_pending :: "controller_env \<Rightarrow> SchedulerPlaneRuntime \<Rightarrow> SchedulerPlaneRuntime \<Rightarrow> bool" where
  "rollback_pending env r r' \<longleftrightarrow> action_row r' \<and> spr_phase r' = ''rollback-planned'' \<and>
     spr_rollback_attempt_count r' = 0 \<and> spr_started_at r' = sql_timestamp (env_now env) \<and>
     spr_previous_state_json r' = spr_previous_state_json r"

lemma finish_verified_ends:
  assumes "documents_print env" "bind_text (spr_plane_name r) = spr_plane_name r"
  shows "\<exists>s'. finish_verified env r detail s = (Inr (), s') \<and> db_planes s' = db_planes s \<and>
    db_columns s' = db_columns s \<and> plane_runtime_of (spr_plane_name r) s' = None"
proof -
  obtain workers nodes where m: "MarkWorkerMoveVerified env r (db_worker_runtime s, db_node_runtime s) =
      (workers, nodes)" by fastforce
  obtain s1 where "scheduler_event env ''move-verified'' detail
      (json_object [(''worker'', JString (spr_active_worker_name r)),
          (''generation'', JInt (spr_action_generation r)), (''phase'', JString (spr_phase r)),
          (''stable_samples'', JInt (spr_stable_samples r))]) (spr_plane_name r) r ''info''
      (s\<lparr>db_worker_runtime := workers, db_node_runtime := nodes\<rparr>) = (Inr (), s1)"
    "db_planes s1 = db_planes s" "db_columns s1 = db_columns s"
    using event_total[OF assms(1), of "''move-verified''" detail _ "spr_plane_name r" r "''info''"
        "s\<lparr>db_worker_runtime := workers, db_node_runtime := nodes\<rparr>"] by auto
  then show ?thesis
    by (simp add: finish_verified_def act_run act_bind_def m clear_plane_runtime_def plane_runtime_of_def
        clear_runtime_load assms(2))
qed

lemma require_intervention_ends:
  assumes "documents_print env" "bind_text (spr_plane_name r) = spr_plane_name r"
  shows "\<exists>s'. require_intervention env r detail s = (Inr (), s') \<and> db_planes s' = db_planes s \<and>
    db_columns s' = db_columns s \<and> plane_runtime_of (spr_plane_name r) s' = None"
proof -
  obtain s0 where s0: "record_failure env r ''manual-intervention-required'' detail True s = (Inr (), s0)"
    "db_planes s0 = db_planes s" "db_columns s0 = db_columns s"
    by (simp add: record_failure_def act_run)
  obtain s1 where "scheduler_event env ''manual-intervention-required'' detail (action_payload r)
      (spr_plane_name r) r ''error'' s0 = (Inr (), s1)"
    "db_planes s1 = db_planes s" "db_columns s1 = db_columns s"
    using event_total[OF assms(1), of "''manual-intervention-required''" detail "action_payload r"
        "spr_plane_name r" r "''error''" s0] s0(2,3) by auto
  with s0(1) show ?thesis
    by (simp add: require_intervention_def act_run act_bind_def clear_plane_runtime_def
        plane_runtime_of_def clear_runtime_load assms(2))
qed

lemma plan_rollback_plans:
  assumes "documents_print env" "bind_text (spr_plane_name r) = spr_plane_name r"
    and "0 \<le> env_now env" "env_now env < 253402300800"
    and "action_row r" "spr_rollback_attempt_count r = 0"
  shows "\<exists>s' r'. plan_rollback env r detail s = (Inr (), s') \<and> db_planes s' = db_planes s \<and>
    db_columns s' = db_columns s \<and> plane_runtime_of (spr_plane_name r) s' = Some r' \<and>
    rollback_pending env r r'"
proof -
  let ?u = "r\<lparr>spr_phase := ''rollback-planned'', spr_stable_samples := 0,
      spr_started_at := UtcNowSqlTimestamp env,
      spr_status_message := ''verification timed out; rollback planned''\<rparr>"
  let ?row = "plane_runtime_row (sql_timestamp (env_now env)) ?u"
  have chars: "bind_text (sql_timestamp (env_now env)) = sql_timestamp (env_now env)"
    by (rule runtime_row_text[OF assms(3,4)])
  have pending: "rollback_pending env r ?row"
    using assms(5,6) chars
    by (simp add: rollback_pending_def plane_runtime_row_def action_row_def UtcNowSqlTimestamp_def
        coalesce_text_def) (simp add: bind_text_def)
  obtain s0 where s0: "record_failure env r ''failed-verification'' detail False s = (Inr (), s0)"
    "db_planes s0 = db_planes s" "db_columns s0 = db_columns s"
    by (simp add: record_failure_def act_run)
  let ?s1 = "s0\<lparr>db_plane_runtime := UpsertSchedulerPlaneRuntime env ?u (db_plane_runtime s0)\<rparr>"
  obtain s2 where s2: "scheduler_event env ''rollback-planned'' detail (action_payload ?u)
      (spr_plane_name ?u) ?u ''warning'' ?s1 = (Inr (), s2)"
    "db_planes s2 = db_planes ?s1" "db_columns s2 = db_columns ?s1"
    "db_plane_runtime s2 = db_plane_runtime ?s1"
    using event_total[OF assms(1)] by blast
  have "plane_runtime_of (spr_plane_name r) s2 = Some ?row"
    unfolding plane_runtime_of_def s2(4)
    using upsert_runtime_load[of ?u "spr_plane_name r" env "db_plane_runtime s0"] assms(2) by simp
  with pending s0 s2 show ?thesis
    by (simp add: plan_rollback_def act_run act_bind_def upsert_plane_runtime_def Let_def)
qed

lemma verify_action_ends:
  assumes "documents_print env" "spr_plane_name r = plane" "bind_text plane = plane" "action_row r"
    and "0 \<le> env_now env" "env_now env < 253402300800" "svr_timed_out v"
  shows "\<exists>s'. verify_action env r v s = (Inr (), s') \<and> db_planes s' = db_planes s \<and>
    db_columns s' = db_columns s \<and> (plane_runtime_of plane s' = None \<or>
     spr_rollback_attempt_count r = 0 \<and> spr_previous_state_json r \<noteq> [] \<and>
     (\<exists>r'. plane_runtime_of plane s' = Some r' \<and> rollback_pending env r r'))"
proof -
  let ?u = "r\<lparr>spr_stable_samples := svr_next_stable_samples v, spr_status_message := svr_detail v\<rparr>"
  have u: "bind_text (spr_plane_name ?u) = spr_plane_name ?u" "action_row ?u"
    using assms(2-4) by (simp_all add: action_row_def)
  consider "svr_stable v" | "\<not> svr_stable v" "spr_rollback_attempt_count r = 0" "spr_previous_state_json r \<noteq> []"
    | "\<not> svr_stable v" "\<not> (spr_rollback_attempt_count r = 0 \<and> spr_previous_state_json r \<noteq> [])"
    by blast
  then show ?thesis
  proof cases
    case 1
    with finish_verified_ends[OF assms(1) u(1), of "svr_detail v" s] show ?thesis
      by (auto simp: verify_action_def Let_def assms(2))
  next
    case 2
    obtain s' r' where "plan_rollback env ?u (svr_detail v) s = (Inr (), s')" "db_planes s' = db_planes s"
      "db_columns s' = db_columns s" "plane_runtime_of plane s' = Some r'" "rollback_pending env ?u r'"
      using plan_rollback_plans[OF assms(1) u(1) assms(5,6) u(2), of "svr_detail v" s] 2
      by (auto simp: assms(2))
    with 2 assms(7) show ?thesis
      by (intro exI[of _ s']) (simp add: verify_action_def Let_def rollback_pending_def)
  next
    case 3
    with require_intervention_ends[OF assms(1) u(1), of "svr_detail v" s] assms(7) show ?thesis
      by (auto simp: verify_action_def Let_def assms(2))
  qed
qed

text \<open>A tick that finds an action timed out closes it or plans its rollback.\<close>

lemma tick_timed_out:
  assumes "scheduled_plane env plane s" "store_readable env s" "documents_print env"
    and "plane_runtime_of plane s = Some r" "action_row r" "spr_phase r \<noteq> ''rollback-planned''"
    and "spr_started_at r = sql_timestamp t" "0 \<le> t" "t \<le> env_now env"
    and "env_now env < 253402300800"
    and "t + sev_verification_timeout_seconds (ssc_verification config) \<le> env_now env"
  shows "\<exists>s'. SchedulerTick env config s = (Inr (), s') \<and> scheduled_plane env plane s' \<and>
    (plane_runtime_of plane s' = None \<or>
     spr_rollback_attempt_count r = 0 \<and> spr_previous_state_json r \<noteq> [] \<and>
     (\<exists>r'. plane_runtime_of plane s' = Some r' \<and> rollback_pending env r r'))"
proof -
  have name: "spr_plane_name r = plane" "bind_text plane = plane"
    using plane_runtime_of_name[OF assms(4)] assms(1) by (simp_all add: scheduled_plane_def)
  have "list_all (observation_readable env) (LoadHostObservations None None (db_observations s))"
    using assms(2) LoadHostObservations_readable by (simp add: store_readable_def)
  then obtain v where v: "EvaluateSchedulerActionVerification env (ssc_verification config) r
      (LoadHostObservations None None (db_observations s)) = Inr v" "svr_timed_out v"
    using verification_total[of env _ "ssc_verification config" r]
      timestamp_age[of t env] assms(7-11) by auto
  obtain table where tick: "SchedulerTick env config s = verify_action env r v (s\<lparr>db_assignments := table\<rparr>)"
    using tick_verifies[OF assms(1,2,4) _ assms(6) v(1)] assms(5) by (auto simp: action_row_def)
  let ?s = "s\<lparr>db_assignments := table\<rparr>"
  obtain s' where s': "verify_action env r v ?s = (Inr (), s')" "db_planes s' = db_planes s"
    "db_columns s' = db_columns s" "plane_runtime_of plane s' = None \<or>
     spr_rollback_attempt_count r = 0 \<and> spr_previous_state_json r \<noteq> [] \<and>
     (\<exists>r'. plane_runtime_of plane s' = Some r' \<and> rollback_pending env r r')"
    using verify_action_ends[OF assms(3) name assms(5) _ assms(10) v(2), of ?s] assms(8,9) by auto
  with scheduled_plane_cong[OF s'(2,3), of env plane] assms(1) tick show ?thesis by simp
qed

section \<open>Rolling back\<close>

lemma std_sort_map:
  assumes "\<And>x y. lt (f x) (f y) = lt x y"
  shows "std_sort lt (map f xs) = map f (std_sort lt xs)"
proof -
  have ins: "sort_insert lt (f x) (map f ys) = map f (sort_insert lt x ys)" for x ys
    by (induction ys) (simp_all add: assms)
  show ?thesis by (induction xs) (simp_all add: std_sort_def ins)
qed

lemma latest_plane_upsert:
  assumes "LoadLatestPlaneName rows = Some plane" "pl_name row = plane"
  shows "LoadLatestPlaneName (upsert_row pl_name merge_plane row rows) = Some plane"
proof -
  let ?f = "\<lambda>r. if pl_name r = pl_name row then merge_plane r row else r"
  have keys: "pl_name (?f r) = pl_name r" "pl_created_at (?f r) = pl_created_at r" for r
    by (simp_all add: merge_plane_def)
  obtain r rs where sorted: "std_sort plane_newer rows = r # rs" "pl_name r = plane"
    using assms(1) by (auto simp: LoadLatestPlaneName_def split: list.splits)
  then have "\<exists>r \<in> set rows. pl_name r = plane"
    using set_std_sort[of plane_newer rows] by (metis list.set_intros(1))
  then have "upsert_row pl_name merge_plane row rows = map ?f rows"
    using assms(2) by (auto simp: upsert_row_def list_ex_iff)
  moreover have "std_sort plane_newer (map ?f rows) = map ?f (std_sort plane_newer rows)"
    by (rule std_sort_map) (simp only: plane_newer_def keys)
  ultimately have "LoadLatestPlaneName (upsert_row pl_name merge_plane row rows) = Some (pl_name (?f r))"
    by (simp only: LoadLatestPlaneName_def sorted list.map list.case)
  with keys(1)[of r] sorted(2) show ?thesis by (simp only:)
qed

lemma replace_desired_state_keeps:
  assumes "LoadLatestPlaneName (db_planes s) = Some plane" "bind_text plane = plane"
    and "st_plane_name state = plane" "env_project_v2 env state = Inr projected"
    and "env_dump env projected = Inr stored" "bind_text stored = stored" "stored \<noteq> []"
    and "DeserializeDesiredStateJson (env_parse env) (env_render_v2 env) stored = Inr restored"
    and "st_plane_name restored = plane"
  shows "\<exists>rows. replace_desired_state env state generation iteration s = (Inr (), s\<lparr>db_planes := rows\<rparr>) \<and>
    scheduled_plane env plane (s\<lparr>db_planes := rows\<rparr>)"
proof -
  let ?row = "new_plane_row env state generation iteration stored"
  let ?rows = "upsert_row pl_name merge_plane ?row (db_planes s)"
  have row: "pl_name ?row = plane" "pl_desired_state_json ?row = stored"
    using assms(2,3,6) by (simp_all add: new_plane_row_def)
  have latest: "LoadLatestPlaneName ?rows = Some plane"
    by (rule latest_plane_upsert[OF assms(1) row(1)])
  obtain r where r: "find_plane plane ?rows = Some r" "pl_desired_state_json r = stored"
    using plane_table.load_upsert_same[of ?row "db_planes s"] row assms(2)
    by (auto simp: find_plane_def merge_plane_def split: option.splits)
  have "LoadDesiredState env (s\<lparr>db_planes := ?rows\<rparr>) = Inr (Some (EnsureControlRoot restored))"
    using latest r assms(7,8)
    by (simp add: LoadDesiredState_def LoadDesiredStateOf_def LoadDesiredStateFromJson_def)
  then have "scheduled_plane env plane (s\<lparr>db_planes := ?rows\<rparr>)"
    using latest assms(2,9) by (simp add: scheduled_plane_def EnsureControlRoot_def)
  moreover have "replace_desired_state env state generation iteration s = (Inr (), s\<lparr>db_planes := ?rows\<rparr>)"
    using assms(4,5) by (simp add: replace_desired_state_def act_commit_def ReplaceDesiredState_def)
  ultimately show ?thesis by blast
qed

lemma replace_rollout_actions_total:
  assumes "documents_print env"
  shows "\<exists>table. replace_rollout_actions env plane generation actions s =
    (Inr (), s\<lparr>db_rollouts := table\<rparr>)"
proof -
  have "\<exists>table'. insert_rollout_actions env plane generation actions table = Inr table'" for table
  proof (induction actions arbitrary: table)
    case (Cons a as)
    obtain victims where "env_dump_compact env (json_strings (ra_victim_worker_names a)) = Inr victims"
      using assms by (auto simp: documents_print_def)
    with Cons.IH show ?case by (simp add: insert_rollout_action_def SerializeStringArray_def)
  qed simp
  then obtain table where "ReplaceRolloutActions env plane generation actions (db_rollouts s) = Inr table"
    unfolding ReplaceRolloutActions_def by blast
  then show ?thesis
    by (intro exI[of _ table]) (simp add: replace_rollout_actions_def act_commit_def)
qed

lemma gate_reason_total:
  assumes "list_all (observation_readable env) obs"
  shows "\<exists>reason. ObservedSchedulingGateReason env obs node stale = Inr reason"
proof (cases "FindHostObservationForNode obs node")
  case (Some o')
  with FindHostObservationForNode_readable[OF assms Some] show ?thesis
    by (auto simp: ObservedSchedulingGateReason_def observation_readable_def)
qed (simp add: ObservedSchedulingGateReason_def)

lemma build_host_assignments_total:
  assumes "list_all (observation_readable env) obs" "\<And>n. n \<in> set nodes \<Longrightarrow> \<exists>a. build (node_name n) = Inr a"
  shows "\<exists>as. build_host_assignments env stale overrides obs build nodes = Inr as"
  using assms(2)
proof (induction nodes)
  case (Cons n nodes)
  obtain reason where "ObservedSchedulingGateReason env obs (node_name n) stale = Inr reason"
    using gate_reason_total[OF assms(1)] by blast
  moreover obtain a where "build (node_name n) = Inr a" using Cons.prems by fastforce
  moreover obtain as where "build_host_assignments env stale overrides obs build nodes = Inr as"
    using Cons by fastforce
  ultimately show ?case by simp
qed simp

lemma replace_host_assignments_total:
  assumes "documents_print env" "list_all (observation_readable env) obs"
  shows "\<exists>table. replace_host_assignments env config state generation overrides obs s =
    (Inr (), s\<lparr>db_assignments := table\<rparr>)"
proof -
  have "\<exists>a. node_assignment env state root' generation actions (node_name n) = Inr a"
    if node: "n \<in> set (st_nodes state)" for n root' actions
  proof -
    obtain slice where slice: "SliceDesiredStateForNode state (node_name n) = Inr slice"
      using SliceDesiredStateForNode_error[of state "node_name n"] imageI[OF node, of node_name]
      by (cases "SliceDesiredStateForNode state (node_name n)") auto
    obtain payload where "env_dump env (DesiredStateToJson slice) = Inr payload"
      using assms(1) by (auto simp: documents_print_def)
    with slice show ?thesis by (simp add: node_assignment_def SerializeDesiredStateJson_def)
  qed
  then obtain as where "BuildHostAssignments env (ssc_default_stale_after_seconds config) state
         (ssc_artifacts_root config) generation overrides obs (Some (EvaluateSchedulingPolicy state)) = Inr as"
    unfolding BuildHostAssignments_def using build_host_assignments_total[OF assms(2)] by metis
  then show ?thesis
    by (intro exI[of _ "ReplaceHostAssignments (\<lambda>_. env_now env) as (db_assignments s)"])
      (simp add: replace_host_assignments_def act_commit_def)
qed

definition rollback_applied :: "controller_env \<Rightarrow> SchedulerPlaneRuntime \<Rightarrow> bool" where
  "rollback_applied env r \<longleftrightarrow> action_row r \<and> spr_phase r = ''rollback-applied'' \<and>
     spr_rollback_attempt_count r = 1 \<and> spr_started_at r = sql_timestamp (env_now env)"

lemma apply_rollback_applies:
  assumes "documents_print env" "restorable env plane (spr_previous_state_json r)"
    and "scheduled_plane env plane s" "list_all (observation_readable env) (db_observations s)"
    and "spr_plane_name r = plane" "action_row r" "spr_previous_state_json r \<noteq> []"
    and "0 \<le> env_now env" "env_now env < 253402300800"
  shows "\<exists>s' r'. apply_rollback env config generation r s = (Inr (), s') \<and>
    scheduled_plane env plane s' \<and> plane_runtime_of plane s' = Some r' \<and> rollback_applied env r'"
proof -
  obtain state projected stored restored where st:
    "DeserializeDesiredStateJson (env_parse env) (env_render_v2 env) (spr_previous_state_json r) = Inr state"
    "st_plane_name state = plane" "RequireSchedulingPolicy state = Inr ()"
    "env_project_v2 env state = Inr projected" "env_dump env projected = Inr stored"
    "bind_text stored = stored" "stored \<noteq> []"
    "DeserializeDesiredStateJson (env_parse env) (env_render_v2 env) stored = Inr restored"
    "st_plane_name restored = plane"
    using assms(2) by (auto simp: restorable_def)
  have plane: "LoadLatestPlaneName (db_planes s) = Some plane" "bind_text plane = plane"
    using assms(3) by (simp_all add: scheduled_plane_def)
  let ?g = "generation + 1" and ?obs = "LoadHostObservations None None (db_observations s)"
  let ?u = "r\<lparr>spr_phase := ''rollback-applied'', spr_action_generation := ?g, spr_stable_samples := 0,
      spr_rollback_attempt_count := 1, spr_started_at := UtcNowSqlTimestamp env,
      spr_status_message := ''rollback materialized after verification timeout''\<rparr>"
  let ?row = "plane_runtime_row (sql_timestamp (env_now env)) ?u"
  obtain rows where s1: "replace_desired_state env state ?g 0 s = (Inr (), s\<lparr>db_planes := rows\<rparr>)"
    "scheduled_plane env plane (s\<lparr>db_planes := rows\<rparr>)"
    using replace_desired_state_keeps[OF plane st(2,4-9), of ?g 0] by blast
  obtain rollouts where s2: "replace_rollout_actions env plane ?g
      (rep_rollout_actions (EvaluateSchedulingPolicy state)) (s\<lparr>db_planes := rows\<rparr>) =
      (Inr (), s\<lparr>db_planes := rows, db_rollouts := rollouts\<rparr>)"
    using replace_rollout_actions_total[OF assms(1), of plane ?g _ "s\<lparr>db_planes := rows\<rparr>"] by fastforce
  obtain table where s3: "replace_host_assignments env config state ?g
      (LoadNodeAvailabilityOverrides None (db_overrides s)) ?obs
      (s\<lparr>db_planes := rows, db_rollouts := rollouts\<rparr>) =
      (Inr (), s\<lparr>db_planes := rows, db_rollouts := rollouts, db_assignments := table\<rparr>)"
    using replace_host_assignments_total[OF assms(1) LoadHostObservations_readable[OF assms(4)]] by blast
  let ?s4 = "s\<lparr>db_planes := rows, db_rollouts := rollouts, db_assignments := table,
      db_plane_runtime := UpsertSchedulerPlaneRuntime env ?u (db_plane_runtime s)\<rparr>"
  obtain s5 where s5: "scheduler_event env ''rollback-applied'' (spr_status_message ?u)
      (action_payload ?u) plane ?u ''info'' ?s4 = (Inr (), s5)" "db_planes s5 = db_planes ?s4"
    "db_columns s5 = db_columns ?s4" "db_plane_runtime s5 = db_plane_runtime ?s4"
    using event_total[OF assms(1)] by blast
  have run: "apply_rollback env config generation r s = (Inr (), s5)"
    using assms(7) st(1-3) s1(1) s2 s3 s5(1)
    by (simp add: apply_rollback_def act_run act_bind_def upsert_plane_runtime_def Let_def)
  have "scheduled_plane env plane s5"
    using s1(2) s5(2,3) scheduled_plane_cong[of s5 "s\<lparr>db_planes := rows\<rparr>"] by simp
  moreover have "plane_runtime_of plane s5 = Some ?row"
    unfolding plane_runtime_of_def s5(4)
    using upsert_runtime_load[of ?u plane env "db_plane_runtime s"] assms(5) plane(2) by simp
  moreover have "rollback_applied env ?row"
    using assms(6) runtime_row_text[OF assms(8,9)]
    by (simp add: rollback_applied_def action_row_def plane_runtime_row_def UtcNowSqlTimestamp_def
        coalesce_text_def) (simp add: bind_text_def)
  ultimately show ?thesis using run by blast
qed

lemma tick_rolls_back:
  assumes "scheduled_plane env plane s" "store_readable env s" "documents_print env"
    and "plane_runtime_of plane s = Some r" "action_row r" "spr_phase r = ''rollback-planned''"
    and "restorable env plane (spr_previous_state_json r)" "spr_previous_state_json r \<noteq> []"
    and "0 \<le> env_now env" "env_now env < 253402300800"
  shows "\<exists>s' r'. SchedulerTick env config s = (Inr (), s') \<and> scheduled_plane env plane s' \<and>
    plane_runtime_of plane s' = Some r' \<and> rollback_applied env r'"
proof -
  have active: "spr_active_action r \<noteq> []" using assms(5) by (simp add: action_row_def)
  have name: "spr_plane_name r = plane"
    using plane_runtime_of_name[OF assms(4)] assms(1) by (simp add: scheduled_plane_def)
  obtain table generation where raw: "SchedulerTick env config s =
    (if spr_phase r = ''rollback-planned'' then apply_rollback env config generation r
     else act_bind (act_read (\<lambda>s. EvaluateSchedulerActionVerification env (ssc_verification config) r
         (LoadHostObservations None None (db_observations s)))) (verify_action env r))
    (s\<lparr>db_assignments := table\<rparr>)"
    by (rule tick_active[OF assms(1,2,4) active])
  let ?s = "s\<lparr>db_assignments := table\<rparr>"
  have tick: "SchedulerTick env config s = apply_rollback env config generation r ?s"
    using raw assms(6) by simp
  have "scheduled_plane env plane ?s"
    using assms(1) scheduled_plane_cong[of ?s s] by simp
  with tick show ?thesis
    using apply_rollback_applies[OF assms(3,7) _ _ name assms(5,8-10), of ?s config generation] assms(2)
    by (simp add: store_readable_def)
qed

section \<open>Every action ends\<close>

lemma host_activity_keeps:
  assumes "host_activity s s'"
  shows "scheduled_plane env plane s' = scheduled_plane env plane s"
    "plane_runtime_of plane s' = plane_runtime_of plane s"
  using assms scheduled_plane_cong[of s' s] by (auto simp: host_activity_def plane_runtime_of_def)


section \<open>An example\<close>

definition sample_controller :: controller_env where
  "sample_controller = \<lparr>env_now = 0, env_parse = (\<lambda>_. Inr (DesiredStateToJson sample_settled)),
     env_dump = (\<lambda>_. Inr ''doc''), env_dump_compact = (\<lambda>_. Inr ''doc''),
     env_render_v2 = (\<lambda>_. Inl (JsonError 302)), env_project_v2 = (\<lambda>s. Inr (DesiredStateToJson s)),
     env_internal_host = None\<rparr>"

definition sample_runtime :: SchedulerPlaneRuntime where
  "sample_runtime = plane_runtime_row (sql_timestamp 1000)
     (rebalance_runtime ''p'' 2 (initial_entry (default_InstanceSpec Worker)
       \<lparr>wpr_worker_name = ''w1'', wpr_current_node_name = ''n1'', wpr_current_gpu_device = ''0'',
        wpr_current_share_mode = Exclusive, wpr_current_fraction = 1,
        wpr_current_memory_cap_mb = None, wpr_candidates = []\<rparr>) ''doc'')"

definition sample_store :: store where
  "sample_store = \<lparr>db_planes = [new_plane_row sample_controller sample_settled 2 1 ''doc''],
     db_columns = (\<lambda>_. Inl (RuntimeError [])),
     db_assignments = \<lparr>tab_rows = [], tab_next_id = 1\<rparr>, db_observations = [], db_overrides = [],
     db_rollouts = \<lparr>rot_rows = [], rot_next_id = 1\<rparr>, db_plane_runtime = [sample_runtime],
     db_worker_runtime = [], db_node_runtime = [], db_events = [], db_next_event_id = 1,
     db_files = []\<rparr>"

text \<open>Hosts that never report anything.\<close>

definition silent_hosts :: "store \<Rightarrow> store" where
  "silent_hosts s = s\<lparr>db_observations := [], db_assignments := \<lparr>tab_rows = [], tab_next_id = 1\<rparr>\<rparr>"

primrec sample_run :: "nat \<Rightarrow> store" where
  "sample_run 0 = sample_store"
| "sample_run (Suc i) = silent_hosts (snd (SchedulerTick
     (sample_controller\<lparr>env_now := 2000 + 60 * int i\<rparr>) (default_service_config ''root'') (sample_run i)))"

lemma sample_reads:
  "DeserializeDesiredStateJson (env_parse sample_controller) (env_render_v2 sample_controller) doc =
   Inr sample_settled"
  using DesiredState_roundtrip[OF sample_lossless sample_settled_ok(1)] sample_settled_ok(2)
  by (simp add: DeserializeDesiredStateJson_def sample_controller_def)

lemma sample_names:
  "bind_text ''p'' = ''p''" "bind_text ''doc'' = ''doc''" "st_plane_name sample_settled = ''p''"
  by (simp_all add: bind_text_def sample_settled_def)

lemma sample_admitted: "RequireSchedulingPolicy sample_settled = Inr ()"
  unfolding RequireSchedulingPolicy_def sample_settled_def default_DesiredState_def by code_simp

lemma sample_restorable: "restorable sample_controller ''p'' ''doc''"
  unfolding restorable_def
  by (intro exI[of _ sample_settled] exI[of _ "DesiredStateToJson sample_settled"] exI[of _ "''doc''"])
    (simp add: sample_reads sample_names sample_admitted, simp add: sample_controller_def)

lemma sample_scheduled: "scheduled_plane sample_controller ''p'' sample_store"
proof -
  have latest: "LoadLatestPlaneName (db_planes sample_store) = Some ''p''"
    by (simp add: LoadLatestPlaneName_def sample_store_def std_sort_def new_plane_row_def sample_names)
  have "LoadDesiredState sample_controller sample_store = Inr (Some (EnsureControlRoot sample_settled))"
    unfolding LoadDesiredState_def latest
    by (simp add: LoadDesiredStateOf_def LoadDesiredStateFromJson_def find_plane_def load_row_def
        sample_store_def new_plane_row_def sample_names sample_reads)
  with latest show ?thesis
    by (simp add: scheduled_plane_def sample_names EnsureControlRoot_def)
qed

lemma sample_action:
  "plane_runtime_of ''p'' sample_store = Some sample_runtime" "action_row sample_runtime"
  "spr_phase sample_runtime = ''verifying-move''" "spr_started_at sample_runtime = sql_timestamp 1000"
  "spr_previous_state_json sample_runtime = ''doc''"
  by (simp_all add: plane_runtime_of_def LoadSchedulerPlaneRuntime_def load_row_def sample_store_def
      sample_runtime_def plane_runtime_row_def rebalance_runtime_def action_row_def bind_text_def
      coalesce_text_def)

lemma silent_hosts_activity: "host_activity s (silent_hosts s)"
  unfolding host_activity_def silent_hosts_def
  by (rule exI[of _ "[]"], rule exI[of _ "\<lparr>tab_rows = [], tab_next_id = 1\<rparr>"],
      rule exI[of _ "db_events s"], rule exI[of _ "db_next_event_id s"]) simp

lemma sample_run_readable: "store_readable sample_controller (sample_run i)"
  by (cases i) (simp_all add: store_readable_def silent_hosts_def table_ok_def sample_store_def)


end
