(* ===== verification/Naim_Scheduler_Props.thy ===== *)
theory Naim_Scheduler_Props
  imports Naim_Scheduler_Liveness Naim_Scheduling_Props
begin

text \<open>
  What the scheduler guarantees of rebalancing: a move is proposed only when nothing speaks
  against it, and only such a move, within its budget and to an admitted state, is carried out.
\<close>

section \<open>Proposals\<close>

lemma hold_not_propose [simp]: "rpe_decision (hold_entry c st g e) = ''hold''"
  by (simp add: hold_entry_def)

lemma first_hold_Some: "first_hold hs e = Some h \<Longrightarrow> \<exists>f \<in> set hs. f e = Some h"
  by (induction hs) (auto split: option.splits)

lemma first_hold_None: "first_hold hs e = None \<longleftrightarrow> list_all (\<lambda>f. f e = None) hs"
  by (induction hs) (auto split: option.splits)

lemmas hold_defs = runtime_hold_def rollout_hold_def residency_hold_def cooldown_hold_def
  availability_hold_def assignment_hold_def

lemma holds_decide_hold:
  "runtime_hold runtime e = Some h \<Longrightarrow> rpe_decision h = ''hold''"
  "rollout_hold lifecycle e = Some h \<Longrightarrow> rpe_decision h = ''hold''"
  "residency_hold env config runtime e = Some h \<Longrightarrow> rpe_decision h = ''hold''"
  "cooldown_hold env config runtime e = Some h \<Longrightarrow> rpe_decision h = ''hold''"
  "availability_hold overrides exit' e = Some h \<Longrightarrow> rpe_decision h = ''hold''"
  "assignment_hold assignments e = Some h \<Longrightarrow> rpe_decision h = ''hold''"
  by (auto simp: hold_defs Let_def split: option.splits if_splits)

lemma candidate_entry_simps [simp]:
  "rpe_worker_name (candidate_entry c e) = rpe_worker_name e"
  "rpe_current_node_name (candidate_entry c e) = rpe_current_node_name e"
  "rpe_current_gpu_device (candidate_entry c e) = rpe_current_gpu_device e"
  "rpe_target_node_name (candidate_entry c e) = pc_node_name c"
  "rpe_target_gpu_device (candidate_entry c e) = pc_gpu_device c"
  "rpe_score (candidate_entry c e) = pc_score c"
  "rpe_preemption_required (candidate_entry c e) = pc_preemption_required c"
  by (simp_all add: candidate_entry_def)

lemma initial_entry_simps [simp]:
  "rpe_worker_name (initial_entry w r) = wpr_worker_name r"
  "rpe_current_node_name (initial_entry w r) = wpr_current_node_name r"
  "rpe_current_gpu_device (initial_entry w r) = wpr_current_gpu_device r"
  "rpe_decision (initial_entry w r) = []"
  by (simp_all add: initial_entry_def)

lemma decide_candidate_propose:
  assumes "rpe_decision (decide_candidate config exit' c e) = ''propose''"
  shows "\<not> pc_preemption_required c \<and> dpc_minimum_safe_direct_rebalance_score config \<le> pc_score c \<and>
    rpe_rebalance_class (decide_candidate config exit' c e) = ''safe-direct'' \<and>
    rpe_worker_name (decide_candidate config exit' c e) = rpe_worker_name e \<and>
    rpe_current_node_name (decide_candidate config exit' c e) = rpe_current_node_name e \<and>
    rpe_current_gpu_device (decide_candidate config exit' c e) = rpe_current_gpu_device e \<and>
    rpe_target_node_name (decide_candidate config exit' c e) = rpe_target_node_name e \<and>
    rpe_target_gpu_device (decide_candidate config exit' c e) = rpe_target_gpu_device e \<and>
    rpe_score (decide_candidate config exit' c e) = rpe_score e"
  using assms by (auto simp: decide_candidate_def Let_def split: if_splits)

text \<open>What must hold for a proposed move of a plan.\<close>

definition move_permitted ::
  "controller_env \<Rightarrow> SchedulerDomainPolicyConfig \<Rightarrow> (string, NodeAvailabilityOverride) omap
   \<Rightarrow> RolloutLifecycleEntry list \<Rightarrow> HostAssignment list \<Rightarrow> SchedulerRuntimeView \<Rightarrow> HostObservation list
   \<Rightarrow> int \<Rightarrow> InstanceSpec \<Rightarrow> RebalancePlanEntry \<Rightarrow> bool" where
  "move_permitted env config overrides lifecycle assignments runtime observations stale worker e \<longleftrightarrow>
     (case srv_plane_runtime runtime of None \<Rightarrow> True | Some r \<Rightarrow> spr_active_action r = []) \<and>
     (case omap_get (srv_worker_runtime_by_name runtime) (rpe_worker_name e) of
        None \<Rightarrow> True | Some r \<Rightarrow> \<not> swr_manual_intervention_required r) \<and>
     (case FindRolloutLifecycleEntry lifecycle (rpe_worker_name e) of
        None \<Rightarrow> True | Some l \<Rightarrow> rle_phase l = RolloutApplied) \<and>
     ResolveNodeAvailability overrides (rpe_target_node_name e) = NA_Active \<and>
     (ResolveNodeAvailability overrides (rpe_current_node_name e) = NA_Active \<or>
      rpe_target_node_name e \<noteq> rpe_current_node_name e) \<and>
     \<not> NodeHasBlockingHostAssignment assignments (rpe_current_node_name e) \<and>
     \<not> NodeHasBlockingHostAssignment assignments (rpe_target_node_name e) \<and>
     \<not> younger_than (worker_move_age env runtime (rpe_worker_name e))
         (dpc_worker_minimum_residency_seconds config) \<and>
     \<not> younger_than (node_move_age env runtime (rpe_current_node_name e))
         (dpc_node_cooldown_after_move_seconds config) \<and>
     \<not> younger_than (node_move_age env runtime (rpe_target_node_name e))
         (dpc_node_cooldown_after_move_seconds config) \<and>
     ObservedSchedulingGateReason env observations (rpe_target_node_name e) stale = Inr None \<and>
     ObservedGpuPlacementGateReason env config observations worker (rpe_target_node_name e)
       (rpe_target_gpu_device e) (rpe_target_node_name e \<noteq> rpe_current_node_name e \<or>
         rpe_target_gpu_device e \<noteq> rpe_current_gpu_device e) = Inr None \<and>
     rpe_rebalance_class e = ''safe-direct'' \<and>
     dpc_minimum_safe_direct_rebalance_score config \<le> rpe_score e"

lemma gate_or_decide_propose:
  assumes "gate_or_decide env config observations stale worker exit' c e = Inr d"
    and "rpe_decision d = ''propose''"
  shows "ObservedSchedulingGateReason env observations (pc_node_name c) stale = Inr None \<and>
    ObservedGpuPlacementGateReason env config observations worker (pc_node_name c)
      (pc_gpu_device c) (pc_node_name c \<noteq> rpe_current_node_name e \<or>
        pc_gpu_device c \<noteq> rpe_current_gpu_device e) = Inr None \<and>
    d = decide_candidate config exit' c e"
proof (cases "ObservedSchedulingGateReason env observations (pc_node_name c) stale")
  case (Inr reason)
  then show ?thesis
  proof (cases reason)
    case None
    let ?gpu = "ObservedGpuPlacementGateReason env config observations worker (pc_node_name c)
      (pc_gpu_device c) (pc_node_name c \<noteq> rpe_current_node_name e \<or>
        pc_gpu_device c \<noteq> rpe_current_gpu_device e)"
    show ?thesis
    proof (cases ?gpu)
      case (Inr gpu_reason)
      with assms \<open>ObservedSchedulingGateReason _ _ _ _ = Inr reason\<close> None show ?thesis
        by (cases gpu_reason) (auto simp: gate_or_decide_def)
    qed (use assms Inr None in \<open>simp add: gate_or_decide_def\<close>)
  qed (use assms Inr in \<open>auto simp: gate_or_decide_def\<close>)
qed (use assms in \<open>simp add: gate_or_decide_def\<close>)

lemma plan_entry_propose:
  assumes "plan_entry env config overrides lifecycle assignments runtime observations stale worker rec = Inr e"
    and "rpe_decision e = ''propose''"
  obtains c where "first_hold [runtime_hold runtime, rollout_hold lifecycle] (initial_entry worker rec) = None"
    "first_hold [residency_hold env config runtime, cooldown_hold env config runtime,
       availability_hold overrides (ResolveNodeAvailability overrides (wpr_current_node_name rec) \<noteq> NA_Active),
       assignment_hold assignments] (candidate_entry c (initial_entry worker rec)) = None"
    "ObservedSchedulingGateReason env observations (pc_node_name c) stale = Inr None"
    "ObservedGpuPlacementGateReason env config observations worker (pc_node_name c)
      (pc_gpu_device c) (pc_node_name c \<noteq> wpr_current_node_name rec \<or>
        pc_gpu_device c \<noteq> wpr_current_gpu_device rec) = Inr None"
    "e = decide_candidate config
       (ResolveNodeAvailability overrides (wpr_current_node_name rec) \<noteq> NA_Active) c
       (candidate_entry c (initial_entry worker rec))"
proof -
  let ?e0 = "initial_entry worker rec"
  let ?x = "ResolveNodeAvailability overrides (wpr_current_node_name rec) \<noteq> NA_Active"
  have 1: "first_hold [runtime_hold runtime, rollout_hold lifecycle] ?e0 = None"
  proof (rule ccontr)
    assume "first_hold [runtime_hold runtime, rollout_hold lifecycle] ?e0 \<noteq> None"
    then obtain h where h: "first_hold [runtime_hold runtime, rollout_hold lifecycle] ?e0 = Some h" by blast
    then have "rpe_decision h = ''hold''"
      using first_hold_Some[OF h] by (auto dest: holds_decide_hold)
    moreover have "e = h" using assms(1) h by (simp add: plan_entry_def)
    ultimately show False using assms(2) by simp
  qed
  obtain c where c: "select_candidate overrides ?x rec = Some c"
    using assms 1 by (cases "select_candidate overrides ?x rec")
      (auto simp: plan_entry_def Let_def split: if_splits)
  let ?e1 = "candidate_entry c ?e0"
  let ?hs = "[residency_hold env config runtime, cooldown_hold env config runtime,
       availability_hold overrides ?x, assignment_hold assignments]"
  have 2: "first_hold ?hs ?e1 = None"
  proof (rule ccontr)
    assume "first_hold ?hs ?e1 \<noteq> None"
    then obtain h where h: "first_hold ?hs ?e1 = Some h" by blast
    then have "rpe_decision h = ''hold''"
      using first_hold_Some[OF h] by (auto dest: holds_decide_hold)
    moreover have "e = h" using assms(1) 1 c h by (simp add: plan_entry_def)
    ultimately show False using assms(2) by simp
  qed
  have "gate_or_decide env config observations stale worker ?x c ?e1 = Inr e"
    using assms(1) 1 2 c by (simp add: plan_entry_def)
  from gate_or_decide_propose[OF this assms(2)] 1 2 show thesis by (intro that[of c]) auto
qed

lemma plan_entry_permitted:
  assumes "plan_entry env config overrides lifecycle assignments runtime observations stale worker rec = Inr e"
    and "rpe_decision e = ''propose''"
  shows "move_permitted env config overrides lifecycle assignments runtime observations stale worker e \<and>
    rpe_worker_name e = wpr_worker_name rec"
proof -
  obtain c where c: "first_hold [runtime_hold runtime, rollout_hold lifecycle] (initial_entry worker rec) = None"
    "first_hold [residency_hold env config runtime, cooldown_hold env config runtime,
       availability_hold overrides (ResolveNodeAvailability overrides (wpr_current_node_name rec) \<noteq> NA_Active),
       assignment_hold assignments] (candidate_entry c (initial_entry worker rec)) = None"
    "ObservedSchedulingGateReason env observations (pc_node_name c) stale = Inr None"
    "ObservedGpuPlacementGateReason env config observations worker (pc_node_name c)
      (pc_gpu_device c) (pc_node_name c \<noteq> wpr_current_node_name rec \<or>
        pc_gpu_device c \<noteq> wpr_current_gpu_device rec) = Inr None"
    "e = decide_candidate config
       (ResolveNodeAvailability overrides (wpr_current_node_name rec) \<noteq> NA_Active) c
       (candidate_entry c (initial_entry worker rec))"
    by (rule plan_entry_propose[OF assms])
  have e: "dpc_minimum_safe_direct_rebalance_score config \<le> rpe_score e"
    "rpe_rebalance_class e = ''safe-direct''" "rpe_worker_name e = wpr_worker_name rec"
    "rpe_current_node_name e = wpr_current_node_name rec" "rpe_target_node_name e = pc_node_name c"
    "rpe_target_gpu_device e = pc_gpu_device c" "rpe_current_gpu_device e = wpr_current_gpu_device rec"
    using decide_candidate_propose[of config _ c] assms(2) unfolding c(5) by auto
  from c(1-4) show ?thesis unfolding move_permitted_def e first_hold_None
    by (auto simp: hold_defs Let_def younger_than_def IsNodeSchedulable_def
        RolloutPhaseBlocksRebalance_def e split: option.splits if_splits)
qed

lemma res_map_list_origin:
  "res_map_list f xs = Inr ys \<Longrightarrow> y \<in> set ys \<Longrightarrow> \<exists>x \<in> set xs. f x = Inr y"
  by (induction xs arbitrary: ys) (auto simp: res_bind_Inr_iff)

lemma plan_entries_from:
  assumes "BuildRebalancePlanEntries env config state report overrides lifecycle assignments runtime
      observations stale node_filter = Inr entries" "e \<in> set entries"
  obtains worker rec where "FindWorkerInstance state (wpr_worker_name rec) = Some worker"
    "plan_filter node_filter worker rec"
    "plan_entry env config (BuildAvailabilityOverrideMap overrides) lifecycle assignments runtime
       observations stale worker rec = Inr e"
proof -
  let ?pairs = "List.map_filter (\<lambda>recommendation.
           case FindWorkerInstance state (wpr_worker_name recommendation) of
             None \<Rightarrow> None
           | Some worker \<Rightarrow> if plan_filter node_filter worker recommendation
               then Some (worker, recommendation) else None)
           (rep_placement_recommendations report)"
  obtain es where es: "res_map_list (\<lambda>(worker, recommendation).
         plan_entry env config (BuildAvailabilityOverrideMap overrides) lifecycle
           assignments runtime observations stale worker recommendation) ?pairs = Inr es"
    "entries = std_sort plan_entry_less es"
    using assms(1) by (auto simp: BuildRebalancePlanEntries_def res_bind_Inr_iff)
  with assms(2) have "e \<in> set es" by simp
  from res_map_list_origin[OF es(1) this] obtain worker rec where wr: "(worker, rec) \<in> set ?pairs"
    "plan_entry env config (BuildAvailabilityOverrideMap overrides) lifecycle assignments runtime
       observations stale worker rec = Inr e"
    by (elim bexE) (metis (no_types, lifting) case_prod_conv surj_pair)
  from wr(1) have "FindWorkerInstance state (wpr_worker_name rec) = Some worker"
    "plan_filter node_filter worker rec"
    by (auto simp: List.map_filter_def split: option.splits if_splits)
  with wr(2) show thesis by (intro that)
qed

lemma plan_entries_permitted:
  assumes "BuildRebalancePlanEntries env config state report overrides lifecycle assignments runtime
      observations stale node_filter = Inr entries" "e \<in> set entries" "rpe_decision e = ''propose''"
  shows "\<exists>worker. FindWorkerInstance state (rpe_worker_name e) = Some worker \<and>
    inst_placement_mode worker \<noteq> Manual \<and>
    move_permitted env config (BuildAvailabilityOverrideMap overrides) lifecycle assignments runtime
      observations stale worker e"
proof -
  obtain worker rec where wr: "FindWorkerInstance state (wpr_worker_name rec) = Some worker"
    "plan_filter node_filter worker rec"
    "plan_entry env config (BuildAvailabilityOverrideMap overrides) lifecycle assignments runtime
       observations stale worker rec = Inr e"
    by (rule plan_entries_from[OF assms(1,2)])
  with plan_entry_permitted[OF wr(3) assms(3)] show ?thesis by (auto simp: plan_filter_def)
qed


definition sample_candidate :: PlacementCandidate where
  "sample_candidate = \<lparr>pc_node_name = ''n2'', pc_gpu_device = ''0'', pc_score = 120,
     pc_same_node = False, pc_idle = True, pc_fits_current_fraction = True,
     pc_fits_current_with_preemption = True, pc_fits_exclusive_fraction = True,
     pc_fits_exclusive_with_preemption = True, pc_fits_memory_cap = True,
     pc_fits_memory_with_preemption = True, pc_preemption_required = False, pc_free_fraction = 1,
     pc_free_memory_mb = None, pc_preemption_victims = [], pc_action = ''move''\<rparr>"

definition sample_report :: SchedulingPolicyReport where
  "sample_report = \<lparr>rep_allocations = [], rep_capacities = [],
     rep_placement_recommendations =
       [\<lparr>wpr_worker_name = ''w1'', wpr_current_node_name = ''n1'', wpr_current_gpu_device = ''0'',
         wpr_current_share_mode = Exclusive, wpr_current_fraction = 1,
         wpr_current_memory_cap_mb = None, wpr_candidates = [sample_candidate]\<rparr>],
     rep_preemption_hints = [], rep_rollout_actions = [], rep_rebalance_hints = [],
     rep_warnings = [], rep_errors = []\<rparr>"

definition sample_movable_state :: DesiredState where
  "sample_movable_state = default_DesiredState\<lparr>st_plane_name := ''p'', st_instances :=
     [(default_InstanceSpec Worker)\<lparr>inst_name := ''w1'', inst_node_name := ''n1'',
       inst_gpu_device := Some ''0'', inst_placement_mode := Movable\<rparr>]\<rparr>"

definition idle_runtime :: SchedulerRuntimeView where
  "idle_runtime = \<lparr>srv_plane_runtime = None, srv_worker_runtime_by_name = [],
     srv_node_runtime_by_name = []\<rparr>"

lemma sample_plan:
  "\<exists>e. BuildRebalancePlanEntries sample_env default_SchedulerDomainPolicyConfig sample_movable_state
      sample_report [] [] [] idle_runtime [] 300 None = Inr [e] \<and> rpe_decision e = ''propose'' \<and>
      rpe_worker_name e = ''w1'' \<and> rpe_target_node_name e = ''n2''"
  by (simp add: BuildRebalancePlanEntries_def sample_report_def List.map_filter_def
      FindWorkerInstance_def sample_movable_state_def default_InstanceSpec_def plan_filter_def
      plan_entry_def initial_entry_def runtime_hold_def idle_runtime_def rollout_hold_def
      FindRolloutLifecycleEntry_def select_candidate_def candidate_insufficient_def
      sample_candidate_def candidate_entry_def residency_hold_def
      worker_move_age_def cooldown_hold_def node_move_age_def younger_than_def
      availability_hold_def ResolveNodeAvailability_def BuildAvailabilityOverrideMap_def
      IsNodeSchedulable_def assignment_hold_def NodeHasBlockingHostAssignment_def
      gate_or_decide_def ObservedSchedulingGateReason_def FindHostObservationForNode_def
      ObservedGpuPlacementGateReason_def FindObservedGpuDeviceTelemetry_def decide_candidate_def
      default_SchedulerDomainPolicyConfig_def std_sort_def Let_def)


section \<open>Carrying out a proposal\<close>

lemma act_bind_Inr:
  "act_bind m f s = (Inr y, s') \<longleftrightarrow> (\<exists>x s1. m s = (Inr x, s1) \<and> f x s1 = (Inr y, s'))"
  by (auto simp: act_bind_def split: prod.splits sum.splits)

lemma act_seq_Cons_Inr:
  "act_seq (m # ms) s = (Inr (), s') \<longleftrightarrow> (\<exists>s1. m s = (Inr (), s1) \<and> act_seq ms s1 = (Inr (), s'))"
  by (simp add: act_run act_bind_Inr)

lemma act_commit_Inr: "act_commit f s = (Inr (), s') \<longleftrightarrow> f s = Inr s'"
  by (auto simp: act_commit_def split: sum.splits)

lemma act_files_store:
  "act_files f s = (r, s') \<Longrightarrow> \<exists>files. s' = s\<lparr>db_files := files\<rparr>"
  by (auto simp: act_files_def split: prod.splits)

lemma append_event_store:
  "append_event env c ty msg payload plane node worker i j sev s = (Inr (), s') \<Longrightarrow>
   db_planes s' = db_planes s \<and> db_plane_runtime s' = db_plane_runtime s"
  by (auto simp: append_event_def act_bind_Inr act_run AppendEvent_def)

lemma MaterializeRebalance_plane:
  "MaterializeRebalancePlanEntry e s = Inr u \<Longrightarrow> st_plane_name u = st_plane_name s"
  by (auto simp: MaterializeRebalancePlanEntry_def Let_def split: if_splits)

lemma materialize_rebalance_Inr:
  assumes "materialize_rebalance env config state generation iteration observations e s = (Inr (), s')"
  obtains updated rows previous where "MaterializeRebalancePlanEntry e state = Inr updated"
    "RequireSchedulingPolicy updated = Inr ()"
    "ReplaceDesiredState env updated (generation + 1) (iteration + 1) (db_planes s) = Inr rows"
    "db_planes s' = rows" "SerializeDesiredStateJson (env_dump env) state = Inr previous"
    "db_plane_runtime s' = UpsertSchedulerPlaneRuntime env
       (rebalance_runtime (st_plane_name state) (generation + 1) e previous) (db_plane_runtime s)"
proof -
  obtain updated host_plans overrides where u: "MaterializeRebalancePlanEntry e state = Inr updated"
    "RequireSchedulingPolicy updated = Inr ()"
    and seq: "act_seq
        [act_files (MaterializeComposeArtifacts env updated host_plans),
         act_files (MaterializeInferRuntimeArtifact env updated (ssc_artifacts_root config)),
         replace_desired_state env updated (generation + 1) (iteration + 1),
         replace_rollout_actions env (st_plane_name updated) (generation + 1)
           (rep_rollout_actions (EvaluateSchedulingPolicy updated)),
         replace_host_assignments env config updated (generation + 1) overrides observations,
         act_bind (act_lift (SerializeDesiredStateJson (env_dump env) state)) (\<lambda>previous.
           upsert_plane_runtime env
             (rebalance_runtime (st_plane_name updated) (generation + 1) e previous)),
         append_event env ''scheduler'' ''rebalance-materialized''
           ''materialized safe-direct rebalance proposal''
           (rebalance_payload (generation + 1) e) (st_plane_name updated)
           (rpe_target_node_name e) (rpe_worker_name e) None None ''info''] s = (Inr (), s')"
    using assms by (auto simp: materialize_rebalance_def act_bind_Inr act_run Let_def simp del: act_seq.simps)
  obtain s1 s2 s3 s4 s5 s6 where steps:
    "act_files (MaterializeComposeArtifacts env updated host_plans) s = (Inr (), s1)"
    "act_files (MaterializeInferRuntimeArtifact env updated (ssc_artifacts_root config)) s1 = (Inr (), s2)"
    "replace_desired_state env updated (generation + 1) (iteration + 1) s2 = (Inr (), s3)"
    "replace_rollout_actions env (st_plane_name updated) (generation + 1)
           (rep_rollout_actions (EvaluateSchedulingPolicy updated)) s3 = (Inr (), s4)"
    "replace_host_assignments env config updated (generation + 1) overrides observations s4 = (Inr (), s5)"
    "act_bind (act_lift (SerializeDesiredStateJson (env_dump env) state)) (\<lambda>previous.
           upsert_plane_runtime env
             (rebalance_runtime (st_plane_name updated) (generation + 1) e previous)) s5 = (Inr (), s6)"
    "append_event env ''scheduler'' ''rebalance-materialized''
           ''materialized safe-direct rebalance proposal''
           (rebalance_payload (generation + 1) e) (st_plane_name updated)
           (rpe_target_node_name e) (rpe_worker_name e) None None ''info'' s6 = (Inr (), s')"
    using seq by (auto simp: act_seq_Cons_Inr act_seq_done simp del: act_seq.simps)
  have 2: "db_planes s2 = db_planes s" "db_plane_runtime s2 = db_plane_runtime s"
    using act_files_store[OF steps(1)] act_files_store[OF steps(2)] by auto
  obtain rows where 3: "ReplaceDesiredState env updated (generation + 1) (iteration + 1) (db_planes s2) = Inr rows"
    "s3 = s2\<lparr>db_planes := rows\<rparr>"
    using steps(3) by (auto simp: replace_desired_state_def act_commit_Inr res_bind_Inr_iff)
  have 5: "db_planes s5 = rows" "db_plane_runtime s5 = db_plane_runtime s"
    using steps(4,5) 2 3
    by (auto simp: replace_rollout_actions_def replace_host_assignments_def act_commit_Inr res_bind_Inr_iff)
  obtain previous where 6: "SerializeDesiredStateJson (env_dump env) state = Inr previous"
    "s6 = s5\<lparr>db_plane_runtime := UpsertSchedulerPlaneRuntime env
       (rebalance_runtime (st_plane_name updated) (generation + 1) e previous) (db_plane_runtime s5)\<rparr>"
    using steps(6) by (auto simp: act_bind_Inr act_run upsert_plane_runtime_def)
  show thesis
    using append_event_store[OF steps(7)] 2 3 5 6 u MaterializeRebalance_plane[OF u(1)]
    by (intro that[of updated rows previous]) simp_all
qed

lemma replaced_plane_fields:
  assumes "LoadLatestPlaneName rows = Some plane" "bind_text plane = plane" "st_plane_name u = plane"
  shows "LoadLatestPlaneName (upsert_row pl_name merge_plane (new_plane_row env u g i document) rows) = Some plane"
    "map_option pl_generation (find_plane plane
      (upsert_row pl_name merge_plane (new_plane_row env u g i document) rows)) = Some g"
    "map_option pl_rebalance_iteration (find_plane plane
      (upsert_row pl_name merge_plane (new_plane_row env u g i document) rows)) = Some i"
proof -
  let ?row = "new_plane_row env u g i document"
  have key: "pl_name ?row = plane" using assms(2,3) by (simp add: new_plane_row_def)
  show "LoadLatestPlaneName (upsert_row pl_name merge_plane ?row rows) = Some plane"
    by (rule latest_plane_upsert[OF assms(1) key])
  have "find_plane plane (upsert_row pl_name merge_plane ?row rows) =
      Some (case load_row pl_name plane rows of None \<Rightarrow> ?row | Some old \<Rightarrow> merge_plane old ?row)"
    using plane_table.load_upsert_same[of ?row rows] key assms(2) by (simp add: find_plane_def)
  then show "map_option pl_generation (find_plane plane (upsert_row pl_name merge_plane ?row rows)) = Some g"
    "map_option pl_rebalance_iteration (find_plane plane (upsert_row pl_name merge_plane ?row rows)) = Some i"
    by (simp_all add: merge_plane_def new_plane_row_def split: option.splits)
qed

text \<open>The entry is a permitted move by what the store holds.\<close>

definition rebalance_permitted ::
  "controller_env \<Rightarrow> SchedulerServiceConfig \<Rightarrow> store \<Rightarrow> DesiredState \<Rightarrow> RebalancePlanEntry \<Rightarrow> bool" where
  "rebalance_permitted env config s state e \<longleftrightarrow>
     (\<exists>assignments observations actions lifecycle worker.
        LoadHostAssignments None None (Some (st_plane_name state)) (db_assignments s) = Inr assignments \<and>
        plane_observations env (st_plane_name state) s = Inr observations \<and>
        plane_rollout_actions env (st_plane_name state) s = Inr actions \<and>
        BuildRolloutLifecycleEntries env (ssc_policy config) state
          (value_or (LoadDesiredGenerationOf (st_plane_name state) s) 0) actions assignments observations =
          Inr lifecycle \<and>
        FindWorkerInstance state (rpe_worker_name e) = Some worker \<and>
        inst_placement_mode worker \<noteq> Manual \<and>
        move_permitted env (ssc_policy config)
          (BuildAvailabilityOverrideMap (LoadNodeAvailabilityOverrides None (db_overrides s)))
          lifecycle assignments (LoadSchedulerRuntimeView (Some state) s) observations
          (ssc_default_stale_after_seconds config) worker e)"

lemma rebalance_view_permitted:
  assumes "rebalance_plan_view env config None (ssc_default_stale_after_seconds config)
      (Some (st_plane_name state)) s state = Inr view"
    and "e \<in> set (rpv_rebalance_entries view)" "rpe_decision e = ''propose''"
  shows "rebalance_permitted env config s state e \<and>
    rib_exhausted (rpv_iteration_budget_summary view) =
      (ssc_maximum_rebalance_iterations config \<le> value_or (LoadRebalanceIteration s) 0)"
proof -
  obtain observations assignments actions lifecycle entries where v:
    "plane_observations env (st_plane_name state) s = Inr observations"
    "LoadHostAssignments None None (Some (st_plane_name state)) (db_assignments s) = Inr assignments"
    "plane_rollout_actions env (st_plane_name state) s = Inr actions"
    "BuildRolloutLifecycleEntries env (ssc_policy config) state
       (value_or (LoadDesiredGenerationOf (st_plane_name state) s) 0) actions assignments observations = Inr lifecycle"
    "BuildRebalancePlanEntries env (ssc_policy config) state (EvaluateSchedulingPolicy state)
       (LoadNodeAvailabilityOverrides None (db_overrides s)) lifecycle assignments
       (LoadSchedulerRuntimeView (Some state) s) observations (ssc_default_stale_after_seconds config) None = Inr entries"
    "rpv_rebalance_entries view = entries"
    "rpv_iteration_budget_summary view = BuildRebalanceIterationBudgetSummary
       (value_or (LoadRebalanceIteration s) 0) (ssc_maximum_rebalance_iterations config)"
    using assms(1)
    by (auto simp: rebalance_plan_view_def Let_def res_bind_Inr_iff load_generation_for_def)
  from plan_entries_permitted[OF v(5)] assms(2,3) v show ?thesis
    by (auto simp: rebalance_permitted_def BuildRebalanceIterationBudgetSummary_def)
qed

lemma ApplyRebalanceProposal_Inr:
  assumes "ApplyRebalanceProposal env config worker s = (Inr (), s')" "scheduled_plane env plane s"
  obtains state generation e where "LoadDesiredState env s = Inr (Some state)"
    "st_plane_name state = plane" "LoadDesiredGeneration s = Some generation"
    "rpe_worker_name e = worker" "rebalance_permitted env config s state e"
    "value_or (LoadRebalanceIteration s) 0 < ssc_maximum_rebalance_iterations config"
    "materialize_rebalance env config state generation (value_or (LoadRebalanceIteration s) 0)
       (LoadHostObservations None None (db_observations s)) e s = (Inr (), s')"
proof -
  obtain state generation view e where c: "load_current env s = (Inr (Some (state, generation)), s)"
    and v: "LoadRebalancePlanViewData env config None (ssc_default_stale_after_seconds config)
      (Some (st_plane_name state)) s = Inr view"
    and e: "find (\<lambda>e. rpe_worker_name e = worker) (view_entries view) = Some e"
      "rpe_decision e = ''propose''" "\<not> view_exhausted view"
    and run: "materialize_rebalance env config state generation (value_or (LoadRebalanceIteration s) 0)
       (LoadHostObservations None None (db_observations s)) e s = (Inr (), s')"
    using assms(1)
    by (auto simp: ApplyRebalanceProposal_def require_current_def load_current_def act_bind_Inr act_run
        split: option.splits if_splits)
  have st: "LoadDesiredState env s = Inr (Some state)" "LoadDesiredGeneration s = Some generation"
    using c by (auto simp: load_current_def act_run res_bind_Inr_iff split: option.splits)
  then have plane: "st_plane_name state = plane" "LoadLatestPlaneName (db_planes s) = Some plane"
    using assms(2) by (auto simp: scheduled_plane_def)
  then have "load_state_for env (Some (st_plane_name state)) s = Inr (Some state)"
    using st(1) by (simp add: load_state_for_def LoadDesiredState_def)
  with v obtain w where w: "rebalance_plan_view env config None (ssc_default_stale_after_seconds config)
      (Some (st_plane_name state)) s state = Inr w" "view = Some w"
    by (auto simp: LoadRebalancePlanViewData_def res_bind_Inr_iff)
  have mem: "e \<in> set (rpv_rebalance_entries w)" "rpe_worker_name e = worker"
    using e(1) w(2) by (auto simp: view_entries_def find_Some_iff)
  from rebalance_view_permitted[OF w(1) mem(1) e(2)] e(3) w(2) mem(2) st plane(1) run show thesis
    by (intro that[of state generation e]) (auto simp: view_exhausted_def)
qed

text \<open>
  A rebalance proposal that is carried out was a permitted move, leads to a desired
  state that the scheduling policy admits, and leaves a trace that makes it reversible: the plane
  gets the next generation, one more iteration of its budget is used and the budget is not
  exceeded, and the move is under verification with the previous desired state recorded.
\<close>

lemma rebalance_carried_out:
  assumes "ApplyRebalanceProposal env config worker s = (Inr (), s')" "scheduled_plane env plane s"
  shows "\<exists>state e updated generation r. LoadDesiredState env s = Inr (Some state) \<and>
    rpe_worker_name e = worker \<and> rebalance_permitted env config s state e \<and>
    MaterializeRebalancePlanEntry e state = Inr updated \<and> scheduling_admissible updated \<and>
    LoadDesiredGeneration s = Some generation \<and> LoadDesiredGeneration s' = Some (generation + 1) \<and>
    LoadRebalanceIteration s' = Some (value_or (LoadRebalanceIteration s) 0 + 1) \<and>
    value_or (LoadRebalanceIteration s) 0 + 1 \<le> ssc_maximum_rebalance_iterations config \<and>
    plane_runtime_of plane s' = Some r \<and> spr_phase r = ''verifying-move'' \<and>
    spr_active_worker_name r = bind_text worker \<and> spr_action_generation r = generation + 1 \<and>
    map_sum id bind_text (SerializeDesiredStateJson (env_dump env) state) = Inr (spr_previous_state_json r)"
proof -
  obtain state generation e where st: "LoadDesiredState env s = Inr (Some state)"
    "st_plane_name state = plane" "LoadDesiredGeneration s = Some generation"
    "rpe_worker_name e = worker" "rebalance_permitted env config s state e"
    "value_or (LoadRebalanceIteration s) 0 < ssc_maximum_rebalance_iterations config"
    and run: "materialize_rebalance env config state generation (value_or (LoadRebalanceIteration s) 0)
       (LoadHostObservations None None (db_observations s)) e s = (Inr (), s')"
    by (rule ApplyRebalanceProposal_Inr[OF assms])
  obtain updated rows previous where u: "MaterializeRebalancePlanEntry e state = Inr updated"
    "RequireSchedulingPolicy updated = Inr ()"
    "ReplaceDesiredState env updated (generation + 1) (value_or (LoadRebalanceIteration s) 0 + 1) (db_planes s) = Inr rows"
    "db_planes s' = rows" "SerializeDesiredStateJson (env_dump env) state = Inr previous"
    "db_plane_runtime s' = UpsertSchedulerPlaneRuntime env
       (rebalance_runtime (st_plane_name state) (generation + 1) e previous) (db_plane_runtime s)"
    by (rule materialize_rebalance_Inr[OF run])
  have plane: "LoadLatestPlaneName (db_planes s) = Some plane" "bind_text plane = plane"
    using assms(2) by (simp_all add: scheduled_plane_def)
  obtain document where rows: "rows = upsert_row pl_name merge_plane (new_plane_row env updated
      (generation + 1) (value_or (LoadRebalanceIteration s) 0 + 1) document) (db_planes s)"
    using u(3) by (auto simp: ReplaceDesiredState_def res_bind_Inr_iff)
  have "LoadDesiredGeneration s' = Some (generation + 1)"
    "LoadRebalanceIteration s' = Some (value_or (LoadRebalanceIteration s) 0 + 1)"
    using replaced_plane_fields[OF plane, of updated env] MaterializeRebalance_plane[OF u(1)] st(2)
    by (simp_all add: LoadDesiredGeneration_def LoadDesiredGenerationOf_def LoadRebalanceIteration_def
        LoadPlaneRebalanceIteration_def u(4) rows)
  moreover have "plane_runtime_of plane s' = Some (plane_runtime_row (sql_timestamp (env_now env))
      (rebalance_runtime plane (generation + 1) e previous))"
    unfolding plane_runtime_of_def u(6) st(2)
    by (rule upsert_runtime_load) (simp_all add: rebalance_runtime_def plane(2))
  moreover have "scheduling_admissible updated"
    using u(2) by (simp add: RequireSchedulingPolicy_admissible)
  ultimately show ?thesis
    using st u(1,5)
    by (intro exI[of _ state] exI[of _ e] exI[of _ updated] exI[of _ generation] exI conjI)
      (auto simp: plane_runtime_row_def rebalance_runtime_def bind_text_def)
qed

end
