(* ===== verification/Naim_Scheduler_Evictions.thy ===== *)
theory Naim_Scheduler_Evictions
  imports Naim_Scheduler_Execution
begin

text \<open>
  Evictions for a rollout: the assignments of an action reach every victim and tell the hosts a
  state without them, and what becomes of an assignment whose lease expires before the host
  reports.
\<close>

section \<open>What the hosts are told\<close>

lemma RemoveWorker_fields:
  "st_instances (RemoveWorkerFromDesiredState v s) =
     map (\<lambda>i. i\<lparr>inst_depends_on := filter (\<lambda>d. d \<noteq> v) (inst_depends_on i)\<rparr>)
       (filter (\<lambda>i. inst_name i \<noteq> v) (st_instances s))"
  "st_nodes (RemoveWorkerFromDesiredState v s) = st_nodes s"
  by (simp_all add: RemoveWorkerFromDesiredState_def)

lemma RemoveWorkers_fields:
  "st_instances (fold RemoveWorkerFromDesiredState vs s) =
     map (\<lambda>i. i\<lparr>inst_depends_on := filter (\<lambda>d. d \<notin> set vs) (inst_depends_on i)\<rparr>)
       (filter (\<lambda>i. inst_name i \<notin> set vs) (st_instances s))"
  "st_nodes (fold RemoveWorkerFromDesiredState vs s) = st_nodes s"
  by (induction vs arbitrary: s) (simp_all add: RemoveWorker_fields filter_map o_def conj_commute)

definition victim_node :: "DesiredState \<Rightarrow> string \<Rightarrow> string" where
  "victim_node s v = (case find (is_worker_named v) (st_instances s) of
     Some i \<Rightarrow> inst_node_name i | None \<Rightarrow> [])"

lemma victims_by_node_Inr:
  "victims_by_node s action_id vs acc = Inr m \<Longrightarrow>
   m = fold (\<lambda>v. omap_modify (victim_node s v) [] (\<lambda>ws. ws @ [v])) vs acc"
  by (induction vs arbitrary: acc) (auto simp: victim_node_def split: option.splits)

lemma fold_append_list: "fold (\<lambda>v ws. ws @ [v]) vs acc = acc @ vs"
  by (induction vs arbitrary: acc) simp_all

lemma victims_by_node_spec:
  assumes "victims_by_node s action_id vs [] = Inr m"
  shows "sorted_wrt (<) (map fst m)" "set (map fst m) = victim_node s ` set vs"
    "(n, ws) \<in> set m \<Longrightarrow> ws = filter (\<lambda>v. victim_node s v = n) vs"
proof -
  let ?m = "fold (\<lambda>v. omap_modify (victim_node s v) [] (\<lambda>ws. ws @ [v])) vs []"
  have m: "m = ?m" by (rule victims_by_node_Inr[OF assms])
  have ok: "omap_ok m" unfolding m by (rule omap_ok_fold_modify) simp
  then show "sorted_wrt (<) (map fst m)" by (simp add: omap_ok_def)
  have get: "omap_get m n = (if \<exists>v \<in> set vs. victim_node s v = n
      then Some (filter (\<lambda>v. victim_node s v = n) vs) else None)" for n
    unfolding m omap_get_fold_modify by (simp add: fold_append_list value_or_def)
  have dom: "n \<in> set (map fst m) \<longleftrightarrow> omap_get m n \<noteq> None" for n
    by (simp add: dom_map_of_conv_image_fst[symmetric] domIff)
  have "n \<in> set (map fst m) \<longleftrightarrow> n \<in> victim_node s ` set vs" for n
    unfolding dom get by auto
  then show "set (map fst m) = victim_node s ` set vs" by (rule set_eqI)
  show "ws = filter (\<lambda>v. victim_node s v = n) vs" if "(n, ws) \<in> set m"
  proof -
    have "distinct (map fst m)" using ok by (simp add: omap_ok_def strict_sorted_iff)
    with that have "omap_get m n = Some ws" by simp
    then show ?thesis by (simp add: get split: if_splits)
  qed
qed

lemma list_all2_mono_set:
  "list_all2 P xs ys \<Longrightarrow> (\<And>x y. x \<in> set xs \<Longrightarrow> P x y \<Longrightarrow> Q x y) \<Longrightarrow> list_all2 Q xs ys"
  by (induction rule: list_all2_induct) auto

definition evicted_from :: "DesiredState \<Rightarrow> string list \<Rightarrow> bool" where
  "evicted_from s victims \<longleftrightarrow> list_all (\<lambda>i. inst_name i \<notin> set victims \<and>
     list_all (\<lambda>d. d \<notin> set victims) (inst_depends_on i)) (st_instances s)"

text \<open>What one eviction assignment must be.\<close>

definition evicts ::
  "controller_env \<Rightarrow> DesiredState \<Rightarrow> int \<Rightarrow> RolloutActionRecord \<Rightarrow> HostAssignment \<Rightarrow> bool" where
  "evicts env s generation action a \<longleftrightarrow>
     ha_assignment_type a = ''evict-workers'' \<and> ha_status a = HA_Pending \<and>
     ha_desired_generation a = generation \<and> ha_plane_name a = st_plane_name s \<and>
     AssignmentReferencesRolloutAction a (rar_id action) \<and>
     contains_substring (''victims='' @ JoinStrings (filter (\<lambda>v. victim_node s v = ha_node_name a)
       (rar_victim_worker_names action)) '','') (ha_status_message a) \<and>
     (\<exists>slice. SerializeDesiredStateJson (env_dump env) slice = Inr (ha_desired_state_json a) \<and>
        map node_name (st_nodes slice) = filter (\<lambda>n. n = ha_node_name a) (map node_name (st_nodes s)) \<and>
        evicted_from slice (rar_victim_worker_names action))"

lemma eviction_assignment_evicts:
  assumes "eviction_assignment env root' s (fold RemoveWorkerFromDesiredState (rar_victim_worker_names action) s)
      generation action existing memory (n, ws) = Inr a"
    and "ws = filter (\<lambda>v. victim_node s v = n) (rar_victim_worker_names action)"
  shows "ha_node_name a = n \<and> evicts env s generation action a"
proof -
  let ?s = "fold RemoveWorkerFromDesiredState (rar_victim_worker_names action) s"
  obtain slice payload where slice: "SliceDesiredStateForNode ?s n = Inr slice"
    "SerializeDesiredStateJson (env_dump env) slice = Inr payload"
    and a: "ha_node_name a = n" "ha_plane_name a = st_plane_name s" "ha_desired_generation a = generation"
      "ha_assignment_type a = ''evict-workers''" "ha_desired_state_json a = payload"
      "ha_status a = HA_Pending" "ha_status_message a = eviction_message action memory ws"
    using assms(1) by (auto simp: eviction_assignment_def res_bind_Inr_iff)
  have "evicted_from slice (rar_victim_worker_names action)"
    using SliceDesiredStateForNode_Inr[OF slice(1)]
    by (auto simp: evicted_from_def RemoveWorkers_fields list_all_iff)
  moreover have "map node_name (st_nodes slice) = filter (\<lambda>k. k = n) (map node_name (st_nodes s))"
    using SliceDesiredStateForNode_Inr[OF slice(1)] by (simp add: RemoveWorkers_fields filter_map o_def)
  moreover have "AssignmentReferencesRolloutAction a (rar_id action)"
    unfolding AssignmentReferencesRolloutAction_def a contains_substring_iff eviction_message_def
      RolloutActionTag_def by (metis append.assoc append_Nil)
  moreover have "contains_substring (''victims='' @ JoinStrings ws '','') (ha_status_message a)"
    unfolding a contains_substring_iff eviction_message_def
    by (rule exI[of _ "RolloutActionTag (rar_id action) @ '' evict workers for rollout worker='' @
     rar_worker_name action @ '' target_gpu='' @ rar_target_gpu_device action @
     '' required_memory_cap_mb='' @ to_string memory @ '' ''"], rule exI[of _ "[]"]) simp
  ultimately show ?thesis using slice(2) a assms(2) by (auto simp: evicts_def)
qed


definition sample_printer :: controller_env where
  "sample_printer = \<lparr>env_now = 0, env_parse = (\<lambda>_. Inl (JsonError 101)), env_dump = (\<lambda>_. Inr ''doc''),
     env_dump_compact = (\<lambda>_. Inr ''doc''), env_render_v2 = (\<lambda>_. Inl (JsonError 302)),
     env_project_v2 = (\<lambda>_. Inr JNull), env_internal_host = None\<rparr>"

definition sample_eviction_state :: DesiredState where
  "sample_eviction_state = default_DesiredState\<lparr>st_plane_name := ''p'',
     st_nodes := [default_NodeInventory\<lparr>node_name := ''n1''\<rparr>, default_NodeInventory\<lparr>node_name := ''n2''\<rparr>],
     st_instances := [(default_InstanceSpec Worker)\<lparr>inst_name := ''w1'', inst_node_name := ''n1''\<rparr>,
       (default_InstanceSpec Worker)\<lparr>inst_name := ''w2'', inst_node_name := ''n2''\<rparr>]\<rparr>"

definition sample_eviction :: RolloutActionRecord where
  "sample_eviction = \<lparr>rar_id = 7, rar_plane_name = ''p'', rar_desired_generation = 3, rar_step = 1,
     rar_worker_name = ''w3'', rar_action = ''evict-best-effort'', rar_target_node_name = ''n1'',
     rar_target_gpu_device = ''0'', rar_victim_worker_names = [''w2'', ''w1''], rar_reason = [],
     rar_status = RA_Pending, rar_status_message = []\<rparr>"

lemma sample_slices:
  assumes "n = ''n1'' \<or> n = ''n2''"
  shows "\<exists>slice. SliceDesiredStateForNode
    (fold RemoveWorkerFromDesiredState vs sample_eviction_state) n = Inr slice"
proof -
  have "n \<in> node_name ` set (st_nodes (fold RemoveWorkerFromDesiredState vs sample_eviction_state))"
    using assms by (auto simp: RemoveWorkers_fields sample_eviction_state_def)
  with SliceDesiredStateForNode_error[of _ n] show ?thesis
    by (metis obj_sumE)
qed


section \<open>An eviction whose lease expires\<close>

text \<open>
  The message with which a host reports an eviction done
  (\<open>hostd/src/state_apply/hostd_assignment_service.cpp\<close>): it repeats the message of the claimed assignment,
  from which the controller recognises the rollout action.
\<close>

definition evicted_report :: "HostAssignment \<Rightarrow> string" where
  "evicted_report a = ''evicted rollout workers for desired generation '' @
     to_string (ha_desired_generation a) @
     (if ha_status_message a = [] then [] else '' ['' @ ha_status_message a @ '']'') @
     '' on attempt '' @ to_string (ha_attempt_count a) @ ''/'' @ to_string (ha_max_attempts a)"

lemma to_string_no_equals: "CHR ''='' \<notin> set (to_string n)"
  using show_nat_digits[of "nat n"] show_nat_digits[of "nat (- n)"] by (auto simp: to_string_def)

lemma no_equals_no_reference:
  assumes "CHR ''='' \<notin> set (ha_status_message a)"
  shows "\<not> AssignmentReferencesRolloutAction a action_id"
  using assms by (auto simp: AssignmentReferencesRolloutAction_def contains_substring_iff)

lemma expired_message:
  assumes "r \<in> set (tab_rows t)" "row_node_name r = bind_text node" "row_status r = ''claimed''"
    and "row_updated_at r \<le> clock 0 - 60" "row_attempt_count r < row_max_attempts r"
    and "row_assignment_type r \<noteq> ''runtime-http-proxy''"
  shows "\<exists>r' \<in> set (tab_rows (expired clock node t)). row_id r' = row_id r \<and>
    row_status_message r' = ''claimed assignment lease expired; retrying'' \<and>
    row_assignment_type r' = row_assignment_type r \<and>
    row_desired_generation r' = row_desired_generation r"
proof -
  let ?r = "r\<lparr>row_status := ''pending'', row_status_message := ''claimed assignment lease expired; retrying'',
      row_updated_at := clock 0\<rparr>"
  have "?r \<in> set (tab_rows (expire_lease (clock 0) node t))"
    using assms(1-5) by (force simp: expire_lease_def)
  then have "?r \<in> set (tab_rows (expired clock node t))"
    using assms(6) by (force simp: expired_def expire_proxy_def)
  then show ?thesis by (intro bexI[of _ ?r]) simp_all
qed

text \<open>A claimed assignment after the report of its host.\<close>

lemma transition_claimed_load:
  assumes "table_ok t" "c \<in> set (tab_rows t)" "claimable node c" "ReadHostAssignment c = Inr a"
  shows "\<exists>b. LoadHostAssignment (row_id c) (fst (TransitionClaimedHostAssignment now (row_id c) status
      message (mark_claimed clock (row_id c) t))) = Inr (Some b) \<and> ha_status b = status \<and>
    ha_assignment_type b = ha_assignment_type a \<and> ha_status_message b = bind_text message"
proof -
  let ?t = "mark_claimed clock (row_id c) t"
  let ?c = "c\<lparr>row_status := ''claimed'', row_status_message := [],
      row_progress_json := claimed_progress, row_attempt_count := row_attempt_count c + 1,
      row_updated_at := clock\<rparr>"
  let ?u = "fst (TransitionClaimedHostAssignment now (row_id c) status message ?t)"
  have ok: "table_ok ?t" by (rule table_ok_mark_claimed[OF assms(1-3)])
  have "?c \<in> set (tab_rows ?t)" using claimed_row[OF assms(2)] assms(3) by (simp add: claimable_def)
  then have row: "set_status now status message ?c \<in> set (tab_rows ?u)"
    by (force simp: TransitionClaimedHostAssignment_def case_prod_beta' Let_def)
  have "row_id (set_status now status message ?c) = row_id c" by simp
  with find_row[OF table_ok_single_row(2)[OF ok] row]
  have "find (\<lambda>x. row_id x = row_id c) (tab_rows ?u) = Some (set_status now status message ?c)"
    by simp
  with assms(4) show ?thesis
    by (auto simp: LoadHostAssignment_def ReadHostAssignment_def res_bind_Inr_iff set_status_def)
qed

text \<open>
  \<^bold>\<open>C38.\<close> An eviction whose lease expires is lost to its rollout. The next claim of the assignment
  returns the message of the expiry in place of the one that named the action and its victims,
  so when the host reports the assignment as applied, the controller finds no rollout action in
  the report, whatever the id of the action is.
\<close>

theorem expired_eviction_loses_action:
  assumes "table_ok t" "r \<in> set (tab_rows t)" "row_node_name r = bind_text node"
    and "row_status r = ''claimed''" "row_assignment_type r = ''evict-workers''"
    and "row_updated_at r \<le> clock 0 - 60" "row_attempt_count r < row_max_attempts r"
    and "ClaimNextHostAssignment clock node t = Inr (Some a, t')" "ha_id a = row_id r"
  shows "ha_status_message a = ''claimed assignment lease expired; retrying'' \<and>
    (\<exists>b. LoadHostAssignment (ha_id a)
        (fst (TransitionClaimedHostAssignment now (ha_id a) HA_Applied (evicted_report a) t')) = Inr (Some b) \<and>
      ha_status b = HA_Applied \<and> ha_assignment_type b = ''evict-workers'' \<and>
      \<not> AssignmentReferencesRolloutAction b action_id)"
proof -
  obtain r' where r': "r' \<in> set (tab_rows (expired clock node t))" "row_id r' = row_id r"
    "row_status_message r' = ''claimed assignment lease expired; retrying''"
    "row_assignment_type r' = ''evict-workers''"
    using expired_message[of r t node clock] assms(2-7) by auto
  obtain c where c: "next_claim node (expired clock node t) = Some c"
    using assms(8) claim_None[of node clock t] by fastforce
  have cl: "c \<in> set (tab_rows (expired clock node t))" "claimable node c"
    using next_claim_cases[of node "expired clock node t"] c by simp_all
  obtain a' where a': "ReadHostAssignment c = Inr a'" "ha_id a' = row_id c"
    "ClaimNextHostAssignment clock node t =
       Inr (Some (a'\<lparr>ha_status := HA_Claimed, ha_attempt_count := ha_attempt_count a' + 1,
              ha_progress_json := claimed_progress\<rparr>),
            mark_claimed (clock 2) (row_id c) (expired clock node t))"
    by (rule claim_Some[OF assms(1) c])
  have ok: "table_ok (expired clock node t)" using assms(1) by simp
  have "row_id c = row_id r'" using a'(2,3) assms(8,9) r'(2) by auto
  then have c': "c = r'" using table_ok_unique[OF ok cl(1) r'(1)] by simp
  have a: "ha_status_message a = row_status_message c" "ha_assignment_type a' = row_assignment_type c"
    "t' = mark_claimed (clock 2) (row_id c) (expired clock node t)" "ha_id a = row_id c"
    using a' assms(8) by (auto simp: ReadHostAssignment_def res_bind_Inr_iff)
  have message: "ha_status_message a = ''claimed assignment lease expired; retrying''"
    using a(1) c' r'(3) by simp
  have "CHR ''='' \<notin> set (evicted_report a)"
    unfolding evicted_report_def message using to_string_no_equals by simp
  then have report: "CHR ''='' \<notin> set (bind_text (evicted_report a))"
    by (auto simp: bind_text_def dest: set_takeWhileD)
  obtain b where "LoadHostAssignment (ha_id a)
        (fst (TransitionClaimedHostAssignment now (ha_id a) HA_Applied (evicted_report a) t')) = Inr (Some b)"
    "ha_status b = HA_Applied" "ha_assignment_type b = ''evict-workers''"
    "ha_status_message b = bind_text (evicted_report a)"
    using transition_claimed_load[OF ok cl a'(1), of now HA_Applied "evicted_report a" "clock 2"]
      a c' r'(4) by auto
  with message report show ?thesis by (auto simp: no_equals_no_reference)
qed

definition stale_eviction_row :: assignment_row where
  "stale_eviction_row = \<lparr>row_id = 1, row_node_name = ''n'', row_plane_name = ''p'',
     row_desired_generation = 3, row_attempt_count = 1, row_max_attempts = 3,
     row_assignment_type = ''evict-workers'', row_desired_state_json = [], row_artifacts_root = [],
     row_status = ''claimed'', row_status_message = [], row_progress_json = ''{}'',
     row_created_at = 0, row_updated_at = 0\<rparr>"

definition stale_eviction_table :: assignment_table where
  "stale_eviction_table = \<lparr>tab_rows = [stale_eviction_row], tab_next_id = 2\<rparr>"

theorem expired_eviction_loses_action_witness:
  "\<exists>a t' b. ClaimNextHostAssignment (\<lambda>_. 100) ''n'' stale_eviction_table = Inr (Some a, t') \<and>
     LoadHostAssignment (ha_id a) (fst (TransitionClaimedHostAssignment 110 (ha_id a) HA_Applied
       (evicted_report a) t')) = Inr (Some b) \<and>
     ha_status b = HA_Applied \<and> \<not> AssignmentReferencesRolloutAction b 7"
proof -
  have "claimed_id (ClaimNextHostAssignment (\<lambda>_. 100) ''n'' stale_eviction_table) = Some 1"
    by code_simp
  then obtain a t' where a: "ClaimNextHostAssignment (\<lambda>_. 100) ''n'' stale_eviction_table = Inr (Some a, t')"
    "ha_id a = 1" by (auto simp: claimed_id_def split: sum.splits)
  have "table_ok stale_eviction_table" "stale_eviction_row \<in> set (tab_rows stale_eviction_table)"
    by (simp_all add: table_ok_def row_ok_def stale_eviction_table_def stale_eviction_row_def)
  from expired_eviction_loses_action[OF this _ _ _ _ _ a(1), of 110 7] a show ?thesis
    by (auto simp: stale_eviction_row_def bind_text_def)
qed

end
