(* ===== verification/Spec2Isabelle.thy ===== *)
theory Spec2Isabelle
  imports Naim_Scheduling_Props Naim_Scheduling_Report Naim_Worker_Group_Topology Naim_Reconcile
    Naim_Execution_Props Naim_Planner Naim_Compose_Renderer Naim_Placement_Resolver
    Naim_Assignment_Repository Naim_Scheduler_Props Naim_Scheduler_Evictions
begin

text \<open>
  This development models the planning core and the scheduler of naim, the controller and host
  daemon that run planes of containers (inference servers, GPU workers, applications) on a set
  of nodes, and the queue through which the controller hands work to the hosts.

  \<^bold>\<open>The program.\<close> A desired state (\<open>common/include/naim/state/models.h\<close>) lists nodes,
  disks and instances. Before it is stored the scheduling policy admits or rejects it and
  proposes placements; the worker-group topology numbers the workers of an inference group.
  The reconcile planner compares it with the stored state, the execution planner turns the
  difference into an ordered list of host operations, the compose planner and renderer
  produce the compose file of every node, and the infer runtime configuration is the
  document an inference server starts from. Work for a host is queued as an assignment,
  which the host claims, carries out and reports. The scheduler is called in ticks: a tick
  settles claimed assignments, then advances the action that is under way (a move is verified
  against what the hosts report, rolled back when that takes too long, or handed to an operator),
  then the rollout actions, and only then moves a worker.

  \<^bold>\<open>Conventions.\<close> A struct is a record and an enum a datatype with the source's
  constructors; the prefix of a field names its struct. An exception is a value of
  \<open>cpp_error\<close>, and \<open>'a res\<close> is the result of code that may throw. \<open>std::map\<close> is an association
  list kept in ascending key order, \<open>std::set\<close> an ascending list, \<open>std::sort\<close> with a
  comparator is \<open>std_sort\<close>. An \<open>int\<close> is \<open>int\<close>, the port hash is a \<open>32 word\<close>, a \<open>double\<close> is a
  rational rounded by \<open>fl\<close> after every operation. The process environment, the clock and the
  JSON serialiser are arguments of the functions that use them; the services read the clock
  once per call. A service of the controller is an action: a function from the store to a
  result and a new store, in which an exception keeps what was written before it. A function of the source
  that is long is cut into definitions in the order of its statements, and the definition
  with the source's name composes them.

  \<^bold>\<open>Theories.\<close>
  \<^item> \<open>Naim_Prelude\<close>, \<open>Naim_Std_Lib\<close>, \<open>Naim_Double\<close>: exceptions, strings, maps, sorting,
    \<open>std::stoi\<close>, paths and floating point, with the locales \<open>strict_weak_order\<close> and
    \<open>key_comparator\<close> for comparators.
  \<^item> \<open>Naim_Models\<close>: the data model of \<open>models.h\<close> with its inline helpers, and the names of
    the enumerators (\<open>planner.cpp\<close>).
  \<^item> \<open>Naim_Scheduling_Policy\<close>, \<open>Naim_Scheduling_Report\<close>: \<open>scheduling_policy.cpp\<close>.
    \<open>Naim_Scheduling_Props\<close> shows that the gate accepts exactly the states that satisfy a
    declarative specification, that reports account for the admitted workers, that
    recommendations and rollout actions evict only preemptible tenants of the target, that
    victim selection is minimal, and how far rounding lets a GPU be overcommitted. It also
    shows that the comparator of victims is not a strict weak order.
  \<^item> \<open>Naim_Worker_Group_Topology\<close>: \<open>worker_group_topology.h\<close>; accepted packings, the rank
    table, one API endpoint per node, idempotence.
  \<^item> \<open>Naim_Reconcile\<close>: \<open>reconcile.cpp\<close>; the listed changes are the exact difference and
    carrying them out reaches the desired signatures.
  \<^item> \<open>Naim_Execution_Plan\<close>, \<open>Naim_Execution_Props\<close>: \<open>execution_plan.cpp\<close>; an abstract host and
    the effect of every operation, convergence, start of the project last, quiescence,
    completeness.
  \<^item> \<open>Naim_Planner\<close>: the compose services and plans of \<open>planner.cpp\<close>; loopback ports, worker
    ports, closed dependencies, exactly when planning fails.
  \<^item> \<open>Naim_Compose_Renderer\<close>: \<open>compose_renderer.cpp\<close>; escaping and command splitting are
    inverted by readers.
  \<^item> \<open>Naim_Infer_Runtime_Config\<close>: \<open>infer_runtime_config.cpp\<close>; consistency of the document,
    its errors, separate files for separate instances.
  \<^item> \<open>Naim_Placement_Resolver\<close>: \<open>desired_state_placement_resolver.cpp\<close>.
  \<^item> \<open>Naim_Assignment_Repository\<close>: \<open>assignment_repository.cpp\<close> and
    \<open>sqlite_store_status_codec.cpp\<close>; the step relation of the queue, its invariant, the
    choice of a claim, leases, the bound on claims, one active assignment per plane and node.
  \<^item> \<open>Naim_Json\<close>, \<open>Naim_State_Json_Runtime\<close>, \<open>Naim_State_Json_Settings\<close>, \<open>Naim_State_Json\<close>:
    JSON values and the document of a desired state (\<open>state_json.cpp\<close>, \<open>state_json_*_codecs.cpp\<close>);
    reading applies defaults that a second reading does not change, a resolved placement
    target is the only node of the state, and GPUs without a memory entry are lost.
  \<^item> \<open>Naim_Runtime_Status\<close>: the status and telemetry documents of the hosts
    (\<open>runtime_status.cpp\<close>), with a round trip per document.
  \<^item> \<open>Naim_Clock\<close>, \<open>Naim_Runtime_Support\<close>: time stamps,
    \<open>controller_runtime_support_service.cpp\<close> and \<open>plane_observation_matcher.cpp\<close>.
  \<^item> \<open>Naim_Plane_Realization\<close>: \<open>plane_realization_service.cpp\<close>; every node that can take work
    receives exactly its slice of the desired state.
  \<^item> \<open>Naim_Scheduler_Repository\<close>: \<open>scheduler_repository.cpp\<close>, with the locale \<open>keyed_table\<close> for the
    tables that have a key.
  \<^item> \<open>Naim_Scheduler_Domain\<close>: \<open>scheduler_domain_service.cpp\<close> and the summaries of
    \<open>scheduler_view_service.cpp\<close>.
  \<^item> \<open>Naim_Scheduler_Execution\<close>: \<open>scheduler_execution_support.cpp\<close>; evictions, moves and their
    verification.
  \<^item> \<open>Naim_Controller_Store\<close>: the store of the controller with the repositories of planes,
    observations, availability overrides and events, and the document part of
    \<open>desired_state_repository.cpp\<close>.
  \<^item> \<open>Naim_Host_Reconciliation\<close>: \<open>host_assignment_reconciliation_service.cpp\<close>.
    \<open>Naim_Host_Reconciliation_Props\<close> shows that it always returns and settles every row of the
    queue on its own.
  \<^item> \<open>Naim_Scheduler_Service\<close>: \<open>scheduler_service.cpp\<close> with the loaders it uses.
  \<^item> \<open>Naim_Scheduler_Liveness\<close>: an action of the scheduler does not stay active.
  \<^item> \<open>Naim_Scheduler_Props\<close>: what a proposed move has passed, and that the move the service
    carries out is one.
  \<^item> \<open>Naim_Scheduler_Evictions\<close>: the assignments of an eviction, and what becomes of one whose
    lease expires.

  This theory relates the compose planner to the infer runtime configuration.

  \<^bold>\<open>Bounds.\<close> No definition uses fuel: every loop of the modelled code runs over a list. An
  active action ends within three ticks, because it is rolled back at most once: one tick plans
  the rollback, one carries it out and one verifies it or gives up.

  \<^bold>\<open>Not modelled.\<close> Failures of the database engine, such as a locked file, and the
  overflow of \<open>int\<close> in sums of memory caps and in counters. The parser and printer of the
  third-party JSON library, and the version 2 projector, renderer and validator of desired
  states, are parameters. The tables that repeat a desired state in columns, with their codec,
  are a parameter of the store. The remaining repositories are single SQL statements. The
  commands of an operator over the queue are not reached. The controller's HTTP,
  authentication, interaction and telemetry code, the host daemon (but for the message of an
  eviction), the servers inside the containers, the launcher, the tools and the user interface
  are processes, sockets, files and views.
\<close>

section \<open>Compose services and infer configurations\<close>

lemma ResolveInferPort_planner:
  "ResolveInferPort i ''NAIM_INFERENCE_PORT'' (inf_api_port (st_inference s)) = InferApiPort s i"
  "ResolveInferPort i ''NAIM_GATEWAY_PORT'' (gw_listen_port (st_gateway s)) = InferGatewayPort s i"
  by (auto simp: ResolveInferPort_def InferApiPort_def InferGatewayPort_def IntEnvValue_def
      value_or_def res_bind_def split: option.splits sum.splits)

lemma RequireInferInstanceByName_role:
  "RequireInferInstanceByName s name = Inr i \<Longrightarrow> inst_role i = Infer"
  by (auto simp: RequireInferInstanceByName_def find_Some_iff split: option.splits if_splits)

definition json_get2 :: "json \<Rightarrow> string \<Rightarrow> string \<Rightarrow> json option" where
  "json_get2 doc outer inner = (case json_get doc outer of None \<Rightarrow> None | Some j \<Rightarrow> json_get j inner)"

lemma infer_runtime_config_ports:
  assumes "infer_runtime_config s name = Inr doc" "RequireInferInstanceByName s name = Inr i"
  obtains a g where "InferApiPort s i = Inr a" "InferGatewayPort s i = Inr g"
    "json_get2 doc ''inference'' ''api_port'' = Some (JInt a)"
    "json_get2 doc ''gateway'' ''listen_port'' = Some (JInt g)"
  using assms unfolding infer_runtime_config_def Let_def
  by (auto simp: res_bind_Inr_iff json_get2_def inference_json_def Let_def ResolveInferPort_planner)

text \<open>
  \<^bold>\<open>C21.\<close> The compose file and the runtime configuration of an infer instance agree: the API port
  and the gateway port that the configuration tells the runtime to listen on are the ones
  the compose service publishes, on the loopback address.
\<close>

theorem infer_ports_agree:
  assumes "RequireInferInstanceByName s name = Inr i"
    and "BuildComposeService h i disks nis s = Inr svc" "infer_runtime_config s name = Inr doc"
  shows "\<exists>a g. json_get2 doc ''inference'' ''api_port'' = Some (JInt a) \<and>
    json_get2 doc ''gateway'' ''listen_port'' = Some (JInt g) \<and>
    {\<lparr>port_host_ip = ''127.0.0.1'', port_host_port = a, port_container_port = a\<rparr>,
     \<lparr>port_host_ip = ''127.0.0.1'', port_host_port = g, port_container_port = g\<rparr>}
      \<subseteq> set (svc_published_ports svc)"
proof -
  obtain a g where ports: "InferApiPort s i = Inr a" "InferGatewayPort s i = Inr g"
    "json_get2 doc ''inference'' ''api_port'' = Some (JInt a)"
    "json_get2 doc ''gateway'' ''listen_port'' = Some (JInt g)"
    by (rule infer_runtime_config_ports[OF assms(3,1)])
  from service_infer_ports[OF assms(2) RequireInferInstanceByName_role[OF assms(1)] ports(1,2)]
  show ?thesis using ports(3,4) by blast
qed

theorem infer_ports_agree_witness:
  "\<exists>svc doc a. BuildComposeService None sample_compose_infer [] [] sample_compose_state = Inr svc \<and>
     infer_runtime_config sample_compose_state ''infer'' = Inr doc \<and>
     json_get2 doc ''inference'' ''api_port'' = Some (JInt a) \<and>
     \<lparr>port_host_ip = ''127.0.0.1'', port_host_port = a, port_container_port = a\<rparr>
       \<in> set (svc_published_ports svc)"
proof -
  have require: "RequireInferInstanceByName sample_compose_state ''infer'' = Inr sample_compose_infer"
    by (simp add: RequireInferInstanceByName_def sample_compose_state_def sample_compose_infer_def
        default_InstanceSpec_def)
  have llama: "\<exists>p. ResolveInferPort sample_compose_infer ''NAIM_LLAMA_PORT'' d = Inr p" for d
    by (simp add: ResolveInferPort_def sample_compose_infer_def)
  obtain svc where svc: "BuildComposeService None sample_compose_infer [] [] sample_compose_state = Inr svc"
    using BuildComposeService_ok sample_composable(1) by blast
  obtain doc where doc: "infer_runtime_config sample_compose_state ''infer'' = Inr doc"
    using infer_runtime_config_ok[of sample_compose_state "''infer''"] require llama
      sample_infer_ports unfolding ResolveInferPort_planner by blast
  from infer_ports_agree[OF require svc doc] svc doc show ?thesis by blast
qed



end
